(* ===== verification/Go_Prelude.thy ===== *)
theory Go_Prelude
  imports Complex_Main "HOL-Library.Word" "HOL-Library.AList" "HOL-Library.Multiset"
    "HOL-Library.Signed_Division"
begin

text \<open>
  What every component shares: the outcome of a Go function (a returned value, a non-nil error,
  a run-time panic), the state-passing computations that carry it, Go's fixed-width integers and
  their division, instants and durations of package time, Go maps (association lists with
  distinct keys, whose order stands for the unspecified iteration order), and the generic lemmas
  about them.
\<close>

named_theorems go_simps \<open>unfolding rules of the outcome and computation combinators\<close>
named_theorems word_reads \<open>rules that read words as integers\<close>

section \<open>Outcomes\<close>

text \<open>
  A call of a Go function ends in one of three ways. \<open>Fail\<close> stands for a return whose error is
  not nil; every such return of the modelled functions carries the zero values of the other
  results, unless a definition says otherwise. \<open>Panic\<close> is an unrecovered run-time panic, which
  ends the process.
\<close>

datatype gerror =
    ApiError string
  | ParseError string
  | FetchFailed gerror
  | ContainerMetricsFailed gerror
  | NoMetricsReturned
  | ContainerNotPresent string
  | NoPodsForSelector
  | NoAvailableMetrics
  | MissingRequest
  | NoRequestMetrics
  | UnsupportedTargetType string
  | UnsupportedMetricType string
  | MarshalFailed

datatype panic =
    NilDereference
  | DivideByZero
  | IndexOutOfRange
  | FlagRedefined string
  | RegistrationFailed string
  | InitFailed gerror

datatype 'a outcome = Panic panic | Fail gerror | Done 'a

primrec obind :: "'a outcome \<Rightarrow> ('a \<Rightarrow> 'b outcome) \<Rightarrow> 'b outcome" where
  "obind (Panic p) f = Panic p"
| "obind (Fail e) f = Fail e"
| "obind (Done a) f = f a"

primrec panics :: "'a outcome \<Rightarrow> bool" where
  "panics (Panic p) = True"
| "panics (Fail e) = False"
| "panics (Done a) = False"

text \<open>Reading through a pointer: nil panics.\<close>

definition deref :: "'a option \<Rightarrow> 'a outcome" where
  "deref p = (case p of None \<Rightarrow> Panic NilDereference | Some a \<Rightarrow> Done a)"

text \<open>Reading and writing an element of an array or slice: an index out of range panics.\<close>

definition at_index :: "'a list \<Rightarrow> nat \<Rightarrow> 'a outcome" where
  "at_index xs i = (if i < length xs then Done (xs ! i) else Panic IndexOutOfRange)"

definition set_index :: "'a list \<Rightarrow> nat \<Rightarrow> 'a \<Rightarrow> 'a list outcome" where
  "set_index xs i v = (if i < length xs then Done (xs[i := v]) else Panic IndexOutOfRange)"

lemma deref_simps [simp]:
  "deref None = Panic NilDereference"
  "deref (Some a) = Done a"
  by (simp_all add: deref_def)

lemma obind_eq_Done: "obind m f = Done b \<longleftrightarrow> (\<exists>a. m = Done a \<and> f a = Done b)"
  by (cases m) auto

lemma obind_eq_Fail: "obind m f = Fail e \<longleftrightarrow> m = Fail e \<or> (\<exists>a. m = Done a \<and> f a = Fail e)"
  by (cases m) auto

lemma panics_obind: "panics (obind m f) \<longleftrightarrow> panics m \<or> (\<exists>a. m = Done a \<and> panics (f a))"
  by (cases m) auto

section \<open>Computations over a state\<close>

text \<open>
  A function that reads the clock, calls an API or writes package variables takes the state and
  returns it; the state survives an error and a panic.
\<close>

type_synonym ('s, 'a) io = "'s \<Rightarrow> 'a outcome \<times> 's"

definition ret :: "'a \<Rightarrow> ('s, 'a) io" where
  "ret a = (\<lambda>s. (Done a, s))"

definition lift_outcome :: "'a outcome \<Rightarrow> ('s, 'a) io" where
  "lift_outcome r = (\<lambda>s. (r, s))"

abbreviation fail :: "gerror \<Rightarrow> ('s, 'a) io" where
  "fail e \<equiv> lift_outcome (Fail e)"

definition bnd :: "('s, 'a) io \<Rightarrow> ('a \<Rightarrow> ('s, 'b) io) \<Rightarrow> ('s, 'b) io" where
  "bnd m f = (\<lambda>s. case m s of
      (Done a, s') \<Rightarrow> f a s'
    | (Fail e, s') \<Rightarrow> (Fail e, s')
    | (Panic p, s') \<Rightarrow> (Panic p, s'))"

text \<open>The caller that inspects the error itself instead of returning it.\<close>

definition handle :: "('s, 'a) io \<Rightarrow> (gerror \<Rightarrow> ('s, 'b) io) \<Rightarrow> ('a \<Rightarrow> ('s, 'b) io) \<Rightarrow> ('s, 'b) io" where
  "handle m h f = (\<lambda>s. case m s of
      (Done a, s') \<Rightarrow> f a s'
    | (Fail e, s') \<Rightarrow> h e s'
    | (Panic p, s') \<Rightarrow> (Panic p, s'))"

text \<open>A call of a service: it answers with an error or a value and never panics.\<close>

definition call :: "('s \<Rightarrow> (gerror + 'a) \<times> 's) \<Rightarrow> ('s, 'a) io" where
  "call op = (\<lambda>s. case op s of (Inl e, s') \<Rightarrow> (Fail e, s') | (Inr a, s') \<Rightarrow> (Done a, s'))"

lemma io_apply [go_simps]:
  "ret a s = (Done a, s)"
  "lift_outcome r s = (r, s)"
  "bnd m f s = (case m s of
      (Done a, s') \<Rightarrow> f a s' | (Fail e, s') \<Rightarrow> (Fail e, s') | (Panic p, s') \<Rightarrow> (Panic p, s'))"
  "handle m h f s = (case m s of
      (Done a, s') \<Rightarrow> f a s' | (Fail e, s') \<Rightarrow> h e s' | (Panic p, s') \<Rightarrow> (Panic p, s'))"
  "call op s = (case op s of (Inl e, s') \<Rightarrow> (Fail e, s') | (Inr b, s') \<Rightarrow> (Done b, s'))"
  by (simp_all add: ret_def lift_outcome_def bnd_def handle_def call_def)

lemma bnd_eq_Done:
  "bnd m f s = (Done b, s'') \<longleftrightarrow> (\<exists>a s'. m s = (Done a, s') \<and> f a s' = (Done b, s''))"
  by (auto simp: go_simps split: prod.splits outcome.splits)

lemma bnd_DoneE:
  assumes "bnd m f s = (Done b, s'')"
  obtains a s' where "m s = (Done a, s')" "f a s' = (Done b, s'')"
  using assms by (auto simp: bnd_eq_Done)

lemma bnd_run: "m s = (Done a, s') \<Longrightarrow> bnd m f s = f a s'"
  by (simp add: io_apply)

lemma bnd_ret [simp]: "bnd (ret a) f = f a"
  by (simp add: bnd_def ret_def)

lemma bnd_lift_Done [simp]: "bnd (lift_outcome (Done a)) f = f a"
  by (simp add: bnd_def lift_outcome_def)

lemma bnd_lift_Fail [simp]: "bnd (lift_outcome (Fail e)) f = lift_outcome (Fail e)"
  by (simp add: bnd_def lift_outcome_def)

lemma bnd_lift_Panic [simp]: "bnd (lift_outcome (Panic p)) f = lift_outcome (Panic p)"
  by (simp add: bnd_def lift_outcome_def)

lemma bnd_assoc: "bnd (bnd m f) g = bnd m (\<lambda>a. bnd (f a) g)"
  by (auto simp: bnd_def fun_eq_iff split: prod.splits outcome.splits)

lemma call_no_panic: "\<not> panics (fst (call op s))"
  by (auto simp: go_simps split: prod.splits sum.splits)

section \<open>Integers\<close>

type_synonym i32 = "32 word"
type_synonym i64 = "64 word"

text \<open>
  Conversions between the widths, and Go's division: truncated towards zero, wrapping for the
  most negative value divided by \<open>-1\<close>, a panic for a zero divisor.
\<close>

definition i64_of_i32 :: "i32 \<Rightarrow> i64" where
  "i64_of_i32 n = word_of_int (sint n)"

definition i32_of_i64 :: "i64 \<Rightarrow> i32" where
  "i32_of_i64 n = word_of_int (sint n)"

definition div64 :: "i64 \<Rightarrow> i64 \<Rightarrow> i64 outcome" where
  "div64 a b = (if b = 0 then Panic DivideByZero else Done (word_of_int (sint a sdiv sint b)))"

definition min_i32 :: i32 where
  "min_i32 = word_of_int (- 2147483648)"

definition max_i32 :: i32 where
  "max_i32 = word_of_int 2147483647"

lemma sint_i32_bounds: "- 2147483648 \<le> sint (n :: i32)" "sint (n :: i32) < 2147483648"
  using sint_ge [of n] sint_lt [of n] by simp_all

lemma sint_i64_bounds:
  "- 9223372036854775808 \<le> sint (n :: i64)" "sint (n :: i64) < 9223372036854775808"
  using sint_ge [of n] sint_lt [of n] by simp_all

lemma sint_word_of_int_i32 [word_reads]:
  "- 2147483648 \<le> k \<Longrightarrow> k < 2147483648 \<Longrightarrow> sint (word_of_int k :: i32) = k"
  by (simp add: signed_of_int signed_take_bit_int_eq_self)

lemma sint_word_of_int_i64 [word_reads]:
  "- 9223372036854775808 \<le> k \<Longrightarrow> k < 9223372036854775808 \<Longrightarrow> sint (word_of_int k :: i64) = k"
  by (simp add: signed_of_int signed_take_bit_int_eq_self)

lemma sint_i64_of_i32 [word_reads]: "sint (i64_of_i32 n) = sint n"
  using sint_i32_bounds [of n] unfolding i64_of_i32_def by (intro sint_word_of_int_i64) simp_all

lemma sint_min_i32 [word_reads]: "sint min_i32 = - 2147483648"
  by (simp add: min_i32_def word_reads)

lemma sint_max_i32 [word_reads]: "sint max_i32 = 2147483647"
  by (simp add: max_i32_def word_reads)

lemma sint_eq_iff: "sint (a :: 'a::len word) = sint b \<longleftrightarrow> a = b"
  by (auto intro: signed_word_eqI)

lemma word_of_int_sum_list:
  "(\<Sum>x\<leftarrow>xs. word_of_int (f x)) = (word_of_int (\<Sum>x\<leftarrow>xs. f x) :: 'a::len word)"
  by (induction xs) simp_all

lemma sint_sum_list:
  assumes "\<forall>x\<in>set xs. 0 \<le> sint (f x :: i64)" and "(\<Sum>x\<leftarrow>xs. sint (f x)) < 2 ^ 63"
  shows "sint (\<Sum>x\<leftarrow>xs. f x) = (\<Sum>x\<leftarrow>xs. sint (f x))"
proof -
  have "(\<Sum>x\<leftarrow>xs. f x) = word_of_int (\<Sum>x\<leftarrow>xs. sint (f x))"
    using word_of_int_sum_list [of "\<lambda>x. sint (f x)" xs, where 'a = 64] by simp
  moreover have "0 \<le> (\<Sum>x\<leftarrow>xs. sint (f x))" using assms(1) by (intro sum_list_nonneg) auto
  ultimately show ?thesis using assms(2) sint_word_of_int_i64 [of "\<Sum>x\<leftarrow>xs. sint (f x)"] by simp
qed

lemma sint_of_nat_i64: "n < 2 ^ 63 \<Longrightarrow> sint (of_nat n :: i64) = int n"
  using sint_word_of_int_i64 [of "int n"] by simp

lemma sint_eq_0_iff [simp]: "sint (a :: 'a::len word) = 0 \<longleftrightarrow> a = 0"
  using sint_eq_iff [of a 0] by simp

text \<open>Division of non-negative values is the integer division.\<close>

lemma int_div_bounds:
  assumes "0 \<le> (a :: int)" "0 < b"
  shows "0 \<le> a div b" "a div b \<le> a"
proof -
  show "0 \<le> a div b" using assms by (simp add: pos_imp_zdiv_nonneg_iff)
  have "a div b * b \<le> a" using assms(2) by (simp add: minus_mod_eq_div_mult [symmetric])
  moreover have "a div b * 1 \<le> a div b * b" using assms \<open>0 \<le> a div b\<close> by (intro mult_left_mono) simp_all
  ultimately show "a div b \<le> a" by simp
qed

lemma div64_nonneg:
  assumes "0 \<le> sint a" "0 < sint b"
  shows "div64 a b = Done (word_of_int (sint a div sint b))"
    "sint (word_of_int (sint a div sint b) :: i64) = sint a div sint b"
proof -
  have "b \<noteq> 0" using assms(2) by auto
  then show "div64 a b = Done (word_of_int (sint a div sint b))"
    using assms by (simp add: div64_def signed_divide_int_def sgn_if)
  show "sint (word_of_int (sint a div sint b) :: i64) = sint a div sint b"
    using sint_i64_bounds [of a] int_div_bounds [OF assms] by (intro sint_word_of_int_i64) simp_all
qed

section \<open>Instants and durations\<close>

text \<open>
  An instant is its distance in nanoseconds from the zero \<open>time.Time{}\<close>; a
  \<open>time.Duration\<close> is a signed 64-bit number of nanoseconds.
\<close>

type_synonym time = int
type_synonym duration = i64

definition zero_time :: time where
  "zero_time = 0"

definition second :: duration where
  "second = 1000000000"

definition add_dur :: "time \<Rightarrow> duration \<Rightarrow> time" where
  "add_dur t d = t + sint d"

lemma sint_seconds [word_reads]: "sint (second * i64_of_i32 n) = 1000000000 * sint n"
proof -
  have "second * i64_of_i32 n = word_of_int (1000000000 * sint n)"
    by (simp add: second_def i64_of_i32_def)
  moreover have "sint (word_of_int (1000000000 * sint n) :: i64) = 1000000000 * sint n"
    using sint_i32_bounds [of n] by (intro sint_word_of_int_i64) simp_all
  ultimately show ?thesis by metis
qed

lemma sint_neg_seconds [word_reads]:
  "sint (- (second * i64_of_i32 n)) = - (1000000000 * sint n)"
proof -
  have "- (second * i64_of_i32 n) = word_of_int (- (1000000000 * sint n))"
    by (simp add: second_def i64_of_i32_def)
  moreover have "sint (word_of_int (- (1000000000 * sint n)) :: i64) = - (1000000000 * sint n)"
    using sint_i32_bounds [of n] by (intro sint_word_of_int_i64) simp_all
  ultimately show ?thesis by metis
qed

lemma add_neg_seconds [word_reads]:
  "add_dur t (- (second * i64_of_i32 n)) = t - 1000000000 * sint n"
  by (simp add: add_dur_def word_reads)

section \<open>Go maps\<close>

text \<open>
  A Go map is an association list with distinct keys; the order of the list is the order in which
  one \<open>range\<close> happens to visit the entries. The interface is that of a finite map with the
  size that \<open>len\<close> reads.
\<close>

type_synonym ('k, 'v) gomap = "('k \<times> 'v) list"

definition gm_ok :: "('k, 'v) gomap \<Rightarrow> bool" where
  "gm_ok m = distinct (map fst m)"

locale finite_map =
  fixes get :: "'m \<Rightarrow> 'k \<Rightarrow> 'v option"
    and put :: "'k \<Rightarrow> 'v \<Rightarrow> 'm \<Rightarrow> 'm"
    and del :: "'k \<Rightarrow> 'm \<Rightarrow> 'm"
    and len :: "'m \<Rightarrow> nat"
    and ok :: "'m \<Rightarrow> bool"
  assumes get_put: "get (put k v m) j = (if j = k then Some v else get m j)"
    and get_del: "get (del k m) j = (if j = k then None else get m j)"
    and ok_put: "ok m \<Longrightarrow> ok (put k v m)"
    and ok_del: "ok m \<Longrightarrow> ok (del k m)"
    and len_card: "ok m \<Longrightarrow> len m = card {k. get m k \<noteq> None}"
    and finite_keys: "finite {k. get m k \<noteq> None}"
begin

lemma get_fold_del: "get (fold del ks m) j = (if j \<in> set ks then None else get m j)"
  by (induction ks arbitrary: m) (auto simp: get_del)

lemma get_fold_put:
  "get (fold (\<lambda>k. put k v) ks m) j = (if j \<in> set ks then Some v else get m j)"
  by (induction ks arbitrary: m) (auto simp: get_put)

lemma ok_fold_del: "ok m \<Longrightarrow> ok (fold del ks m)"
  by (induction ks arbitrary: m) (auto simp: ok_del)

lemma ok_fold_put: "ok m \<Longrightarrow> ok (fold (\<lambda>k. put k v) ks m)"
  by (induction ks arbitrary: m) (auto simp: ok_put)

lemma len_zero_iff: "ok m \<Longrightarrow> len m = 0 \<longleftrightarrow> (\<forall>k. get m k = None)"
  using finite_keys [of m] by (auto simp: len_card)

lemma len_put_pos: "ok m \<Longrightarrow> 0 < len (put k v m)"
  using len_zero_iff [of "put k v m"] ok_put [of m k v] get_put [of k v m k] by fastforce

lemma len_fold_put:
  assumes "ok m" and "\<forall>k\<in>set ks. get m k = None"
  shows "len (fold (\<lambda>k. put k v) ks m) = len m + card (set ks)"
proof -
  have "{k. get (fold (\<lambda>k. put k v) ks m) k \<noteq> None} = {k. get m k \<noteq> None} \<union> set ks"
    by (auto simp: get_fold_put split: if_splits)
  moreover have "{k. get m k \<noteq> None} \<inter> set ks = {}" using assms(2) by auto
  ultimately show ?thesis
    using assms(1) finite_keys [of m]
    by (simp add: len_card ok_fold_put card_Un_disjoint)
qed

end

interpretation gm: finite_map map_of AList.update AList.delete length gm_ok
proof (unfold_locales, goal_cases)
  case (1 k v m j)
  show ?case by (simp add: update_conv')
next
  case (2 k m j)
  show ?case by (simp add: delete_conv')
next
  case (3 m k v)
  then show ?case by (simp add: gm_ok_def distinct_update)
next
  case (4 m k)
  then show ?case by (simp add: gm_ok_def distinct_delete)
next
  case (5 m)
  then have "card (fst ` set m) = length m"
    by (metis gm_ok_def distinct_card length_map list.set_map)
  moreover have "{k. map_of m k \<noteq> None} = fst ` set m"
    by (auto simp: map_of_eq_None_iff)
  ultimately show ?case by simp
next
  case (6 m)
  then show ?case using finite_dom_map_of [of m] by (simp add: dom_def)
qed

lemma gm_perm:
  assumes "mset m = mset m'" and "gm_ok m"
  shows "gm_ok m'" "map_of m = map_of m'" "length m = length m'"
proof -
  have "mset (map fst m) = mset (map fst m')" using assms(1) by (metis mset_map)
  then show "gm_ok m'" using assms(2) unfolding gm_ok_def by (metis mset_eq_imp_distinct_iff)
  then show "map_of m = map_of m'"
    using assms by (intro map_of_eqI) (auto simp: gm_ok_def dest: mset_eq_setD)
  show "length m = length m'" using assms(1) by (metis size_mset)
qed

end
