(* ===== verification/Float64.thy ===== *)
theory Float64
  imports Go_Prelude "HOL-Library.Log_Nat"
begin

text \<open>
  Go's \<open>float64\<close>: IEEE 754 binary64 with round-to-nearest, ties to even. A value is a NaN, an
  infinity, a zero with its sign, or the rational number it denotes. Each operation computes the
  exact rational result and rounds once, as the standard demands; rounding is executable. The
  lemmas give what the calculators rest on: rounding is monotone, keeps every integer of 53 bits,
  and so decides the comparisons of a quotient with 1 exactly.
\<close>

section \<open>Rounding\<close>

text \<open>The exponent \<open>\<lfloor>log\<^sub>2 q\<rfloor>\<close> of a positive rational.\<close>

definition ilog2 :: "rat \<Rightarrow> int" where
  "ilog2 q = (if 1 \<le> q then int (floorlog 2 (nat \<lfloor>q\<rfloor>)) - 1
              else - int (floorlog 2 (nat (\<lceil>1 / q\<rceil> - 1))))"

text \<open>Nearest integer, ties to the even one.\<close>

definition rne :: "rat \<Rightarrow> int" where
  "rne q = (let f = \<lfloor>q\<rfloor>; r = q - of_int f in
     if r < 1 / 2 then f else if 1 / 2 < r then f + 1 else if even f then f else f + 1)"

text \<open>The exponent of the last place, and rounding to a multiple of that place.\<close>

definition place :: "rat \<Rightarrow> int" where
  "place q = max (ilog2 q - 52) (- 1074)"

definition rnd :: "rat \<Rightarrow> rat" where
  "rnd q = (if q = 0 then 0
            else sgn q * (of_int (rne (\<bar>q\<bar> / 2 powi place \<bar>q\<bar>)) * 2 powi place \<bar>q\<bar>))"

lemma pow2_less_iff: "(2::rat) powi a < 2 powi b \<longleftrightarrow> a < b"
  by (metis linorder_neq_iff order_less_asym power_int_strict_increasing one_less_numeral_iff
      semiring_norm(76))

lemma pow2_le_iff: "(2::rat) powi a \<le> 2 powi b \<longleftrightarrow> a \<le> b"
  using pow2_less_iff [of b a] by (simp add: not_less [symmetric])

lemma pow2_quotient: "a \<le> b \<Longrightarrow> (2::rat) powi b / 2 powi a = of_int (2 ^ nat (b - a))"
proof -
  assume "a \<le> b"
  have "(2::rat) powi b / 2 powi a = 2 powi (b - a)" by (simp add: power_int_diff)
  also have "\<dots> = 2 ^ nat (b - a)" using \<open>a \<le> b\<close> unfolding power_int_def by simp
  finally show ?thesis by simp
qed

lemma floorlog_two:
  assumes "0 < n"
  shows "2 ^ (floorlog 2 n - 1) \<le> n" "n < 2 ^ floorlog 2 n" "0 < floorlog 2 n"
  using floorlog_bounds [of n 2] assms by (auto simp: floorlog_def)

lemma floorlog_two_of_nat:
  assumes "0 < n"
  shows "(2::'a::linordered_semidom) ^ (floorlog 2 n - 1) \<le> of_nat n"
    "(of_nat n :: 'a) < 2 ^ floorlog 2 n"
proof -
  have "(of_nat (2 ^ (floorlog 2 n - 1)) :: 'a) \<le> of_nat n"
    using floorlog_two(1) [OF assms] by (simp only: of_nat_le_iff)
  then show "(2::'a) ^ (floorlog 2 n - 1) \<le> of_nat n" by (simp only: of_nat_power of_nat_numeral)
  have "(of_nat n :: 'a) < of_nat (2 ^ floorlog 2 n)"
    using floorlog_two(2) [OF assms] by (simp only: of_nat_less_iff)
  then show "(of_nat n :: 'a) < 2 ^ floorlog 2 n" by (simp only: of_nat_power of_nat_numeral)
qed

lemma ilog2_bounds:
  assumes "0 < q"
  shows "2 powi ilog2 q \<le> q" "q < 2 powi (ilog2 q + 1)"
proof -
  show "2 powi ilog2 q \<le> q"
  proof (cases "1 \<le> q")
    case True
    define n where "n = nat \<lfloor>q\<rfloor>"
    have n: "0 < n" "of_nat n \<le> q" using True by (auto simp: n_def le_floor_iff)
    have "(2::rat) ^ (floorlog 2 n - 1) \<le> of_nat n"
      by (rule floorlog_two_of_nat(1) [OF n(1)])
    moreover have "2 powi ilog2 q = (2::rat) ^ (floorlog 2 n - 1)"
      using True floorlog_two(3) [OF n(1)]
      by (simp add: ilog2_def n_def power_int_def nat_diff_distrib)
    ultimately show ?thesis using n(2) by (metis order_trans)
  next
    case False
    define n where "n = nat (\<lceil>1 / q\<rceil> - 1)"
    have q1: "1 < 1 / q" using False assms by simp
    have c: "1 < \<lceil>1 / q\<rceil>" using q1 by (simp add: less_ceiling_iff)
    have n: "0 < n" using c by (simp add: n_def)
    have "int n < 2 ^ floorlog 2 n" by (rule floorlog_two_of_nat(2) [OF n])
    moreover have "\<lceil>1 / q\<rceil> = int n + 1" using c assms by (simp add: n_def)
    ultimately have "\<lceil>1 / q\<rceil> \<le> 2 ^ floorlog 2 n" by linarith
    then have "1 / q \<le> 2 ^ floorlog 2 n" by (simp add: ceiling_le_iff)
    moreover have "2 powi ilog2 q = 1 / (2::rat) ^ floorlog 2 n"
      using False by (simp add: ilog2_def n_def power_int_minus field_simps)
    ultimately show ?thesis using assms by (simp add: pos_divide_le_eq mult.commute)
  qed
  show "q < 2 powi (ilog2 q + 1)"
  proof (cases "1 \<le> q")
    case True
    define n where "n = nat \<lfloor>q\<rfloor>"
    have n: "0 < n" "q < of_nat n + 1"
      using True floor_correct [of q] by (auto simp: n_def)
    have "int n < 2 ^ floorlog 2 n" by (rule floorlog_two_of_nat(2) [OF n(1)])
    then have "(of_int (int n + 1) :: rat) \<le> of_int (2 ^ floorlog 2 n)"
      by (simp only: of_int_le_iff zless_imp_add1_zle)
    then have "of_nat n + 1 \<le> (2::rat) ^ floorlog 2 n" by simp
    moreover have "2 powi (ilog2 q + 1) = (2::rat) ^ floorlog 2 n"
      using True by (simp add: ilog2_def n_def)
    ultimately show ?thesis using n(2) by simp
  next
    case False
    define n where "n = nat (\<lceil>1 / q\<rceil> - 1)"
    have q1: "1 < 1 / q" using False assms by simp
    have c: "1 < \<lceil>1 / q\<rceil>" using q1 by (simp add: less_ceiling_iff)
    have n: "0 < n" using c by (simp add: n_def)
    have "2 ^ (floorlog 2 n - 1) \<le> int n" by (rule floorlog_two_of_nat(1) [OF n])
    moreover have "\<lceil>1 / q\<rceil> = int n + 1" using c assms by (simp add: n_def)
    ultimately have "2 ^ (floorlog 2 n - 1) < \<lceil>1 / q\<rceil>" by linarith
    then have lt: "(2::rat) ^ (floorlog 2 n - 1) < 1 / q" by (simp add: less_ceiling_iff)
    have "ilog2 q + 1 = - int (floorlog 2 n - 1)"
      using False floorlog_two(3) [OF n] by (simp add: ilog2_def n_def)
    then have "2 powi (ilog2 q + 1) = 1 / (2::rat) ^ (floorlog 2 n - 1)"
      by (simp add: power_int_minus field_simps)
    then show ?thesis using lt assms by (simp add: pos_less_divide_eq mult.commute)
  qed
qed


lemma ilog2_unique:
  assumes "0 < q" "2 powi k \<le> q" "q < 2 powi (k + 1)"
  shows "ilog2 q = k"
proof -
  have "(2::rat) powi k < 2 powi (ilog2 q + 1)" "(2::rat) powi ilog2 q < 2 powi (k + 1)"
    using ilog2_bounds [OF assms(1)] assms(2,3) by linarith+
  then have "k < ilog2 q + 1" "ilog2 q < k + 1"
    by (simp_all add: pow2_less_iff)
  then show ?thesis by simp
qed

lemma ilog2_mono:
  assumes "0 < p" "p \<le> q"
  shows "ilog2 p \<le> ilog2 q"
proof -
  have "(2::rat) powi ilog2 p < 2 powi (ilog2 q + 1)"
    using ilog2_bounds [of p] ilog2_bounds [of q] assms by linarith
  then show ?thesis by (simp add: pow2_less_iff)
qed

lemma rne_near: "of_int (rne q) \<le> q + 1 / 2" "q - 1 / 2 \<le> of_int (rne q)"
proof -
  define F where "F = (of_int \<lfloor>q\<rfloor> :: rat)"
  have f: "F \<le> q" "q < F + 1" using floor_correct [of q] by (simp_all add: F_def)
  then show "of_int (rne q) \<le> q + 1 / 2"
    by (auto simp: rne_def Let_def F_def [symmetric])
  show "q - 1 / 2 \<le> of_int (rne q)" using f by (auto simp: rne_def Let_def F_def [symmetric])
qed

lemma rne_of_int [simp]: "rne (of_int n) = n"
  by (simp add: rne_def)

lemma rne_mono: "p \<le> q \<Longrightarrow> rne p \<le> rne q"
proof (cases "\<lfloor>p\<rfloor> = \<lfloor>q\<rfloor>")
  case True
  assume "p \<le> q"
  then show ?thesis using True by (auto simp: rne_def Let_def)
next
  case False
  assume le: "p \<le> q"
  then have "\<lfloor>p\<rfloor> \<le> \<lfloor>q\<rfloor>" by (rule floor_mono)
  then have "\<lfloor>p\<rfloor> + 1 \<le> \<lfloor>q\<rfloor>" using False by simp
  moreover have "rne p \<le> \<lfloor>p\<rfloor> + 1" "\<lfloor>q\<rfloor> \<le> rne q" by (auto simp: rne_def Let_def)
  ultimately show ?thesis by simp
qed

lemma rne_above: "of_int n + 1 / 2 < q \<Longrightarrow> n < rne q"
  using rne_near(2) [of q] by linarith

lemma rne_below: "q < of_int n - 1 / 2 \<Longrightarrow> rne q < n"
  using rne_near(1) [of q] by linarith

lemma rnd_pos: "0 < q \<Longrightarrow> rnd q = of_int (rne (q / 2 powi place q)) * 2 powi place q"
  by (simp add: rnd_def)

lemma rnd_minus: "rnd (- q) = - rnd q"
  by (simp add: rnd_def sgn_minus)

lemma rnd_0 [simp]: "rnd 0 = 0"
  by (simp add: rnd_def)

text \<open>A multiple of the last place is its own rounding.\<close>

lemma rnd_multiple:
  assumes "0 < q" "q = of_int m * 2 powi e" "place q \<le> e"
  shows "rnd q = q"
proof -
  define k where "k = m * 2 ^ nat (e - place q)"
  have "q = of_int m * (2 powi (e - place q) * 2 powi place q)"
    using assms(2) by (simp add: power_int_add [symmetric])
  also have "2 powi (e - place q) = (of_int (2 ^ nat (e - place q)) :: rat)"
    using assms(3) by (simp add: power_int_def)
  finally have q: "q = of_int k * 2 powi place q" by (simp add: k_def)
  then have "q / 2 powi place q = of_int k"
    by (metis nonzero_mult_div_cancel_right power_int_eq_0_iff zero_neq_numeral)
  then show ?thesis using q assms(1) by (simp add: rnd_pos)
qed

lemma rnd_pow2:
  assumes "- 1022 \<le> k"
  shows "rnd (2 powi k) = 2 powi k"
proof (rule rnd_multiple [where m = 1 and e = k])
  have "ilog2 (2 powi k) = k"
    by (rule ilog2_unique) (simp_all add: pow2_less_iff)
  then show "place (2 powi k) \<le> k" using assms by (simp add: place_def)
qed simp_all

lemma rnd_of_int:
  assumes "\<bar>n\<bar> \<le> 2 ^ 53"
  shows "rnd (of_int n) = of_int n"
proof -
  have pos: "rnd (of_int n) = of_int n" if n: "0 < n" "n \<le> 2 ^ 53" for n
  proof (cases "n = 2 ^ 53")
    case True
    then show ?thesis using rnd_pow2 [of 53] by simp
  next
    case False
    then have "n < 2 ^ 53" using n by simp
    then have "(of_int n :: rat) < of_int (2 ^ 53)" by (simp only: of_int_less_iff)
    then have "(of_int n :: rat) < 2 powi 53" by simp
    then have "(2::rat) powi ilog2 (of_int n) < 2 powi 53"
      using ilog2_bounds(1) [of "of_int n"] n(1) by (meson of_int_0_less_iff order_le_less_trans)
    then have "ilog2 (of_int n) < 53" by (simp only: pow2_less_iff)
    then show ?thesis
      using n by (intro rnd_multiple [where m = n and e = 0]) (simp_all add: place_def)
  qed
  show ?thesis
  proof (cases n "0::int" rule: linorder_cases)
    case less
    then have "rnd (of_int (- n)) = of_int (- n)" using assms by (intro pos) simp_all
    then show ?thesis by (simp add: rnd_minus)
  qed (use assms pos in simp_all)
qed

lemma rnd_dyadic:
  assumes "q * 2 ^ k = of_int m" "\<bar>m\<bar> < 2 ^ 53" "k \<le> 1000"
  shows "rnd q = q"
proof -
  have pos: "rnd q = q" if q: "q * 2 ^ k = of_int m" and m: "0 < m" "m < 2 ^ 53" for q m
  proof (rule rnd_multiple [where m = m and e = "- int k"])
    have qe: "q = of_int m * 2 powi (- int k)"
      using q by (simp add: power_int_minus field_simps)
    then show "q = of_int m * 2 powi (- int k)" .
    show q0: "0 < q" using qe m(1) by simp
    have "(of_int m :: rat) < of_int (2 ^ 53)" using m(2) by (simp only: of_int_less_iff)
    then have "q < 2 ^ 53 * 2 powi (- int k)" using qe by simp
    also have "\<dots> = 2 powi (53 - int k)" by (simp add: power_int_diff power_int_minus field_simps)
    finally have "(2::rat) powi ilog2 q < 2 powi (53 - int k)"
      using ilog2_bounds(1) [OF q0] by linarith
    then have "ilog2 q < 53 - int k" by (simp only: pow2_less_iff)
    then show "place q \<le> - int k" using assms(3) by (simp add: place_def)
  qed
  consider "m = 0" | "0 < m" | "m < 0" by linarith
  then show ?thesis
  proof cases
    case 1
    then show ?thesis using assms(1) by simp
  next
    case 2
    then show ?thesis using assms by (intro pos) simp_all
  next
    case 3
    then have "rnd (- q) = - q" using assms by (intro pos [where m = "- m"]) simp_all
    then show ?thesis by (simp add: rnd_minus)
  qed
qed

lemma rnd_mono_pos:
  assumes "0 < p" "p \<le> q"
  shows "rnd p \<le> rnd q"
proof (cases "place p = place q")
  case True
  have "p / 2 powi place p \<le> q / 2 powi place p" using assms by (simp add: divide_right_mono)
  then have "rne (p / 2 powi place p) \<le> rne (q / 2 powi place q)" using True by (simp add: rne_mono)
  then show ?thesis using assms True by (simp add: rnd_pos mult_right_mono)
next
  case False
  have lt: "place p < place q"
    using False ilog2_mono [OF assms] by (auto simp: place_def)
  define l where "l = ilog2 q"
  have pl: "place q = l - 52" "ilog2 p < l" using lt by (auto simp: place_def l_def)
  have p: "p \<le> 2 powi l"
  proof -
    have "(2::rat) powi (ilog2 p + 1) \<le> 2 powi l" using pl(2) by (simp add: pow2_le_iff)
    then show ?thesis using ilog2_bounds(2) [OF assms(1)] by linarith
  qed
  have q: "2 powi l \<le> q" using ilog2_bounds(1) [of q] assms by (simp add: l_def)
  have up: "rnd p \<le> 2 powi l"
  proof -
    have e: "(2::rat) powi l / 2 powi place p = of_int (2 ^ nat (l - place p))"
      using lt pl(1) by (intro pow2_quotient) simp
    have "rne (p / 2 powi place p) \<le> rne (2 powi l / 2 powi place p)"
      using p by (intro rne_mono divide_right_mono) simp_all
    then have "rne (p / 2 powi place p) \<le> 2 ^ nat (l - place p)" by (metis e rne_of_int)
    then have "of_int (rne (p / 2 powi place p)) \<le> (of_int (2 ^ nat (l - place p)) :: rat)"
      by (simp only: of_int_le_iff)
    then have "of_int (rne (p / 2 powi place p)) \<le> (2::rat) powi l / 2 powi place p"
      by (simp only: e)
    then show ?thesis using assms(1) by (simp add: rnd_pos pos_le_divide_eq)
  qed
  have down: "2 powi l \<le> rnd q"
  proof -
    have e: "(2::rat) powi l / 2 powi place q = of_int (2 ^ nat (l - place q))"
      using pl(1) by (intro pow2_quotient) simp
    have "rne (2 powi l / 2 powi place q) \<le> rne (q / 2 powi place q)"
      using q by (intro rne_mono divide_right_mono) simp_all
    then have "2 ^ nat (l - place q) \<le> rne (q / 2 powi place q)" by (metis e rne_of_int)
    then have "(of_int (2 ^ nat (l - place q)) :: rat) \<le> of_int (rne (q / 2 powi place q))"
      by (simp only: of_int_le_iff)
    then have "(2::rat) powi l / 2 powi place q \<le> of_int (rne (q / 2 powi place q))"
      by (simp only: e)
    then show ?thesis using assms by (simp add: rnd_pos pos_divide_le_eq)
  qed
  show ?thesis using up down by linarith
qed

lemma rnd_above_int:
  assumes "0 < x" "place x \<le> 0" "of_int k + 2 powi place x / 2 < x"
  shows "of_int k < rnd x"
proof -
  define n where "n = k * 2 ^ nat (- place x)"
  have n: "(of_int n :: rat) * 2 powi place x = of_int k"
    using assms(2) by (simp add: n_def power_int_def power_one_over)
  have "of_int n + 1 / 2 < x / 2 powi place x"
    using assms(3) by (simp add: pos_less_divide_eq distrib_right n)
  then have "n < rne (x / 2 powi place x)" by (rule rne_above)
  then have "(of_int n :: rat) < of_int (rne (x / 2 powi place x))" by (simp only: of_int_less_iff)
  then have "(of_int n :: rat) * 2 powi place x < of_int (rne (x / 2 powi place x)) * 2 powi place x"
    by (simp add: mult_strict_right_mono)
  then show ?thesis using assms(1) by (simp add: n rnd_pos)
qed

text \<open>A quotient of 53-bit integers that exceeds an integer does so by more than half a place.\<close>

lemma quotient_gap:
  assumes x: "x = of_int u / of_int t" and "u < 2 ^ 53" "0 < t" "1 \<le> k" "of_int k < x"
  shows "place x \<le> 0 \<and> of_int k + 2 powi place x / 2 < x"
proof -
  have x1: "1 < x" using assms(4,5) by (metis of_int_1_le_iff order_le_less_trans)
  then have x0: "0 < x" by simp
  have "of_int k * of_int t < (of_int u :: rat)"
    using assms(3,5) by (simp add: x pos_less_divide_eq)
  then have kt: "k * t + 1 \<le> u" by (simp flip: of_int_mult)
  have "x * 1 \<le> x * of_int t" using x0 assms(3) by (intro mult_left_mono) simp_all
  then have "x \<le> of_int u" using assms(3) by (simp add: x)
  moreover have "(of_int u :: rat) < of_int (2 ^ 53)" using assms(2) by (simp only: of_int_less_iff)
  ultimately have "(2::rat) powi ilog2 x < 2 powi 53" using ilog2_bounds(1) [OF x0] by simp
  then have l53: "ilog2 x < 53" by (simp only: pow2_less_iff)
  have "(2::rat) powi 0 < 2 powi (ilog2 x + 1)" using ilog2_bounds(2) [OF x0] x1 by simp
  then have l0: "0 \<le> ilog2 x" by (simp only: pow2_less_iff)
  have pl: "place x = ilog2 x - 52" using l0 by (simp add: place_def)
  have l: "2 powi ilog2 x = (of_int (2 ^ nat (ilog2 x)) :: rat)" using l0 by (simp add: power_int_def)
  have "of_int k + 2 powi place x / 2 < x"
  proof (cases "2 ^ nat (ilog2 x) \<le> k")
    case True
    then have "2 ^ nat (ilog2 x) * t \<le> k * t" using assms(3) by simp
    then have "2 ^ nat (ilog2 x) * t < 2 ^ 53" using kt assms(2) by linarith
    then have "of_int (2 ^ nat (ilog2 x) * t) < (of_int (2 ^ 53) :: rat)" by (simp only: of_int_less_iff)
    then have "2 powi ilog2 x * of_int t < (2 ^ 53 :: rat)" by (simp add: l)
    then have "2 powi place x / 2 * of_int t < (1::rat)" by (simp add: pl power_int_diff)
    moreover have "(of_int k :: rat) * of_int t + 1 \<le> of_int u"
      using kt by (metis of_int_1 of_int_add of_int_le_iff of_int_mult)
    ultimately have "(of_int k + 2 powi place x / 2) * of_int t < (of_int u :: rat)"
      by (simp add: distrib_right)
    then show ?thesis using assms(3) by (simp add: x pos_less_divide_eq)
  next
    case False
    then have "(of_int (k + 1) :: rat) \<le> of_int (2 ^ nat (ilog2 x))"
      by (simp only: of_int_le_iff)
    then have "of_int k + 1 \<le> x" using ilog2_bounds(1) [OF x0] l by simp
    moreover have "(2::rat) powi place x \<le> 2 powi 0" using l53 pl by (simp only: pow2_le_iff)
    ultimately show ?thesis by simp
  qed
  then show ?thesis using pl l53 by simp
qed

lemma rnd_quotient_pos:
  assumes "0 < u" "0 < t" "t \<le> 2 ^ 63"
  shows "0 < rnd (of_int u / of_int t)"
proof -
  have "(of_int t :: rat) \<le> of_int (2 ^ 63)" using assms(3) by (simp only: of_int_le_iff)
  moreover have "(1::rat) \<le> of_int u" using assms(1) by simp
  ultimately have "1 / 2 ^ 63 \<le> of_int u / (of_int t :: rat)"
    using assms(2) by (intro frac_le) simp_all
  then have "rnd (2 powi (- 63)) \<le> rnd (of_int u / of_int t)"
    by (intro rnd_mono_pos) (simp_all add: power_int_minus field_simps)
  then show ?thesis using rnd_pow2 [of "- 63"] by (simp add: power_int_minus)
qed

text \<open>
  So rounding such a quotient never crosses the integer below it, and \<open>ceil\<close> of the rounded
  quotient is the ceiling of the exact one.
\<close>

lemma ceil_rnd_quotient:
  assumes "0 \<le> u" "u < 2 ^ 53" "0 < t" "t \<le> 2 ^ 63"
  shows "\<lceil>rnd (of_int u / of_int t)\<rceil> = \<lceil>of_int u / (of_int t :: rat)\<rceil>"
proof (cases "u = 0")
  case False
  define x where "x = of_int u / (of_int t :: rat)"
  define k where "k = \<lceil>x\<rceil> - 1"
  have x0: "0 < x" using False assms by (simp add: x_def)
  have k: "of_int k < x" "x \<le> of_int (k + 1)" "0 \<le> k"
    using ceiling_correct [of x] x0 by (simp_all add: k_def)
  have "x * 1 \<le> x * of_int t" using x0 assms(3) by (intro mult_left_mono) simp_all
  then have "x \<le> of_int u" using assms(3) by (simp add: x_def)
  then have "k < u" using k(1) by (metis of_int_less_iff order_less_le_trans)
  then have up: "rnd x \<le> of_int (k + 1)"
    using rnd_mono_pos [OF x0 k(2)] rnd_of_int [of "k + 1"] k(3) assms(2) by simp
  have "of_int k < rnd x"
  proof (cases "k = 0")
    case True
    then show ?thesis using rnd_quotient_pos [of u t] False assms by (simp add: x_def)
  next
    case False
    then have "1 \<le> k" using k(3) by simp
    then show ?thesis
      using quotient_gap [OF x_def assms(2,3) _ k(1)] x0 by (intro rnd_above_int) simp_all
  qed
  then show ?thesis using up unfolding x_def [symmetric] k_def
    by (intro ceiling_unique) simp_all
qed simp

lemma rnd_nonneg: "0 \<le> q \<Longrightarrow> 0 \<le> rnd q"
proof (cases "q = 0")
  case False
  assume "0 \<le> q"
  then have q: "0 < q" using False by simp
  have "rne 0 \<le> rne (q / 2 powi place q)" using q by (intro rne_mono) simp
  then have "0 \<le> rne (q / 2 powi place q)" using rne_of_int [of 0] by simp
  then show ?thesis using q by (simp add: rnd_pos)
qed simp

section \<open>The rounding contract\<close>

text \<open>
  What the arithmetic needs of a rounding: it is monotone, antisymmetric about zero and keeps the
  integers up to a bound. Quotients of such integers then compare with 1 as the exact quotients
  do whenever the roundings on either side of 1 are fine enough.
\<close>

locale rounding =
  fixes r :: "rat \<Rightarrow> rat" and bound :: int
  assumes mono: "p \<le> q \<Longrightarrow> r p \<le> r q"
    and minus: "r (- q) = - r q"
    and keeps: "\<bar>n\<bar> \<le> bound \<Longrightarrow> r (of_int n) = of_int n"
    and one: "1 \<le> bound"
    and below_one: "q \<le> 1 - 1 / of_int bound \<Longrightarrow> r q \<le> 1 - 1 / of_int bound"
    and above_one: "1 + 1 / of_int bound < q \<Longrightarrow> 1 + 1 / of_int bound \<le> r q"
begin

lemma r_one: "r 1 = 1"
  using keeps [of 1] one by simp

lemma r_zero: "r 0 = 0"
  using keeps [of 0] one by simp

lemma r_nonneg: "0 \<le> q \<Longrightarrow> 0 \<le> r q"
  using mono [of 0 q] r_zero by simp

lemma ratio_below:
  assumes "0 < b" "b \<le> bound" "a < b"
  shows "r (of_int a / of_int b) \<le> 1 - 1 / of_int bound"
proof -
  have "of_int a \<le> (of_int (b - 1) :: rat)" using assms(3) by (simp only: of_int_le_iff)
  then have "of_int a \<le> (of_int b - 1 :: rat)" by simp
  then have "of_int a / of_int b \<le> (of_int b - 1) / (of_int b :: rat)"
    using assms(1) by (intro divide_right_mono) simp_all
  also have "\<dots> = 1 - 1 / of_int b" using assms(1) by (simp add: field_simps)
  also have "\<dots> \<le> 1 - 1 / of_int bound"
    using assms by (simp add: frac_le)
  finally show ?thesis by (rule below_one)
qed

lemma ratio_above:
  assumes "0 < b" "b < bound" "b < a"
  shows "1 + 1 / of_int bound \<le> r (of_int a / of_int b)"
proof -
  have "(of_int (b + 1) :: rat) \<le> of_int a" using assms(3) by (simp only: of_int_le_iff)
  then have "(of_int b + 1 :: rat) \<le> of_int a" by simp
  then have "(of_int b + 1) / of_int b \<le> (of_int a / of_int b :: rat)"
    using assms(1) by (intro divide_right_mono) simp_all
  moreover have "(of_int b + 1) / of_int b = (1 + 1 / of_int b :: rat)"
    using assms(1) by (simp add: field_simps)
  moreover have "1 / of_int bound < (1 / of_int b :: rat)"
    using assms by (simp add: frac_less2)
  ultimately show ?thesis by (intro above_one) linarith
qed

lemma ratio_less_one:
  assumes "0 < b" "b \<le> bound"
  shows "r (of_int a / of_int b) < 1 \<longleftrightarrow> a < b"
proof
  assume "r (of_int a / of_int b) < 1"
  then have "\<not> 1 \<le> (of_int a / of_int b :: rat)" using mono [of 1] r_one by fastforce
  then show "a < b" using assms(1) by (simp add: pos_le_divide_eq)
next
  assume "a < b"
  then have "r (of_int a / of_int b) \<le> 1 - 1 / of_int bound" by (rule ratio_below [OF assms])
  moreover have "0 < (1 / of_int bound :: rat)" using one by simp
  ultimately show "r (of_int a / of_int b) < 1" by linarith
qed

lemma ratio_greater_one:
  assumes "0 < b" "b < bound"
  shows "1 < r (of_int a / of_int b) \<longleftrightarrow> b < a"
proof
  assume "1 < r (of_int a / of_int b)"
  then have "\<not> (of_int a / of_int b :: rat) \<le> 1" using mono [of _ 1] r_one by fastforce
  then show "b < a" using assms(1) by (simp add: pos_divide_le_eq)
next
  assume "b < a"
  then have "1 + 1 / of_int bound \<le> r (of_int a / of_int b)" by (rule ratio_above [OF assms])
  moreover have "0 < (1 / of_int bound :: rat)" using one by simp
  ultimately show "1 < r (of_int a / of_int b)" by linarith
qed

end

lemma rnd_mono: "p \<le> q \<Longrightarrow> rnd p \<le> rnd q"
proof -
  assume le: "p \<le> q"
  consider "0 < p" | "p \<le> 0" "0 \<le> q" | "q < 0" by linarith
  then show ?thesis
  proof cases
    case 1
    then show ?thesis using le by (rule rnd_mono_pos)
  next
    case 2
    then have "0 \<le> rnd (- p)" "0 \<le> rnd q" by (simp_all add: rnd_nonneg)
    then show ?thesis by (simp add: rnd_minus)
  next
    case 3
    then have "rnd (- q) \<le> rnd (- p)" using le by (intro rnd_mono_pos) simp_all
    then show ?thesis by (simp add: rnd_minus)
  qed
qed

lemma rnd_below_one:
  assumes "q \<le> 1 - 1 / of_int (2 ^ 53)"
  shows "rnd q \<le> 1 - 1 / of_int (2 ^ 53)"
proof -
  define p :: rat where "p = 1 - 1 / of_int (2 ^ 53)"
  have "rnd p = p"
    by (rule rnd_dyadic [where k = 53 and m = "2 ^ 53 - 1"]) (simp_all add: p_def field_simps)
  then show ?thesis using rnd_mono [OF assms] by (simp only: p_def)
qed

lemma rnd_above_one:
  assumes "1 + 1 / of_int (2 ^ 53) < q"
  shows "1 + 1 / of_int (2 ^ 53) \<le> rnd q"
proof (cases "q < 2")
  case True
  have q: "1 < q" using assms by (rule order_less_trans [rotated]) simp
  have "ilog2 q = 0" using q True by (intro ilog2_unique) simp_all
  then have pl: "place q = - 52" by (simp add: place_def)
  have "of_int (2 ^ 52) + 1 / 2 < q / 2 powi (- 52)"
    using assms by (simp add: power_int_minus field_simps)
  then have "2 ^ 52 < rne (q / 2 powi place q)" by (simp only: pl rne_above)
  then have "(of_int (2 ^ 52 + 1) :: rat) \<le> of_int (rne (q / 2 powi place q))"
    by (simp only: of_int_le_iff zless_imp_add1_zle)
  then show ?thesis using q by (simp add: rnd_pos pl power_int_minus field_simps)
next
  case False
  then have "rnd 2 \<le> rnd q" by (intro rnd_mono) simp
  moreover have "rnd 2 = 2" using rnd_of_int [of 2] by simp
  ultimately show ?thesis by simp
qed

lemma rnd_nonzero:
  assumes "2 powi (- 1022) \<le> \<bar>q\<bar>"
  shows "rnd q \<noteq> 0"
proof -
  have "0 < rnd \<bar>q\<bar>"
  proof -
    have "rnd (2 powi (- 1022)) = 2 powi (- 1022)" by (rule rnd_pow2) simp
    moreover have "(0::rat) < 2 powi (- 1022)" by (rule zero_less_power_int) simp
    ultimately show ?thesis using rnd_mono [OF assms] by linarith
  qed
  then show ?thesis by (cases "0 \<le> q") (auto simp: rnd_minus)
qed

interpretation f64: rounding rnd "2 ^ 53"
proof (unfold_locales, goal_cases)
  case (1 p q)
  then show ?case by (rule rnd_mono)
next
  case (2 q)
  show ?case by (rule rnd_minus)
next
  case (3 n)
  then show ?case by (rule rnd_of_int)
next
  case 4
  show ?case by simp
next
  case (5 q)
  then show ?case by (rule rnd_below_one)
next
  case (6 q)
  then show ?case by (rule rnd_above_one)
qed

section \<open>Values and operations\<close>

text \<open>\<open>F_Inf True\<close> and \<open>F_Zero True\<close> are the negative infinity and zero.\<close>

datatype f64 = F_NaN | F_Inf bool | F_Zero bool | F_Num rat

text \<open>The value of a finite number and the sign bit.\<close>

primrec fval :: "f64 \<Rightarrow> rat" where
  "fval F_NaN = 0"
| "fval (F_Inf s) = 0"
| "fval (F_Zero s) = 0"
| "fval (F_Num q) = q"

primrec fneg :: "f64 \<Rightarrow> bool" where
  "fneg F_NaN = False"
| "fneg (F_Inf s) = s"
| "fneg (F_Zero s) = s"
| "fneg (F_Num q) = (q < 0)"

definition overflow_bound :: rat where
  "overflow_bound = 2 ^ 1024"

lemma overflow_bound_big: "x \<le> 2 ^ 1023 \<Longrightarrow> x < overflow_bound"
proof -
  assume "x \<le> 2 ^ 1023"
  also have "(2::rat) ^ 1023 < 2 ^ 1024" by (rule power_strict_increasing) simp_all
  finally show ?thesis by (simp only: overflow_bound_def)
qed

lemma overflow_bound_int: "\<bar>n\<bar> \<le> 2 ^ 53 \<Longrightarrow> \<bar>of_int n\<bar> < overflow_bound"
proof -
  assume "\<bar>n\<bar> \<le> 2 ^ 53"
  then have "(of_int \<bar>n\<bar> :: rat) \<le> of_int (2 ^ 53)" by (simp only: of_int_le_iff)
  also have "\<dots> = 2 ^ 53" by simp
  also have "\<dots> \<le> 2 ^ 1023" by (rule power_increasing) simp_all
  finally show ?thesis using overflow_bound_big by simp
qed

lemma overflow_bound_one: "1 < overflow_bound"
  using overflow_bound_int [of 1] by simp

text \<open>
  The float nearest to an exact result: overflow gives an infinity, a zero keeps the given sign.
\<close>

definition to_f64 :: "bool \<Rightarrow> rat \<Rightarrow> f64" where
  "to_f64 s q = (let p = rnd q in
     if p = 0 then F_Zero s
     else if overflow_bound \<le> \<bar>p\<bar> then F_Inf (p < 0)
     else F_Num p)"

definition f64_of_int :: "int \<Rightarrow> f64" where
  "f64_of_int n = to_f64 False (of_int n)"

definition f64_of_i64 :: "i64 \<Rightarrow> f64" where
  "f64_of_i64 n = f64_of_int (sint n)"

definition f64_of_i32 :: "i32 \<Rightarrow> f64" where
  "f64_of_i32 n = f64_of_int (sint n)"

instantiation f64 :: "{zero, one, plus, minus, times, inverse, abs, ord}"
begin

definition zero_f64 :: f64 where
  "zero_f64 = F_Zero False"

definition one_f64 :: f64 where
  "one_f64 = F_Num 1"

definition plus_f64 :: "f64 \<Rightarrow> f64 \<Rightarrow> f64" where
  "plus_f64 a b = (case (a, b) of
      (F_NaN, _) \<Rightarrow> F_NaN
    | (_, F_NaN) \<Rightarrow> F_NaN
    | (F_Inf s, F_Inf t) \<Rightarrow> (if s = t then F_Inf s else F_NaN)
    | (F_Inf s, _) \<Rightarrow> F_Inf s
    | (_, F_Inf t) \<Rightarrow> F_Inf t
    | (F_Zero s, F_Zero t) \<Rightarrow> F_Zero (s \<and> t)
    | (_, _) \<Rightarrow> to_f64 False (fval a + fval b))"

definition minus_f64 :: "f64 \<Rightarrow> f64 \<Rightarrow> f64" where
  "minus_f64 a b = (case (a, b) of
      (F_NaN, _) \<Rightarrow> F_NaN
    | (_, F_NaN) \<Rightarrow> F_NaN
    | (F_Inf s, F_Inf t) \<Rightarrow> (if s = t then F_NaN else F_Inf s)
    | (F_Inf s, _) \<Rightarrow> F_Inf s
    | (_, F_Inf t) \<Rightarrow> F_Inf (\<not> t)
    | (F_Zero s, F_Zero t) \<Rightarrow> F_Zero (s \<and> \<not> t)
    | (_, _) \<Rightarrow> to_f64 False (fval a - fval b))"

definition times_f64 :: "f64 \<Rightarrow> f64 \<Rightarrow> f64" where
  "times_f64 a b = (let s = (fneg a \<noteq> fneg b) in case (a, b) of
      (F_NaN, _) \<Rightarrow> F_NaN
    | (_, F_NaN) \<Rightarrow> F_NaN
    | (F_Inf _, F_Zero _) \<Rightarrow> F_NaN
    | (F_Zero _, F_Inf _) \<Rightarrow> F_NaN
    | (F_Inf _, _) \<Rightarrow> F_Inf s
    | (_, F_Inf _) \<Rightarrow> F_Inf s
    | (_, _) \<Rightarrow> to_f64 s (fval a * fval b))"

definition divide_f64 :: "f64 \<Rightarrow> f64 \<Rightarrow> f64" where
  "divide_f64 a b = (let s = (fneg a \<noteq> fneg b) in case (a, b) of
      (F_NaN, _) \<Rightarrow> F_NaN
    | (_, F_NaN) \<Rightarrow> F_NaN
    | (F_Zero _, F_Zero _) \<Rightarrow> F_NaN
    | (F_Inf _, F_Inf _) \<Rightarrow> F_NaN
    | (F_Inf _, _) \<Rightarrow> F_Inf s
    | (_, F_Zero _) \<Rightarrow> F_Inf s
    | (_, F_Inf _) \<Rightarrow> F_Zero s
    | (_, _) \<Rightarrow> to_f64 s (fval a / fval b))"

definition inverse_f64 :: "f64 \<Rightarrow> f64" where
  "inverse_f64 a = divide 1 (a :: f64)"

definition abs_f64 :: "f64 \<Rightarrow> f64" where
  "abs_f64 a = (case a of
      F_NaN \<Rightarrow> F_NaN | F_Inf _ \<Rightarrow> F_Inf False | F_Zero _ \<Rightarrow> F_Zero False | F_Num q \<Rightarrow> F_Num \<bar>q\<bar>)"

definition less_f64 :: "f64 \<Rightarrow> f64 \<Rightarrow> bool" where
  "less_f64 a b = (case (a, b) of
      (F_NaN, _) \<Rightarrow> False
    | (_, F_NaN) \<Rightarrow> False
    | (F_Inf s, F_Inf t) \<Rightarrow> s \<and> \<not> t
    | (F_Inf s, _) \<Rightarrow> s
    | (_, F_Inf t) \<Rightarrow> \<not> t
    | (_, _) \<Rightarrow> fval a < fval b)"

definition less_eq_f64 :: "f64 \<Rightarrow> f64 \<Rightarrow> bool" where
  "less_eq_f64 a b = (case (a, b) of
      (F_NaN, _) \<Rightarrow> False
    | (_, F_NaN) \<Rightarrow> False
    | (F_Inf s, F_Inf t) \<Rightarrow> s \<or> \<not> t
    | (F_Inf s, _) \<Rightarrow> s
    | (_, F_Inf t) \<Rightarrow> \<not> t
    | (_, _) \<Rightarrow> fval a \<le> fval b)"

instance ..

end

text \<open>\<open>math.Ceil\<close>, exact on every float.\<close>

definition fceil :: "f64 \<Rightarrow> f64" where
  "fceil a = (case a of
      F_Num q \<Rightarrow> (if \<lceil>q\<rceil> = 0 then F_Zero (q < 0) else F_Num (of_int \<lceil>q\<rceil>))
    | _ \<Rightarrow> a)"

text \<open>
  The conversion \<open>int32(x)\<close> truncates towards zero. For a NaN, an infinity or a value outside
  \<open>int32\<close> the language leaves the result to the implementation: the parameter \<open>oor\<close>.
\<close>

definition rtrunc :: "rat \<Rightarrow> int" where
  "rtrunc q = (if 0 \<le> q then \<lfloor>q\<rfloor> else \<lceil>q\<rceil>)"

definition i32_of_f64 :: "(f64 \<Rightarrow> i32) \<Rightarrow> f64 \<Rightarrow> i32" where
  "i32_of_f64 oor a = (case a of
      F_NaN \<Rightarrow> oor a
    | F_Inf _ \<Rightarrow> oor a
    | _ \<Rightarrow> (let n = rtrunc (fval a) in
            if - 2147483648 \<le> n \<and> n \<le> 2147483647 then word_of_int n else oor a))"

lemmas f64_ops = plus_f64_def minus_f64_def times_f64_def divide_f64_def abs_f64_def
  less_f64_def less_eq_f64_def zero_f64_def one_f64_def

section \<open>Exactness\<close>

lemma f64_of_int_exact:
  assumes "\<bar>n\<bar> \<le> 2 ^ 53"
  shows "f64_of_int n = (if n = 0 then F_Zero False else F_Num (of_int n))"
  using f64.keeps [OF assms] overflow_bound_int [OF assms]
  by (simp add: f64_of_int_def to_f64_def)

lemma fval_f64_of_int: "\<bar>n\<bar> \<le> 2 ^ 53 \<Longrightarrow> fval (f64_of_int n) = of_int n"
  by (simp add: f64_of_int_exact)

text \<open>A quotient of 53-bit integers is on the side of 1 on which the exact quotient is.\<close>

lemma to_f64_less_one: "to_f64 s q < 1 \<longleftrightarrow> rnd q < 1"
  using overflow_bound_one by (auto simp: to_f64_def Let_def less_f64_def one_f64_def)

lemma to_f64_greater_one: "1 < to_f64 s q \<longleftrightarrow> 1 < rnd q"
  using overflow_bound_one by (auto simp: to_f64_def Let_def less_f64_def one_f64_def)

lemma divide_f64_of_int:
  assumes "\<bar>a\<bar> \<le> 2 ^ 53" "0 < b" "b \<le> 2 ^ 53"
  shows "f64_of_int a / f64_of_int b = to_f64 (a < 0) (of_int a / of_int b)"
  using assms
  by (simp add: f64_of_int_exact divide_f64_def to_f64_def)

lemma quotient_less_one:
  assumes "\<bar>a\<bar> \<le> 2 ^ 53" "0 < b" "b \<le> 2 ^ 53"
  shows "f64_of_int a / f64_of_int b < 1 \<longleftrightarrow> a < b"
  using f64.ratio_less_one [of b a] assms by (simp add: divide_f64_of_int to_f64_less_one)

lemma quotient_greater_one:
  assumes "\<bar>a\<bar> \<le> 2 ^ 53" "0 < b" "b < 2 ^ 53"
  shows "1 < f64_of_int a / f64_of_int b \<longleftrightarrow> b < a"
  using f64.ratio_greater_one [of b a] assms by (simp add: divide_f64_of_int to_f64_greater_one)


text \<open>
  \<open>int32(math.Ceil(float64(u) / float64(t)))\<close> is the exact ceiling for 53-bit operands.
\<close>

lemma rtrunc_of_int [simp]: "rtrunc (of_int n) = n"
  by (simp add: rtrunc_def)

lemma i32_of_to_f64_ceil:
  assumes "\<lceil>rnd q\<rceil> = n" "0 \<le> n" "n \<le> 2147483647" "0 \<le> rnd q"
  shows "i32_of_f64 oor (fceil (to_f64 s q)) = word_of_int n"
proof -
  have "rnd q \<le> of_int n" using assms(1) by (metis le_of_int_ceiling)
  moreover have "\<bar>of_int n :: rat\<bar> < overflow_bound" using assms(2,3) by (intro overflow_bound_int) simp
  ultimately have "\<not> overflow_bound \<le> \<bar>rnd q\<bar>" using assms(4) by simp
  then show ?thesis
    using assms by (auto simp: to_f64_def fceil_def i32_of_f64_def Let_def rtrunc_def)
qed

lemma ceil_quotient_i32:
  assumes "0 \<le> u" "u < 2 ^ 53" "0 < t" "t \<le> 2 ^ 53" "\<lceil>of_int u / of_int t :: rat\<rceil> \<le> 2147483647"
  shows "i32_of_f64 oor (fceil (f64_of_int u / f64_of_int t)) = word_of_int \<lceil>of_int u / of_int t :: rat\<rceil>"
proof -
  have "f64_of_int u / f64_of_int t = to_f64 False (of_int u / of_int t)"
    using divide_f64_of_int [of u t] assms by simp
  moreover have q: "0 \<le> (of_int u / of_int t :: rat)" using assms by simp
  moreover have "\<lceil>rnd (of_int u / of_int t)\<rceil> = \<lceil>of_int u / (of_int t :: rat)\<rceil>"
    using assms by (intro ceil_rnd_quotient) simp_all
  moreover have "0 \<le> \<lceil>of_int u / (of_int t :: rat)\<rceil>" using q by (simp add: le_ceiling_iff)
  ultimately show ?thesis using assms(5) rnd_nonneg by (metis i32_of_to_f64_ceil)
qed

text \<open>Evaluation of a float on a dyadic value.\<close>

lemma to_f64_dyadic:
  assumes "q * 2 ^ k = of_int m" "\<bar>m\<bar> < 2 ^ 53" "k \<le> 1000" "q \<noteq> 0"
  shows "to_f64 s q = F_Num q"
proof -
  have "\<bar>q\<bar> * 1 \<le> \<bar>q\<bar> * 2 ^ k" by (intro mult_left_mono) simp_all
  also have "\<dots> = \<bar>of_int m\<bar>" by (metis abs_mult abs_numeral abs_power_minus assms(1) power_abs)
  also have "\<dots> < overflow_bound" using assms(2) by (intro overflow_bound_int) simp
  finally have "\<bar>q\<bar> < overflow_bound" by simp
  then show ?thesis using rnd_dyadic [OF assms(1-3)] assms(4) by (simp add: to_f64_def)
qed

end
