(* ===== verification/Api_Types.thy ===== *)
theory Api_Types
  imports Float64
begin

text \<open>
  The data the program passes around: the constants of \<open>util/consts\<close>, the \<open>Houmao\<close> custom
  resource of \<open>api/v1/houmao_types.go\<close>, and the Kubernetes objects it reads (pods, scales,
  metric specifications, scaling behaviour), reduced to the fields the program uses. A pointer
  field is an option, a \<open>resource.Quantity\<close> is the number that its \<open>MilliValue\<close> returns, and a
  label selector is its string form.
\<close>

section \<open>Constants\<close>

abbreviation (input) HoumaoPhaseCreated :: string where "HoumaoPhaseCreated \<equiv> ''created''"
abbreviation (input) HoumaoPhaseXianqi :: string where "HoumaoPhaseXianqi \<equiv> ''xianqi''"
abbreviation (input) HoumaoPhaseDestroy :: string where "HoumaoPhaseDestroy \<equiv> ''destroying''"
abbreviation (input) HoumaoFilalizer :: string where "HoumaoFilalizer \<equiv> ''houmao.sunwukong''"
abbreviation (input) ShifaCmdRole :: string where "ShifaCmdRole \<equiv> ''shifa''"
abbreviation (input) ZaohuaCmdRole :: string where "ZaohuaCmdRole \<equiv> ''zaohua''"
abbreviation (input) XianqiImage :: string where "XianqiImage \<equiv> ''''"
abbreviation (input) XianqiPrefix :: string where "XianqiPrefix \<equiv> ''Xianqi_''"
abbreviation (input) ZaohuaModeZhudong :: string where "ZaohuaModeZhudong \<equiv> ''Zhudong''"
abbreviation (input) ZaohuaModeBeidong :: string where "ZaohuaModeBeidong \<equiv> ''Beidong''"

text \<open>The untyped constants that become durations where they are used.\<close>

definition CpuInitializationPeriod :: int where
  "CpuInitializationPeriod = 300"

definition InitialReadinessDelay :: int where
  "InitialReadinessDelay = 30"

definition StabilizationWindowSeconds :: int where
  "StabilizationWindowSeconds = 300"

definition ScaleTolerance :: rat where
  "ScaleTolerance = 1 / 10"

abbreviation (input) ObjectMetricSourceType :: string where "ObjectMetricSourceType \<equiv> ''Object''"
abbreviation (input) PodsMetricSourceType :: string where "PodsMetricSourceType \<equiv> ''Pods''"
abbreviation (input) ResourceMetricSourceType :: string where "ResourceMetricSourceType \<equiv> ''Resource''"
abbreviation (input) ContainerResourceMetricSourceType :: string where
  "ContainerResourceMetricSourceType \<equiv> ''ContainerResource''"
abbreviation (input) ExternalMetricSourceType :: string where "ExternalMetricSourceType \<equiv> ''External''"

definition MetricServerDefaultMetricWindow :: duration where
  "MetricServerDefaultMetricWindow = 60 * second"

text \<open>The string constants of the autoscaling and core APIs that the program compares with.\<close>

abbreviation (input) UtilizationMetricType :: string where "UtilizationMetricType \<equiv> ''Utilization''"
abbreviation (input) ValueMetricType :: string where "ValueMetricType \<equiv> ''Value''"
abbreviation (input) AverageValueMetricType :: string where "AverageValueMetricType \<equiv> ''AverageValue''"
abbreviation (input) MinPolicySelect :: string where "MinPolicySelect \<equiv> ''Min''"
abbreviation (input) MaxPolicySelect :: string where "MaxPolicySelect \<equiv> ''Max''"
abbreviation (input) DisabledPolicySelect :: string where "DisabledPolicySelect \<equiv> ''Disabled''"
abbreviation (input) PodsScalingPolicy :: string where "PodsScalingPolicy \<equiv> ''Pods''"
abbreviation (input) PercentScalingPolicy :: string where "PercentScalingPolicy \<equiv> ''Percent''"
abbreviation (input) PodPending :: string where "PodPending \<equiv> ''Pending''"
abbreviation (input) PodRunning :: string where "PodRunning \<equiv> ''Running''"
abbreviation (input) PodFailed :: string where "PodFailed \<equiv> ''Failed''"
abbreviation (input) PodReady :: string where "PodReady \<equiv> ''Ready''"
abbreviation (input) ConditionTrue :: string where "ConditionTrue \<equiv> ''True''"
abbreviation (input) ConditionFalse :: string where "ConditionFalse \<equiv> ''False''"
abbreviation (input) ResourceCPU :: string where "ResourceCPU \<equiv> ''cpu''"

section \<open>Kubernetes objects\<close>

type_synonym quantity = i64
type_synonym label_selector = string
type_synonym selector = string

record namespaced_name =
  nn_namespace :: string
  nn_name :: string

record cross_version_object_reference =
  ref_kind :: string
  ref_name :: string
  ref_apiVersion :: string

record metric_identifier =
  mi_name :: string
  mi_selector :: "label_selector option"

record metric_target =
  mt_type :: string
  mt_value :: "quantity option"
  mt_averageValue :: "quantity option"

record object_metric_source =
  oms_describedObject :: cross_version_object_reference
  oms_target :: metric_target
  oms_metric :: metric_identifier

record pods_metric_source =
  pms_metric :: metric_identifier
  pms_target :: metric_target

record resource_metric_source =
  rms_name :: string
  rms_target :: metric_target

record container_resource_metric_source =
  crms_name :: string
  crms_target :: metric_target
  crms_container :: string

record external_metric_source =
  ems_metric :: metric_identifier
  ems_target :: metric_target

record metric_spec =
  ms_type :: string
  ms_object :: "object_metric_source option"
  ms_pods :: "pods_metric_source option"
  ms_resource :: "resource_metric_source option"
  ms_containerResource :: "container_resource_metric_source option"
  ms_external :: "external_metric_source option"

record scaling_policy =
  sp_type :: string
  sp_value :: i32
  sp_periodSeconds :: i32

record scaling_rules =
  sr_stabilizationWindowSeconds :: "i32 option"
  sr_selectPolicy :: "string option"
  sr_policies :: "scaling_policy list"

record hpa_behavior =
  hb_scaleUp :: "scaling_rules option"
  hb_scaleDown :: "scaling_rules option"

record pod_condition =
  pc_type :: string
  pc_status :: string
  pc_lastTransitionTime :: time

record pod_container =
  pct_name :: string
  pct_requests :: "(string, quantity) gomap"

record pod =
  pod_name :: string
  pod_deletionTimestamp :: "time option"
  pod_phase :: string
  pod_conditions :: "pod_condition list"
  pod_startTime :: "time option"
  pod_containers :: "pod_container list"

record scale =
  sc_name :: string
  sc_namespace :: string
  sc_specReplicas :: i32
  sc_statusReplicas :: i32
  sc_statusSelector :: string

record resource_requirements =
  rr_limits :: "(string, quantity) gomap"
  rr_requests :: "(string, quantity) gomap"

record object_meta =
  om_name :: string
  om_namespace :: string
  om_deletionTimestamp :: "time option"
  om_finalizers :: "string list"

section \<open>The Houmao resource\<close>

record houmao_spec =
  hs_scaleTargetRef :: cross_version_object_reference
  hs_metrics :: "metric_spec list"
  hs_behavor :: hpa_behavior
  hs_minReplicas :: "i32 option"
  hs_maxReplicas :: i32
  hs_serviceName :: "string list"
  hs_xianqiLiang :: resource_requirements

record xianqi_info =
  xi_name :: string
  xi_namespace :: string

record metric_status =
  mst_isScaled :: bool
  mst_scaledReplicas :: i32
  mst_metricIndex :: i32
  mst_metricType :: string
  mst_metricName :: string

record zaohua_result =
  zr_timestamp :: time
  zr_currentReplicas :: i32
  zr_desiredReplicas :: i32
  zr_metricsElection :: metric_status

text \<open>The last field is the Go array \<open>[5]ZaohuaResult\<close>: a list whose length is always 5.\<close>

record zaohua_record =
  zrec_originReplicas :: i32
  zrec_current :: zaohua_result
  zrec_last5 :: "zaohua_result list"

record houmao_status =
  hst_shifaPhase :: string
  hst_xianqiInfo :: xianqi_info
  hst_zaohuaRecord :: zaohua_record

record houmao =
  hm_meta :: object_meta
  hm_spec :: houmao_spec
  hm_status :: houmao_status

section \<open>Zero values\<close>

definition zero_ref :: cross_version_object_reference where
  "zero_ref = \<lparr>ref_kind = [], ref_name = [], ref_apiVersion = []\<rparr>"

definition zero_meta :: object_meta where
  "zero_meta = \<lparr>om_name = [], om_namespace = [], om_deletionTimestamp = None, om_finalizers = []\<rparr>"

definition zero_spec :: houmao_spec where
  "zero_spec = \<lparr>hs_scaleTargetRef = zero_ref, hs_metrics = [],
     hs_behavor = \<lparr>hb_scaleUp = None, hb_scaleDown = None\<rparr>,
     hs_minReplicas = None, hs_maxReplicas = 0, hs_serviceName = [],
     hs_xianqiLiang = \<lparr>rr_limits = [], rr_requests = []\<rparr>\<rparr>"

definition zero_result :: zaohua_result where
  "zero_result = \<lparr>zr_timestamp = zero_time, zr_currentReplicas = 0, zr_desiredReplicas = 0,
     zr_metricsElection = \<lparr>mst_isScaled = False, mst_scaledReplicas = 0, mst_metricIndex = 0,
       mst_metricType = [], mst_metricName = []\<rparr>\<rparr>"

definition zero_record :: zaohua_record where
  "zero_record = \<lparr>zrec_originReplicas = 0, zrec_current = zero_result,
     zrec_last5 = replicate 5 zero_result\<rparr>"

definition zero_status :: houmao_status where
  "zero_status = \<lparr>hst_shifaPhase = [], hst_xianqiInfo = \<lparr>xi_name = [], xi_namespace = []\<rparr>,
     hst_zaohuaRecord = zero_record\<rparr>"

definition zero_houmao :: houmao where
  "zero_houmao = \<lparr>hm_meta = zero_meta, hm_spec = zero_spec, hm_status = zero_status\<rparr>"

text \<open>
  The resource's well-formedness: the array of past results has its five entries, and a map of
  resource quantities names each resource once.
\<close>

definition houmao_ok :: "houmao \<Rightarrow> bool" where
  "houmao_ok h \<longleftrightarrow> length (zrec_last5 (hst_zaohuaRecord (hm_status h))) = 5"

lemma zero_houmao_ok: "houmao_ok zero_houmao"
  by (simp add: houmao_ok_def zero_houmao_def zero_status_def zero_record_def)

text \<open>
  The generated copies of \<open>zz_generated.deepcopy.go\<close>. They assign the specification and the
  status, so a copy shares with the original what these reach by pointer or slice (theory
  \<open>Deep_Copy\<close>); no modelled code writes through such a reference, so the copies are values here. A
  copy of nil is nil.
\<close>

text \<open>The assignments up to that of the specification, and that of the status.\<close>

definition copy_spec :: "houmao \<Rightarrow> houmao \<Rightarrow> houmao" where
  "copy_spec src out = out\<lparr>hm_meta := hm_meta src, hm_spec := hm_spec src\<rparr>"

definition copy_status :: "houmao \<Rightarrow> houmao \<Rightarrow> houmao" where
  "copy_status src out = out\<lparr>hm_status := hm_status src\<rparr>"

definition DeepCopyInto :: "houmao \<Rightarrow> houmao \<Rightarrow> houmao" where
  "DeepCopyInto src out = copy_status src (copy_spec src out)"

definition DeepCopy :: "houmao \<Rightarrow> houmao" where
  "DeepCopy src = DeepCopyInto src zero_houmao"

definition DeepCopyObject :: "houmao option \<Rightarrow> houmao option" where
  "DeepCopyObject src = map_option DeepCopy src"

record houmao_list =
  hl_items :: "houmao list"

definition HoumaoList_DeepCopyInto :: "houmao_list \<Rightarrow> houmao_list \<Rightarrow> houmao_list" where
  "HoumaoList_DeepCopyInto src out =
     out\<lparr>hl_items := map (\<lambda>h. DeepCopyInto h zero_houmao) (hl_items src)\<rparr>"

definition HoumaoList_DeepCopy :: "houmao_list option \<Rightarrow> houmao_list option" where
  "HoumaoList_DeepCopy src = map_option (\<lambda>l. HoumaoList_DeepCopyInto l \<lparr>hl_items = []\<rparr>) src"

definition HoumaoList_DeepCopyObject :: "houmao_list option \<Rightarrow> houmao_list option" where
  "HoumaoList_DeepCopyObject src = (case HoumaoList_DeepCopy src of Some c \<Rightarrow> Some c | None \<Rightarrow> None)"

definition HoumaoSpec_DeepCopyInto :: "houmao_spec \<Rightarrow> houmao_spec \<Rightarrow> houmao_spec" where
  "HoumaoSpec_DeepCopyInto src out = src"

definition HoumaoSpec_DeepCopy :: "houmao_spec option \<Rightarrow> houmao_spec option" where
  "HoumaoSpec_DeepCopy src = map_option (\<lambda>x. HoumaoSpec_DeepCopyInto x zero_spec) src"

definition HoumaoStatus_DeepCopyInto :: "houmao_status \<Rightarrow> houmao_status \<Rightarrow> houmao_status" where
  "HoumaoStatus_DeepCopyInto src out = src"

definition HoumaoStatus_DeepCopy :: "houmao_status option \<Rightarrow> houmao_status option" where
  "HoumaoStatus_DeepCopy src = map_option (\<lambda>x. HoumaoStatus_DeepCopyInto x zero_status) src"

lemmas copy_defs = copy_spec_def copy_status_def

lemma DeepCopy_id: "DeepCopy h = h"
  by (simp add: DeepCopy_def DeepCopyInto_def copy_defs)

text \<open>Every copy equals its original, whatever the destination held.\<close>

lemma DeepCopyInto_eq: "DeepCopyInto h out = h"
  by (cases h, cases out) (simp add: DeepCopyInto_def copy_defs)

lemma copy_both: "copy_status h (copy_spec h out) = h"
  using DeepCopyInto_eq [of h out] by (simp add: DeepCopyInto_def)

lemma HoumaoList_DeepCopyInto_eq: "HoumaoList_DeepCopyInto l out = l"
  by (cases l, cases out) (simp add: HoumaoList_DeepCopyInto_def DeepCopyInto_eq)

lemma copies_equal:
  "DeepCopyObject p = p"
  "HoumaoList_DeepCopy q = q"
  "HoumaoList_DeepCopyObject q = q"
  "HoumaoSpec_DeepCopy sp = sp"
  "HoumaoStatus_DeepCopy st = st"
proof -
  show "DeepCopyObject p = p" by (cases p) (simp_all add: DeepCopyObject_def DeepCopy_id)
  show list: "HoumaoList_DeepCopy q = q" by (cases q) (simp_all add: HoumaoList_DeepCopy_def HoumaoList_DeepCopyInto_eq)
  show "HoumaoList_DeepCopyObject q = q" by (simp add: HoumaoList_DeepCopyObject_def list split: option.split)
  show "HoumaoSpec_DeepCopy sp = sp" by (cases sp) (simp_all add: HoumaoSpec_DeepCopy_def HoumaoSpec_DeepCopyInto_def)
  show "HoumaoStatus_DeepCopy st = st"
    by (cases st) (simp_all add: HoumaoStatus_DeepCopy_def HoumaoStatus_DeepCopyInto_def)
qed

end
