(* ===== verification/Json.thy ===== *)
theory Json
  imports Api_Types
begin

text \<open>
  What \<open>encoding/json\<close> makes of the structures of \<open>api/v1/houmao_types.go\<close> that are sent as
  patches, as trees: each field under the name its tag gives, or under its Go name where the tag
  is malformed (a value without quotes). An instant outside the years 0 to 9999 cannot be
  marshalled; instants are taken in UTC.
\<close>

datatype json =
    J_Bool bool
  | J_Int int
  | J_String string
  | J_Time time
  | J_Array "json list"
  | J_Object "(string \<times> json) list"

section \<open>Marshalling\<close>

definition nanos_per_day :: int where
  "nanos_per_day = 86400000000000"

text \<open>Year 0 has 366 days, and 3652059 days separate the first days of the years 1 and 10000.\<close>

definition json_time :: "time \<Rightarrow> json outcome" where
  "json_time t =
     (if - 366 * nanos_per_day \<le> t \<and> t < 3652059 * nanos_per_day then Done (J_Time t) else Fail MarshalFailed)"

definition json_i32 :: "i32 \<Rightarrow> json" where
  "json_i32 n = J_Int (sint n)"

definition json_metric_status :: "metric_status \<Rightarrow> json" where
  "json_metric_status m = J_Object [
     (''isScaled'', J_Bool (mst_isScaled m)),
     (''scaledReplicas'', json_i32 (mst_scaledReplicas m)),
     (''metricIndex'', json_i32 (mst_metricIndex m)),
     (''metricTeyp'', J_String (mst_metricType m)),
     (''metricName'', J_String (mst_metricName m))]"

definition json_result :: "zaohua_result \<Rightarrow> json outcome" where
  "json_result r = obind (json_time (zr_timestamp r)) (\<lambda>t. Done (J_Object [
     (''timestamp'', t),
     (''currentReplicas'', json_i32 (zr_currentReplicas r)),
     (''desiredReplicas'', json_i32 (zr_desiredReplicas r)),
     (''metricElection'', json_metric_status (zr_metricsElection r))]))"

primrec json_results :: "zaohua_result list \<Rightarrow> json list outcome" where
  "json_results [] = Done []"
| "json_results (r # rs) = obind (json_result r) (\<lambda>j. obind (json_results rs) (\<lambda>js. Done (j # js)))"

definition json_record :: "zaohua_record \<Rightarrow> json outcome" where
  "json_record r =
     obind (json_result (zrec_current r)) (\<lambda>current.
     obind (json_results (zrec_last5 r)) (\<lambda>last.
     Done (J_Object [
       (''OriginReplicas'', json_i32 (zrec_originReplicas r)),
       (''currentZaohuaResult'', current),
       (''last5thZaohuaResult'', J_Array last)])))"

definition json_xianqi :: "xianqi_info \<Rightarrow> json" where
  "json_xianqi x = J_Object [(''name'', J_String (xi_name x)), (''namespace'', J_String (xi_namespace x))]"

definition json_status :: "houmao_status \<Rightarrow> json outcome" where
  "json_status s =
     obind (json_record (hst_zaohuaRecord s)) (\<lambda>record.
     Done (J_Object [
       (''ShifaPhase'', J_String (hst_shifaPhase s)),
       (''XianqiInfo'', json_xianqi (hst_xianqiInfo s)),
       (''ZaohuaRecord'', record)]))"

section \<open>What marshalling returns\<close>

lemma json_time_outcome: "\<not> panics (json_time t)"
  by (simp add: json_time_def)

lemma json_record_no_panic: "\<not> panics (json_record r)"
proof -
  have r: "\<not> panics (json_result x)" for x
    by (simp add: json_result_def panics_obind json_time_outcome)
  have "\<not> panics (json_results xs)" for xs
    by (induction xs) (simp_all add: panics_obind r)
  then show ?thesis by (simp add: json_record_def panics_obind r)
qed

lemma json_record_keys:
  "json_record r = Done j \<Longrightarrow>
     \<exists>c l. j = J_Object [(''OriginReplicas'', json_i32 (zrec_originReplicas r)),
       (''currentZaohuaResult'', c), (''last5thZaohuaResult'', l)]"
  by (auto simp: json_record_def obind_eq_Done)

end
