(* ===== verification/Environment.thy ===== *)
theory Environment
  imports Json
begin

text \<open>
  What the program uses and the repository does not define: the clock, the Kubernetes API server
  reached through the controller-runtime client, the three metrics APIs, the parsers of the
  Kubernetes libraries, and what the Go implementation leaves open in float conversions. Each is
  a field of a record over a state \<open>'w\<close> of the outside world, so an answer may depend on
  everything that happened before; a call that fails answers \<open>Inl\<close>.
\<close>

section \<open>Answers of the metrics APIs\<close>

record container_usage =
  cu_name :: string
  cu_usage :: "(string, quantity) gomap"

record raw_pod_metrics =
  rpm_name :: string
  rpm_namespace :: string
  rpm_timestamp :: time
  rpm_window :: duration
  rpm_containers :: "container_usage list"

record raw_metric_value =
  rmv_objectName :: string
  rmv_timestamp :: time
  rmv_windowSeconds :: "i64 option"
  rmv_value :: quantity

section \<open>Deployments\<close>

record deploy_container =
  dc_name :: string
  dc_image :: string
  dc_resources :: resource_requirements

record deployment =
  dp_name :: string
  dp_namespace :: string
  dp_replicas :: "i32 option"
  dp_matchLabels :: "(string, string) gomap"
  dp_templateLabels :: "(string, string) gomap"
  dp_containers :: "deploy_container list"

section \<open>The environment\<close>

record 'w env =
  e_now :: "'w \<Rightarrow> time \<times> 'w"
  e_oor :: "f64 \<Rightarrow> i32"
  e_labelsParse :: "string \<Rightarrow> gerror + selector"
  e_asSelector :: "label_selector option \<Rightarrow> gerror + selector"
  e_listPods :: "string \<Rightarrow> selector \<Rightarrow> 'w \<Rightarrow> (gerror + pod list) \<times> 'w"
  e_podMetricses :: "string \<Rightarrow> selector \<Rightarrow> 'w \<Rightarrow> (gerror + raw_pod_metrics list) \<times> 'w"
  e_podsMapping :: "'w \<Rightarrow> (gerror + string) \<times> 'w"
  e_podsCustom :: "string \<Rightarrow> string \<Rightarrow> selector \<Rightarrow> string \<Rightarrow> selector \<Rightarrow> 'w
      \<Rightarrow> (gerror + raw_metric_value list) \<times> 'w"
  e_rootCustom :: "string \<times> string \<Rightarrow> string \<Rightarrow> string \<Rightarrow> selector \<Rightarrow> 'w
      \<Rightarrow> (gerror + raw_metric_value) \<times> 'w"
  e_objectCustom :: "string \<Rightarrow> string \<times> string \<Rightarrow> string \<Rightarrow> string \<Rightarrow> selector \<Rightarrow> 'w
      \<Rightarrow> (gerror + raw_metric_value) \<times> 'w"
  e_external :: "string \<Rightarrow> string \<Rightarrow> selector \<Rightarrow> 'w \<Rightarrow> (gerror + raw_metric_value list) \<times> 'w"
  e_getScale :: "namespaced_name \<Rightarrow> 'w \<Rightarrow> (gerror + scale) \<times> 'w"
  e_updateScale :: "scale \<Rightarrow> 'w \<Rightarrow> (gerror + scale) \<times> 'w"
  e_getHoumao :: "namespaced_name \<Rightarrow> 'w \<Rightarrow> (gerror + houmao) \<times> 'w"
  e_updateHoumao :: "houmao \<Rightarrow> 'w \<Rightarrow> (gerror + houmao) \<times> 'w"
  e_patchHoumao :: "houmao \<Rightarrow> json \<Rightarrow> 'w \<Rightarrow> (gerror + houmao) \<times> 'w"
  e_getDeployment :: "namespaced_name \<Rightarrow> 'w \<Rightarrow> (gerror + deployment) \<times> 'w"
  e_createDeployment :: "deployment \<Rightarrow> 'w \<Rightarrow> (gerror + deployment) \<times> 'w"
  e_updateDeployment :: "deployment \<Rightarrow> 'w \<Rightarrow> (gerror + deployment) \<times> 'w"
  e_deleteDeployment :: "deployment \<Rightarrow> 'w \<Rightarrow> (gerror + unit) \<times> 'w"

text \<open>\<open>time.Now()\<close>.\<close>

definition now :: "'w env \<Rightarrow> ('w, time) io" where
  "now E = (\<lambda>w. (Done (fst (e_now E w)), snd (e_now E w)))"

text \<open>A library function that answers with a value or an error.\<close>

definition lib_result :: "gerror + 'a \<Rightarrow> 'a outcome" where
  "lib_result r = (case r of Inl e \<Rightarrow> Fail e | Inr a \<Rightarrow> Done a)"

lemma now_no_panic: "\<not> panics (fst (now E w))"
  by (simp add: now_def)

lemma now_apply [go_simps]: "now E w = (Done (fst (e_now E w)), snd (e_now E w))"
  by (simp add: now_def)

lemma lib_result_simps [simp]:
  "lib_result (Inl e) = Fail e"
  "lib_result (Inr a) = Done a"
  by (simp_all add: lib_result_def)

text \<open>
  A concrete environment for evaluation: the clock stands still at a given instant and every
  service answers with an error. The witnesses replace the fields they need.
\<close>

definition quiet_env :: "time \<Rightarrow> 'w env" where
  "quiet_env t = \<lparr>
     e_now = (\<lambda>w. (t, w)),
     e_oor = (\<lambda>_. min_i32),
     e_labelsParse = Inr,
     e_asSelector = (\<lambda>p. case p of None \<Rightarrow> Inr [] | Some s \<Rightarrow> Inr s),
     e_listPods = (\<lambda>_ _ w. (Inl (ApiError ''pods''), w)),
     e_podMetricses = (\<lambda>_ _ w. (Inl (ApiError ''metrics''), w)),
     e_podsMapping = (\<lambda>w. (Inr ''pods'', w)),
     e_podsCustom = (\<lambda>_ _ _ _ _ w. (Inl (ApiError ''custom''), w)),
     e_rootCustom = (\<lambda>_ _ _ _ w. (Inl (ApiError ''custom''), w)),
     e_objectCustom = (\<lambda>_ _ _ _ _ w. (Inl (ApiError ''custom''), w)),
     e_external = (\<lambda>_ _ _ w. (Inl (ApiError ''external''), w)),
     e_getScale = (\<lambda>_ w. (Inl (ApiError ''scale''), w)),
     e_updateScale = (\<lambda>_ w. (Inl (ApiError ''scale''), w)),
     e_getHoumao = (\<lambda>_ w. (Inl (ApiError ''houmao''), w)),
     e_updateHoumao = (\<lambda>_ w. (Inl (ApiError ''houmao''), w)),
     e_patchHoumao = (\<lambda>_ _ w. (Inl (ApiError ''houmao''), w)),
     e_getDeployment = (\<lambda>_ w. (Inl (ApiError ''deployment''), w)),
     e_createDeployment = (\<lambda>_ w. (Inl (ApiError ''deployment''), w)),
     e_updateDeployment = (\<lambda>_ w. (Inl (ApiError ''deployment''), w)),
     e_deleteDeployment = (\<lambda>_ w. (Inl (ApiError ''deployment''), w))\<rparr>"

end
