(* ===== verification/Utilization.thy ===== *)
theory Utilization
  imports Environment
begin

text \<open>
  \<open>pkg/zaohua/daofa/metrics/metrics_interface.go\<close> and \<open>utilization.go\<close>: the per-pod metrics and
  their ratio to a target. Sums wrap at 64 bits, the percentage is truncated to 32 bits, and the
  order in which Go visits a map is the order of the list; the results do not depend on it.
\<close>

record pod_metric =
  pmt_timestamp :: time
  pmt_window :: duration
  pmt_value :: i64

type_synonym pod_metrics_info = "(string, pod_metric) gomap"

text \<open>The literal \<open>PodMetric{Value: v}\<close>.\<close>

definition value_metric :: "i64 \<Rightarrow> pod_metric" where
  "value_metric v = \<lparr>pmt_timestamp = zero_time, pmt_window = 0, pmt_value = v\<rparr>"

lemma pmt_value_value_metric [simp]: "pmt_value (value_metric v) = v"
  by (simp add: value_metric_def)

fun resource_totals ::
  "(string, i64) gomap \<Rightarrow> pod_metrics_info \<Rightarrow> i64 \<times> i64 \<times> nat \<Rightarrow> i64 \<times> i64 \<times> nat" where
  "resource_totals requests [] acc = acc"
| "resource_totals requests ((podName, metric) # ms) (metricsTotal, requestsTotal, numEntries) =
     (case map_of requests podName of
        None \<Rightarrow> resource_totals requests ms (metricsTotal, requestsTotal, numEntries)
      | Some request \<Rightarrow> resource_totals requests ms
          (metricsTotal + pmt_value metric, requestsTotal + request, Suc numEntries))"

definition GetResourceUtilizationRatio ::
  "pod_metrics_info \<Rightarrow> (string, i64) gomap \<Rightarrow> i64 \<Rightarrow> (f64 \<times> i32 \<times> i64) outcome" where
  "GetResourceUtilizationRatio metrics requests targetUtilization =
     (let (metricsTotal, requestsTotal, numEntries) = resource_totals requests metrics (0, 0, 0) in
      if requestsTotal = 0 then Fail NoRequestMetrics
      else obind (div64 (metricsTotal * 100) requestsTotal) (\<lambda>u.
        let currentUtilization = i32_of_i64 u;
            utilizationRatio = f64_of_i32 currentUtilization / f64_of_i64 targetUtilization
        in obind (div64 metricsTotal (of_nat numEntries)) (\<lambda>rawAverageValue.
          Done (utilizationRatio, currentUtilization, rawAverageValue))))"

definition GetMetricUtilizationRatio :: "pod_metrics_info \<Rightarrow> i64 \<Rightarrow> (f64 \<times> i64) outcome" where
  "GetMetricUtilizationRatio metrics targetUtilization =
     (let metricsTotal = fold (\<lambda>(_, metric) total. total + pmt_value metric) metrics 0 in
      obind (div64 metricsTotal (of_nat (length metrics))) (\<lambda>currentUtilization.
        Done (f64_of_i64 currentUtilization / f64_of_i64 targetUtilization, currentUtilization)))"

section \<open>The totals as sums\<close>

definition requested :: "(string, i64) gomap \<Rightarrow> pod_metrics_info \<Rightarrow> pod_metrics_info" where
  "requested requests ms = filter (\<lambda>(n, _). map_of requests n \<noteq> None) ms"

lemma resource_totals_sums:
  "resource_totals requests ms (a, b, n) =
     (a + (\<Sum>(k, m)\<leftarrow>requested requests ms. pmt_value m),
      b + (\<Sum>(k, m)\<leftarrow>requested requests ms. the (map_of requests k)),
      n + length (requested requests ms))"
  by (induction requests ms "(a, b, n)" arbitrary: a b n rule: resource_totals.induct)
    (auto simp: requested_def split: option.splits)

lemma metric_total_sum:
  "fold (\<lambda>(_, metric) total. total + pmt_value metric) ms a = a + (\<Sum>(_, m)\<leftarrow>ms. pmt_value m)"
  by (induction ms arbitrary: a) (auto simp: algebra_simps)

lemma requested_empty_totals:
  "requested requests ms = [] \<Longrightarrow> resource_totals requests ms (0, 0, 0) = (0, 0, 0)"
  by (simp add: resource_totals_sums)

lemma sum_list_mset:
  "mset xs = mset ys \<Longrightarrow> sum_list (map f xs) = (sum_list (map f ys) :: 'a::comm_monoid_add)"
  by (metis mset_map sum_mset_sum_list)

lemma resource_totals_order:
  assumes "mset ms = mset ms'"
  shows "resource_totals requests ms (0, 0, 0) = resource_totals requests ms' (0, 0, 0)"
proof -
  have eq: "mset (requested requests ms) = mset (requested requests ms')"
    using assms by (simp add: requested_def)
  show ?thesis
    unfolding resource_totals_sums sum_list_mset [OF eq] mset_eq_length [OF eq] ..
qed

lemma resource_totals_count:
  assumes "resource_totals requests ms (0, 0, 0) = (mt, rt, n)" and "rt \<noteq> 0"
  shows "0 < n" "n \<le> length ms"
  using assms by (auto simp: resource_totals_sums requested_def)

lemma of_nat_i64_nonzero: "0 < n \<Longrightarrow> n < 2 ^ 63 \<Longrightarrow> (of_nat n :: i64) \<noteq> 0"
  by (auto simp: word_of_nat_eq_0_iff dest: dvd_imp_le)

section \<open>No division by zero, no dependence on the order\<close>

lemma panics_div64 [simp]: "panics (div64 a b) \<longleftrightarrow> b = 0"
  by (simp add: div64_def)

lemma resource_ratio_no_panic:
  assumes "length metrics < 2 ^ 63"
  shows "\<not> panics (GetResourceUtilizationRatio metrics requests target)"
proof -
  obtain mt rt n where t: "resource_totals requests metrics (0, 0, 0) = (mt, rt, n)"
    by (cases "resource_totals requests metrics (0, 0, 0)")
  have "(of_nat n :: i64) \<noteq> 0" if "rt \<noteq> 0"
    using resource_totals_count [OF t that] assms by (intro of_nat_i64_nonzero) simp_all
  then show ?thesis
    by (auto simp: GetResourceUtilizationRatio_def t panics_obind Let_def)
qed

lemma resource_ratio_order:
  assumes "mset ms = mset ms'"
  shows "GetResourceUtilizationRatio ms requests target = GetResourceUtilizationRatio ms' requests target"
  unfolding GetResourceUtilizationRatio_def resource_totals_order [OF assms] ..

lemma metric_ratio_order:
  assumes "mset ms = mset ms'"
  shows "GetMetricUtilizationRatio ms target = GetMetricUtilizationRatio ms' target"
  unfolding GetMetricUtilizationRatio_def metric_total_sum sum_list_mset [OF assms]
    mset_eq_length [OF assms] ..

lemma metric_ratio_panics_iff:
  assumes "length metrics < 2 ^ 63"
  shows "panics (GetMetricUtilizationRatio metrics target) \<longleftrightarrow> metrics = []"
proof -
  have "(of_nat (length metrics) :: i64) = 0 \<longleftrightarrow> metrics = []"
    using assms of_nat_i64_nonzero [of "length metrics"] by auto
  then show ?thesis by (simp add: GetMetricUtilizationRatio_def panics_obind Let_def)
qed

section \<open>Exactness on sums that fit\<close>

lemma metric_ratio_exact:
  assumes "metrics \<noteq> []" "length metrics < 2 ^ 63"
    and "\<forall>(_, m)\<in>set metrics. 0 \<le> sint (pmt_value m)"
    and "(\<Sum>(_, m)\<leftarrow>metrics. sint (pmt_value m)) < 2 ^ 53"
    and "0 < sint target" "sint target < 2 ^ 53"
  shows "\<exists>ratio u. GetMetricUtilizationRatio metrics target = Done (ratio, u)
      \<and> sint u = (\<Sum>(_, m)\<leftarrow>metrics. sint (pmt_value m)) div int (length metrics)
      \<and> (ratio < 1 \<longleftrightarrow> sint u < sint target) \<and> (1 < ratio \<longleftrightarrow> sint target < sint u)"
proof -
  define T where "T = (\<Sum>(_, m)\<leftarrow>metrics. sint (pmt_value m))"
  have sum: "sint (\<Sum>(_, m)\<leftarrow>metrics. pmt_value m) = T" "0 \<le> T"
    using sint_sum_list [of metrics "\<lambda>(_, m). pmt_value m"] assms(3,4)
      sum_list_nonneg [of "map (\<lambda>(_, m). sint (pmt_value m)) metrics"]
    by (auto simp: T_def case_prod_unfold)
  have len: "sint (of_nat (length metrics) :: i64) = int (length metrics)" "0 < length metrics"
    using sint_of_nat_i64 [of "length metrics"] assms(1,2) by simp_all
  define u :: i64 where "u = word_of_int (T div int (length metrics))"
  have d: "div64 (\<Sum>(_, m)\<leftarrow>metrics. pmt_value m) (of_nat (length metrics)) = Done u"
    "sint u = T div int (length metrics)"
    using div64_nonneg [of "\<Sum>(_, m)\<leftarrow>metrics. pmt_value m" "of_nat (length metrics)"]
      sum len by (simp_all add: u_def)
  have "T div int (length metrics) \<le> T" "0 \<le> T div int (length metrics)"
    using sum(2) len(2) by (simp_all add: int_div_bounds)
  then have b: "\<bar>sint u\<bar> \<le> 2 ^ 53" using assms(4) d(2) unfolding T_def by simp
  show ?thesis
    using quotient_less_one [OF b, of "sint target"] quotient_greater_one [OF b, of "sint target"] assms(5,6)
    by (simp add: GetMetricUtilizationRatio_def metric_total_sum d f64_of_i64_def T_def [symmetric])
qed

lemma resource_ratio_fits:
  assumes "length metrics < 2 ^ 63"
    and "\<forall>(_, m)\<in>set (requested requests metrics). 0 \<le> sint (pmt_value m)"
    and "\<forall>(k, _)\<in>set (requested requests metrics). 0 \<le> sint (the (map_of requests k))"
    and M: "M = (\<Sum>(_, m)\<leftarrow>requested requests metrics. sint (pmt_value m))" "M * 100 < 2 ^ 63"
    and R: "R = (\<Sum>(k, _)\<leftarrow>requested requests metrics. sint (the (map_of requests k)))"
      "0 < R" "R < 2 ^ 63"
    and "M * 100 div R < 2 ^ 31" "0 < sint target" "sint target < 2 ^ 53"
  shows "\<exists>ratio u raw. GetResourceUtilizationRatio metrics requests target = Done (ratio, u, raw)
      \<and> sint u = M * 100 div R
      \<and> (ratio < 1 \<longleftrightarrow> sint u < sint target) \<and> (1 < ratio \<longleftrightarrow> sint target < sint u)"
proof -
  let ?ms = "requested requests metrics"
  define mt rt where "mt = (\<Sum>(k, m)\<leftarrow>?ms. pmt_value m)" and "rt = (\<Sum>(k, m)\<leftarrow>?ms. the (map_of requests k))"
  have tot: "resource_totals requests metrics (0, 0, 0) = (mt, rt, length ?ms)"
    by (simp add: resource_totals_sums mt_def rt_def)
  have M0: "0 \<le> M" unfolding M(1) using assms(2) by (intro sum_list_nonneg) auto
  have mt: "sint mt = M"
    using sint_sum_list [of ?ms "\<lambda>(_, m). pmt_value m"] assms(2) M M0
    by (simp add: mt_def case_prod_unfold)
  have rt: "sint rt = R"
    using sint_sum_list [of ?ms "\<lambda>(k, _). the (map_of requests k)"] assms(3) R
    by (simp add: rt_def case_prod_unfold)
  have "mt * 100 = word_of_int (sint mt * 100)" by simp
  then have "mt * 100 = word_of_int (M * 100)" by (simp only: mt)
  then have m100: "sint (mt * 100) = M * 100"
    using sint_word_of_int_i64 [of "M * 100"] M M0 by simp
  have rt0: "rt \<noteq> 0" using rt R(2) by auto
  define u :: i64 where "u = word_of_int (M * 100 div R)"
  have d: "div64 (mt * 100) rt = Done u" "sint u = M * 100 div R"
    using div64_nonneg [of "mt * 100" rt] m100 rt M0 R(2) by (simp_all add: u_def)
  have u0: "0 \<le> M * 100 div R" using M0 R(2) by (simp add: pos_imp_zdiv_nonneg_iff)
  have u32: "sint (i32_of_i64 u) = M * 100 div R"
    unfolding i32_of_i64_def d(2) using u0 assms(9) by (intro sint_word_of_int_i32) simp_all
  obtain raw where raw: "div64 mt (of_nat (length ?ms)) = Done raw"
    using resource_ratio_no_panic [OF assms(1), of requests target] rt0
    by (auto simp: GetResourceUtilizationRatio_def tot d panics_obind div64_def Let_def split: if_splits)
  have b: "\<bar>M * 100 div R\<bar> \<le> 2 ^ 53" using u0 assms(9) by simp
  show ?thesis
    using quotient_less_one [OF b, of "sint target"] quotient_greater_one [OF b, of "sint target"]
      assms(10,11) rt0
    by (simp add: GetResourceUtilizationRatio_def tot d raw u32 f64_of_i64_def f64_of_i32_def Let_def)
qed

section \<open>The ratios\<close>

text \<open>
  C31: the order in which a map of pod metrics is visited has no influence on either ratio, on the
  utilization, on the average or on whether the call fails or panics, also when the sums wrap.
\<close>

theorem ratios_order:
  assumes "mset ms = mset ms'"
  shows "GetResourceUtilizationRatio ms requests target = GetResourceUtilizationRatio ms' requests target \<and>
    GetMetricUtilizationRatio ms target = GetMetricUtilizationRatio ms' target"
  using resource_ratio_order [OF assms] metric_ratio_order [OF assms] ..

theorem ratios_order_witness:
  "GetMetricUtilizationRatio [(''a'', value_metric 1), (''b'', value_metric 4)] 2 =
   GetMetricUtilizationRatio [(''b'', value_metric 4), (''a'', value_metric 1)] 2"
  using ratios_order [of "[(''a'', value_metric 1), (''b'', value_metric 4)]"
      "[(''b'', value_metric 4), (''a'', value_metric 1)]"] by simp

text \<open>
  C30: when the sums over the pods with requests fit their types, the utilization is the exact
  percentage of the total request, rounded down, and the ratio compares to 1 exactly as the
  utilization compares to the target.
\<close>

theorem resource_ratio_exact:
  assumes "length metrics < 2 ^ 63"
    and "\<forall>(_, m)\<in>set (requested requests metrics). 0 \<le> sint (pmt_value m)"
    and "\<forall>(k, _)\<in>set (requested requests metrics). 0 \<le> sint (the (map_of requests k))"
    and "M = (\<Sum>(_, m)\<leftarrow>requested requests metrics. sint (pmt_value m))" "M * 100 < 2 ^ 63"
    and "R = (\<Sum>(k, _)\<leftarrow>requested requests metrics. sint (the (map_of requests k)))" "0 < R" "R < 2 ^ 63"
    and "M * 100 div R < 2 ^ 31" "0 < sint target" "sint target < 2 ^ 53"
  shows "\<exists>ratio u raw. GetResourceUtilizationRatio metrics requests target = Done (ratio, u, raw)
      \<and> sint u = M * 100 div R
      \<and> (ratio < 1 \<longleftrightarrow> sint u < sint target) \<and> (1 < ratio \<longleftrightarrow> sint target < sint u)"
  using assms by (rule resource_ratio_fits)

theorem resource_ratio_exact_witness:
  "\<exists>ratio u raw. GetResourceUtilizationRatio [(''a'', value_metric 30), (''b'', value_metric 40)]
      [(''a'', 100), (''b'', 100)] 50 = Done (ratio, u, raw) \<and> sint u = 35 \<and> ratio < 1"
  using resource_ratio_exact [of "[(''a'', value_metric 30), (''b'', value_metric 40)]" "[(''a'', 100), (''b'', 100)]"
      70 200 50] by (auto simp: requested_def word_reads)

end
