(* ===== verification/Metrics_Client.thy ===== *)
theory Metrics_Client
  imports Utilization
begin

text \<open>
  \<open>pkg/zaohua/daofa/metrics/rest_metrics_client.go\<close>: the answers of the resource, custom and
  external metrics APIs turned into per-pod metrics, one value, or a list of values.
\<close>

section \<open>Resource metrics\<close>

fun find_container :: "string \<Rightarrow> container_usage list \<Rightarrow> container_usage option" where
  "find_container n [] = None"
| "find_container n (c # cs) = (if cu_name c = n then Some c else find_container n cs)"

text \<open>
  The inner loop stops at the first container of the name: it stores the pod's metric when the
  container reports the resource, and a pod without such a container fails the whole call.
\<close>

fun container_loop ::
  "string \<Rightarrow> string \<Rightarrow> raw_pod_metrics list \<Rightarrow> pod_metrics_info \<Rightarrow> pod_metrics_info outcome" where
  "container_loop resource containerName [] res = Done res"
| "container_loop resource containerName (m # ms) res =
     (case find_container containerName (rpm_containers m) of
        None \<Rightarrow> Fail (ContainerNotPresent containerName)
      | Some c \<Rightarrow>
          container_loop resource containerName ms
            (case map_of (cu_usage c) resource of
               None \<Rightarrow> res
             | Some val \<Rightarrow> AList.update (rpm_name m)
                 \<lparr>pmt_timestamp = rpm_timestamp m, pmt_window = rpm_window m, pmt_value = val\<rparr> res))"

definition getContainerMetrics ::
  "raw_pod_metrics list \<Rightarrow> string \<Rightarrow> string \<Rightarrow> pod_metrics_info outcome" where
  "getContainerMetrics rawMetrics resource containerName =
     container_loop resource containerName rawMetrics []"

text \<open>The sum over a pod's containers; None when a container lacks the resource (\<open>missing\<close>).\<close>

fun container_sum :: "string \<Rightarrow> container_usage list \<Rightarrow> i64 \<Rightarrow> i64 option" where
  "container_sum resource [] podSum = Some podSum"
| "container_sum resource (c # cs) podSum =
     (case map_of (cu_usage c) resource of
        None \<Rightarrow> None
      | Some resValue \<Rightarrow> container_sum resource cs (podSum + resValue))"

definition pod_sum :: "string \<Rightarrow> raw_pod_metrics \<Rightarrow> i64 option" where
  "pod_sum resource m =
     (if rpm_containers m = [] then None else container_sum resource (rpm_containers m) 0)"

fun pod_loop :: "string \<Rightarrow> raw_pod_metrics list \<Rightarrow> pod_metrics_info \<Rightarrow> pod_metrics_info" where
  "pod_loop resource [] res = res"
| "pod_loop resource (m # ms) res =
     pod_loop resource ms
       (case pod_sum resource m of
          None \<Rightarrow> res
        | Some podSum \<Rightarrow> AList.update (rpm_name m)
            \<lparr>pmt_timestamp = rpm_timestamp m, pmt_window = rpm_window m, pmt_value = podSum\<rparr> res)"

definition getPodMetrics :: "raw_pod_metrics list \<Rightarrow> string \<Rightarrow> pod_metrics_info" where
  "getPodMetrics rawMetrics resource = pod_loop resource rawMetrics []"

definition GetResouceMetric ::
  "'w env \<Rightarrow> string \<Rightarrow> string \<Rightarrow> selector \<Rightarrow> string \<Rightarrow> ('w, pod_metrics_info \<times> time) io" where
  "GetResouceMetric E resource namespace selector containerName =
     handle (call (e_podMetricses E namespace selector))
       (\<lambda>err. fail (FetchFailed err))
       (\<lambda>items. case items of
          [] \<Rightarrow> fail NoMetricsReturned
        | item0 # _ \<Rightarrow>
            if containerName \<noteq> [] then
              handle (lift_outcome (getContainerMetrics items resource containerName))
                (\<lambda>err. fail (ContainerMetricsFailed err))
                (\<lambda>res. ret (res, rpm_timestamp item0))
            else ret (getPodMetrics items resource, rpm_timestamp item0))"

section \<open>Custom metrics\<close>

fun raw_loop :: "raw_metric_value list \<Rightarrow> pod_metrics_info \<Rightarrow> pod_metrics_info" where
  "raw_loop [] res = res"
| "raw_loop (m # ms) res =
     (let window = (case rmv_windowSeconds m of
            None \<Rightarrow> MetricServerDefaultMetricWindow
          | Some s \<Rightarrow> s * second)
      in raw_loop ms (AList.update (rmv_objectName m)
           \<lparr>pmt_timestamp = rmv_timestamp m, pmt_window = window, pmt_value = rmv_value m\<rparr> res))"

text \<open>
  \<open>GetForObjects\<close> of the vendored custom metrics client: the version that the server prefers and
  the resource of the kind \<open>Pod\<close> are looked up first (\<open>e_podsMapping\<close>), and either may fail;
  then both selectors are printed into the request, where a nil selector panics.
\<close>

definition GetForObjects ::
  "'w env \<Rightarrow> string \<Rightarrow> selector \<Rightarrow> string \<Rightarrow> selector option \<Rightarrow> ('w, raw_metric_value list) io" where
  "GetForObjects E namespace selector metricName metricSelector =
     bnd (call (e_podsMapping E)) (\<lambda>resourceName.
     bnd (lift_outcome (deref metricSelector)) (\<lambda>labels.
     call (e_podsCustom E resourceName namespace selector metricName labels)))"

definition GetRawMetric ::
  "'w env \<Rightarrow> string \<Rightarrow> string \<Rightarrow> selector \<Rightarrow> selector option \<Rightarrow> ('w, pod_metrics_info \<times> time) io" where
  "GetRawMetric E metricName namespace selector metricSelector =
     handle (GetForObjects E namespace selector metricName metricSelector)
       (\<lambda>err. fail (FetchFailed err))
       (\<lambda>items. case items of
          [] \<Rightarrow> fail NoMetricsReturned
        | item0 # _ \<Rightarrow> ret (raw_loop items [], rmv_timestamp item0))"

text \<open>
  \<open>schema.FromAPIVersionAndKind\<close> of the Kubernetes libraries, over \<open>ParseGroupVersion\<close>: the
  group is what precedes the only slash, and a malformed version leaves the group empty.
\<close>

definition ParseGroupVersion :: "string \<Rightarrow> (string \<times> string) outcome" where
  "ParseGroupVersion gv =
     (if gv = [] \<or> gv = ''/'' then Done ([], [])
      else if count_list gv (CHR ''/'') = 0 then Done ([], gv)
      else if count_list gv (CHR ''/'') = 1 then
        Done (takeWhile (\<lambda>c. c \<noteq> CHR ''/'') gv, tl (dropWhile (\<lambda>c. c \<noteq> CHR ''/'') gv))
      else Fail (ParseError gv))"

definition FromAPIVersionAndKind :: "string \<Rightarrow> string \<Rightarrow> (string \<times> string \<times> string)" where
  "FromAPIVersionAndKind apiVersion kind =
     (case ParseGroupVersion apiVersion of
        Done (grp, version) \<Rightarrow> (grp, version, kind)
      | _ \<Rightarrow> ([], [], kind))"

definition GetObjectMetric ::
  "'w env \<Rightarrow> string \<Rightarrow> string \<Rightarrow> cross_version_object_reference \<Rightarrow> selector \<Rightarrow> ('w, i64 \<times> time) io" where
  "GetObjectMetric E metricName namespace objectRef metricSelector =
     (let (grp, version, kind) = FromAPIVersionAndKind (ref_apiVersion objectRef) (ref_kind objectRef) in
      handle
        (call (if kind = ''Namespace'' \<and> grp = []
               then e_rootCustom E (grp, kind) namespace metricName metricSelector
               else e_objectCustom E namespace (grp, kind) (ref_name objectRef) metricName metricSelector))
        (\<lambda>err. fail (FetchFailed err))
        (\<lambda>metricValue. ret (rmv_value metricValue, rmv_timestamp metricValue)))"

section \<open>External metrics\<close>

definition GetExternalMetric ::
  "'w env \<Rightarrow> string \<Rightarrow> string \<Rightarrow> selector \<Rightarrow> ('w, i64 list \<times> time) io" where
  "GetExternalMetric E metricName namespace selector =
     handle (call (e_external E namespace metricName selector))
       (\<lambda>err. fail (FetchFailed err))
       (\<lambda>items. case items of
          [] \<Rightarrow> fail NoMetricsReturned
        | item0 # _ \<Rightarrow> ret (map rmv_value items, rmv_timestamp item0))"

text \<open>A selector that the library turns into a selector of labels.\<close>

definition selector_parses :: "'w env \<Rightarrow> label_selector option \<Rightarrow> bool" where
  "selector_parses E s \<longleftrightarrow> (case e_asSelector E s of Inl _ \<Rightarrow> False | Inr _ \<Rightarrow> True)"

lemma selector_parsesE:
  assumes "selector_parses E s"
  obtains labels where "e_asSelector E s = Inr labels"
  using assms by (auto simp: selector_parses_def split: sum.splits)

lemma GetForObjects_Done:
  assumes "GetForObjects E ns sel name msel w = (Done items, w')"
  obtains resource labels w0 where "e_podsMapping E w = (Inr resource, w0)" "msel = Some labels"
    "e_podsCustom E resource ns sel name labels w0 = (Inr items, w')"
  using assms by (cases msel) (auto simp: GetForObjects_def go_simps split: prod.splits sum.splits)

section \<open>What the conversions return\<close>

lemma find_container_Some_iff:
  "find_container n cs \<noteq> None \<longleftrightarrow> (\<exists>c\<in>set cs. cu_name c = n)"
  by (induction cs) auto

lemma container_loop_Fail_iff:
  "(\<exists>e. container_loop r n ms res = Fail e) \<longleftrightarrow>
     (\<exists>m\<in>set ms. \<forall>c\<in>set (rpm_containers m). cu_name c \<noteq> n)"
  by (induction r n ms res rule: container_loop.induct)
    (auto simp: find_container_Some_iff [THEN arg_cong [where f = Not], simplified] split: option.splits
      dest: find_container_Some_iff [THEN iffD1, OF not_None_eq [THEN iffD2, OF exI]])

lemma container_loop_no_panic: "\<not> panics (container_loop r n ms res)"
  by (induction r n ms res rule: container_loop.induct) (auto split: option.splits)

lemma container_loop_ok: "gm_ok res \<Longrightarrow> container_loop r n ms res = Done res' \<Longrightarrow> gm_ok res'"
  by (induction r n ms res rule: container_loop.induct)
    (auto split: option.splits simp: gm.ok_put)

lemma container_sum_sum:
  "container_sum r cs s =
     (if \<forall>c\<in>set cs. map_of (cu_usage c) r \<noteq> None
      then Some (s + (\<Sum>c\<leftarrow>cs. the (map_of (cu_usage c) r))) else None)"
  by (induction r cs s rule: container_sum.induct) (auto split: option.splits simp: algebra_simps)

lemma pod_loop_ok: "gm_ok res \<Longrightarrow> gm_ok (pod_loop r ms res)"
  by (induction r ms res rule: pod_loop.induct) (auto split: option.splits simp: gm.ok_put)

text \<open>The last item of a name that has the resource decides the entry of that name.\<close>

lemma pod_loop_get:
  "map_of (pod_loop r ms res) k =
     (case filter (\<lambda>m. rpm_name m = k \<and> pod_sum r m \<noteq> None) ms of
        [] \<Rightarrow> map_of res k
      | m # ms' \<Rightarrow> (let m' = last (m # ms') in Some
          \<lparr>pmt_timestamp = rpm_timestamp m', pmt_window = rpm_window m', pmt_value = the (pod_sum r m')\<rparr>))"
  by (induction r ms res rule: pod_loop.induct)
    (auto simp: gm.get_put Let_def split: option.splits list.splits)

lemma raw_loop_ok: "gm_ok res \<Longrightarrow> gm_ok (raw_loop ms res)"
  by (induction ms res rule: raw_loop.induct) (auto simp: gm.ok_put Let_def)

lemma raw_loop_dom: "map_of (raw_loop ms res) k \<noteq> None \<longleftrightarrow> map_of res k \<noteq> None \<or> k \<in> rmv_objectName ` set ms"
  by (induction ms res rule: raw_loop.induct) (auto simp: gm.get_put Let_def)

lemma gm_ok_Nil [simp]: "gm_ok []"
  by (simp add: gm_ok_def)

lemma container_loop_not_Panic [simp]: "container_loop r n ms res \<noteq> Panic p"
  using container_loop_no_panic by (metis panics.simps(1))

lemma GetResouceMetric_no_panic: "\<not> panics (fst (GetResouceMetric E r ns s n w))"
  by (auto simp: GetResouceMetric_def getContainerMetrics_def go_simps simp del: container_loop.simps
      split: prod.splits outcome.splits list.splits sum.splits)

end
