(* ===== verification/Pod_Groups.thy ===== *)
theory Pod_Groups
  imports Utilization
begin

text \<open>
  The functions of \<open>replica_calculator.go\<close> that sort pods: \<open>groupPods\<close>, \<open>calculatePodRequests\<close>
  and \<open>getReadyPodsCount\<close>, with the condition look-up of the Kubernetes pod utilities. A
  \<open>sets.String\<close> is a list without repetition.
\<close>

section \<open>Pod conditions\<close>

fun GetPodCondition :: "pod_condition list \<Rightarrow> string \<Rightarrow> pod_condition option" where
  "GetPodCondition [] conditionType = None"
| "GetPodCondition (c # cs) conditionType =
     (if pc_type c = conditionType then Some c else GetPodCondition cs conditionType)"

definition IsPodReady :: "pod \<Rightarrow> bool" where
  "IsPodReady p = (case GetPodCondition (pod_conditions p) PodReady of
      None \<Rightarrow> False | Some c \<Rightarrow> pc_status c = ConditionTrue)"

section \<open>Grouping\<close>

record pod_groups =
  gp_readyPodCount :: nat
  gp_unreadyPods :: "string list"
  gp_missingPods :: "string list"
  gp_ignoredPods :: "string list"

definition no_groups :: pod_groups where
  "no_groups = \<lparr>gp_readyPodCount = 0, gp_unreadyPods = [], gp_missingPods = [], gp_ignoredPods = []\<rparr>"

text \<open>The test for CPU metrics: the readiness condition against the start of the pod.\<close>

definition cpu_unready ::
  "'w env \<Rightarrow> duration \<Rightarrow> duration \<Rightarrow> pod \<Rightarrow> pod_metric \<Rightarrow> ('w, bool) io" where
  "cpu_unready E cpuInitializationPeriod delayOfInitialReadinessStatus p metric =
     (case (GetPodCondition (pod_conditions p) PodReady, pod_startTime p) of
        (Some condition, Some startTime) \<Rightarrow>
          bnd (now E) (\<lambda>t.
            if add_dur startTime cpuInitializationPeriod > t then
              ret (pc_status condition = ConditionFalse \<or>
                   pmt_timestamp metric < add_dur (pc_lastTransitionTime condition) (pmt_window metric))
            else
              ret (pc_status condition = ConditionFalse \<and>
                   add_dur startTime delayOfInitialReadinessStatus > pc_lastTransitionTime condition))
      | _ \<Rightarrow> ret True)"

fun group_loop ::
  "'w env \<Rightarrow> pod_metrics_info \<Rightarrow> string \<Rightarrow> duration \<Rightarrow> duration \<Rightarrow> pod list \<Rightarrow> pod_groups
   \<Rightarrow> ('w, pod_groups) io" where
  "group_loop E metrics resource cip delay [] g = ret g"
| "group_loop E metrics resource cip delay (p # ps) g =
     (if pod_deletionTimestamp p \<noteq> None \<or> pod_phase p \<noteq> PodFailed then
        group_loop E metrics resource cip delay ps
          (g\<lparr>gp_ignoredPods := List.insert (pod_name p) (gp_ignoredPods g)\<rparr>)
      else if pod_phase p = PodPending then
        group_loop E metrics resource cip delay ps
          (g\<lparr>gp_unreadyPods := List.insert (pod_name p) (gp_unreadyPods g)\<rparr>)
      else case map_of metrics (pod_name p) of
        None \<Rightarrow> group_loop E metrics resource cip delay ps
          (g\<lparr>gp_missingPods := List.insert (pod_name p) (gp_missingPods g)\<rparr>)
      | Some metric \<Rightarrow>
          bnd (if resource = ResourceCPU then cpu_unready E cip delay p metric else ret False) (\<lambda>unready.
            if unready then group_loop E metrics resource cip delay ps
              (g\<lparr>gp_unreadyPods := List.insert (pod_name p) (gp_unreadyPods g)\<rparr>)
            else group_loop E metrics resource cip delay ps
              (g\<lparr>gp_readyPodCount := Suc (gp_readyPodCount g)\<rparr>)))"

definition groupPods ::
  "'w env \<Rightarrow> pod list \<Rightarrow> pod_metrics_info \<Rightarrow> string \<Rightarrow> duration \<Rightarrow> duration \<Rightarrow> ('w, pod_groups) io" where
  "groupPods E podList metrics resource cpuInitializationPeriod delayOfInitialReadinessStatus =
     group_loop E metrics resource cpuInitializationPeriod delayOfInitialReadinessStatus podList no_groups"

section \<open>Requests\<close>

fun request_sum :: "string \<Rightarrow> string \<Rightarrow> pod_container list \<Rightarrow> i64 \<Rightarrow> i64 outcome" where
  "request_sum container resource [] podSum = Done podSum"
| "request_sum container resource (c # cs) podSum =
     (if container = [] \<or> container = pct_name c then
        request_sum container resource cs
          (case map_of (pct_requests c) resource of
             None \<Rightarrow> podSum | Some containerRequest \<Rightarrow> podSum + containerRequest)
      else Fail MissingRequest)"

fun request_loop ::
  "string \<Rightarrow> string \<Rightarrow> pod list \<Rightarrow> (string, i64) gomap \<Rightarrow> (string, i64) gomap outcome" where
  "request_loop container resource [] requests = Done requests"
| "request_loop container resource (p # ps) requests =
     obind (request_sum container resource (pod_containers p) 0) (\<lambda>podSum.
       request_loop container resource ps (AList.update (pod_name p) podSum requests))"

definition calculatePodRequests ::
  "pod list \<Rightarrow> string \<Rightarrow> string \<Rightarrow> (string, i64) gomap outcome" where
  "calculatePodRequests podList container resource = request_loop container resource podList []"

section \<open>Ready pods\<close>

definition getReadyPodsCount :: "'w env \<Rightarrow> string \<Rightarrow> selector \<Rightarrow> ('w, i32) io" where
  "getReadyPodsCount E namespace podSelector =
     bnd (call (e_listPods E namespace podSelector)) (\<lambda>items.
       if items = [] then fail NoPodsForSelector
       else ret (fold (\<lambda>p n. if pod_phase p = PodRunning \<and> IsPodReady p then n + 1 else n) items 0))"

section \<open>What grouping computes\<close>

text \<open>The pods that pass the first test: those that failed and are not being deleted.\<close>

definition considered :: "pod \<Rightarrow> bool" where
  "considered p \<longleftrightarrow> pod_deletionTimestamp p = None \<and> pod_phase p = PodFailed"

lemma cpu_unready_total: "\<exists>b. fst (cpu_unready E cip delay p m w) = Done b"
  by (auto simp: cpu_unready_def go_simps split: option.splits)

lemma cpu_unready_DoneE:
  obtains b w' where "cpu_unready E cip delay p m w = (Done b, w')"
  using cpu_unready_total by (metis prod.collapse)

text \<open>
  Every pod lands in exactly one group. The statement is for any accumulated groups, so that it
  can be proved by induction on the pods.
\<close>

definition group_step :: "'w env \<Rightarrow> pod_metrics_info \<Rightarrow> string \<Rightarrow> duration \<Rightarrow> duration \<Rightarrow> pod
    \<Rightarrow> 'w \<Rightarrow> (pod_groups \<Rightarrow> pod_groups) \<times> 'w" where
  "group_step E metrics resource cip delay p w =
     (if \<not> considered p then
        (\<lambda>g. g\<lparr>gp_ignoredPods := List.insert (pod_name p) (gp_ignoredPods g)\<rparr>, w)
      else case map_of metrics (pod_name p) of
        None \<Rightarrow> (\<lambda>g. g\<lparr>gp_missingPods := List.insert (pod_name p) (gp_missingPods g)\<rparr>, w)
      | Some metric \<Rightarrow>
          (case (if resource = ResourceCPU then cpu_unready E cip delay p metric else ret False) w of
             (Done True, w') \<Rightarrow>
               (\<lambda>g. g\<lparr>gp_unreadyPods := List.insert (pod_name p) (gp_unreadyPods g)\<rparr>, w')
           | (_, w') \<Rightarrow> (\<lambda>g. g\<lparr>gp_readyPodCount := Suc (gp_readyPodCount g)\<rparr>, w')))"

lemma group_loop_step:
  "group_loop E metrics resource cip delay (p # ps) g w =
     (case group_step E metrics resource cip delay p w of
        (f, w') \<Rightarrow> group_loop E metrics resource cip delay ps (f g) w')"
proof (cases "considered p")
  case True
  then have ph: "pod_phase p \<noteq> PodPending" by (simp add: considered_def)
  show ?thesis
  proof (cases "map_of metrics (pod_name p)")
    case None
    then show ?thesis using True by (simp add: group_step_def considered_def)
  next
    case (Some metric)
    obtain b w' where "cpu_unready E cip delay p metric w = (Done b, w')"
      by (rule cpu_unready_DoneE)
    then show ?thesis using True Some
      by (cases b) (auto simp: group_step_def considered_def go_simps)
  qed
qed (auto simp: group_step_def considered_def)

declare group_loop.simps(2) [simp del]

lemma group_loop_total: "\<exists>g' w'. group_loop E metrics resource cip delay ps g w = (Done g', w')"
proof (induction ps arbitrary: g w)
  case (Cons p ps)
  then show ?case by (cases "group_step E metrics resource cip delay p w") (simp add: group_loop_step)
qed (simp add: go_simps)

lemma group_loop_induct:
  assumes run: "group_loop E metrics resource cip delay ps g w = (Done g', w')"
    and init: "P [] g"
    and step: "\<And>done p g w f w'. P done g \<Longrightarrow> p \<in> set ps \<Longrightarrow>
      group_step E metrics resource cip delay p w = (f, w') \<Longrightarrow> P (done @ [p]) (f g)"
  shows "P ps g'"
proof -
  have "P (done @ qs) g'" if "P done g" "group_loop E metrics resource cip delay qs g w = (Done g', w')"
    "set qs \<subseteq> set ps" for "done" qs g w
    using that
  proof (induction qs arbitrary: "done" g w)
    case Nil
    then show ?case by (simp add: go_simps)
  next
    case (Cons q qs)
    obtain f w1 where s: "group_step E metrics resource cip delay q w = (f, w1)"
      by (cases "group_step E metrics resource cip delay q w")
    have "P (done @ [q]) (f g)" using Cons.prems s by (intro step) simp_all
    moreover have "group_loop E metrics resource cip delay qs (f g) w1 = (Done g', w')"
      using Cons.prems(2) s by (simp only: group_loop_step prod.case)
    ultimately have "P ((done @ [q]) @ qs) g'" using Cons.prems(3) by (intro Cons.IH) simp_all
    then show ?case by simp
  qed
  from this [of "[]" g ps w] init run show ?thesis by simp
qed

text \<open>The four possible effects of one pod.\<close>

lemma group_step_cases:
  assumes "group_step E metrics resource cip delay p w = (f, w')"
  obtains (ignored) "\<not> considered p"
      "f = (\<lambda>g. g\<lparr>gp_ignoredPods := List.insert (pod_name p) (gp_ignoredPods g)\<rparr>)"
    | (missing) "considered p" "map_of metrics (pod_name p) = None"
      "f = (\<lambda>g. g\<lparr>gp_missingPods := List.insert (pod_name p) (gp_missingPods g)\<rparr>)"
    | (unready) "considered p" "map_of metrics (pod_name p) \<noteq> None" "resource = ResourceCPU"
      "f = (\<lambda>g. g\<lparr>gp_unreadyPods := List.insert (pod_name p) (gp_unreadyPods g)\<rparr>)"
    | (ready) "considered p" "map_of metrics (pod_name p) \<noteq> None"
      "f = (\<lambda>g. g\<lparr>gp_readyPodCount := Suc (gp_readyPodCount g)\<rparr>)"
proof (cases "considered p")
  case False
  then show thesis using assms ignored by (simp add: group_step_def)
next
  case c: True
  show thesis
  proof (cases "map_of metrics (pod_name p)")
    case None
    then show thesis using assms c missing by (simp add: group_step_def)
  next
    case (Some metric)
    show thesis
    proof (cases "resource = ResourceCPU")
      case False
      then show thesis using assms c Some ready by (simp add: group_step_def go_simps)
    next
      case True
      obtain b w1 where "cpu_unready E cip delay p metric w = (Done b, w1)"
        by (rule cpu_unready_DoneE)
      then show thesis using assms c Some True ready unready
        by (cases b) (simp_all add: group_step_def)
    qed
  qed
qed

text \<open>The invariant of the loop, over the pods visited so far.\<close>

definition groups_of :: "pod_metrics_info \<Rightarrow> string \<Rightarrow> pod list \<Rightarrow> pod_groups \<Rightarrow> bool" where
  "groups_of metrics resource ps g \<longleftrightarrow>
     set (gp_ignoredPods g) = pod_name ` {p \<in> set ps. \<not> considered p}
   \<and> set (gp_missingPods g) =
       pod_name ` {p \<in> set ps. considered p \<and> map_of metrics (pod_name p) = None}
   \<and> set (gp_unreadyPods g) \<subseteq>
       pod_name ` {p \<in> set ps. considered p \<and> map_of metrics (pod_name p) \<noteq> None}
   \<and> (resource \<noteq> ResourceCPU \<longrightarrow> gp_unreadyPods g = [])
   \<and> gp_readyPodCount g \<le> length (filter considered ps)
   \<and> distinct (gp_ignoredPods g) \<and> distinct (gp_missingPods g) \<and> distinct (gp_unreadyPods g)
   \<and> (distinct (map pod_name ps) \<longrightarrow>
        gp_readyPodCount g + length (gp_unreadyPods g) =
          length (filter (\<lambda>p. considered p \<and> map_of metrics (pod_name p) \<noteq> None) ps))"

lemma groups_of_step:
  assumes "groups_of metrics resource qs g" "group_step E metrics resource cip delay p w = (f, w')"
  shows "groups_of metrics resource (qs @ [p]) (f g)"
  using assms(2)
proof (cases rule: group_step_cases)
  case ignored
  then show ?thesis using assms(1) by (auto simp: groups_of_def)
next
  case missing
  then show ?thesis using assms(1) by (auto simp: groups_of_def)
next
  case unready
  have "pod_name p \<notin> set (gp_unreadyPods g)" if "distinct (map pod_name (qs @ [p]))"
    using that assms(1) by (auto simp: groups_of_def)
  then show ?thesis using unready assms(1) by (auto simp: groups_of_def)
next
  case ready
  then show ?thesis using assms(1) by (auto simp: groups_of_def)
qed

lemma groupPods_spec:
  assumes "groupPods E ps metrics resource cip delay w = (Done g, w')"
  shows "groups_of metrics resource ps g"
proof (rule group_loop_induct [where P = "groups_of metrics resource"])
  show "group_loop E metrics resource cip delay ps no_groups w = (Done g, w')"
    using assms by (simp add: groupPods_def)
  show "groups_of metrics resource [] no_groups" by (simp add: groups_of_def no_groups_def)
qed (rule groups_of_step)

lemma groupPods_total:
  obtains g w' where "groupPods E ps metrics resource cip delay w = (Done g, w')"
  using group_loop_total by (metis groupPods_def)

text \<open>A workload none of whose pods has failed: every pod is ignored.\<close>

lemma groupPods_healthy:
  assumes "groupPods E ps metrics resource cip delay w = (Done g, w')" "\<forall>p\<in>set ps. pod_phase p \<noteq> PodFailed"
  shows "gp_readyPodCount g = 0" "gp_missingPods g = []" "gp_unreadyPods g = []"
    "set (gp_ignoredPods g) = pod_name ` set ps"
proof -
  have c: "\<forall>p\<in>set ps. \<not> considered p" using assms(2) by (simp add: considered_def)
  have g: "groups_of metrics resource ps g" using assms(1) by (rule groupPods_spec)
  have e: "{p \<in> set ps. considered p \<and> Q p} = {}" for Q using c by auto
  show "gp_missingPods g = []" "gp_unreadyPods g = []" using g by (simp_all add: groups_of_def e)
  show "set (gp_ignoredPods g) = pod_name ` set ps"
    using g c by (auto simp: groups_of_def)
  have "filter considered ps = []" using c by (simp add: filter_empty_conv)
  then show "gp_readyPodCount g = 0" using g by (simp add: groups_of_def)
qed

section \<open>What the requests are\<close>

lemma request_sum_eq:
  "request_sum container resource cs s =
     (if \<forall>c\<in>set cs. container = [] \<or> container = pct_name c
      then Done (s + (\<Sum>c\<leftarrow>cs. case map_of (pct_requests c) resource of None \<Rightarrow> 0 | Some q \<Rightarrow> q))
      else Fail MissingRequest)"
  by (induction container resource cs s rule: request_sum.induct)
    (auto simp: algebra_simps split: option.splits)

definition selectable :: "string \<Rightarrow> pod \<Rightarrow> bool" where
  "selectable container p \<longleftrightarrow> (\<forall>c\<in>set (pod_containers p). container = [] \<or> container = pct_name c)"

lemma request_loop_ok: "gm_ok rq \<Longrightarrow> request_loop c r ps rq = Done rq' \<Longrightarrow> gm_ok rq'"
  by (induction c r ps rq rule: request_loop.induct) (auto simp: obind_eq_Done gm.ok_put)

lemma request_loop_outcome:
  "request_loop c r ps rq =
     (if \<forall>p\<in>set ps. selectable c p
      then Done (fold (\<lambda>p. AList.update (pod_name p)
        (\<Sum>x\<leftarrow>pod_containers p. case map_of (pct_requests x) r of None \<Rightarrow> 0 | Some q \<Rightarrow> q)) ps rq)
      else Fail MissingRequest)"
  by (induction c r ps rq rule: request_loop.induct)
    (auto simp: request_sum_eq selectable_def)

lemma fold_update_dom:
  "map_of (fold (\<lambda>p. AList.update (nm p) (v p)) ps rq) k \<noteq> None \<longleftrightarrow>
     k \<in> nm ` set ps \<or> map_of rq k \<noteq> None"
  by (induction ps arbitrary: rq) (auto simp: gm.get_put)

lemma fold_update_get:
  "distinct (map nm ps) \<Longrightarrow> p \<in> set ps \<Longrightarrow>
     map_of (fold (\<lambda>p. AList.update (nm p) (v p)) ps rq) (nm p) = Some (v p)"
proof (induction ps arbitrary: rq)
  case (Cons q qs)
  show ?case
  proof (cases "p \<in> set qs")
    case False
    then have "p = q" "nm q \<notin> nm ` set qs" using Cons.prems by auto
    moreover have "map_of (fold (\<lambda>p. AList.update (nm p) (v p)) qs r) k = map_of r k"
      if "k \<notin> nm ` set qs" for r k
      using that by (induction qs arbitrary: r) (auto simp: gm.get_put)
    ultimately show ?thesis by (simp add: gm.get_put)
  qed (use Cons in simp)
qed simp

lemma requests_dom:
  assumes "calculatePodRequests ps container r = Done rq"
  shows "map_of rq k \<noteq> None \<longleftrightarrow> k \<in> pod_name ` set ps"
proof -
  obtain v where "rq = fold (\<lambda>p. AList.update (pod_name p) (v p)) ps []"
    using assms by (auto simp: calculatePodRequests_def request_loop_outcome split: if_splits)
  then show ?thesis by (simp only: fold_update_dom) simp
qed

section \<open>The partition\<close>

lemma groups_of_counts:
  assumes "groups_of metrics resource ps g" "distinct (map pod_name ps)"
  shows "gp_readyPodCount g + length (gp_unreadyPods g) + length (gp_missingPods g)
           + length (gp_ignoredPods g) = length ps"
proof -
  have dn: "distinct (filter Q ps)" "inj_on pod_name (set (filter Q ps))" for Q
    using assms(2) by (auto simp: distinct_map intro: inj_on_subset)
  have card_of: "length xs = length (filter Q ps)"
    if "distinct xs" "set xs = pod_name ` set (filter Q ps)" for xs and Q :: "pod \<Rightarrow> bool"
    using that dn [of Q] by (metis card_image distinct_card)
  have i: "length (gp_ignoredPods g) = length (filter (\<lambda>p. \<not> considered p) ps)"
    using assms(1) by (intro card_of) (auto simp: groups_of_def)
  have m: "length (gp_missingPods g) =
      length (filter (\<lambda>p. considered p \<and> map_of metrics (pod_name p) = None) ps)"
    using assms(1) by (intro card_of) (auto simp: groups_of_def)
  have r: "gp_readyPodCount g + length (gp_unreadyPods g) =
      length (filter (\<lambda>p. considered p \<and> map_of metrics (pod_name p) \<noteq> None) ps)"
    using assms by (simp add: groups_of_def)
  have "length (filter (\<lambda>p. considered p \<and> map_of metrics (pod_name p) \<noteq> None) ps)
      + length (filter (\<lambda>p. considered p \<and> map_of metrics (pod_name p) = None) ps)
      + length (filter (\<lambda>p. \<not> considered p) ps) = length ps"
    by (induction ps) auto
  then show ?thesis using i m r by linarith
qed

section \<open>Which pods are unready\<close>

text \<open>
  What makes a pod with a CPU metric unready at an instant: it has no readiness condition or no
  start time; or it is in the initialisation period and reports not to be ready, or its metric was
  taken before a whole window had passed since its readiness changed; or it is past that period,
  reports not to be ready, and its readiness last changed before the initial delay had passed.
\<close>

definition unready_at :: "duration \<Rightarrow> duration \<Rightarrow> time \<Rightarrow> pod \<Rightarrow> pod_metric \<Rightarrow> bool" where
  "unready_at cip delay t p metric \<longleftrightarrow>
     GetPodCondition (pod_conditions p) PodReady = None \<or> pod_startTime p = None \<or>
     (\<exists>condition start. GetPodCondition (pod_conditions p) PodReady = Some condition \<and> pod_startTime p = Some start \<and>
        (t < add_dur start cip \<and>
           (pc_status condition = ConditionFalse \<or>
            pmt_timestamp metric < add_dur (pc_lastTransitionTime condition) (pmt_window metric)) \<or>
         add_dur start cip \<le> t \<and>
           pc_status condition = ConditionFalse \<and> pc_lastTransitionTime condition < add_dur start delay))"

lemma cpu_unready_at:
  "fst (cpu_unready E cip delay p m w) = Done (unready_at cip delay (fst (e_now E w)) p m)"
  by (auto simp: cpu_unready_def unready_at_def go_simps split: option.splits)

text \<open>The pods counted as unready for a resource, each at an instant of its own.\<close>

definition judged_unready ::
  "pod_metrics_info \<Rightarrow> string \<Rightarrow> duration \<Rightarrow> duration \<Rightarrow> (pod \<Rightarrow> time) \<Rightarrow> pod \<Rightarrow> bool" where
  "judged_unready metrics resource cip delay clock p \<longleftrightarrow> resource = ResourceCPU \<and>
     (case map_of metrics (pod_name p) of None \<Rightarrow> False | Some metric \<Rightarrow> unready_at cip delay (clock p) p metric)"

lemma group_step_judged:
  assumes "group_step E metrics resource cip delay p w = (f, w')" "considered p" "map_of metrics (pod_name p) \<noteq> None"
    and "clock p = fst (e_now E w)"
  shows "f = (if judged_unready metrics resource cip delay clock p
    then (\<lambda>g. g\<lparr>gp_unreadyPods := List.insert (pod_name p) (gp_unreadyPods g)\<rparr>)
    else (\<lambda>g. g\<lparr>gp_readyPodCount := Suc (gp_readyPodCount g)\<rparr>))"
proof -
  obtain metric where m: "map_of metrics (pod_name p) = Some metric" using assms(3) by blast
  obtain b w1 where b: "cpu_unready E cip delay p metric w = (Done b, w1)" by (rule cpu_unready_DoneE)
  then have "b = unready_at cip delay (fst (e_now E w)) p metric"
    using cpu_unready_at [of E cip delay p metric w] by simp
  then show ?thesis
    using assms m b by (cases b; cases "resource = ResourceCPU") (simp_all add: group_step_def judged_unready_def go_simps)
qed

text \<open>The unready pods and the number of ready ones, over the pods visited so far.\<close>

definition judged_groups ::
  "'w env \<Rightarrow> pod_metrics_info \<Rightarrow> string \<Rightarrow> duration \<Rightarrow> duration \<Rightarrow> pod list \<Rightarrow> pod_groups \<Rightarrow> (pod \<Rightarrow> time) \<Rightarrow> bool" where
  "judged_groups E metrics resource cip delay ps g clock \<longleftrightarrow>
     (\<forall>p. \<exists>w. clock p = fst (e_now E w)) \<and>
     set (gp_unreadyPods g) = pod_name ` {p \<in> set ps. considered p \<and> judged_unready metrics resource cip delay clock p} \<and>
     gp_readyPodCount g = length (filter (\<lambda>p. considered p \<and> map_of metrics (pod_name p) \<noteq> None \<and>
       \<not> judged_unready metrics resource cip delay clock p) ps)"

lemma judged_cong:
  "(\<And>p. p \<in> set ps \<Longrightarrow> clock p = clock' p) \<Longrightarrow> (\<And>p. \<exists>w. clock' p = fst (e_now E w)) \<Longrightarrow>
     judged_groups E metrics resource cip delay ps g clock \<Longrightarrow> judged_groups E metrics resource cip delay ps g clock'"
  unfolding judged_groups_def judged_unready_def
  by (auto cong: filter_cong image_cong conj_cong option.case_cong)

lemma judged_step:
  assumes "judged_groups E metrics resource cip delay qs g clock" "distinct (map pod_name (qs @ [p]))"
    and step: "group_step E metrics resource cip delay p w = (f, w')"
  shows "judged_groups E metrics resource cip delay (qs @ [p]) (f g) (clock(p := fst (e_now E w)))"
proof -
  let ?clock = "clock(p := fst (e_now E w))"
  have "p \<notin> set qs" using assms(2) by auto
  then have old: "judged_groups E metrics resource cip delay qs g ?clock"
    using assms(1) by (intro judged_cong [OF _ _ assms(1)]) (auto simp: judged_groups_def)
  show ?thesis
  proof (cases "considered p \<and> map_of metrics (pod_name p) \<noteq> None")
    case True
    then have "f = (if judged_unready metrics resource cip delay ?clock p
      then (\<lambda>g. g\<lparr>gp_unreadyPods := List.insert (pod_name p) (gp_unreadyPods g)\<rparr>)
      else (\<lambda>g. g\<lparr>gp_readyPodCount := Suc (gp_readyPodCount g)\<rparr>))"
      by (intro group_step_judged [OF step]) simp_all
    then show ?thesis using old True by (auto simp: judged_groups_def)
  next
    case False
    have "gp_unreadyPods (f g) = gp_unreadyPods g \<and> gp_readyPodCount (f g) = gp_readyPodCount g"
      using step False by (cases rule: group_step_cases) simp_all
    moreover have "\<not> (considered p \<and> judged_unready metrics resource cip delay ?clock p)"
      using False by (auto simp: judged_unready_def)
    ultimately show ?thesis using old False by (auto simp: judged_groups_def)
  qed
qed

lemma groupPods_judged:
  assumes "groupPods E ps metrics resource cip delay w = (Done g, w')" "distinct (map pod_name ps)"
  shows "\<exists>clock. judged_groups E metrics resource cip delay ps g clock"
proof -
  have "distinct (map pod_name ps) \<longrightarrow> (\<exists>clock. judged_groups E metrics resource cip delay ps g clock)"
  proof (rule group_loop_induct [OF assms(1) [unfolded groupPods_def]])
    show "distinct (map pod_name []) \<longrightarrow> (\<exists>clock. judged_groups E metrics resource cip delay [] no_groups clock)"
      by (auto simp: judged_groups_def no_groups_def intro!: exI [of _ "\<lambda>_. fst (e_now E w)"])
    show "distinct (map pod_name (qs @ [p])) \<longrightarrow>
        (\<exists>clock. judged_groups E metrics resource cip delay (qs @ [p]) (f g) clock)"
      if earlier: "distinct (map pod_name qs) \<longrightarrow> (\<exists>clock. judged_groups E metrics resource cip delay qs g clock)"
        and step: "group_step E metrics resource cip delay p w = (f, w')" for qs p g w f w'
    proof
      assume d: "distinct (map pod_name (qs @ [p]))"
      then have "distinct (map pod_name qs)" by simp
      then obtain clock where "judged_groups E metrics resource cip delay qs g clock" using earlier by blast
      then show "\<exists>clock. judged_groups E metrics resource cip delay (qs @ [p]) (f g) clock"
        using judged_step [OF _ d step] by blast
    qed
  qed
  then show ?thesis using assms(2) by blast
qed

text \<open>
  C13: grouping pods with distinct names always returns and puts every pod in one group: the
  ignored ones are being deleted or have not failed (the test of the code), the missing ones are
  not ignored and have no metric, the unready ones have a metric of the CPU and satisfy the
  conditions above at an instant that the clock gave while they were visited, and the others are
  counted as ready; the sizes of the groups add up to the number of pods.
\<close>

theorem groupPods_partition:
  assumes "distinct (map pod_name ps)"
  shows "\<exists>g w' clock. groupPods E ps metrics resource cip delay w = (Done g, w')
    \<and> (\<forall>p. \<exists>w1. clock p = fst (e_now E w1))
    \<and> set (gp_ignoredPods g) =
        pod_name ` {p \<in> set ps. pod_deletionTimestamp p \<noteq> None \<or> pod_phase p \<noteq> PodFailed}
    \<and> set (gp_missingPods g) =
        pod_name ` {p \<in> set ps. pod_deletionTimestamp p = None \<and> pod_phase p = PodFailed
                              \<and> map_of metrics (pod_name p) = None}
    \<and> set (gp_unreadyPods g) =
        pod_name ` {p \<in> set ps. pod_deletionTimestamp p = None \<and> pod_phase p = PodFailed \<and> resource = ResourceCPU
                              \<and> (\<exists>metric. map_of metrics (pod_name p) = Some metric
                                   \<and> unready_at cip delay (clock p) p metric)}
    \<and> gp_readyPodCount g =
        card {p \<in> set ps. pod_deletionTimestamp p = None \<and> pod_phase p = PodFailed
                        \<and> (\<exists>metric. map_of metrics (pod_name p) = Some metric
                             \<and> (resource = ResourceCPU \<longrightarrow> \<not> unready_at cip delay (clock p) p metric))}
    \<and> gp_readyPodCount g + length (gp_unreadyPods g) + length (gp_missingPods g)
        + length (gp_ignoredPods g) = length ps"
proof -
  obtain g w' where g: "groupPods E ps metrics resource cip delay w = (Done g, w')"
    by (rule groupPods_total)
  have spec: "groups_of metrics resource ps g" using g by (rule groupPods_spec)
  obtain clock where j: "judged_groups E metrics resource cip delay ps g clock"
    using groupPods_judged [OF g assms] by blast
  have judged: "judged_unready metrics resource cip delay clock p \<longleftrightarrow> resource = ResourceCPU \<and>
      (\<exists>metric. map_of metrics (pod_name p) = Some metric \<and> unready_at cip delay (clock p) p metric)" for p
    by (auto simp: judged_unready_def split: option.splits)
  have ready: "(considered p \<and> map_of metrics (pod_name p) \<noteq> None \<and> \<not> judged_unready metrics resource cip delay clock p)
      \<longleftrightarrow> pod_deletionTimestamp p = None \<and> pod_phase p = PodFailed \<and>
      (\<exists>metric. map_of metrics (pod_name p) = Some metric \<and>
        (resource = ResourceCPU \<longrightarrow> \<not> unready_at cip delay (clock p) p metric))" for p
    by (auto simp: judged considered_def)
  have "gp_readyPodCount g = card {p \<in> set ps. pod_deletionTimestamp p = None \<and> pod_phase p = PodFailed \<and>
      (\<exists>metric. map_of metrics (pod_name p) = Some metric \<and>
        (resource = ResourceCPU \<longrightarrow> \<not> unready_at cip delay (clock p) p metric))}"
    using j assms unfolding judged_groups_def ready
    by (simp add: distinct_map distinct_card [symmetric] flip: set_filter)
  moreover have "set (gp_unreadyPods g) = pod_name ` {p \<in> set ps. pod_deletionTimestamp p = None \<and>
      pod_phase p = PodFailed \<and> resource = ResourceCPU \<and>
      (\<exists>metric. map_of metrics (pod_name p) = Some metric \<and> unready_at cip delay (clock p) p metric)}"
    using j unfolding judged_groups_def judged by (auto simp: considered_def)
  ultimately show ?thesis
    using g j spec groups_of_counts [OF spec assms] unfolding judged_groups_def
    by (intro exI [of _ g] exI [of _ w'] exI [of _ clock]) (auto simp: groups_of_def considered_def)
qed

text \<open>A failed pod that reports to be ready in its initialisation period, with a metric that is too early.\<close>

definition early_pod :: pod where
  "early_pod = \<lparr>pod_name = ''a'', pod_deletionTimestamp = None, pod_phase = PodFailed,
     pod_conditions = [\<lparr>pc_type = PodReady, pc_status = ConditionTrue, pc_lastTransitionTime = 50\<rparr>],
     pod_startTime = Some 0, pod_containers = []\<rparr>"

definition pending_pod :: pod where
  "pending_pod = \<lparr>pod_name = ''b'', pod_deletionTimestamp = None, pod_phase = PodPending, pod_conditions = [],
     pod_startTime = None, pod_containers = []\<rparr>"

lemma two_pods: "P a \<Longrightarrow> \<not> P b \<Longrightarrow> {p \<in> set [a, b]. P p} = {a}" "\<not> P a \<Longrightarrow> P b \<Longrightarrow> {p \<in> set [a, b]. P p} = {b}"
  by auto

lemma two_pods_fields:
  "pod_name early_pod = ''a''" "pod_deletionTimestamp early_pod = None" "pod_phase early_pod = PodFailed"
  "pod_name pending_pod = ''b''" "pod_deletionTimestamp pending_pod = None" "pod_phase pending_pod = PodPending"
  by (simp_all add: early_pod_def pending_pod_def)

theorem groupPods_partition_witness:
  "\<exists>g w'. groupPods (quiet_env 100) [early_pod, pending_pod]
       [(''a'', \<lparr>pmt_timestamp = 90, pmt_window = 60, pmt_value = 5\<rparr>)] ResourceCPU 300 30 () = (Done g, w')
     \<and> set (gp_unreadyPods g) = {''a''} \<and> set (gp_ignoredPods g) = {''b''} \<and> gp_readyPodCount g = 0"
proof -
  let ?m = "[(''a'', \<lparr>pmt_timestamp = 90, pmt_window = 60, pmt_value = 5\<rparr>)]"
  have "distinct (map pod_name [early_pod, pending_pod])" by (simp add: early_pod_def pending_pod_def)
  from groupPods_partition [OF this, of "quiet_env 100" ?m ResourceCPU 300 30 "()"]
  obtain g w' clock where g: "groupPods (quiet_env 100) [early_pod, pending_pod] ?m ResourceCPU 300 30 () = (Done g, w')"
    "\<forall>p. \<exists>w1. clock p = fst (e_now (quiet_env 100 :: unit env) w1)"
    "set (gp_ignoredPods g) = pod_name ` {p \<in> set [early_pod, pending_pod]. pod_deletionTimestamp p \<noteq> None \<or> pod_phase p \<noteq> PodFailed}"
    "set (gp_unreadyPods g) = pod_name ` {p \<in> set [early_pod, pending_pod]. pod_deletionTimestamp p = None \<and> pod_phase p = PodFailed \<and>
       ResourceCPU = ResourceCPU \<and> (\<exists>metric. map_of ?m (pod_name p) = Some metric \<and> unready_at 300 30 (clock p) p metric)}"
    "gp_readyPodCount g + length (gp_unreadyPods g) + length (gp_missingPods g) + length (gp_ignoredPods g) = length [early_pod, pending_pod]"
    by (elim exE conjE) (rule that)
  have clock: "clock p = 100" for p using g(2) by (simp add: quiet_env_def)
  have "unready_at 300 30 100 early_pod \<lparr>pmt_timestamp = 90, pmt_window = 60, pmt_value = 5\<rparr>"
    by (simp add: unready_at_def early_pod_def add_dur_def)
  then have "unready_at 300 30 (clock early_pod) early_pod \<lparr>pmt_timestamp = 90, pmt_window = 60, pmt_value = 5\<rparr>"
    by (simp only: clock)
  then have u: "{p \<in> set [early_pod, pending_pod]. pod_deletionTimestamp p = None \<and> pod_phase p = PodFailed \<and>
       ResourceCPU = ResourceCPU \<and> (\<exists>metric. map_of ?m (pod_name p) = Some metric \<and> unready_at 300 30 (clock p) p metric)} = {early_pod}"
    by (intro two_pods(1)) (simp_all add: two_pods_fields)
  have i: "{p \<in> set [early_pod, pending_pod]. pod_deletionTimestamp p \<noteq> None \<or> pod_phase p \<noteq> PodFailed} = {pending_pod}"
    by (intro two_pods(2)) (simp_all add: two_pods_fields)
  have sets: "set (gp_unreadyPods g) = {''a''}" "set (gp_ignoredPods g) = {''b''}"
    using g(4) [unfolded u] g(3) [unfolded i] by (simp_all add: two_pods_fields)
  have "length (gp_unreadyPods g) > 0" "length (gp_ignoredPods g) > 0"
    unfolding length_greater_0_conv set_empty [symmetric] sets by simp_all
  then have "gp_readyPodCount g = 0" using g(5) unfolding list.size by linarith
  then show ?thesis using g(1) sets by blast
qed

end
