(* ===== verification/Replica_Calculator.thy ===== *)
theory Replica_Calculator
  imports Metrics_Client Pod_Groups
begin

text \<open>
  \<open>pkg/zaohua/daofa/replica_calculator.go\<close>: the number of replicas each of the five metric
  sources asks for. The three per-pod calculators share the steps named here once (dropping the
  metrics of unready and ignored pods, filling in those of missing pods, the final decision), in
  the order in which each of them takes the steps.
\<close>

section \<open>The handle\<close>

record calculate_handle =
  ch_cpuInitializationPeriod :: duration
  ch_initialReadinessDelay :: duration
  ch_downScaleStabilizationWindow :: duration
  ch_scaleTolerance :: f64

definition NewCalculateHandle :: "duration \<Rightarrow> duration \<Rightarrow> duration \<Rightarrow> f64 \<Rightarrow> calculate_handle" where
  "NewCalculateHandle cpuInitializationPeriod initialReadinessDelay downScaleStabilizationWindow scaleTolerance =
     \<lparr>ch_cpuInitializationPeriod = cpuInitializationPeriod,
      ch_initialReadinessDelay = initialReadinessDelay,
      ch_downScaleStabilizationWindow = downScaleStabilizationWindow,
      ch_scaleTolerance = scaleTolerance\<rparr>"

section \<open>Shared steps\<close>

definition drop_pods :: "pod_groups \<Rightarrow> pod_metrics_info \<Rightarrow> pod_metrics_info" where
  "drop_pods g metrics =
     fold AList.delete (gp_ignoredPods g) (fold AList.delete (gp_unreadyPods g) metrics)"

definition fill_missing :: "f64 \<Rightarrow> i64 \<Rightarrow> string list \<Rightarrow> pod_metrics_info \<Rightarrow> pod_metrics_info" where
  "fill_missing usageRatio targetUtilization missingPods metrics =
     (if missingPods = [] then metrics
      else if usageRatio < 1 then
        fold (\<lambda>podName. AList.update podName (value_metric targetUtilization)) missingPods metrics
      else fold (\<lambda>podName. AList.update podName (value_metric 0)) missingPods metrics)"

definition zero_unready :: "bool \<Rightarrow> string list \<Rightarrow> pod_metrics_info \<Rightarrow> pod_metrics_info" where
  "zero_unready rebalanceIgnored unreadyPods metrics =
     (if rebalanceIgnored
      then fold (\<lambda>podName. AList.update podName (value_metric 0)) unreadyPods metrics
      else metrics)"

text \<open>
  The decision on the adjusted metrics. The flag tells the last return, which carries the new
  count, from the two that keep the current one.
\<close>

definition settle ::
  "(f64 \<Rightarrow> i32) \<Rightarrow> f64 \<Rightarrow> f64 \<Rightarrow> pod_metrics_info \<Rightarrow> i64 \<Rightarrow> i32 \<Rightarrow> (i32 \<times> bool) outcome" where
  "settle oor tolerance usageRatio metrics targetUtilization currentReplicas =
     obind (GetMetricUtilizationRatio metrics targetUtilization) (\<lambda>(newUsageRatio, _).
       if \<bar>1 - newUsageRatio\<bar> \<le> tolerance
          \<or> (usageRatio < 1 \<and> 1 < newUsageRatio) \<or> (1 < usageRatio \<and> newUsageRatio < 1)
       then Done (currentReplicas, False)
       else
         let newReplicas = i32_of_f64 oor (fceil (newUsageRatio * f64_of_int (int (length metrics)))) in
         if (newUsageRatio < 1 \<and> sint newReplicas > sint currentReplicas)
            \<or> (1 < newUsageRatio \<and> sint newReplicas < sint currentReplicas)
         then Done (currentReplicas, False)
         else Done (newReplicas, True))"

section \<open>Pods metrics\<close>

definition calculatePlainMetricReplicas ::
  "'w env \<Rightarrow> calculate_handle \<Rightarrow> pod_metrics_info \<Rightarrow> i32 \<Rightarrow> i64 \<Rightarrow> string \<Rightarrow> selector
   \<Rightarrow> ('w, i32 \<times> i64) io" where
  "calculatePlainMetricReplicas E c metrics currentReplicas targetUtilization namespace podSelector =
     bnd (call (e_listPods E namespace podSelector)) (\<lambda>items.
     if items = [] then fail NoPodsForSelector
     else bnd (groupPods E items metrics [] (ch_cpuInitializationPeriod c) (ch_initialReadinessDelay c)) (\<lambda>g.
     let metrics1 = drop_pods g metrics in
     if metrics1 = [] then fail NoAvailableMetrics
     else bnd (lift_outcome (GetMetricUtilizationRatio metrics1 targetUtilization)) (\<lambda>(usageRatio, utilization).
     let rebalanceIgnored = (gp_unreadyPods g \<noteq> [] \<and> 1 < usageRatio) in
     if \<not> rebalanceIgnored \<and> gp_missingPods g = [] \<and> \<bar>1 - usageRatio\<bar> \<le> ch_scaleTolerance c
     then ret (i32_of_f64 (e_oor E) (fceil (usageRatio * f64_of_int (int (gp_readyPodCount g)))), utilization)
     else
       let metrics2 = fill_missing usageRatio targetUtilization (gp_missingPods g) metrics1;
           metrics3 = zero_unready rebalanceIgnored (gp_unreadyPods g) metrics2
       in bnd (lift_outcome (settle (e_oor E) (ch_scaleTolerance c) usageRatio metrics3
                targetUtilization currentReplicas)) (\<lambda>(newReplicas, _).
          ret (newReplicas, utilization)))))"

text \<open>
  The caller drops every error: of the selector (which leaves it nil), of the metrics API and of
  the calculation, whose zero count it returns with a nil error.
\<close>

definition CalculateReplicasWithPodsMetricSourceType ::
  "'w env \<Rightarrow> calculate_handle \<Rightarrow> string \<Rightarrow> selector \<Rightarrow> metric_spec \<Rightarrow> i32 \<Rightarrow> ('w, i32 \<times> time) io" where
  "CalculateReplicasWithPodsMetricSourceType E c namespace podSelector metric currentReplicas =
     bnd (lift_outcome (deref (ms_pods metric))) (\<lambda>pods.
     let metricSelector = (case e_asSelector E (mi_selector (pms_metric pods)) of
           Inl _ \<Rightarrow> None | Inr s \<Rightarrow> Some s) in
     handle (GetRawMetric E (mi_name (pms_metric pods)) namespace podSelector metricSelector)
       (\<lambda>err. ret (0, zero_time))
       (\<lambda>(podMetricsInfo, timestamp).
     bnd (lift_outcome (deref (mt_averageValue (pms_target pods)))) (\<lambda>target.
     handle (calculatePlainMetricReplicas E c podMetricsInfo currentReplicas target namespace podSelector)
       (\<lambda>err. ret (0, zero_time))
       (\<lambda>(replicaCount, _). ret (replicaCount, zero_time)))))"

section \<open>Resource metrics\<close>

text \<open>
  The end of both resource calculators: from the usage ratio of the remaining pods to the count,
  with the flag of \<open>settle\<close>; without rebalancing the two returns carry the timestamp.
\<close>

definition resource_decision ::
  "'w env \<Rightarrow> calculate_handle \<Rightarrow> pod_groups \<Rightarrow> f64 \<Rightarrow> pod_metrics_info \<Rightarrow> i64 \<Rightarrow> i32
   \<Rightarrow> (i32 \<times> bool) outcome" where
  "resource_decision E c g usageRatio podMetrics targetUtilization currentReplicas =
     (let rebalanceIgnored = (gp_unreadyPods g \<noteq> [] \<and> 1 < usageRatio) in
      if \<not> rebalanceIgnored \<and> gp_missingPods g = [] then
        if \<bar>1 - usageRatio\<bar> \<le> ch_scaleTolerance c then Done (currentReplicas, True)
        else Done (i32_of_f64 (e_oor E) (fceil (usageRatio * f64_of_int (int (gp_readyPodCount g)))), True)
      else
        let metrics2 = fill_missing usageRatio targetUtilization (gp_missingPods g) podMetrics;
            metrics3 = zero_unready rebalanceIgnored (gp_unreadyPods g) metrics2
        in settle (e_oor E) (ch_scaleTolerance c) usageRatio metrics3 targetUtilization currentReplicas)"

definition CalculateReplicasWithResourceMetricSourceType ::
  "'w env \<Rightarrow> calculate_handle \<Rightarrow> string \<Rightarrow> selector \<Rightarrow> metric_spec \<Rightarrow> i32 \<Rightarrow> ('w, i32 \<times> time) io" where
  "CalculateReplicasWithResourceMetricSourceType E c namespace podSelector metric currentReplicas =
     bnd (lift_outcome (deref (ms_resource metric))) (\<lambda>src.
     let resource = rms_name src in
     bnd (GetResouceMetric E resource namespace podSelector ''container'') (\<lambda>(podMetrics, timestamp).
     if podMetrics = [] then fail NoAvailableMetrics
     else bnd (call (e_listPods E namespace podSelector)) (\<lambda>items.
     if items = [] then fail NoPodsForSelector
     else bnd (groupPods E items podMetrics resource (ch_cpuInitializationPeriod c) (ch_initialReadinessDelay c)) (\<lambda>g.
     let podMetrics1 = drop_pods g podMetrics in
     bnd (lift_outcome (calculatePodRequests items [] resource)) (\<lambda>requests.
     bnd (lift_outcome (deref (mt_averageValue (rms_target src)))) (\<lambda>targetUtilization.
     bnd (lift_outcome (GetResourceUtilizationRatio podMetrics1 requests targetUtilization)) (\<lambda>(usageRatio, _, _).
     bnd (lift_outcome (resource_decision E c g usageRatio podMetrics1 targetUtilization currentReplicas)) (\<lambda>(replicas, _).
     ret (replicas, timestamp)))))))))"

definition CalculateReplicasWithContainerResourceMetricSourceType ::
  "'w env \<Rightarrow> calculate_handle \<Rightarrow> string \<Rightarrow> metric_spec \<Rightarrow> selector \<Rightarrow> i32 \<Rightarrow> ('w, i32 \<times> time) io" where
  "CalculateReplicasWithContainerResourceMetricSourceType E c namespace metric podSelector currentReplicas =
     bnd (lift_outcome (deref (ms_containerResource metric))) (\<lambda>src.
     let resourceName = crms_name src; container = crms_container src in
     bnd (GetResouceMetric E resourceName namespace podSelector container) (\<lambda>(podMetrics, timestamp).
     if podMetrics = [] then fail NoAvailableMetrics
     else bnd (call (e_listPods E namespace podSelector)) (\<lambda>items.
     if items = [] then fail NoPodsForSelector
     else bnd (groupPods E items podMetrics [] (ch_cpuInitializationPeriod c) (ch_initialReadinessDelay c)) (\<lambda>g.
     let podMetrics1 = drop_pods g podMetrics in
     bnd (lift_outcome (calculatePodRequests items container [])) (\<lambda>podRequests.
     bnd (lift_outcome (deref (mt_averageValue (crms_target src)))) (\<lambda>targetAverageUtilization.
     bnd (lift_outcome (GetResourceUtilizationRatio podMetrics1 podRequests targetAverageUtilization)) (\<lambda>(usageRatio, _, _).
     bnd (lift_outcome (resource_decision E c g usageRatio podMetrics1 targetAverageUtilization currentReplicas)) (\<lambda>(replicas, final).
     ret (replicas, if final then timestamp else zero_time)))))))))"

section \<open>Object and external metrics\<close>

definition getUsageRatioReplicas ::
  "'w env \<Rightarrow> calculate_handle \<Rightarrow> i32 \<Rightarrow> f64 \<Rightarrow> string \<Rightarrow> selector \<Rightarrow> ('w, i32 \<times> time) io" where
  "getUsageRatioReplicas E c CurrentReplicas usageRatio namespace podSelector =
     (if CurrentReplicas \<noteq> 0 then
        if \<bar>1 - usageRatio\<bar> \<le> ch_scaleTolerance c then ret (CurrentReplicas, zero_time)
        else bnd (getReadyPodsCount E namespace podSelector) (\<lambda>readyPodCount.
          ret (i32_of_f64 (e_oor E) (fceil (usageRatio * f64_of_i32 readyPodCount)), zero_time))
      else ret (i32_of_f64 (e_oor E) (fceil usageRatio), zero_time))"

text \<open>The count of \<open>getUsageRatioReplicas\<close> and its error are dropped: the named result stays 0.\<close>

definition getReplicasWithObjectSourceType ::
  "'w env \<Rightarrow> calculate_handle \<Rightarrow> string \<Rightarrow> object_metric_source \<Rightarrow> selector \<Rightarrow> i32 \<Rightarrow> ('w, i32 \<times> time) io" where
  "getReplicasWithObjectSourceType E c namespace src podSelector currentReplicas =
     bnd (lift_outcome (lib_result (e_asSelector E (mi_selector (oms_metric src))))) (\<lambda>metricSelector.
     bnd (GetObjectMetric E (mi_name (oms_metric src)) namespace (oms_describedObject src) metricSelector) (\<lambda>(utilization, timestamp).
     bnd (lift_outcome (deref (mt_value (oms_target src)))) (\<lambda>targetUtilization.
     let usageRatio = f64_of_i64 utilization / f64_of_i64 targetUtilization in
     handle (getUsageRatioReplicas E c currentReplicas usageRatio namespace podSelector)
       (\<lambda>_. ret (0, timestamp))
       (\<lambda>_. ret (0, timestamp)))))"

definition getReplicasForPerPodWithObjectSourceType ::
  "'w env \<Rightarrow> calculate_handle \<Rightarrow> string \<Rightarrow> object_metric_source \<Rightarrow> i32 \<Rightarrow> ('w, i32 \<times> time) io" where
  "getReplicasForPerPodWithObjectSourceType E c namespace src currentReplicas =
     bnd (lift_outcome (lib_result (e_asSelector E (mi_selector (oms_metric src))))) (\<lambda>metricSelector.
     bnd (GetObjectMetric E (mi_name (oms_metric src)) namespace (oms_describedObject src) metricSelector) (\<lambda>(utilization, timestamp).
     bnd (lift_outcome (deref (mt_averageValue (oms_target src)))) (\<lambda>targetAverageUtilization.
     let usageRatio = f64_of_i64 utilization / (f64_of_i64 targetAverageUtilization * f64_of_i32 currentReplicas) in
     if ch_scaleTolerance c < \<bar>1 - usageRatio\<bar>
     then ret (i32_of_f64 (e_oor E) (fceil (f64_of_i64 utilization / f64_of_i64 targetAverageUtilization)), timestamp)
     else ret (currentReplicas, timestamp))))"

definition CalculateReplicasWithObjectSourceType ::
  "'w env \<Rightarrow> calculate_handle \<Rightarrow> string \<Rightarrow> selector \<Rightarrow> metric_spec \<Rightarrow> i32 \<Rightarrow> ('w, i32 \<times> time) io" where
  "CalculateReplicasWithObjectSourceType E c namespace podSelector metric currentReplicas =
     bnd (lift_outcome (deref (ms_object metric))) (\<lambda>src.
     if mt_type (oms_target src) = ValueMetricType
     then getReplicasWithObjectSourceType E c namespace src podSelector currentReplicas
     else if mt_type (oms_target src) = AverageValueMetricType
     then getReplicasForPerPodWithObjectSourceType E c namespace src currentReplicas
     else if mt_type (oms_target src) = UtilizationMetricType then ret (currentReplicas, zero_time)
     else fail (UnsupportedTargetType (mt_type (oms_target src))))"

definition sum_values :: "i64 list \<Rightarrow> i64" where
  "sum_values values = fold (\<lambda>v utilization. utilization + v) values 0"

definition getReplicasWithExternalMetricSourceType ::
  "'w env \<Rightarrow> calculate_handle \<Rightarrow> string \<Rightarrow> metric_spec \<Rightarrow> selector \<Rightarrow> i32 \<Rightarrow> ('w, i32 \<times> time) io" where
  "getReplicasWithExternalMetricSourceType E c namespace metric podSelector currentReplicas =
     bnd (lift_outcome (deref (ms_external metric))) (\<lambda>src.
     bnd (lift_outcome (lib_result (e_asSelector E (mi_selector (ems_metric src))))) (\<lambda>metricSelector.
     bnd (GetExternalMetric E (mi_name (ems_metric src)) namespace metricSelector) (\<lambda>(metrics, timestamp).
     let utilization = sum_values metrics in
     bnd (lift_outcome (deref (mt_value (ems_target src)))) (\<lambda>targetUtilization.
     let usageRatio = f64_of_i64 utilization / f64_of_i64 targetUtilization in
     getUsageRatioReplicas E c currentReplicas usageRatio namespace podSelector))))"

text \<open>Here the tolerance is not consulted; the last assignment to \<open>utilization\<close> is never read.\<close>

definition getReplicasForPerPodWithExternalMetricSourceType ::
  "'w env \<Rightarrow> calculate_handle \<Rightarrow> string \<Rightarrow> metric_spec \<Rightarrow> selector \<Rightarrow> i32 \<Rightarrow> ('w, i32 \<times> time) io" where
  "getReplicasForPerPodWithExternalMetricSourceType E c namespace metric podSelector currentReplicas =
     bnd (lift_outcome (deref (ms_external metric))) (\<lambda>src.
     bnd (lift_outcome (lib_result (e_asSelector E (mi_selector (ems_metric src))))) (\<lambda>metricSelector.
     bnd (GetExternalMetric E (mi_name (ems_metric src)) namespace metricSelector) (\<lambda>(metrics, timestamp).
     let utilization = sum_values metrics in
     bnd (lift_outcome (deref (mt_averageValue (ems_target src)))) (\<lambda>targetAverageUtilization.
     let usageRatio = f64_of_i64 utilization / (f64_of_i64 targetAverageUtilization * f64_of_i32 currentReplicas) in
     if 0 < \<bar>1 - usageRatio\<bar>
     then ret (i32_of_f64 (e_oor E) (fceil (f64_of_i64 utilization / f64_of_i64 targetAverageUtilization)), timestamp)
     else ret (currentReplicas, timestamp)))))"

text \<open>The target's type is read from the object source, also for an external metric.\<close>

definition CalculateReplicasWithExternalMetricSourceType ::
  "'w env \<Rightarrow> calculate_handle \<Rightarrow> string \<Rightarrow> metric_spec \<Rightarrow> selector \<Rightarrow> i32 \<Rightarrow> ('w, i32 \<times> time) io" where
  "CalculateReplicasWithExternalMetricSourceType E c namespace metric podSelector currentReplicas =
     bnd (lift_outcome (deref (ms_object metric))) (\<lambda>obj.
     if mt_type (oms_target obj) = ValueMetricType
     then getReplicasWithExternalMetricSourceType E c namespace metric podSelector currentReplicas
     else if mt_type (oms_target obj) = AverageValueMetricType
     then getReplicasForPerPodWithExternalMetricSourceType E c namespace metric podSelector currentReplicas
     else if mt_type (oms_target obj) = UtilizationMetricType then ret (currentReplicas, zero_time)
     else fail (UnsupportedTargetType (mt_type (oms_target obj))))"

end
