(* ===== verification/Behavior.thy ===== *)
theory Behavior
  imports Environment
begin

text \<open>
  \<open>pkg/zaohua/daofa/behavor_processor.go\<close>: the revision of a desired count by the scaling
  behaviour, first over the recommendations of the stabilisation window, then by the rate the
  scaling policies allow, and the two kinds of records it reads. A slice behind a pointer that a
  function changes is an argument and a result.
\<close>

section \<open>Records and events\<close>

record timestamped_recommendation_record =
  trr_desiredReplicas :: i32
  trr_timestamp :: time

record timestamped_scale_event =
  tse_replicaChange :: i32
  tse_timeStamp :: time
  tse_outDated :: bool

text \<open>
  The index that a loop over a slice is left with when it remembers the last element that
  satisfies a condition, and the store that follows such a loop: into the remembered slot, or at
  the end of the slice.
\<close>

primrec last_index :: "('a \<Rightarrow> bool) \<Rightarrow> nat \<Rightarrow> 'a list \<Rightarrow> nat option \<Rightarrow> nat option" where
  "last_index P i [] old = old"
| "last_index P i (x # xs) old = last_index P (Suc i) xs (if P x then Some i else old)"

definition store_in :: "nat option \<Rightarrow> 'a \<Rightarrow> 'a list \<Rightarrow> 'a list" where
  "store_in slot x xs = (case slot of Some i \<Rightarrow> xs[i := x] | None \<Rightarrow> xs @ [x])"

section \<open>The stabilisation window\<close>

record revise_info =
  ri_scaleUpBehavor :: "scaling_rules option"
  ri_scaleDownBehavor :: "scaling_rules option"
  ri_currentReplicas :: i32
  ri_desiredReplicas :: i32

text \<open>Both of these return the smaller argument.\<close>

definition max_fun :: "i32 \<Rightarrow> i32 \<Rightarrow> i32" where
  "max_fun a b = (if sint a \<le> sint b then a else b)"

definition min_fun :: "i32 \<Rightarrow> i32 \<Rightarrow> i32" where
  "min_fun a b = (if sint a \<le> sint b then a else b)"

primrec recommendation_loop ::
  "(i32 \<Rightarrow> i32 \<Rightarrow> i32) \<Rightarrow> time \<Rightarrow> time \<Rightarrow> nat \<Rightarrow> timestamped_recommendation_record list
   \<Rightarrow> i32 \<Rightarrow> nat option \<Rightarrow> i32 \<times> nat option" where
  "recommendation_loop action cutoff obsolete i [] recommendation oldSample = (recommendation, oldSample)"
| "recommendation_loop action cutoff obsolete i (r # rs) recommendation oldSample =
     recommendation_loop action cutoff obsolete (Suc i) rs
       (if cutoff < trr_timestamp r then action (trr_desiredReplicas r) recommendation else recommendation)
       (if trr_timestamp r < obsolete then Some i else oldSample)"

text \<open>The rules of a direction and their window are read through two pointers.\<close>

definition window :: "scaling_rules option \<Rightarrow> i32 outcome" where
  "window rules = obind (deref rules) (\<lambda>r. deref (sr_stabilizationWindowSeconds r))"

definition seconds_before :: "i32 \<Rightarrow> time \<Rightarrow> time" where
  "seconds_before n t = add_dur t (- second * i64_of_i32 n)"

definition stabilizationRecommendationWithBehavors ::
  "'w env \<Rightarrow> revise_info \<Rightarrow> timestamped_recommendation_record list
   \<Rightarrow> ('w, i32 \<times> string \<times> timestamped_recommendation_record list) io" where
  "stabilizationRecommendationWithBehavors E reviseInfo records =
     (let up = sint (ri_desiredReplicas reviseInfo) \<ge> sint (ri_currentReplicas reviseInfo);
          recommendationAction = (if up then min_fun else max_fun);
          reason = ''ScaleUpStabilized'' in
      bnd (lift_outcome (window (if up then ri_scaleUpBehavor reviseInfo else ri_scaleDownBehavor reviseInfo)))
        (\<lambda>scaleDelaySeconds.
      bnd (lift_outcome (window (ri_scaleUpBehavor reviseInfo))) (\<lambda>upWindow.
      bnd (lift_outcome (window (ri_scaleDownBehavor reviseInfo))) (\<lambda>downWindow.
      let maxDelaySeconds = max_fun upWindow downWindow in
      bnd (now E) (\<lambda>t1. let cutoff = seconds_before scaleDelaySeconds t1 in
      bnd (now E) (\<lambda>t2. let obsoluteCutoff = seconds_before maxDelaySeconds t2 in
      let (recommendation, oldSample) =
            recommendation_loop recommendationAction cutoff obsoluteCutoff 0 records
              (ri_desiredReplicas reviseInfo) None in
      bnd (now E) (\<lambda>t3.
      ret (recommendation, reason,
           store_in oldSample \<lparr>trr_desiredReplicas = recommendation, trr_timestamp = t3\<rparr> records))))))))"

section \<open>The rate of the scaling policies\<close>

definition getReplicasChangePerScalePolicyPeriod ::
  "'w env \<Rightarrow> i32 \<Rightarrow> timestamped_scale_event list \<Rightarrow> ('w, i32) io" where
  "getReplicasChangePerScalePolicyPeriod E policyPeriodSeconds scaleEvents =
     bnd (now E) (\<lambda>t. let cutoff = seconds_before policyPeriodSeconds t in
     ret (fold (\<lambda>e replicas. if cutoff < tse_timeStamp e then replicas + tse_replicaChange e else replicas)
       scaleEvents 0))"

text \<open>
  The loop that both limits run over the policies. A policy of an unknown type leaves the
  proposal of the policy before it. The function that combines the limit with the proposal is
  nil unless the selection is \<open>Min\<close>.
\<close>

definition policy_proposal :: "(f64 \<Rightarrow> i32) \<Rightarrow> scaling_policy \<Rightarrow> i32 \<Rightarrow> i32 \<Rightarrow> i32" where
  "policy_proposal oor policy start proposedReplicas =
     (if sp_type policy = PodsScalingPolicy then start + sp_value policy
      else if sp_type policy = PercentScalingPolicy
      then i32_of_f64 oor (fceil (f64_of_i32 start * (1 + f64_of_i32 (sp_value policy) / f64_of_int 100)))
      else proposedReplicas)"

primrec policy_loop ::
  "'w env \<Rightarrow> i32 \<Rightarrow> timestamped_scale_event list \<Rightarrow> (i32 \<Rightarrow> i32 \<Rightarrow> i32) option
   \<Rightarrow> scaling_policy list \<Rightarrow> i32 \<Rightarrow> i32 \<Rightarrow> ('w, i32) io" where
  "policy_loop E currentReplicas scaleEvents selectPolicyFunc [] limit proposedReplicas = ret limit"
| "policy_loop E currentReplicas scaleEvents selectPolicyFunc (policy # policies) limit proposedReplicas =
     bnd (getReplicasChangePerScalePolicyPeriod E (sp_periodSeconds policy) scaleEvents) (\<lambda>replicasAdded.
     let proposed = policy_proposal (e_oor E) policy (currentReplicas - replicasAdded) proposedReplicas in
     bnd (lift_outcome (deref selectPolicyFunc)) (\<lambda>f.
     policy_loop E currentReplicas scaleEvents selectPolicyFunc policies (f limit proposed) proposed))"

definition calculateScaleUpLimitWithScalingRules ::
  "'w env \<Rightarrow> i32 \<Rightarrow> timestamped_scale_event list \<Rightarrow> scaling_rules option \<Rightarrow> ('w, i32) io" where
  "calculateScaleUpLimitWithScalingRules E currentReplicas scaleEvents scaleUpBehavor =
     bnd (lift_outcome (deref scaleUpBehavor)) (\<lambda>rules.
     bnd (lift_outcome (deref (sr_selectPolicy rules))) (\<lambda>selectPolicy.
     if selectPolicy = DisabledPolicySelect then ret currentReplicas
     else
       let (start, f) = (if selectPolicy = MinPolicySelect then (min_i32, Some min_fun) else (max_i32, None)) in
       bnd (policy_loop E currentReplicas scaleEvents f (sr_policies rules) start 0) (\<lambda>scaleUpLimit.
       ret (if sint scaleUpLimit < sint currentReplicas then currentReplicas else scaleUpLimit))))"

definition calculateScaleDownLimitWithScalingRules ::
  "'w env \<Rightarrow> i32 \<Rightarrow> timestamped_scale_event list \<Rightarrow> scaling_rules option \<Rightarrow> ('w, i32) io" where
  "calculateScaleDownLimitWithScalingRules E currentReplicas scaleEvents scaleDownBehavor =
     bnd (lift_outcome (deref scaleDownBehavor)) (\<lambda>rules.
     bnd (lift_outcome (deref (sr_selectPolicy rules))) (\<lambda>selectPolicy.
     if selectPolicy = DisabledPolicySelect then ret currentReplicas
     else
       let (start, f) = (if selectPolicy = MinPolicySelect then (max_i32, Some min_fun) else (min_i32, None)) in
       bnd (policy_loop E currentReplicas scaleEvents f (sr_policies rules) start 0) (\<lambda>scaleDownLimit.
       ret (if sint scaleDownLimit > sint currentReplicas then currentReplicas else scaleDownLimit))))"

text \<open>
  The first condition compares the desired count with itself, and the limit of the second branch
  is computed from the rules for scaling up.
\<close>

definition convertDesiredReplicasWithBehaviorRate ::
  "'w env \<Rightarrow> revise_info \<Rightarrow> timestamped_scale_event list \<Rightarrow> ('w, i32 \<times> string) io" where
  "convertDesiredReplicasWithBehaviorRate E reviseInfo scaleEvents =
     (let desired = ri_desiredReplicas reviseInfo; current = ri_currentReplicas reviseInfo in
      if sint desired > sint desired then
        bnd (calculateScaleUpLimitWithScalingRules E current scaleEvents (ri_scaleUpBehavor reviseInfo)) (\<lambda>scaleUpLimit.
        ret (if sint desired > sint scaleUpLimit then (scaleUpLimit, ''scaleUpLimit'')
             else (desired, ''DesiredWithinRange'')))
      else if sint desired < sint current then
        bnd (calculateScaleDownLimitWithScalingRules E current scaleEvents (ri_scaleUpBehavor reviseInfo)) (\<lambda>scaleDownLimit.
        ret (if sint desired < sint scaleDownLimit then (scaleDownLimit, ''scaleDownLimit'')
             else (desired, ''DesiredWithinRange'')))
      else ret (0, []))"

section \<open>The revision\<close>

text \<open>
  The default window is stored through the pointer that was found to be nil. Neither of the two
  steps returns an error, so the branches that would pass one on are not reachable; they are kept
  as the sequencing of computations.
\<close>

definition ReviseWithBehavor ::
  "'w env \<Rightarrow> i32 \<Rightarrow> i32 \<Rightarrow> hpa_behavior option \<Rightarrow> timestamped_recommendation_record list
   \<Rightarrow> timestamped_scale_event list \<Rightarrow> ('w, i32 \<times> timestamped_recommendation_record list) io" where
  "ReviseWithBehavor E desiredReplicas currentReplicas behavor records scaleEvents =
     bnd (lift_outcome
       (case behavor of
          Some b \<Rightarrow> (case hb_scaleDown b of
            Some down \<Rightarrow> obind (deref (sr_stabilizationWindowSeconds down)) (\<lambda>_. Done ())
          | None \<Rightarrow> Done ())
        | None \<Rightarrow> Done ())) (\<lambda>_.
     bnd (lift_outcome (deref behavor)) (\<lambda>b.
     let reviseInfo = \<lparr>ri_scaleUpBehavor = hb_scaleUp b, ri_scaleDownBehavor = hb_scaleDown b,
           ri_currentReplicas = currentReplicas, ri_desiredReplicas = desiredReplicas\<rparr> in
     bnd (stabilizationRecommendationWithBehavors E reviseInfo records) (\<lambda>(stabilized, _, records').
     bnd (convertDesiredReplicasWithBehaviorRate E (reviseInfo\<lparr>ri_desiredReplicas := stabilized\<rparr>) scaleEvents)
       (\<lambda>(scaledReplicas, _).
     ret (scaledReplicas, records')))))"

end
