(* ===== verification/Status_Updator.thy ===== *)
theory Status_Updator
  imports Environment
begin

text \<open>
  \<open>pkg/status_updator/status_updator.go\<close>: the updates of the status of a \<open>Houmao\<close>, each a
  comparison with what the object holds followed by a patch. The object is reached through a
  pointer that the caller keeps, so the object as the API server answered it is a result; the
  package variable that keeps the last handle is an argument and a result.
\<close>

record status_update_handle =
  su_object :: houmao

definition NewStatusUpdateHandle :: "houmao \<Rightarrow> status_update_handle option
    \<Rightarrow> status_update_handle \<times> status_update_handle option" where
  "NewStatusUpdateHandle object Handle = (\<lparr>su_object = object\<rparr>, Some \<lparr>su_object = object\<rparr>)"

definition GetStatusUpdateHandle :: "status_update_handle option \<Rightarrow> status_update_handle option" where
  "GetStatusUpdateHandle Handle = Handle"

text \<open>
  The arguments of \<open>reflect.DeepEqual\<close> with their dynamic types: values of different types are
  never equal, and a pointer is not of the type it points to.
\<close>

datatype go_value =
    V_String string
  | V_Status houmao_status
  | V_StatusPointer houmao_status
  | V_Xianqi xianqi_info
  | V_XianqiPointer xianqi_info
  | V_Record zaohua_record
  | V_RecordPointer zaohua_record
  | V_Spec houmao_spec
  | V_Houmao houmao

definition DeepEqual :: "go_value \<Rightarrow> go_value \<Rightarrow> bool" where
  "DeepEqual a b \<longleftrightarrow> a = b"

definition UpdateStatus :: "'w env \<Rightarrow> status_update_handle \<Rightarrow> houmao_status \<Rightarrow> ('w, status_update_handle) io" where
  "UpdateStatus E s status =
     (if DeepEqual (V_Status (hm_status (su_object s))) (V_StatusPointer status) then ret s
      else bnd (lift_outcome (json_status status)) (\<lambda>patch.
        bnd (call (e_patchHoumao E (su_object s) patch)) (\<lambda>object. ret (s\<lparr>su_object := object\<rparr>))))"

definition UpdateShifaPhase :: "'w env \<Rightarrow> status_update_handle \<Rightarrow> string \<Rightarrow> ('w, status_update_handle) io" where
  "UpdateShifaPhase E s shifaPhase =
     (if DeepEqual (V_String (hst_shifaPhase (hm_status (su_object s)))) (V_String shifaPhase) then ret s
      else
        bnd (call (e_patchHoumao E (su_object s) (J_String shifaPhase))) (\<lambda>object. ret (s\<lparr>su_object := object\<rparr>)))"

definition UpdateXianqiInfo :: "'w env \<Rightarrow> status_update_handle \<Rightarrow> xianqi_info \<Rightarrow> ('w, status_update_handle) io" where
  "UpdateXianqiInfo E s xianqiInfo =
     (if DeepEqual (V_Xianqi (hst_xianqiInfo (hm_status (su_object s)))) (V_XianqiPointer xianqiInfo) then ret s
      else
        bnd (call (e_patchHoumao E (su_object s) (json_xianqi xianqiInfo))) (\<lambda>object. ret (s\<lparr>su_object := object\<rparr>)))"

definition UpdateZaohuaRecord :: "'w env \<Rightarrow> status_update_handle \<Rightarrow> zaohua_record \<Rightarrow> ('w, status_update_handle) io" where
  "UpdateZaohuaRecord E s zaohuaRecord =
     (if DeepEqual (V_Record (hst_zaohuaRecord (hm_status (su_object s)))) (V_RecordPointer zaohuaRecord) then ret s
      else bnd (lift_outcome (json_record zaohuaRecord)) (\<lambda>patch.
        bnd (call (e_patchHoumao E (su_object s) patch)) (\<lambda>object. ret (s\<lparr>su_object := object\<rparr>))))"

section \<open>What is sent\<close>

lemma updates_no_panic:
  "\<not> panics (fst (UpdateShifaPhase E s p w))"
  "\<not> panics (fst (UpdateXianqiInfo E s x w))"
  "\<not> panics (fst (UpdateZaohuaRecord E s r w))"
proof -
  show "\<not> panics (fst (UpdateShifaPhase E s p w))" "\<not> panics (fst (UpdateXianqiInfo E s x w))"
    by (auto simp: UpdateShifaPhase_def UpdateXianqiInfo_def go_simps split: prod.splits sum.splits)
  show "\<not> panics (fst (UpdateZaohuaRecord E s r w))"
    using json_record_no_panic [of r]
    by (cases "json_record r") (auto simp: UpdateZaohuaRecord_def go_simps split: prod.splits sum.splits)
qed

text \<open>
  The phase is sent exactly when it differs from the one the object holds, while the other
  two updates compare a structure with a pointer and so send the patch also when nothing changed;
  an error of the API server is passed on and leaves the object as it was.
\<close>

lemma updates_sent:
  "UpdateShifaPhase E s p w =
     (if hst_shifaPhase (hm_status (su_object s)) = p then (Done s, w)
      else case e_patchHoumao E (su_object s) (J_String p) w of
        (Inl e, w') \<Rightarrow> (Fail e, w') | (Inr object, w') \<Rightarrow> (Done (s\<lparr>su_object := object\<rparr>), w')) \<and>
   UpdateXianqiInfo E s x w =
     (case e_patchHoumao E (su_object s) (json_xianqi x) w of
        (Inl e, w') \<Rightarrow> (Fail e, w') | (Inr object, w') \<Rightarrow> (Done (s\<lparr>su_object := object\<rparr>), w')) \<and>
   UpdateZaohuaRecord E s r w =
     (case json_record r of
        Done patch \<Rightarrow> (case e_patchHoumao E (su_object s) patch w of
          (Inl e, w') \<Rightarrow> (Fail e, w') | (Inr object, w') \<Rightarrow> (Done (s\<lparr>su_object := object\<rparr>), w'))
      | Fail e \<Rightarrow> (Fail e, w)
      | Panic q \<Rightarrow> (Panic q, w))"
  by (auto simp: UpdateShifaPhase_def UpdateXianqiInfo_def UpdateZaohuaRecord_def DeepEqual_def go_simps
      split: prod.splits sum.splits outcome.splits)

text \<open>Whether a patch changes the field \<open>status\<close> of the resource.\<close>

primrec patches_status :: "json \<Rightarrow> bool" where
  "patches_status (J_Bool b) = False"
| "patches_status (J_Int n) = False"
| "patches_status (J_String s) = False"
| "patches_status (J_Time t) = False"
| "patches_status (J_Array js) = False"
| "patches_status (J_Object members) = (''status'' \<in> fst ` set members)"

lemma no_status_patches:
  "\<not> patches_status (json_xianqi x)"
  "json_record r = Done j \<Longrightarrow> \<not> patches_status j"
  "json_status st = Done j \<Longrightarrow> \<not> patches_status j"
proof -
  show "\<not> patches_status (json_xianqi x)" by (simp add: json_xianqi_def)
  show "\<not> patches_status j" if "json_record r = Done j" using json_record_keys [OF that] by auto
  show "\<not> patches_status j" if "json_status st = Done j" using that by (auto simp: json_status_def obind_eq_Done)
qed

text \<open>
  C33: none of the four updates ever sends a patch with a field \<open>status\<close> (the fields of the
  status stand at the top level of the patch, and the phase is not an object at all): what an API
  server does with patches of the status has no influence on them.
\<close>

theorem updates_patch_no_status:
  assumes "\<And>object j w. \<not> patches_status j \<Longrightarrow> e_patchHoumao E object j w = e_patchHoumao E' object j w"
  shows "UpdateStatus E s st w = UpdateStatus E' s st w \<and>
    UpdateShifaPhase E s p w = UpdateShifaPhase E' s p w \<and>
    UpdateXianqiInfo E s x w = UpdateXianqiInfo E' s x w \<and>
    UpdateZaohuaRecord E s r w = UpdateZaohuaRecord E' s r w"
proof (intro conjI)
  show "UpdateStatus E s st w = UpdateStatus E' s st w"
    using assms no_status_patches(3) [of st]
    by (cases "json_status st") (simp_all add: UpdateStatus_def go_simps)
  show "UpdateShifaPhase E s p w = UpdateShifaPhase E' s p w"
    using assms by (simp add: UpdateShifaPhase_def go_simps)
  show "UpdateXianqiInfo E s x w = UpdateXianqiInfo E' s x w"
    using assms no_status_patches(1) by (simp add: UpdateXianqiInfo_def go_simps)
  show "UpdateZaohuaRecord E s r w = UpdateZaohuaRecord E' s r w"
    using assms no_status_patches(2) [of r]
    by (cases "json_record r") (simp_all add: UpdateZaohuaRecord_def go_simps)
qed

text \<open>A server that takes note of a patch of the status, beside one that accepts every patch.\<close>

definition accepting_env :: "nat env" where
  "accepting_env = (quiet_env 0)\<lparr>e_patchHoumao := \<lambda>object j w. (Inr object, Suc w)\<rparr>"

definition noting_env :: "nat env" where
  "noting_env = (quiet_env 0)\<lparr>e_patchHoumao := \<lambda>object j w. (Inr object, if patches_status j then 1000 else Suc w)\<rparr>"

theorem updates_patch_no_status_witness:
  "UpdateShifaPhase noting_env \<lparr>su_object = zero_houmao\<rparr> ''xianqi'' 5 =
     UpdateShifaPhase accepting_env \<lparr>su_object = zero_houmao\<rparr> ''xianqi'' 5 \<and>
   UpdateShifaPhase accepting_env \<lparr>su_object = zero_houmao\<rparr> ''xianqi'' 5 = (Done \<lparr>su_object = zero_houmao\<rparr>, 6)"
proof
  show "UpdateShifaPhase noting_env \<lparr>su_object = zero_houmao\<rparr> ''xianqi'' 5 =
      UpdateShifaPhase accepting_env \<lparr>su_object = zero_houmao\<rparr> ''xianqi'' 5"
    by (rule updates_patch_no_status [THEN conjunct2, THEN conjunct1])
      (simp add: noting_env_def accepting_env_def)
  show "UpdateShifaPhase accepting_env \<lparr>su_object = zero_houmao\<rparr> ''xianqi'' 5 = (Done \<lparr>su_object = zero_houmao\<rparr>, 6)"
    by (simp add: UpdateShifaPhase_def DeepEqual_def accepting_env_def zero_houmao_def zero_status_def go_simps)
qed

end
