(* ===== verification/Zaohua.thy ===== *)
theory Zaohua
  imports Replica_Calculator Behavior Status_Updator
begin

text \<open>
  \<open>pkg/zaohua/daofa/zaohua.go\<close>: one round of the scaling loop. The package variables and the
  object of the handle are a record beside the world; they keep what a round has written when
  the round ends with an error.
\<close>

section \<open>The state\<close>

record 'w zstate =
  zs_world :: 'w
  zs_originReplicas :: i32
  zs_houmaoObject :: houmao
  zs_recommendationRecords :: "timestamped_recommendation_record list"
  zs_scaleUpEvents :: "timestamped_scale_event list"
  zs_scaleDownEvents :: "timestamped_scale_event list"
  zs_object :: houmao

definition on_world :: "('w, 'a) io \<Rightarrow> ('w zstate, 'a) io" where
  "on_world m = (\<lambda>s. case m (zs_world s) of (r, w) \<Rightarrow> (r, s\<lparr>zs_world := w\<rparr>))"

definition reads :: "('s \<Rightarrow> 'a) \<Rightarrow> ('s, 'a) io" where
  "reads f = (\<lambda>s. (Done (f s), s))"

definition writes :: "('s \<Rightarrow> 's) \<Rightarrow> ('s, unit) io" where
  "writes f = (\<lambda>s. (Done (), f s))"

lemma state_apply [go_simps]:
  "on_world m s = (case m (zs_world s) of (r, w) \<Rightarrow> (r, s\<lparr>zs_world := w\<rparr>))"
  "reads f t = (Done (f t), t)"
  "writes g u = (Done (), g u)"
  by (simp_all add: on_world_def reads_def writes_def)

section \<open>Scale events\<close>

text \<open>The loop over the policies of a direction; nil rules panic.\<close>

definition getLongestPolicyPeriod :: "scaling_rules option \<Rightarrow> i32 outcome" where
  "getLongestPolicyPeriod scaleRules =
     obind (deref scaleRules) (\<lambda>rules.
     Done (fold (\<lambda>policy longest. if sint (sp_periodSeconds policy) > sint longest
         then sp_periodSeconds policy else longest) (sr_policies rules) 0))"

definition mark_outdated :: "time \<Rightarrow> timestamped_scale_event list \<Rightarrow> timestamped_scale_event list" where
  "mark_outdated cutoff = map (\<lambda>e. if tse_timeStamp e < cutoff then e\<lparr>tse_outDated := True\<rparr> else e)"

definition markScaleUpEventsOutdated :: "'w env \<Rightarrow> i32 \<Rightarrow> ('w zstate, unit) io" where
  "markScaleUpEventsOutdated E longestPolicyPeriod =
     bnd (on_world (now E)) (\<lambda>t.
     writes (\<lambda>s. s\<lparr>zs_scaleUpEvents := mark_outdated (seconds_before longestPolicyPeriod t) (zs_scaleUpEvents s)\<rparr>))"

definition markScaleDownEventsOutdated :: "'w env \<Rightarrow> i32 \<Rightarrow> ('w zstate, unit) io" where
  "markScaleDownEventsOutdated E longestPolicyPeriod =
     bnd (on_world (now E)) (\<lambda>t.
     writes (\<lambda>s. s\<lparr>zs_scaleDownEvents := mark_outdated (seconds_before longestPolicyPeriod t) (zs_scaleDownEvents s)\<rparr>))"

definition storageScaleEvent :: "'w env \<Rightarrow> hpa_behavior option \<Rightarrow> i32 \<Rightarrow> i32 \<Rightarrow> ('w zstate, unit) io" where
  "storageScaleEvent E behavor preReplicas newReplicas =
     (case behavor of
        None \<Rightarrow> ret ()
      | Some b \<Rightarrow>
        if sint newReplicas > sint preReplicas then
          bnd (lift_outcome (getLongestPolicyPeriod (hb_scaleUp b))) (\<lambda>longestPolicyPeriod.
          bnd (markScaleUpEventsOutdated E longestPolicyPeriod) (\<lambda>_.
          let replicaChange = newReplicas - preReplicas in
          bnd (reads zs_scaleUpEvents) (\<lambda>events.
          let oldSample = last_index tse_outDated 0 events None in
          bnd (on_world (now E)) (\<lambda>t.
          let newEvent = \<lparr>tse_replicaChange = replicaChange, tse_timeStamp = t, tse_outDated = False\<rparr> in
          writes (\<lambda>s. s\<lparr>zs_scaleUpEvents := store_in oldSample newEvent events\<rparr>)))))
        else
          bnd (lift_outcome (getLongestPolicyPeriod (hb_scaleDown b))) (\<lambda>longestPolicyPeriod.
          bnd (markScaleDownEventsOutdated E longestPolicyPeriod) (\<lambda>_.
          let replicaChange = preReplicas - newReplicas in
          bnd (reads zs_scaleDownEvents) (\<lambda>events.
          let oldSample = last_index tse_outDated 0 events None in
          bnd (on_world (now E)) (\<lambda>t.
          let newEvent = \<lparr>tse_replicaChange = replicaChange, tse_timeStamp = t, tse_outDated = False\<rparr> in
          writes (\<lambda>s. s\<lparr>zs_scaleDownEvents := store_in oldSample newEvent events\<rparr>))))))"

section \<open>The count over all metrics\<close>

text \<open>
  The state of the loop: the greatest count so far with the index, the type and the name of the
  metric that asked for it. One case of the switch: an error skips the metric.
\<close>

record election =
  el_desiredReplicas :: i32
  el_metricIndex :: i32
  el_metricType :: string
  el_metricName :: string

definition elect :: "('w, i32 \<times> time) io \<Rightarrow> i32 \<Rightarrow> string \<Rightarrow> string outcome \<Rightarrow> election \<Rightarrow> ('w, election) io" where
  "elect calculator index mtype mname acc =
     handle calculator
       (\<lambda>err. ret acc)
       (\<lambda>(replicas, _). if sint (el_desiredReplicas acc) < sint replicas
          then bnd (lift_outcome mname) (\<lambda>name. ret \<lparr>el_desiredReplicas = replicas, el_metricIndex = index,
            el_metricType = mtype, el_metricName = name\<rparr>)
          else ret acc)"

definition metric_step :: "'w env \<Rightarrow> calculate_handle \<Rightarrow> string \<Rightarrow> selector \<Rightarrow> i32 \<Rightarrow> i32 \<Rightarrow> metric_spec
    \<Rightarrow> election \<Rightarrow> ('w, election) io" where
  "metric_step E c namespace podSelector currentReplicas index metric acc =
     (if ms_type metric = ContainerResourceMetricSourceType then
        elect (CalculateReplicasWithContainerResourceMetricSourceType E c namespace metric podSelector currentReplicas)
          index ContainerResourceMetricSourceType (obind (deref (ms_containerResource metric)) (\<lambda>r. Done (crms_name r))) acc
      else if ms_type metric = ResourceMetricSourceType then
        elect (CalculateReplicasWithResourceMetricSourceType E c namespace podSelector metric currentReplicas)
          index ResourceMetricSourceType (obind (deref (ms_resource metric)) (\<lambda>r. Done (rms_name r))) acc
      else if ms_type metric = PodsMetricSourceType then
        elect (CalculateReplicasWithPodsMetricSourceType E c namespace podSelector metric currentReplicas)
          index ContainerResourceMetricSourceType (obind (deref (ms_containerResource metric)) (\<lambda>r. Done (crms_name r))) acc
      else if ms_type metric = ObjectMetricSourceType then
        elect (CalculateReplicasWithObjectSourceType E c namespace podSelector metric currentReplicas)
          index ObjectMetricSourceType (obind (deref (ms_object metric)) (\<lambda>r. Done (mi_name (oms_metric r)))) acc
      else if ms_type metric = ExternalMetricSourceType then
        elect (CalculateReplicasWithExternalMetricSourceType E c namespace metric podSelector currentReplicas)
          index ExternalMetricSourceType (obind (deref (ms_external metric)) (\<lambda>r. Done (mi_name (ems_metric r)))) acc
      else fail (UnsupportedMetricType (ms_type metric)))"

primrec metric_loop :: "'w env \<Rightarrow> calculate_handle \<Rightarrow> string \<Rightarrow> selector \<Rightarrow> i32 \<Rightarrow> nat \<Rightarrow> metric_spec list
    \<Rightarrow> election \<Rightarrow> ('w, election) io" where
  "metric_loop E c namespace podSelector currentReplicas index [] acc = ret acc"
| "metric_loop E c namespace podSelector currentReplicas index (metric # metrics) acc =
     bnd (metric_step E c namespace podSelector currentReplicas (of_nat index) metric acc) (\<lambda>acc'.
     metric_loop E c namespace podSelector currentReplicas (Suc index) metrics acc')"

text \<open>
  The count is limited from above first; the lower limit is read only when the upper one does not
  apply.
\<close>

definition limit_replicas :: "i32 \<Rightarrow> i32 option \<Rightarrow> i32 \<Rightarrow> i32 outcome" where
  "limit_replicas maxReplicas minReplicas desired =
     (if sint desired > sint maxReplicas then Done maxReplicas
      else obind (deref minReplicas) (\<lambda>m. Done (if sint desired < sint m then m else desired)))"

definition calculate :: "'w env \<Rightarrow> calculate_handle \<Rightarrow> houmao \<Rightarrow> scale \<Rightarrow> ('w, election) io" where
  "calculate E c scaleObject sc =
     (let currentReplicas = sc_statusReplicas sc;
          maxReplicas = hs_maxReplicas (hm_spec scaleObject);
          minReplicas = hs_minReplicas (hm_spec scaleObject);
          namespace = om_namespace (hm_meta scaleObject);
          metrics = hs_metrics (hm_spec scaleObject) in
      bnd (lift_outcome (lib_result (e_labelsParse E (sc_statusSelector sc)))) (\<lambda>podSelector.
      bnd (metric_loop E c namespace podSelector currentReplicas 0 metrics
        \<lparr>el_desiredReplicas = currentReplicas, el_metricIndex = 0, el_metricType = [], el_metricName = []\<rparr>) (\<lambda>acc.
      bnd (lift_outcome (limit_replicas maxReplicas minReplicas (el_desiredReplicas acc))) (\<lambda>desiredReplicas.
      ret (acc\<lparr>el_desiredReplicas := desiredReplicas\<rparr>)))))"

section \<open>Execution\<close>

text \<open>
  The revised count is stored in the scale and then overwritten: the variable that the revision
  assigns is declared in the inner block. What the revision does to the records stays.
\<close>

definition revise_step :: "'w env \<Rightarrow> i32 \<Rightarrow> i32 \<Rightarrow> hpa_behavior \<Rightarrow> ('w zstate, i32) io" where
  "revise_step E scaledReplicas specReplicas behavor =
     bnd (reads (\<lambda>s. (zs_recommendationRecords s,
       if sint scaledReplicas > sint specReplicas then zs_scaleUpEvents s else zs_scaleDownEvents s)))
       (\<lambda>(records, events).
     bnd (on_world (ReviseWithBehavor E scaledReplicas specReplicas (Some behavor) records events))
       (\<lambda>(revised, records').
     bnd (writes (\<lambda>s. s\<lparr>zs_recommendationRecords := records'\<rparr>)) (\<lambda>_. ret revised)))"

definition execScale :: "'w env \<Rightarrow> i32 \<Rightarrow> scale \<Rightarrow> hpa_behavior \<Rightarrow> ('w zstate, i32) io" where
  "execScale E scaledReplicas sc behavor =
     (let preReplicas = sc_specReplicas sc; finalReplicas = scaledReplicas in
      bnd (if hb_scaleUp behavor \<noteq> None \<and> hb_scaleDown behavor \<noteq> None
           then bnd (revise_step E scaledReplicas (sc_specReplicas sc) behavor)
             (\<lambda>revised. ret (sc\<lparr>sc_specReplicas := revised\<rparr>))
           else ret sc) (\<lambda>sc1.
      let sc2 = sc1\<lparr>sc_specReplicas := finalReplicas\<rparr> in
      bnd (on_world (call (e_updateScale E sc2))) (\<lambda>sc3.
      bnd (storageScaleEvent E (Some behavor) preReplicas finalReplicas) (\<lambda>_.
      ret (sc_specReplicas sc3)))))"

definition syncService :: "i32 \<Rightarrow> ('s, unit) io" where
  "syncService replicas = ret ()"

definition getScaleForTarget :: "'w env \<Rightarrow> string \<Rightarrow> string \<Rightarrow> ('w, scale) io" where
  "getScaleForTarget E name namespace =
     call (e_getScale E \<lparr>nn_namespace = namespace, nn_name = name\<rparr>)"

section \<open>The record of the rounds\<close>

text \<open>
  The array of the last results is moved to the front by one place and filled at the end. An
  array shorter than 5 would be written one past its end.
\<close>

text \<open>
  The loop that moves the results of the array forward, from the index \<open>i\<close> on, and the write of
  the former current result; each index is checked against the array, as Go does.
\<close>

function shift_loop :: "nat \<Rightarrow> nat \<Rightarrow> zaohua_result list \<Rightarrow> zaohua_result list outcome" where
  "shift_loop len i results =
     (if i < len - 1 then
        obind (at_index results (i + 1)) (\<lambda>result.
        obind (set_index results i result) (\<lambda>results'. shift_loop len (i + 1) results'))
      else Done results)"
  by pat_completeness auto
termination by (relation "measure (\<lambda>(len, i, results). len - i)") auto

declare shift_loop.simps [simp del]

definition shift_results :: "zaohua_result \<Rightarrow> zaohua_result list \<Rightarrow> zaohua_result list outcome" where
  "shift_results preZaohuaResult lastResults =
     (let len = length lastResults in
      if len < 5 then set_index lastResults len preZaohuaResult
      else obind (shift_loop len 0 lastResults) (\<lambda>results. set_index results (len - 1) preZaohuaResult))"

definition updateStatus :: "'w env \<Rightarrow> zaohua_result \<Rightarrow> ('w zstate, unit) io" where
  "updateStatus E zaohuaResult =
     bnd (reads (\<lambda>s. (zs_object s, zs_originReplicas s))) (\<lambda>(object, OriginReplicas).
     let zaohuaRecord = hst_zaohuaRecord (hm_status object);
         preZaohuaResult = zrec_current zaohuaRecord in
     bnd (lift_outcome (shift_results preZaohuaResult (zrec_last5 zaohuaRecord))) (\<lambda>lastResults.
     let zaohuaRecord1 = zaohuaRecord\<lparr>zrec_current := zaohuaResult, zrec_last5 := lastResults\<rparr>;
         zaohuaRecord2 = (if OriginReplicas \<noteq> 0 \<and> zrec_originReplicas zaohuaRecord1 = 0
           then zaohuaRecord1\<lparr>zrec_originReplicas := OriginReplicas\<rparr> else zaohuaRecord1) in
     bnd (on_world (UpdateZaohuaRecord E (fst (NewStatusUpdateHandle object None)) zaohuaRecord2)) (\<lambda>h.
     writes (\<lambda>s. s\<lparr>zs_object := su_object h\<rparr>))))"

section \<open>The round\<close>

text \<open>
  A round on an empty object waits for the channel instead of scaling. The error of the
  calculation ends the round without an error; that of the execution is logged, and the round
  goes on with the count 0.
\<close>

datatype round_end = Waiting | Finished

definition detectAndScale :: "'w env \<Rightarrow> calculate_handle \<Rightarrow> ('w zstate, round_end) io" where
  "detectAndScale E c =
     bnd (reads zs_object) (\<lambda>scaleObject.
     if DeepEqual (V_Houmao scaleObject) (V_Houmao zero_houmao) then ret Waiting
     else
       bnd (lift_outcome (ParseGroupVersion (ref_apiVersion (hs_scaleTargetRef (hm_spec scaleObject))))) (\<lambda>targetGV.
       bnd (on_world (getScaleForTarget E (ref_name (hs_scaleTargetRef (hm_spec scaleObject)))
         (om_namespace (hm_meta scaleObject)))) (\<lambda>sc.
       bnd (writes (\<lambda>s. s\<lparr>zs_originReplicas := sc_specReplicas sc\<rparr>)) (\<lambda>_.
       let currentReplicas = sc_specReplicas sc in
       handle (on_world (calculate E c scaleObject sc)) (\<lambda>err. ret Finished) (\<lambda>el.
       if el_desiredReplicas el = currentReplicas then ret Finished
       else
         bnd (handle (execScale E (el_desiredReplicas el) sc (hs_behavor (hm_spec scaleObject)))
           (\<lambda>err. ret 0) ret) (\<lambda>desiredReplicas.
         bnd (syncService desiredReplicas) (\<lambda>_.
         bnd (on_world (now E)) (\<lambda>t.
         bnd (updateStatus E \<lparr>zr_timestamp = t, zr_currentReplicas = currentReplicas,
             zr_desiredReplicas = desiredReplicas,
             zr_metricsElection = \<lparr>mst_isScaled = True, mst_scaledReplicas = desiredReplicas - currentReplicas,
               mst_metricIndex = el_metricIndex el, mst_metricType = el_metricType el,
               mst_metricName = el_metricName el\<rparr>\<rparr>) (\<lambda>_.
         ret Finished)))))))))"

definition scaleForEvent :: "('s, unit) io" where
  "scaleForEvent = ret ()"

end
