(* ===== verification/Frame.thy ===== *)
theory Frame
  imports Zaohua
begin

text \<open>
  What a round sends to the API server, by replacing the server: a computation whose result does
  not change when the answers to an update of the scale are replaced does not send one. Every
  step but the execution is such a computation.
\<close>

abbreviation (input) with_updates :: "(scale \<Rightarrow> 'w \<Rightarrow> (gerror + scale) \<times> 'w) \<Rightarrow> 'w env \<Rightarrow> 'w env" where
  "with_updates u E \<equiv> E\<lparr>e_updateScale := u\<rparr>"

lemma frame_fields:
  "e_now (with_updates u E) = e_now E"
  "e_oor (with_updates u E) = e_oor E"
  "e_labelsParse (with_updates u E) = e_labelsParse E"
  "e_asSelector (with_updates u E) = e_asSelector E"
  "e_listPods (with_updates u E) = e_listPods E"
  "e_podMetricses (with_updates u E) = e_podMetricses E"
  "e_podsMapping (with_updates u E) = e_podsMapping E"
  "e_podsCustom (with_updates u E) = e_podsCustom E"
  "e_rootCustom (with_updates u E) = e_rootCustom E"
  "e_objectCustom (with_updates u E) = e_objectCustom E"
  "e_external (with_updates u E) = e_external E"
  "e_getScale (with_updates u E) = e_getScale E"
  "e_patchHoumao (with_updates u E) = e_patchHoumao E"
  by simp_all

lemma frame_now: "now (with_updates u E) = now E"
  by (simp add: now_def)

section \<open>Behaviour and events\<close>

lemma frame_change:
  "getReplicasChangePerScalePolicyPeriod (with_updates u E) n es = getReplicasChangePerScalePolicyPeriod E n es"
  unfolding getReplicasChangePerScalePolicyPeriod_def frame_now ..

lemma frame_policy_loop:
  "policy_loop (with_updates u E) c es f ps l p = policy_loop E c es f ps l p"
  by (induction ps arbitrary: l p) (simp_all add: frame_change)

lemma frame_revise:
  "ReviseWithBehavor (with_updates u E) d c b rs es = ReviseWithBehavor E d c b rs es"
  unfolding ReviseWithBehavor_def stabilizationRecommendationWithBehavors_def
    convertDesiredReplicasWithBehaviorRate_def calculateScaleUpLimitWithScalingRules_def
    calculateScaleDownLimitWithScalingRules_def frame_policy_loop frame_now ..

lemma frame_revise_step:
  "revise_step (with_updates u E) n k b = revise_step E n k b"
  unfolding revise_step_def frame_revise ..

lemma frame_storage:
  "storageScaleEvent (with_updates u E) b pre new = storageScaleEvent E b pre new"
  unfolding storageScaleEvent_def markScaleUpEventsOutdated_def markScaleDownEventsOutdated_def frame_now ..

section \<open>The calculators\<close>

lemma frame_metrics:
  "GetResouceMetric (with_updates u E) = GetResouceMetric E"
  "GetRawMetric (with_updates u E) = GetRawMetric E"
  "GetObjectMetric (with_updates u E) = GetObjectMetric E"
  "GetExternalMetric (with_updates u E) = GetExternalMetric E"
  unfolding fun_eq_iff GetResouceMetric_def GetRawMetric_def GetForObjects_def GetObjectMetric_def GetExternalMetric_def frame_fields
  by (rule allI refl)+

lemma frame_unready: "cpu_unready (with_updates u E) cip delay p m = cpu_unready E cip delay p m"
  unfolding cpu_unready_def frame_now ..

lemma frame_group_loop:
  "group_loop (with_updates u E) ms r cip delay ps g = group_loop E ms r cip delay ps g"
proof (induction ps arbitrary: g)
  case (Cons p ps)
  show ?case unfolding group_loop.simps frame_unready Cons.IH ..
qed (simp only: group_loop.simps)

lemma frame_groups:
  "groupPods (with_updates u E) ps ms r cip delay = groupPods E ps ms r cip delay"
  "getReadyPodsCount (with_updates u E) ns sel = getReadyPodsCount E ns sel"
  unfolding groupPods_def getReadyPodsCount_def frame_group_loop frame_fields by (rule refl)+

lemmas frame_calculator_parts = frame_fields frame_metrics frame_groups

lemma frame_plain:
  "calculatePlainMetricReplicas (with_updates u E) c m n t ns sel = calculatePlainMetricReplicas E c m n t ns sel"
  unfolding calculatePlainMetricReplicas_def frame_calculator_parts ..

lemma frame_resource_decision:
  "resource_decision (with_updates u E) c g r m t n = resource_decision E c g r m t n"
  unfolding resource_decision_def frame_fields ..

lemma frame_ratio:
  "getUsageRatioReplicas (with_updates u E) c n r ns sel = getUsageRatioReplicas E c n r ns sel"
  unfolding getUsageRatioReplicas_def frame_calculator_parts ..

lemma frame_calculators:
  "CalculateReplicasWithPodsMetricSourceType (with_updates u E) c ns sel m n =
     CalculateReplicasWithPodsMetricSourceType E c ns sel m n"
  "CalculateReplicasWithResourceMetricSourceType (with_updates u E) c ns sel m n =
     CalculateReplicasWithResourceMetricSourceType E c ns sel m n"
  "CalculateReplicasWithContainerResourceMetricSourceType (with_updates u E) c ns m sel n =
     CalculateReplicasWithContainerResourceMetricSourceType E c ns m sel n"
  "CalculateReplicasWithObjectSourceType (with_updates u E) c ns sel m n =
     CalculateReplicasWithObjectSourceType E c ns sel m n"
  "CalculateReplicasWithExternalMetricSourceType (with_updates u E) c ns m sel n =
     CalculateReplicasWithExternalMetricSourceType E c ns m sel n"
  unfolding CalculateReplicasWithPodsMetricSourceType_def CalculateReplicasWithResourceMetricSourceType_def
    CalculateReplicasWithContainerResourceMetricSourceType_def CalculateReplicasWithObjectSourceType_def
    getReplicasWithObjectSourceType_def getReplicasForPerPodWithObjectSourceType_def
    CalculateReplicasWithExternalMetricSourceType_def getReplicasWithExternalMetricSourceType_def
    getReplicasForPerPodWithExternalMetricSourceType_def
    frame_plain frame_resource_decision frame_ratio frame_calculator_parts
  by (rule refl)+

lemma frame_metric_loop:
  "metric_loop (with_updates u E) c ns sel n k ms acc = metric_loop E c ns sel n k ms acc"
proof (induction ms arbitrary: k acc)
  case (Cons m ms)
  show ?case unfolding metric_loop.simps metric_step_def frame_calculators Cons.IH ..
qed (simp only: metric_loop.simps)

lemma frame_calculate: "calculate (with_updates u E) c h sc = calculate E c h sc"
  unfolding calculate_def frame_metric_loop frame_fields ..

section \<open>The ends of a round\<close>

lemma frame_updateStatus: "updateStatus (with_updates u E) r = updateStatus E r"
  unfolding updateStatus_def UpdateZaohuaRecord_def frame_fields ..

lemma frame_getScale: "getScaleForTarget (with_updates u E) name ns = getScaleForTarget E name ns"
  unfolding getScaleForTarget_def frame_fields ..

text \<open>The execution sends one count, whatever the behaviour is.\<close>

lemma exec_one_update:
  assumes "\<And>sc' w. sc_specReplicas sc' = n \<Longrightarrow> u sc' w = e_updateScale E sc' w"
  shows "execScale (with_updates u E) n sc b = execScale E n sc b"
proof -
  have "call (u (sc'\<lparr>sc_specReplicas := n\<rparr>)) = call (e_updateScale E (sc'\<lparr>sc_specReplicas := n\<rparr>))" for sc'
    using assms [of "sc'\<lparr>sc_specReplicas := n\<rparr>"] by (simp add: call_def fun_eq_iff)
  then show ?thesis
    unfolding execScale_def Let_def frame_revise_step frame_storage by simp
qed

end
