(* ===== verification/Replica_Facts.thy ===== *)
theory Replica_Facts
  imports Replica_Calculator
begin

text \<open>
  What the replica calculators compute: the metrics that survive the grouping, the direction of a
  decision, the exact count of the average-value sources, and which inputs make each of them
  fail or panic.
\<close>

section \<open>A handle\<close>

text \<open>
  The handle that the command line builds from its defaults, which are numbers of nanoseconds: it
  serves the concrete runs.
\<close>

definition default_handle :: calculate_handle where
  "default_handle = NewCalculateHandle (word_of_int CpuInitializationPeriod) (word_of_int InitialReadinessDelay)
     (word_of_int StabilizationWindowSeconds) (to_f64 False ScaleTolerance)"

section \<open>The metrics after each step\<close>

lemma drop_pods_get:
  "map_of (drop_pods g m) k =
     (if k \<in> set (gp_ignoredPods g) \<union> set (gp_unreadyPods g) then None else map_of m k)"
  by (auto simp: drop_pods_def gm.get_fold_del)

lemma drop_pods_ok: "gm_ok m \<Longrightarrow> gm_ok (drop_pods g m)"
  by (simp add: drop_pods_def gm.ok_fold_del)

lemma length_update_le: "length (AList.update k v m) \<le> Suc (length m)"
  by (induction m) auto

lemma length_fold_update_le: "length (fold (\<lambda>k. AList.update k v) ks m) \<le> length m + length ks"
proof (induction ks arbitrary: m)
  case (Cons k ks)
  have "length (fold (\<lambda>k. AList.update k v) ks (AList.update k v m))
      \<le> length (AList.update k v m) + length ks" by (rule Cons.IH)
  then show ?case using length_update_le [of k v m] by simp
qed simp

lemma length_fold_delete_le: "length (fold AList.delete ks m) \<le> length m"
proof (induction ks arbitrary: m)
  case (Cons k ks)
  have "length (AList.delete k m) \<le> length m" by (simp add: AList.delete_eq)
  then show ?case using Cons.IH [of "AList.delete k m"] by simp
qed simp

lemma drop_pods_length: "length (drop_pods g m) \<le> length m"
  unfolding drop_pods_def using length_fold_delete_le by (rule order_trans) (rule length_fold_delete_le)

lemma update_not_Nil: "AList.update k v m \<noteq> []"
  by (cases m) auto

lemma fold_update_Nil: "fold (\<lambda>k. AList.update k v) ks m = [] \<longleftrightarrow> m = [] \<and> ks = []"
  by (induction ks arbitrary: m) (auto simp: update_not_Nil)

lemma fill_missing_Nil: "fill_missing r t ks m = [] \<longleftrightarrow> m = [] \<and> ks = []"
  by (auto simp: fill_missing_def fold_update_Nil)

lemma fill_missing_length: "length (fill_missing r t ks m) \<le> length m + length ks"
  by (auto simp: fill_missing_def length_fold_update_le)

lemma zero_unready_length: "length (zero_unready b ks m) \<le> length m + length ks"
  by (auto simp: zero_unready_def length_fold_update_le)

lemma zero_unready_not_Nil: "m \<noteq> [] \<Longrightarrow> zero_unready b ks m \<noteq> []"
  by (auto simp: zero_unready_def fold_update_Nil)

section \<open>Comparisons with one\<close>

lemma f64_trichotomy: "x \<noteq> F_NaN \<Longrightarrow> x < 1 \<or> 1 < x \<or> x = (1 :: f64)"
  by (cases x) (auto simp: less_f64_def one_f64_def)

lemma abs_one_minus_one: "\<bar>1 - (1 :: f64)\<bar> = F_Zero False"
  by (simp add: one_f64_def minus_f64_def to_f64_def abs_f64_def)

lemma f64_less_asym: "a < b \<Longrightarrow> \<not> b < (a :: f64)"
  by (cases a; cases b) (auto simp: less_f64_def)

lemma to_f64_not_NaN [simp]: "to_f64 s q \<noteq> F_NaN"
  by (simp add: to_f64_def Let_def)

lemma f64_of_int_finite: "f64_of_int n = F_Zero False \<or> (\<exists>q. f64_of_int n = F_Num q)
    \<or> f64_of_int n = F_Inf False \<or> f64_of_int n = F_Inf True"
  by (auto simp: f64_of_int_def to_f64_def Let_def)

lemma rnd_abs: "rnd \<bar>q\<bar> = \<bar>rnd q\<bar>"
  using rnd_nonneg [of q] rnd_nonneg [of "- q"] by (cases "0 \<le> q") (auto simp: rnd_minus)

text \<open>An \<open>int64\<close> converts to a finite float, to zero only from zero.\<close>

lemma f64_of_i64_finite:
  "f64_of_i64 n = (if n = 0 then F_Zero False else F_Num (rnd (of_int (sint n))))"
  "n \<noteq> 0 \<Longrightarrow> rnd (of_int (sint n)) \<noteq> 0"
proof -
  have b: "\<bar>of_int (sint n) :: rat\<bar> \<le> of_int (2 ^ 63)"
    using sint_i64_bounds [of n] unfolding of_int_abs [symmetric] of_int_le_iff by simp
  have "rnd \<bar>of_int (sint n)\<bar> \<le> rnd (2 powi 63)" using b by (intro rnd_mono) simp
  also have "\<dots> = 2 ^ 63" using rnd_pow2 [of 63] by simp
  also have "(2::rat) ^ 63 \<le> 2 ^ 1023" by (rule power_increasing) simp_all
  finally have ov: "\<bar>rnd (of_int (sint n))\<bar> < overflow_bound"
    using overflow_bound_big by (simp only: rnd_abs)
  show nz: "rnd (of_int (sint n)) \<noteq> 0" if "n \<noteq> 0"
  proof -
    have "sint n \<noteq> 0" using that by simp
    then have "1 \<le> \<bar>sint n\<bar>" by linarith
    then have "(of_int 1 :: rat) \<le> of_int \<bar>sint n\<bar>" by (simp only: of_int_le_iff)
    then have "rnd 1 \<le> rnd \<bar>of_int (sint n)\<bar>" by (intro rnd_mono) simp
    then have "1 \<le> \<bar>rnd (of_int (sint n))\<bar>" by (simp only: rnd_abs f64.r_one)
    then show ?thesis by auto
  qed
  show "f64_of_i64 n = (if n = 0 then F_Zero False else F_Num (rnd (of_int (sint n))))"
    using ov nz by (auto simp: f64_of_i64_def f64_of_int_def to_f64_def Let_def)
qed

lemma quotient_not_NaN: "t \<noteq> 0 \<Longrightarrow> f64_of_i64 a / f64_of_i64 t \<noteq> F_NaN"
  by (auto simp: f64_of_i64_finite divide_f64_def)

section \<open>The direction of a decision\<close>

lemma settle_direction:
  assumes "settle oor tol r ms target cur = Done (n, fl)"
    and "target \<noteq> 0" "F_Zero False \<le> tol"
  shows "(r < 1 \<longrightarrow> sint n \<le> sint cur) \<and> (1 < r \<longrightarrow> sint cur \<le> sint n)"
proof -
  obtain nr u where g: "GetMetricUtilizationRatio ms target = Done (nr, u)"
    using assms(1) by (auto simp: settle_def obind_eq_Done)
  have "nr \<noteq> F_NaN"
    using g quotient_not_NaN [OF assms(2)] by (auto simp: GetMetricUtilizationRatio_def obind_eq_Done)
  then consider "nr < 1" | "1 < nr" | "nr = 1" using f64_trichotomy by blast
  then show ?thesis
  proof cases
    case 1
    then show ?thesis using assms(1) g f64_less_asym [OF 1]
      by (auto simp: settle_def Let_def split: if_splits)
  next
    case 2
    then show ?thesis using assms(1) g f64_less_asym [OF 2]
      by (auto simp: settle_def Let_def split: if_splits)
  next
    case 3
    then show ?thesis using assms(1,3) g by (auto simp: settle_def abs_one_minus_one)
  qed
qed

lemma settle_panics_iff:
  assumes "length ms < 2 ^ 63"
  shows "panics (settle oor tol r ms target cur) \<longleftrightarrow> ms = []"
  using metric_ratio_panics_iff [OF assms, of target]
  by (auto simp: settle_def panics_obind Let_def)

lemma resource_decision_no_panic:
  assumes "ms \<noteq> []" "length ms + length (gp_missingPods g) + length (gp_unreadyPods g) < 2 ^ 63"
  shows "\<not> panics (resource_decision E c g r ms target cur)"
proof -
  let ?m2 = "fill_missing r target (gp_missingPods g) ms"
  let ?m3 = "zero_unready (gp_unreadyPods g \<noteq> [] \<and> 1 < r) (gp_unreadyPods g) ?m2"
  have "length ?m3 < 2 ^ 63"
    using assms(2) fill_missing_length [of r target "gp_missingPods g" ms]
      zero_unready_length [of "gp_unreadyPods g \<noteq> [] \<and> 1 < r" "gp_unreadyPods g" ?m2] by linarith
  moreover have "?m3 \<noteq> []" using assms(1) by (simp add: zero_unready_not_Nil fill_missing_Nil)
  ultimately have "\<not> panics (settle (e_oor E) (ch_scaleTolerance c) r ?m3 target cur)"
    by (simp add: settle_panics_iff)
  then show ?thesis by (simp add: resource_decision_def Let_def)
qed

section \<open>Sums and exact quotients\<close>

lemma sum_values_sum: "sum_values vs = sum_list vs"
proof -
  have "fold (\<lambda>v u. u + v) vs a = a + sum_list vs" for a
    by (induction vs arbitrary: a) (auto simp: algebra_simps)
  then show ?thesis by (simp add: sum_values_def)
qed

lemma f64_of_i32_int: "f64_of_i32 n = f64_of_int (sint n)"
  by (simp add: f64_of_i32_def)

lemma times_f64_of_int:
  assumes "\<bar>a\<bar> \<le> 2 ^ 53" "\<bar>b\<bar> \<le> 2 ^ 53" "\<bar>a * b\<bar> \<le> 2 ^ 53" "0 < a" "0 < b"
  shows "f64_of_int a * f64_of_int b = f64_of_int (a * b)"
proof -
  have p: "0 < a * b" using assms(4,5) by simp
  have "fval (f64_of_int a) * fval (f64_of_int b) = of_int (a * b)"
    using assms(1,2) by (simp add: fval_f64_of_int)
  moreover have "f64_of_int a = F_Num (of_int a)" "f64_of_int b = F_Num (of_int b)"
    using assms by (simp_all add: f64_of_int_exact)
  ultimately have "f64_of_int a * f64_of_int b = to_f64 False (of_int (a * b))"
    using assms(4,5) by (simp add: times_f64_def)
  then show ?thesis by (simp only: f64_of_int_def)
qed

text \<open>
  The ratio of a total to a target times the replicas differs from 1 exactly when the total
  differs from that product; and then the count is the exact ceiling.
\<close>

lemma ratio_is_one_iff:
  assumes "\<bar>a\<bar> \<le> 2 ^ 53" "0 < b" "b < 2 ^ 53"
  shows "0 < \<bar>1 - f64_of_int a / f64_of_int b\<bar> \<longleftrightarrow> a \<noteq> b"
proof -
  let ?x = "f64_of_int a / f64_of_int b"
  have lt: "?x < 1 \<longleftrightarrow> a < b" and gt: "1 < ?x \<longleftrightarrow> b < a"
    using assms quotient_less_one quotient_greater_one by simp_all
  have fin: "?x = to_f64 (a < 0) (of_int a / of_int b)"
    using assms by (intro divide_f64_of_int) simp_all
  have pos: "0 < \<bar>1 - y\<bar>" if y: "y \<noteq> 1" "y \<noteq> F_NaN" "\<And>q. y = F_Num q \<Longrightarrow> rnd (1 - q) \<noteq> 0" for y :: f64
  proof (cases y)
    case (F_Num q)
    then show ?thesis using y(3) [OF F_Num]
      by (auto simp: one_f64_def minus_f64_def to_f64_def Let_def abs_f64_def less_f64_def zero_f64_def)
  next
    case (F_Zero s)
    have "\<not> overflow_bound \<le> 1" using overflow_bound_one by simp
    then show ?thesis using F_Zero f64.r_one
      by (simp add: one_f64_def minus_f64_def to_f64_def abs_f64_def less_f64_def zero_f64_def)
  qed (use y in \<open>auto simp: one_f64_def minus_f64_def abs_f64_def less_f64_def zero_f64_def\<close>)
  show ?thesis
  proof (cases "a = b")
    case True
    then have "\<not> ?x < 1" "\<not> 1 < ?x" using lt gt by simp_all
    moreover have "?x \<noteq> F_NaN" by (simp add: fin)
    ultimately have "?x = 1" using f64_trichotomy by blast
    then show ?thesis using True by (simp add: abs_one_minus_one less_f64_def zero_f64_def)
  next
    case False
    then have ne: "?x < 1 \<or> 1 < ?x" using lt gt by auto
    have "rnd (1 - q) \<noteq> 0" if q: "?x = F_Num q" for q
    proof (rule rnd_nonzero)
      have qr: "q = rnd (of_int a / of_int b)" using q fin by (auto simp: to_f64_def Let_def split: if_splits)
      have "1 / of_int (2 ^ 53) \<le> \<bar>1 - q\<bar>"
      proof (cases "a < b")
        case True
        then show ?thesis using f64.ratio_below [of b a] assms unfolding qr by simp
      next
        case False
        then show ?thesis using \<open>a \<noteq> b\<close> f64.ratio_above [of b a] assms unfolding qr by simp
      qed
      moreover have "(2::rat) powi (- 1022) \<le> 2 powi (- 53)" by (simp only: pow2_le_iff)
      moreover have "(2::rat) powi (- 53) = 1 / of_int (2 ^ 53)" by (simp add: power_int_minus)
      ultimately show "2 powi (- 1022) \<le> \<bar>1 - q\<bar>" by linarith
    qed
    moreover have "?x \<noteq> 1" using ne by (auto simp: less_f64_def one_f64_def)
    ultimately show ?thesis using pos [of ?x] False fin by simp
  qed
qed

section \<open>The average-value sources\<close>

text \<open>The arithmetic both of them share, on totals and targets that fit a float exactly.\<close>

lemma per_pod_ratio_one_iff:
  assumes "\<bar>sint u\<bar> \<le> 2 ^ 53" "0 < sint t" "0 < sint cur" "sint t * sint cur < 2 ^ 53"
  shows "0 < \<bar>1 - f64_of_i64 u / (f64_of_i64 t * f64_of_i32 cur)\<bar> \<longleftrightarrow> sint u \<noteq> sint t * sint cur"
proof -
  have le: "sint t \<le> sint t * sint cur" "sint cur \<le> sint t * sint cur"
    using mult_left_mono [of 1 "sint cur" "sint t"] mult_right_mono [of 1 "sint t" "sint cur"] assms(2,3)
    by linarith+
  then have "sint t \<le> 2 ^ 53" "sint cur \<le> 2 ^ 53" using assms(4) by linarith+
  then have "f64_of_i64 t * f64_of_i32 cur = f64_of_int (sint t * sint cur)"
    unfolding f64_of_i64_def f64_of_i32_def using assms by (simp add: times_f64_of_int)
  then show ?thesis
    using ratio_is_one_iff [of "sint u" "sint t * sint cur"] assms by (simp add: f64_of_i64_def)
qed

definition ceil_div :: "int \<Rightarrow> int \<Rightarrow> int" where
  "ceil_div u t = (u + t - 1) div t"

lemma ceil_div_ceiling:
  assumes "0 < t"
  shows "\<lceil>of_int u / (of_int t :: rat)\<rceil> = ceil_div u t"
proof -
  have "of_int (ceil_div u t) = (of_int ((u + t - 1) div t) :: rat)" by (simp add: ceil_div_def)
  have m: "(u + t - 1) div t * t + (u + t - 1) mod t = u + t - 1" by (rule div_mult_mod_eq)
  have r: "0 \<le> (u + t - 1) mod t" "(u + t - 1) mod t < t" using assms by simp_all
  have "(ceil_div u t - 1) * t = ceil_div u t * t - t" by (simp add: left_diff_distrib)
  then have lo: "(ceil_div u t - 1) * t < u" using m r unfolding ceil_div_def by linarith
  have hi: "u \<le> ceil_div u t * t" using m r unfolding ceil_div_def by linarith
  have "(of_int ((ceil_div u t - 1) * t) :: rat) < of_int u" using lo by (simp only: of_int_less_iff)
  moreover have "(of_int u :: rat) \<le> of_int (ceil_div u t * t)" using hi by (simp only: of_int_le_iff)
  ultimately show ?thesis
    using assms by (intro ceiling_unique) (simp_all add: pos_less_divide_eq pos_divide_le_eq)
qed

lemma ceil_div_mult: "0 < t \<Longrightarrow> ceil_div (t * n) t = n"
  by (simp add: ceil_div_def add_diff_eq [symmetric] div_pos_pos_trivial)

lemma per_pod_count:
  assumes "0 \<le> sint u" "sint u < 2 ^ 53" "0 < sint t" "sint t \<le> 2 ^ 53"
    and "ceil_div (sint u) (sint t) \<le> 2147483647"
  shows "sint (i32_of_f64 oor (fceil (f64_of_i64 u / f64_of_i64 t))) = ceil_div (sint u) (sint t)"
proof -
  have "0 \<le> ceil_div (sint u) (sint t)" using assms(1,3) by (simp add: ceil_div_def pos_imp_zdiv_nonneg_iff)
  moreover have "\<lceil>of_int (sint u) / (of_int (sint t) :: rat)\<rceil> = ceil_div (sint u) (sint t)"
    by (rule ceil_div_ceiling [OF assms(3)])
  ultimately show ?thesis
    using ceil_quotient_i32 [OF assms(1-4), of oor] assms(5) unfolding f64_of_i64_def
    by (simp only: sint_word_of_int_i32)
qed

lemma external_per_pod_count:
  assumes src: "ms_external metric = Some src" "mt_averageValue (ems_target src) = Some t"
    and sel: "e_asSelector E (mi_selector (ems_metric src)) = Inr sel"
    and api: "GetExternalMetric E (mi_name (ems_metric src)) ns sel w = (Done (vs, ts), w')"
    and u: "0 \<le> sint (sum_values vs)" "sint (sum_values vs) < 2 ^ 53"
    and t: "0 < sint t" "0 < sint cur" "sint t * sint cur < 2 ^ 53"
    and fits: "ceil_div (sint (sum_values vs)) (sint t) \<le> 2147483647"
  shows "\<exists>n. getReplicasForPerPodWithExternalMetricSourceType E c ns metric psel cur w = (Done (n, ts), w')
           \<and> sint n = ceil_div (sint (sum_values vs)) (sint t)"
proof -
  let ?u = "sum_values vs"
  have "sint t \<le> sint t * sint cur" using mult_left_mono [of 1 "sint cur" "sint t"] t by simp
  then have t53: "sint t \<le> 2 ^ 53" using t(3) by simp
  have one: "0 < \<bar>1 - f64_of_i64 ?u / (f64_of_i64 t * f64_of_i32 cur)\<bar> \<longleftrightarrow> sint ?u \<noteq> sint t * sint cur"
    using u t by (intro per_pod_ratio_one_iff) simp_all
  have cnt: "sint (i32_of_f64 (e_oor E) (fceil (f64_of_i64 ?u / f64_of_i64 t))) = ceil_div (sint ?u) (sint t)"
    using u t t53 fits by (intro per_pod_count) simp_all
  show ?thesis
  proof (cases "sint ?u = sint t * sint cur")
    case True
    then have "ceil_div (sint ?u) (sint t) = sint cur" using t(1) by (simp add: ceil_div_mult)
    then show ?thesis using True one
      by (simp add: getReplicasForPerPodWithExternalMetricSourceType_def src sel io_apply api)
  next
    case False
    then show ?thesis using one cnt
      by (simp add: getReplicasForPerPodWithExternalMetricSourceType_def src sel io_apply api)
  qed
qed

text \<open>
  C27: for an external metric with an average-value target, the count is the exact ceiling of the
  total over the target, whatever the current count: where the source keeps the current count, it
  equals that ceiling. The float computation loses nothing on totals and targets of 53 bits.
\<close>

theorem external_per_pod_exact:
  assumes src: "ms_external metric = Some src" "mt_averageValue (ems_target src) = Some t"
    and sel: "e_asSelector E (mi_selector (ems_metric src)) = Inr sel"
    and api: "GetExternalMetric E (mi_name (ems_metric src)) ns sel w = (Done (vs, ts), w')"
    and u: "0 \<le> sint (sum_values vs)" "sint (sum_values vs) < 2 ^ 53"
    and t: "0 < sint t" "0 < sint cur" "sint t * sint cur < 2 ^ 53"
    and fits: "ceil_div (sint (sum_values vs)) (sint t) \<le> 2147483647"
  shows "\<exists>n. getReplicasForPerPodWithExternalMetricSourceType E c ns metric psel cur w = (Done (n, ts), w')
           \<and> sint n = ceil_div (sint (sum_values vs)) (sint t)"
  using assms by (rule external_per_pod_count)

text \<open>A concrete run for it: 250 units over a target of 100 and 2 replicas ask for 3.\<close>

definition external_spec_of :: "metric_target \<Rightarrow> metric_spec" where
  "external_spec_of target = \<lparr>ms_type = ExternalMetricSourceType, ms_object = None, ms_pods = None,
     ms_resource = None, ms_containerResource = None,
     ms_external = Some \<lparr>ems_metric = \<lparr>mi_name = ''qps'', mi_selector = None\<rparr>, ems_target = target\<rparr>\<rparr>"

theorem external_per_pod_exact_witness:
  "\<exists>n. getReplicasForPerPodWithExternalMetricSourceType
      ((quiet_env 0 :: unit env)\<lparr>e_external := \<lambda>_ _ _ w.
         (Inr [\<lparr>rmv_objectName = [], rmv_timestamp = 5, rmv_windowSeconds = None, rmv_value = 250\<rparr>], w)\<rparr>)
      default_handle ''ns'' (external_spec_of \<lparr>mt_type = AverageValueMetricType, mt_value = None, mt_averageValue = Some 100\<rparr>)
      ''app=web'' 2 () = (Done (n, 5), ()) \<and> sint n = ceil_div (sint (sum_values [250])) (sint (100 :: i64))"
  by (rule external_per_pod_exact [where sel = "[]"], simp add: external_spec_of_def)
    (simp_all add: external_spec_of_def quiet_env_def GetExternalMetric_def go_simps sum_values_def ceil_div_def)

text \<open>
  C28: the object calculator for an average-value target keeps the current count when the ratio of
  the value to target times replicas is within the tolerance, and otherwise asks for the exact
  ceiling of the value over the target.
\<close>

theorem object_per_pod_spec:
  assumes src: "mt_averageValue (oms_target src) = Some t"
    and sel: "e_asSelector E (mi_selector (oms_metric src)) = Inr sel"
    and api: "GetObjectMetric E (mi_name (oms_metric src)) ns (oms_describedObject src) sel w = (Done (u, ts), w')"
    and u: "0 \<le> sint u" "sint u < 2 ^ 53"
    and t: "0 < sint t" "sint t \<le> 2 ^ 53"
    and fits: "ceil_div (sint u) (sint t) \<le> 2147483647"
  shows "\<exists>n. getReplicasForPerPodWithObjectSourceType E c ns src cur w = (Done (n, ts), w')
           \<and> sint n = (if ch_scaleTolerance c < \<bar>1 - f64_of_i64 u / (f64_of_i64 t * f64_of_i32 cur)\<bar>
                       then ceil_div (sint u) (sint t) else sint cur)"
proof -
  have "sint (i32_of_f64 (e_oor E) (fceil (f64_of_i64 u / f64_of_i64 t))) = ceil_div (sint u) (sint t)"
    using u t fits by (rule per_pod_count)
  then show ?thesis
    by (simp add: getReplicasForPerPodWithObjectSourceType_def src sel io_apply api)
qed

definition object_source_of :: "metric_target \<Rightarrow> object_metric_source" where
  "object_source_of target = \<lparr>oms_describedObject =
       \<lparr>ref_kind = ''Ingress'', ref_name = ''front'', ref_apiVersion = ''networking.k8s.io/v1''\<rparr>,
     oms_target = target, oms_metric = \<lparr>mi_name = ''qps'', mi_selector = None\<rparr>\<rparr>"

theorem object_per_pod_spec_witness:
  "\<exists>n. getReplicasForPerPodWithObjectSourceType
      ((quiet_env 0 :: unit env)\<lparr>e_objectCustom := \<lambda>_ _ _ _ _ w.
         (Inr \<lparr>rmv_objectName = [], rmv_timestamp = 5, rmv_windowSeconds = None, rmv_value = 250\<rparr>, w)\<rparr>)
      default_handle ''ns'' (object_source_of \<lparr>mt_type = AverageValueMetricType, mt_value = None, mt_averageValue = Some 100\<rparr>)
      2 () = (Done (n, 5), ())
    \<and> sint n = (if ch_scaleTolerance default_handle < \<bar>1 - f64_of_i64 250 / (f64_of_i64 100 * f64_of_i32 2)\<bar>
                then ceil_div (sint (250 :: i64)) (sint (100 :: i64)) else sint (2 :: i32))"
  by (rule object_per_pod_spec [where sel = "[]"])
    (simp_all add: object_source_of_def quiet_env_def GetObjectMetric_def FromAPIVersionAndKind_def
      ParseGroupVersion_def go_simps ceil_div_def)

text \<open>
  A value target of an object metric never scales: whenever the calculator returns, it returns
  the count 0, because the computed count is dropped.
\<close>

lemma object_value_target_zero:
  assumes "getReplicasWithObjectSourceType E c ns src psel cur w = (Done (n, ts), w')"
  shows "n = 0"
  using assms
  by (auto simp: getReplicasWithObjectSourceType_def go_simps Let_def
      split: prod.splits outcome.splits)

text \<open>
  An external metric panics in the calculator unless the metric specification also carries an
  object source, since the target's type is read from there. A well-formed external metric carries
  none.
\<close>

lemma external_metric_panics:
  assumes "ms_object metric = None"
  shows "CalculateReplicasWithExternalMetricSourceType E c ns metric psel cur w = (Panic NilDereference, w)"
  using assms by (simp add: CalculateReplicasWithExternalMetricSourceType_def go_simps)

section \<open>Healthy workloads\<close>

text \<open>Whatever the API answers when it lists the pods, none of them has failed.\<close>

definition no_failed_pods :: "'w env \<Rightarrow> string \<Rightarrow> selector \<Rightarrow> bool" where
  "no_failed_pods E ns sel \<longleftrightarrow>
     (\<forall>w ps w'. e_listPods E ns sel w = (Inr ps, w') \<longrightarrow> (\<forall>p\<in>set ps. pod_phase p \<noteq> PodFailed))"

lemma requests_outside_ignored:
  assumes "calculatePodRequests ps container r = Done rq" "set (gp_ignoredPods g) = pod_name ` set ps"
  shows "requested rq (drop_pods g m) = []"
proof -
  have "map_of rq k \<noteq> None \<longrightarrow> k \<in> set (gp_ignoredPods g)" for k
    unfolding requests_dom [OF assms(1)] assms(2) by simp
  moreover have "k \<notin> set (gp_ignoredPods g)" if "(k, v) \<in> set (drop_pods g m)" for k v
  proof -
    have "map_of (drop_pods g m) k \<noteq> None" using that by (metis map_of_eq_None_iff imageI fst_conv)
    then show ?thesis by (simp add: drop_pods_get split: if_splits)
  qed
  ultimately show ?thesis by (auto simp: requested_def filter_empty_conv)
qed

lemma healthy_ratio_fails:
  assumes "groupPods E ps m r1 cip d w = (Done g, w')" "\<forall>p\<in>set ps. pod_phase p \<noteq> PodFailed"
    and "calculatePodRequests ps container r = Done rq"
  shows "GetResourceUtilizationRatio (drop_pods g m) rq t = Fail NoRequestMetrics"
  using requests_outside_ignored [OF assms(3) groupPods_healthy(4) [OF assms(1,2)]]
  by (simp add: GetResourceUtilizationRatio_def requested_empty_totals)

text \<open>
  C25: on a workload none of whose pods is in the phase Failed, a resource metric never yields a
  count: the calculator ignores every such pod and ends in an error, whatever the metrics are.
\<close>

theorem resource_metric_healthy_fails:
  assumes "ms_resource metric = Some src" "mt_averageValue (rms_target src) = Some t"
    and "no_failed_pods E ns psel"
  shows "\<exists>e w'. CalculateReplicasWithResourceMetricSourceType E c ns psel metric cur w = (Fail e, w')"
proof -
  obtain r1 w1 where g1: "GetResouceMetric E (rms_name src) ns psel ''container'' w = (r1, w1)"
    by (cases "GetResouceMetric E (rms_name src) ns psel ''container'' w")
  have np: "\<not> panics r1" using GetResouceMetric_no_panic g1 by (metis fst_conv)
  obtain ans w2 where l: "e_listPods E ns psel w1 = (ans, w2)" by (cases "e_listPods E ns psel w1")
  show ?thesis
  proof (cases r1)
    case (Done mt)
    obtain m ts where mt: "mt = (m, ts)" by (cases mt)
    show ?thesis
    proof (cases ans)
      case (Inr ps)
      have h: "\<forall>p\<in>set ps. pod_phase p \<noteq> PodFailed"
        using assms(3) l Inr unfolding no_failed_pods_def by blast
      obtain g w3 where g: "groupPods E ps m (rms_name src) (ch_cpuInitializationPeriod c)
          (ch_initialReadinessDelay c) w2 = (Done g, w3)" by (rule groupPods_total)
      show ?thesis
        using assms(1,2) g1 Done mt l Inr g healthy_ratio_fails [OF g h]
        by (cases "calculatePodRequests ps [] (rms_name src)")
          (auto simp: CalculateReplicasWithResourceMetricSourceType_def go_simps Let_def
            calculatePodRequests_def request_loop_outcome split: if_splits)
    qed (use assms(1) g1 Done mt l in \<open>auto simp: CalculateReplicasWithResourceMetricSourceType_def go_simps Let_def\<close>)
  qed (use np assms(1) g1 in \<open>auto simp: CalculateReplicasWithResourceMetricSourceType_def go_simps Let_def\<close>)
qed

text \<open>
  A resource metric reads the usage of the container that is literally called \<open>container\<close>: a pod
  without one fails the whole calculation.
\<close>

lemma container_loop_fails:
  "m \<in> set ms \<Longrightarrow> find_container n (rpm_containers m) = None \<Longrightarrow>
   container_loop r n ms res = Fail (ContainerNotPresent n)"
  by (induction r n ms res rule: container_loop.induct) (auto split: option.splits)

lemma resource_container_fails:
  assumes "ms_resource metric = Some src" "e_podMetricses E ns psel w = (Inr items, w1)"
    and "m \<in> set items" "find_container ''container'' (rpm_containers m) = None"
  shows "CalculateReplicasWithResourceMetricSourceType E c ns psel metric cur w =
    (Fail (ContainerMetricsFailed (ContainerNotPresent ''container'')), w1)"
proof -
  have "items \<noteq> []" using assms(3) by auto
  then have "GetResouceMetric E (rms_name src) ns psel ''container'' w =
      (Fail (ContainerMetricsFailed (ContainerNotPresent ''container'')), w1)"
    using assms(2) container_loop_fails [OF assms(3,4)]
    by (auto simp: GetResouceMetric_def getContainerMetrics_def go_simps split: list.splits)
  then show ?thesis using assms(1) by (simp add: CalculateReplicasWithResourceMetricSourceType_def go_simps Let_def)
qed

text \<open>
  A target without an average value, as one of the type Utilization, panics once the metrics, the
  pods and their requests are there.
\<close>

lemma resource_target_panics:
  assumes "ms_resource metric = Some src" "mt_averageValue (rms_target src) = None"
    and "GetResouceMetric E (rms_name src) ns psel ''container'' w = (Done (m, ts), w1)" "m \<noteq> []"
    and "e_listPods E ns psel w1 = (Inr ps, w2)" "ps \<noteq> []" "calculatePodRequests ps [] (rms_name src) = Done rq"
  shows "\<exists>w'. CalculateReplicasWithResourceMetricSourceType E c ns psel metric cur w = (Panic NilDereference, w')"
proof -
  obtain g w3 where "groupPods E ps m (rms_name src) (ch_cpuInitializationPeriod c)
      (ch_initialReadinessDelay c) w2 = (Done g, w3)" by (rule groupPods_total)
  then show ?thesis
    using assms by (simp add: CalculateReplicasWithResourceMetricSourceType_def go_simps Let_def)
qed

text \<open>A healthy workload for evaluation: one running, ready pod at twice its CPU request.\<close>

definition running_pod :: pod where
  "running_pod = \<lparr>pod_name = ''p'', pod_deletionTimestamp = None, pod_phase = PodRunning,
     pod_conditions = [\<lparr>pc_type = PodReady, pc_status = ConditionTrue, pc_lastTransitionTime = 1\<rparr>],
     pod_startTime = Some 0,
     pod_containers = [\<lparr>pct_name = ''container'', pct_requests = [(ResourceCPU, 100)]\<rparr>]\<rparr>"

definition busy_env :: "unit env" where
  "busy_env = (quiet_env 1000)\<lparr>
     e_listPods := \<lambda>_ _ w. (Inr [running_pod], w),
     e_podMetricses := \<lambda>_ _ w. (Inr [\<lparr>rpm_name = ''p'', rpm_namespace = ''ns'', rpm_timestamp = 900,
        rpm_window = 60, rpm_containers = [\<lparr>cu_name = ''container'', cu_usage = [(ResourceCPU, 200)]\<rparr>]\<rparr>], w),
     e_podsCustom := \<lambda>_ _ _ _ _ w. (Inr [\<lparr>rmv_objectName = ''p'', rmv_timestamp = 900,
        rmv_windowSeconds = None, rmv_value = 200\<rparr>], w)\<rparr>"

definition average_target :: "i64 \<Rightarrow> metric_target" where
  "average_target t = \<lparr>mt_type = AverageValueMetricType, mt_value = None, mt_averageValue = Some t\<rparr>"

definition spec_of :: "string \<Rightarrow> metric_spec" where
  "spec_of ty = \<lparr>ms_type = ty,
     ms_object = Some (object_source_of (average_target 100)),
     ms_pods = Some \<lparr>pms_metric = \<lparr>mi_name = ''qps'', mi_selector = None\<rparr>, pms_target = average_target 100\<rparr>,
     ms_resource = Some \<lparr>rms_name = ResourceCPU, rms_target = average_target 100\<rparr>,
     ms_containerResource = Some \<lparr>crms_name = ResourceCPU, crms_target = average_target 100,
        crms_container = ''container''\<rparr>,
     ms_external = Some \<lparr>ems_metric = \<lparr>mi_name = ''qps'', mi_selector = None\<rparr>, ems_target = average_target 100\<rparr>\<rparr>"

lemma busy_env_healthy: "no_failed_pods busy_env ns sel"
  by (simp add: no_failed_pods_def busy_env_def running_pod_def)

theorem resource_metric_healthy_fails_witness:
  "\<exists>e w'. CalculateReplicasWithResourceMetricSourceType busy_env default_handle ''ns'' ''app=web''
      (spec_of ResourceMetricSourceType) 2 () = (Fail e, w')"
  by (rule resource_metric_healthy_fails, simp add: spec_of_def)
    (simp_all add: average_target_def busy_env_healthy)

definition no_empty_resource :: "'w env \<Rightarrow> string \<Rightarrow> selector \<Rightarrow> bool" where
  "no_empty_resource E ns sel \<longleftrightarrow>
     (\<forall>w ps w'. e_listPods E ns sel w = (Inr ps, w') \<longrightarrow>
        (\<forall>p\<in>set ps. \<forall>c\<in>set (pod_containers p). map_of (pct_requests c) [] = None))"

lemma zero_requests:
  assumes "\<forall>p\<in>set ps. \<forall>c\<in>set (pod_containers p). map_of (pct_requests c) [] = None"
    and "calculatePodRequests ps container [] = Done rq" "map_of rq k = Some v"
  shows "v = 0"
proof -
  define f where "f (p :: pod) = (\<Sum>x\<leftarrow>pod_containers p. case map_of (pct_requests x) [] of None \<Rightarrow> 0 | Some q \<Rightarrow> q)"
    for p
  have z: "f p = 0" if "p \<in> set ps" for p
  proof -
    have "map (\<lambda>x. case map_of (pct_requests x) [] of None \<Rightarrow> 0 | Some q \<Rightarrow> q) (pod_containers p)
        = map (\<lambda>_. 0) (pod_containers p)"
      using assms(1) that by (intro map_cong) auto
    then show ?thesis by (simp only: f_def sum_list_0)
  qed
  have rq: "rq = fold (\<lambda>p. AList.update (pod_name p) (f p)) ps []"
    using assms(2) by (simp add: calculatePodRequests_def request_loop_outcome f_def split: if_splits)
  have "map_of (fold (\<lambda>p. AList.update (pod_name p) (f p)) qs r) k = Some v \<Longrightarrow>
      v = 0 \<or> map_of r k = Some v" if "\<forall>q\<in>set qs. f q = 0" for qs r
    using that
  proof (induction qs arbitrary: r)
    case (Cons q qs)
    then show ?case
      using Cons.IH [of "AList.update (pod_name q) 0 r"] by (auto simp: gm.get_put split: if_splits)
  qed simp
  from this [of ps "[]"] show ?thesis using assms(3) z by (auto simp: rq)
qed

lemma zero_requests_ratio:
  assumes "\<And>k v. map_of rq k = Some v \<Longrightarrow> v = 0"
  shows "GetResourceUtilizationRatio ms rq t = Fail NoRequestMetrics"
proof -
  have "(\<Sum>(k, m)\<leftarrow>requested rq ms. the (map_of rq k)) = 0"
    using assms by (induction ms) (auto simp: requested_def)
  then show ?thesis by (simp add: GetResourceUtilizationRatio_def resource_totals_sums)
qed

text \<open>
  A container-resource metric never yields a count when no container requests a resource with
  the empty name: the requests are looked up under the empty resource name, so their total is zero
  and the calculator ends in an error (or, before that, in one of the errors of the API calls).
\<close>

lemma container_resource_fails:
  assumes "ms_containerResource metric = Some src" "mt_averageValue (crms_target src) = Some t"
    and "no_empty_resource E ns psel"
  shows "\<exists>e w'. CalculateReplicasWithContainerResourceMetricSourceType E c ns metric psel cur w = (Fail e, w')"
proof -
  obtain r1 w1 where g1: "GetResouceMetric E (crms_name src) ns psel (crms_container src) w = (r1, w1)"
    by (cases "GetResouceMetric E (crms_name src) ns psel (crms_container src) w")
  have np: "\<not> panics r1" using GetResouceMetric_no_panic g1 by (metis fst_conv)
  obtain ans w2 where l: "e_listPods E ns psel w1 = (ans, w2)" by (cases "e_listPods E ns psel w1")
  note unfolds = CalculateReplicasWithContainerResourceMetricSourceType_def go_simps Let_def
  show ?thesis
  proof (cases r1)
    case (Done mt)
    obtain m ts where mt: "mt = (m, ts)" by (cases mt)
    show ?thesis
    proof (cases ans)
      case (Inr ps)
      have h: "\<forall>p\<in>set ps. \<forall>c\<in>set (pod_containers p). map_of (pct_requests c) [] = None"
        using assms(3) l Inr unfolding no_empty_resource_def by blast
      obtain g w3 where g: "groupPods E ps m [] (ch_cpuInitializationPeriod c)
          (ch_initialReadinessDelay c) w2 = (Done g, w3)" by (rule groupPods_total)
      show ?thesis
      proof (cases "calculatePodRequests ps (crms_container src) []")
        case (Done rq)
        then have "GetResourceUtilizationRatio (drop_pods g m) rq t = Fail NoRequestMetrics"
          using zero_requests [OF h Done] by (intro zero_requests_ratio)
        then show ?thesis using assms(1,2) g1 \<open>r1 = _\<close> mt l Inr g Done by (auto simp: unfolds)
      qed (use assms(1,2) g1 \<open>r1 = _\<close> mt l Inr g in
        \<open>auto simp: unfolds calculatePodRequests_def request_loop_outcome split: if_splits\<close>)
    qed (use assms(1) g1 Done mt l in \<open>auto simp: unfolds\<close>)
  qed (use np assms(1) g1 in \<open>auto simp: unfolds\<close>)
qed

text \<open>
  The pods listed after the custom metrics were fetched: the fetch of one metric, from one state of
  the world, names no pod that the list that follows it does not have.
\<close>

definition metrics_name_listed :: "'w env \<Rightarrow> string \<Rightarrow> selector \<Rightarrow> string \<Rightarrow> selector \<Rightarrow> 'w \<Rightarrow> bool" where
  "metrics_name_listed E ns sel name labels w \<longleftrightarrow>
     (\<forall>resource w0 ms w1 ps w2. e_podsMapping E w = (Inr resource, w0) \<longrightarrow>
        e_podsCustom E resource ns sel name labels w0 = (Inr ms, w1) \<longrightarrow>
        e_listPods E ns sel w1 = (Inr ps, w2) \<longrightarrow> rmv_objectName ` set ms \<subseteq> pod_name ` set ps)"

lemma drop_all_Nil:
  assumes "\<And>k. map_of m k \<noteq> None \<Longrightarrow> k \<in> set (gp_ignoredPods g)"
  shows "drop_pods g m = []"
proof -
  have "map_of (drop_pods g m) k = None" for k
    using assms [of k] by (cases "map_of m k") (simp_all add: drop_pods_get)
  then show ?thesis by (metis map_of_eq_None_iff list.set_intros(1) image_eqI list.exhaust)
qed

lemma raw_metric_names:
  assumes "GetRawMetric E name ns sel (Some labels) w = (Done (m, ts), w')"
  obtains resource w0 items where "e_podsMapping E w = (Inr resource, w0)"
    "e_podsCustom E resource ns sel name labels w0 = (Inr items, w')"
    "\<And>k. map_of m k \<noteq> None \<Longrightarrow> k \<in> rmv_objectName ` set items"
proof -
  obtain items where i: "GetForObjects E ns sel name (Some labels) w = (Done items, w')" "m = raw_loop items []"
    using assms by (auto simp: GetRawMetric_def go_simps split: prod.splits outcome.splits list.splits)
  obtain resource w0 where c: "e_podsMapping E w = (Inr resource, w0)"
    "e_podsCustom E resource ns sel name labels w0 = (Inr items, w')"
    using i(1) by (auto elim: GetForObjects_Done)
  show thesis
  proof (rule that [OF c])
    fix k assume "map_of m k \<noteq> None"
    then show "k \<in> rmv_objectName ` set items" using raw_loop_dom [of items "[]" k] i(2) by simp
  qed
qed

lemma plain_healthy_fails:
  assumes raw: "GetRawMetric E name ns sel (Some labels) w = (Done (m, ts), w1)"
    and "no_failed_pods E ns sel" "metrics_name_listed E ns sel name labels w"
  shows "\<exists>e w'. calculatePlainMetricReplicas E c m cur t ns sel w1 = (Fail e, w')"
proof -
  obtain resource w0 items where items: "e_podsMapping E w = (Inr resource, w0)"
    "e_podsCustom E resource ns sel name labels w0 = (Inr items, w1)"
    "\<And>k. map_of m k \<noteq> None \<Longrightarrow> k \<in> rmv_objectName ` set items"
    using raw_metric_names [OF raw] by blast
  obtain ans w2 where l: "e_listPods E ns sel w1 = (ans, w2)" by (cases "e_listPods E ns sel w1")
  show ?thesis
  proof (cases ans)
    case (Inr ps)
    have h: "\<forall>p\<in>set ps. pod_phase p \<noteq> PodFailed"
      using assms(2) l Inr unfolding no_failed_pods_def by blast
    obtain g w3 where g: "groupPods E ps m [] (ch_cpuInitializationPeriod c)
        (ch_initialReadinessDelay c) w2 = (Done g, w3)" by (rule groupPods_total)
    have sub: "rmv_objectName ` set items \<subseteq> pod_name ` set ps"
      using assms(3) items(1,2) l Inr unfolding metrics_name_listed_def by blast
    have "drop_pods g m = []"
    proof (rule drop_all_Nil)
      fix k assume "map_of m k \<noteq> None"
      then have "k \<in> pod_name ` set ps" using subsetD [OF sub items(3)] by simp
      then show "k \<in> set (gp_ignoredPods g)" by (simp add: groupPods_healthy(4) [OF g h])
    qed
    then show ?thesis using l Inr g by (auto simp: calculatePlainMetricReplicas_def go_simps)
  qed (use l in \<open>auto simp: calculatePlainMetricReplicas_def go_simps\<close>)
qed

lemma GetRawMetric_no_panic: "fst (GetRawMetric E name ns sel (Some labels) w) \<noteq> Panic p"
  by (auto simp: GetRawMetric_def GetForObjects_def go_simps split: prod.splits sum.splits list.splits)

lemma pods_valid_zero:
  assumes "ms_pods metric = Some src" "mt_averageValue (pms_target src) = Some t"
    and sel: "e_asSelector E (mi_selector (pms_metric src)) = Inr labels"
    and "no_failed_pods E ns psel" "metrics_name_listed E ns psel (mi_name (pms_metric src)) labels w"
  shows "\<exists>w'. CalculateReplicasWithPodsMetricSourceType E c ns psel metric cur w = (Done (0, zero_time), w')"
proof -
  let ?get = "GetRawMetric E (mi_name (pms_metric src)) ns psel (Some labels) w"
  obtain r w1 where g: "?get = (r, w1)" by (cases ?get)
  have np: "r \<noteq> Panic p" for p
    using g GetRawMetric_no_panic by (metis fst_conv)
  show ?thesis
  proof (cases r)
    case (Done mt)
    obtain m ts where mt: "mt = (m, ts)" by (cases mt)
    obtain e w2 where "calculatePlainMetricReplicas E c m cur t ns psel w1 = (Fail e, w2)"
      using plain_healthy_fails [OF _ assms(4,5)] g Done mt by metis
    then show ?thesis using assms(1,2) sel g Done mt
      by (simp add: CalculateReplicasWithPodsMetricSourceType_def go_simps Let_def)
  qed (use np assms(1) sel g in \<open>simp_all add: CalculateReplicasWithPodsMetricSourceType_def go_simps Let_def\<close>)
qed

text \<open>
  C26: a pods metric never yields a count for a workload without failed pods. When its selector
  parses, and the custom metrics fetched for it name only pods of the list that is read next, the
  answer is the count 0 and no error: no metric survives the grouping, and the caller drops the
  resulting error. When its selector does not parse, the dropped error leaves a nil selector, and
  the program panics as soon as the client has found the version and the resource of its request
  (when it does not find them, the answer is again 0 without an error).
\<close>

theorem pods_metric_healthy_zero:
  assumes "ms_pods metric = Some src" "mt_averageValue (pms_target src) = Some t"
    and "no_failed_pods E ns psel"
    and "\<And>labels. e_asSelector E (mi_selector (pms_metric src)) = Inr labels \<Longrightarrow>
      metrics_name_listed E ns psel (mi_name (pms_metric src)) labels w"
  shows "\<exists>w'. CalculateReplicasWithPodsMetricSourceType E c ns psel metric cur w =
    (if \<not> selector_parses E (mi_selector (pms_metric src)) \<and> (\<exists>resource. fst (e_podsMapping E w) = Inr resource)
     then Panic NilDereference else Done (0, zero_time), w')"
proof (cases "e_asSelector E (mi_selector (pms_metric src))")
  case (Inr labels)
  then show ?thesis
    using pods_valid_zero [OF assms(1,2) Inr assms(3) assms(4) [OF Inr]] by (simp add: selector_parses_def)
next
  case (Inl e)
  then show ?thesis
    using assms(1) by (cases "e_podsMapping E w"; cases "fst (e_podsMapping E w)")
      (simp_all add: selector_parses_def CalculateReplicasWithPodsMetricSourceType_def GetRawMetric_def
        GetForObjects_def go_simps Let_def)
qed

lemma busy_env_listed: "metrics_name_listed busy_env ns sel name labels w"
  by (simp add: metrics_name_listed_def busy_env_def running_pod_def)

theorem pods_metric_healthy_zero_witness:
  "(\<exists>w'. CalculateReplicasWithPodsMetricSourceType busy_env default_handle ''ns'' ''app=web'' (spec_of PodsMetricSourceType) 2 ()
      = (Done (0, zero_time), w')) \<and>
   (\<exists>w'. CalculateReplicasWithPodsMetricSourceType (busy_env\<lparr>e_asSelector := \<lambda>_. Inl (ApiError ''operator'')\<rparr>)
        default_handle ''ns'' ''app=web'' (spec_of PodsMetricSourceType) 2 () = (Panic NilDereference, w'))"
proof -
  let ?bad = "busy_env\<lparr>e_asSelector := \<lambda>_. Inl (ApiError ''operator'')\<rparr>"
  have src: "ms_pods (spec_of PodsMetricSourceType)
      = Some \<lparr>pms_metric = \<lparr>mi_name = ''qps'', mi_selector = None\<rparr>, pms_target = average_target 100\<rparr>"
    and t: "mt_averageValue (pms_target \<lparr>pms_metric = \<lparr>mi_name = ''qps'', mi_selector = None\<rparr>,
      pms_target = average_target 100\<rparr>) = Some 100"
    by (simp_all add: spec_of_def average_target_def)
  have "\<exists>w'. CalculateReplicasWithPodsMetricSourceType busy_env default_handle ''ns'' ''app=web'' (spec_of PodsMetricSourceType) 2 ()
      = (Done (0, zero_time), w')"
    using pods_metric_healthy_zero [OF src t, of busy_env "''ns''" "''app=web''" "()" default_handle 2]
    by (simp add: busy_env_healthy busy_env_listed) (simp add: selector_parses_def busy_env_def quiet_env_def)
  moreover have "\<exists>w'. CalculateReplicasWithPodsMetricSourceType ?bad default_handle ''ns'' ''app=web''
      (spec_of PodsMetricSourceType) 2 () = (Panic NilDereference, w')"
    using pods_metric_healthy_zero [OF src t, of ?bad "''ns''" "''app=web''" "()" default_handle 2]
    by (simp add: no_failed_pods_def selector_parses_def) (simp add: busy_env_def quiet_env_def running_pod_def)
  ultimately show ?thesis by blast
qed

end
