(* ===== verification/Behavior_Facts.thy ===== *)
theory Behavior_Facts
  imports Behavior
begin

text \<open>
  What the revision by behaviour computes: the stabilisation picks the least recent
  recommendation, the store of records reuses stale slots and keeps the fresh ones, the limits lie
  on their side of the current count, and the panics of the pointers and of the nil selection are
  exactly located.
\<close>

section \<open>Slices that reuse stale slots\<close>

lemma last_index_None:
  "last_index P i xs old = None \<longleftrightarrow> old = None \<and> (\<forall>x\<in>set xs. \<not> P x)"
  by (induction xs arbitrary: i old) auto

lemma last_index_old: "\<forall>x\<in>set xs. \<not> P x \<Longrightarrow> last_index P i xs old = old"
  by (induction xs arbitrary: i old) auto

lemma last_index_snoc:
  "last_index P i (xs @ [x]) old = (if P x then Some (i + length xs) else last_index P i xs old)"
  by (induction xs arbitrary: i old) auto

lemma last_index_Some:
  "last_index P 0 xs None = Some i \<Longrightarrow>
     i < length xs \<and> P (xs ! i) \<and> (\<forall>j<length xs. i < j \<longrightarrow> \<not> P (xs ! j))"
proof (induction xs rule: rev_induct)
  case (snoc x xs)
  show ?case
  proof (cases "P x")
    case False
    then have "last_index P 0 xs None = Some i" using snoc.prems by (simp add: last_index_snoc)
    then have "i < length xs \<and> P (xs ! i) \<and> (\<forall>j<length xs. i < j \<longrightarrow> \<not> P (xs ! j))" by (rule snoc.IH)
    then show ?thesis using False by (auto simp: nth_append less_Suc_eq)
  qed (use snoc.prems in \<open>auto simp: last_index_snoc\<close>)
qed simp

definition fresh_of :: "('a \<Rightarrow> bool) \<Rightarrow> 'a list \<Rightarrow> 'a multiset" where
  "fresh_of stale xs = {#y \<in># mset xs. \<not> stale y#}"

locale slot_buffer =
  fixes store :: "'a \<Rightarrow> 'a list \<Rightarrow> 'a list" and stale :: "'a \<Rightarrow> bool"
  assumes grow: "\<forall>y\<in>set xs. \<not> stale y \<Longrightarrow> store x xs = xs @ [x]"
    and reuse: "\<exists>y\<in>set xs. stale y \<Longrightarrow>
      \<exists>i<length xs. stale (xs ! i) \<and> (\<forall>j<length xs. i < j \<longrightarrow> \<not> stale (xs ! j)) \<and> store x xs = xs[i := x]"
begin

lemma store_length: "length (store x xs) = length xs + (if \<exists>y\<in>set xs. stale y then 0 else 1)"
proof (cases "\<exists>y\<in>set xs. stale y")
  case True
  with reuse [of xs x] show ?thesis by auto
qed (use grow [of xs x] in auto)

lemma store_stored: "x \<in> set (store x xs)"
proof (cases "\<exists>y\<in>set xs. stale y")
  case True
  with reuse [of xs x] show ?thesis by (auto simp: set_update_memI)
qed (use grow [of xs x] in auto)

lemma store_origin: "y \<in> set (store x xs) \<Longrightarrow> y = x \<or> y \<in> set xs"
proof (cases "\<exists>y\<in>set xs. stale y")
  case True
  moreover assume "y \<in> set (store x xs)"
  ultimately show ?thesis using reuse [of xs x] set_update_subset_insert by fastforce
qed (use grow [of xs x] in auto)

lemma store_fresh: "\<not> stale x \<Longrightarrow> fresh_of stale (store x xs) = add_mset x (fresh_of stale xs)"
proof (cases "\<exists>y\<in>set xs. stale y")
  case True
  assume x: "\<not> stale x"
  obtain i where i: "i < length xs" "stale (xs ! i)" "store x xs = xs[i := x]"
    using reuse [OF True, of x] by auto
  have "mset xs = add_mset (xs ! i) (mset xs - {#xs ! i#})" using i(1) by simp
  then have "fresh_of stale xs = {#y \<in># mset xs - {#xs ! i#}. \<not> stale y#}"
    unfolding fresh_of_def using i(2) by (metis filter_mset_add_mset)
  then show ?thesis using i x by (simp add: fresh_of_def mset_update)
qed (use grow [of xs x] in \<open>auto simp: fresh_of_def\<close>)

lemma store_kept: "y \<in> set xs \<Longrightarrow> \<not> stale y \<Longrightarrow> y \<in> set (store x xs)"
proof (cases "\<exists>y\<in>set xs. stale y")
  case True
  assume y: "y \<in> set xs" "\<not> stale y"
  obtain i where i: "i < length xs" "stale (xs ! i)" "store x xs = xs[i := x]"
    using reuse [OF True, of x] by auto
  obtain j where j: "j < length xs" "y = xs ! j" using y(1) by (auto simp: in_set_conv_nth)
  then have "xs[i := x] ! j = y" using i y(2) by (cases "i = j") auto
  then show ?thesis using i(3) j(1) by (metis length_list_update nth_mem)
qed (use grow [of xs x] in auto)

end

definition store_last :: "('a \<Rightarrow> bool) \<Rightarrow> 'a \<Rightarrow> 'a list \<Rightarrow> 'a list" where
  "store_last P x xs = store_in (last_index P 0 xs None) x xs"

lemma store_last_laws:
  "\<forall>y\<in>set xs. \<not> P y \<Longrightarrow> store_last P x xs = xs @ [x]"
  "\<exists>y\<in>set xs. P y \<Longrightarrow>
     \<exists>i<length xs. P (xs ! i) \<and> (\<forall>j<length xs. i < j \<longrightarrow> \<not> P (xs ! j)) \<and> store_last P x xs = xs[i := x]"
proof -
  show "\<forall>y\<in>set xs. \<not> P y \<Longrightarrow> store_last P x xs = xs @ [x]"
    by (simp add: store_last_def store_in_def last_index_old)
  assume "\<exists>y\<in>set xs. P y"
  then obtain i where i: "last_index P 0 xs None = Some i"
    using last_index_None [of P 0 xs None] by fastforce
  then show "\<exists>i<length xs. P (xs ! i) \<and> (\<forall>j<length xs. i < j \<longrightarrow> \<not> P (xs ! j))
      \<and> store_last P x xs = xs[i := x]"
    using last_index_Some [OF i] by (auto simp: store_last_def store_in_def)
qed

text \<open>The recommendations and the scale events are both kept in such slices.\<close>

abbreviation obsolete_record :: "time \<Rightarrow> timestamped_recommendation_record \<Rightarrow> bool" where
  "obsolete_record cutoff r \<equiv> trr_timestamp r < cutoff"

interpretation records: slot_buffer "store_last (obsolete_record cutoff)" "obsolete_record cutoff" for cutoff
  by unfold_locales (rule store_last_laws, assumption)+

interpretation events: slot_buffer "store_last tse_outDated" tse_outDated
  by unfold_locales (rule store_last_laws, assumption)+

section \<open>The stabilisation window\<close>

text \<open>The n-th reading of the clock from a state on, and the state after n readings.\<close>

primrec after_readings :: "'w env \<Rightarrow> nat \<Rightarrow> 'w \<Rightarrow> 'w" where
  "after_readings E 0 w = w"
| "after_readings E (Suc n) w = after_readings E n (snd (e_now E w))"

definition reading :: "'w env \<Rightarrow> nat \<Rightarrow> 'w \<Rightarrow> time" where
  "reading E n w = fst (e_now E (after_readings E n w))"

lemma max_fun_min_fun: "max_fun = min_fun"
  by (simp add: fun_eq_iff max_fun_def min_fun_def)

lemma sint_min_fun [word_reads]: "sint (min_fun a b) = min (sint a) (sint b)"
  by (simp add: min_fun_def min_def)

lemma seconds_before_sint [word_reads]: "seconds_before n t = t - 1000000000 * sint n"
  by (simp add: seconds_before_def word_reads)

text \<open>The specification of the choice: the least of the desired count and the recent ones.\<close>

definition recent_counts :: "time \<Rightarrow> timestamped_recommendation_record list \<Rightarrow> int set" where
  "recent_counts cutoff records =
     (\<lambda>r. sint (trr_desiredReplicas r)) ` {r \<in> set records. cutoff < trr_timestamp r}"

lemma recent_counts_simps:
  "recent_counts c [] = {}"
  "recent_counts c (r # rs) =
     (if c < trr_timestamp r then insert (sint (trr_desiredReplicas r)) (recent_counts c rs) else recent_counts c rs)"
  by (auto simp: recent_counts_def)

lemma finite_recent_counts [simp]: "finite (recent_counts c rs)"
  by (simp add: recent_counts_def)

lemma recommendation_loop_split:
  "recommendation_loop action c ob i rs recommendation old =
     (fst (recommendation_loop action c ob i rs recommendation old),
      last_index (obsolete_record ob) i rs old)"
  by (induction rs arbitrary: i recommendation old) simp_all

lemma recommendation_loop_least:
  "sint (fst (recommendation_loop min_fun c ob i rs d old)) = Min (insert (sint d) (recent_counts c rs))"
proof (induction rs arbitrary: i d old)
  case (Cons r rs)
  have "Min (insert (sint (min_fun (trr_desiredReplicas r) d)) (recent_counts c rs)) =
      Min (insert (sint d) (insert (sint (trr_desiredReplicas r)) (recent_counts c rs)))"
    by (cases "recent_counts c rs = {}") (simp_all add: word_reads min.commute min.left_commute min.assoc)
  then show ?case using Cons.IH by (simp add: recent_counts_simps)
qed (simp add: recent_counts_simps)

text \<open>The direction's window, as the code selects it.\<close>

definition delay_of :: "revise_info \<Rightarrow> i32 \<Rightarrow> i32 \<Rightarrow> i32" where
  "delay_of info u d =
     (if sint (ri_desiredReplicas info) \<ge> sint (ri_currentReplicas info) then u else d)"

lemma stabilization_eq:
  fixes E :: "'w env" and w :: 'w and records :: "timestamped_recommendation_record list"
  assumes "window (ri_scaleUpBehavor info) = Done u" "window (ri_scaleDownBehavor info) = Done d"
  defines "cutoff \<equiv> seconds_before (delay_of info u d) (reading E 0 w)"
    and "obsolete \<equiv> seconds_before (min_fun u d) (reading E 1 w)"
  defines "r \<equiv> fst (recommendation_loop min_fun cutoff obsolete 0 records (ri_desiredReplicas info) None)"
  shows "stabilizationRecommendationWithBehavors E info records w =
    (Done (r, ''ScaleUpStabilized'',
       store_last (obsolete_record obsolete)
         \<lparr>trr_desiredReplicas = r, trr_timestamp = reading E 2 w\<rparr> records), after_readings E 3 w)"
proof -
  have l: "recommendation_loop min_fun cutoff obsolete 0 records (ri_desiredReplicas info) None =
      (r, last_index (obsolete_record obsolete) 0 records None)"
    unfolding r_def by (rule recommendation_loop_split)
  show ?thesis
    using assms(1,2) l
    by (simp add: stabilizationRecommendationWithBehavors_def go_simps Let_def max_fun_min_fun
        cutoff_def obsolete_def delay_of_def reading_def store_last_def numeral_2_eq_2 numeral_3_eq_3
        split: if_splits)
qed

lemma stabilization_no_fail: "fst (stabilizationRecommendationWithBehavors E info records w) \<noteq> Fail e"
  by (cases "window (ri_scaleUpBehavor info)"; cases "window (ri_scaleDownBehavor info)")
    (auto simp: stabilizationRecommendationWithBehavors_def go_simps Let_def window_def deref_def
      split: option.splits prod.splits)

text \<open>
  C11: when both stabilisation windows are set, the stabilisation returns the least of the desired
  count and the counts recommended within the window of its direction, whatever the direction;
  it records that count at the time of the last clock reading, keeps every record that is not
  older than the obsolete cutoff, invents no other, and the store grows exactly when none is
  obsolete.
\<close>

theorem stabilization_takes_least:
  assumes "window (ri_scaleUpBehavor info) = Done u" "window (ri_scaleDownBehavor info) = Done d"
  shows "\<exists>r records'. stabilizationRecommendationWithBehavors E info records w =
      (Done (r, ''ScaleUpStabilized'', records'), after_readings E 3 w) \<and>
    sint r = Min (insert (sint (ri_desiredReplicas info))
      (recent_counts (reading E 0 w - 1000000000 * sint (delay_of info u d)) records)) \<and>
    (let obsolete = obsolete_record (reading E 1 w - 1000000000 * min (sint u) (sint d));
         new = \<lparr>trr_desiredReplicas = r, trr_timestamp = reading E 2 w\<rparr> in
      new \<in> set records' \<and> set records' \<subseteq> insert new (set records) \<and>
      (\<forall>y\<in>set records. obsolete y \<or> y \<in> set records') \<and>
      length records' = length records + (if \<exists>y\<in>set records. obsolete y then 0 else 1))"
  using stabilization_eq [OF assms, of E records w]
  by (auto simp: Let_def word_reads recommendation_loop_least records.store_stored
      records.store_length dest: records.store_origin intro: records.store_kept)

theorem stabilization_takes_least_witness:
  "\<exists>r records'. stabilizationRecommendationWithBehavors (quiet_env 1000000000000)
       \<lparr>ri_scaleUpBehavor = Some \<lparr>sr_stabilizationWindowSeconds = Some 0, sr_selectPolicy = None, sr_policies = []\<rparr>,
        ri_scaleDownBehavor = Some \<lparr>sr_stabilizationWindowSeconds = Some 300, sr_selectPolicy = None, sr_policies = []\<rparr>,
        ri_currentReplicas = 9, ri_desiredReplicas = 5\<rparr>
       [\<lparr>trr_desiredReplicas = 3, trr_timestamp = 900000000000\<rparr>,
        \<lparr>trr_desiredReplicas = 2, trr_timestamp = 600000000000\<rparr>] () =
      (Done (r, ''ScaleUpStabilized'', records'), ()) \<and> sint r = 3"
  using stabilization_takes_least [where E = "quiet_env 1000000000000" and w = "()" and u = 0 and d = 300
      and info = "\<lparr>ri_scaleUpBehavor = Some \<lparr>sr_stabilizationWindowSeconds = Some 0, sr_selectPolicy = None, sr_policies = []\<rparr>,
        ri_scaleDownBehavor = Some \<lparr>sr_stabilizationWindowSeconds = Some 300, sr_selectPolicy = None, sr_policies = []\<rparr>,
        ri_currentReplicas = 9, ri_desiredReplicas = 5\<rparr>"
      and records = "[\<lparr>trr_desiredReplicas = 3, trr_timestamp = 900000000000\<rparr>,
        \<lparr>trr_desiredReplicas = 2, trr_timestamp = 600000000000\<rparr>]"]
  by (auto simp: window_def reading_def quiet_env_def delay_of_def recent_counts_simps)

section \<open>The changes of a policy period\<close>

lemma change_fold:
  "fold (\<lambda>e replicas. if c < tse_timeStamp e then replicas + tse_replicaChange e else replicas) es n =
     n + (\<Sum>e\<leftarrow>filter (\<lambda>e. c < tse_timeStamp e) es. tse_replicaChange e)"
  by (induction es arbitrary: n) (auto simp: algebra_simps)

text \<open>
  The change of a policy period is the exact sum of the changes of the events within the
  period, whether or not they are marked as outdated, as long as the sum fits a 32-bit integer.
\<close>

lemma period_change_exact:
  assumes "- 2147483648 \<le> chg" "chg < 2147483648"
    and "chg = (\<Sum>e\<leftarrow>filter (\<lambda>e. reading E 0 w - 1000000000 * sint n < tse_timeStamp e) es. sint (tse_replicaChange e))"
  shows "\<exists>r. getReplicasChangePerScalePolicyPeriod E n es w = (Done r, after_readings E 1 w) \<and> sint r = chg"
proof -
  let ?in = "filter (\<lambda>e. reading E 0 w - 1000000000 * sint n < tse_timeStamp e) es"
  have "(\<Sum>e\<leftarrow>?in. tse_replicaChange e) = word_of_int chg"
    using word_of_int_sum_list [of "\<lambda>e. sint (tse_replicaChange e)" ?in, where 'a = 32] assms(3) by simp
  then show ?thesis
    using assms(1,2)
    by (simp add: getReplicasChangePerScalePolicyPeriod_def go_simps Let_def change_fold reading_def word_reads)
qed

section \<open>The limits of the policies\<close>

text \<open>The selection function is there when it is needed.\<close>

definition selection_ready :: "scaling_rules option \<Rightarrow> bool" where
  "selection_ready rules = (case rules of
     None \<Rightarrow> False
   | Some r \<Rightarrow> (case sr_selectPolicy r of
       None \<Rightarrow> False
     | Some p \<Rightarrow> p = DisabledPolicySelect \<or> p = MinPolicySelect \<or> sr_policies r = []))"

lemma change_returns:
  obtains r where "getReplicasChangePerScalePolicyPeriod E n es w = (Done r, snd (e_now E w))"
  by (auto simp: getReplicasChangePerScalePolicyPeriod_def go_simps Let_def)

lemma policy_loop_Some:
  "\<exists>r w'. policy_loop E c es (Some f) ps l p w = (Done r, w')"
proof (induction ps arbitrary: l p w)
  case (Cons q ps)
  obtain r where "getReplicasChangePerScalePolicyPeriod E (sp_periodSeconds q) es w = (Done r, snd (e_now E w))"
    by (rule change_returns)
  then show ?case using Cons.IH by (simp add: go_simps Let_def)
qed (simp add: go_simps)

lemma policy_loop_nil:
  "ps \<noteq> [] \<Longrightarrow> fst (policy_loop E c es None ps l p w) = Panic NilDereference"
proof (cases ps)
  case (Cons q qs)
  obtain r where "getReplicasChangePerScalePolicyPeriod E (sp_periodSeconds q) es w = (Done r, snd (e_now E w))"
    by (rule change_returns)
  then show ?thesis using Cons by (simp add: go_simps Let_def)
qed simp

lemma policy_loop_below:
  "policy_loop E c es (Some min_fun) ps l p w = (Done r, w') \<Longrightarrow> sint r \<le> sint l"
proof (induction ps arbitrary: l p w)
  case (Cons q ps)
  obtain k where "getReplicasChangePerScalePolicyPeriod E (sp_periodSeconds q) es w = (Done k, snd (e_now E w))"
    by (rule change_returns)
  then have "sint r \<le> sint (min_fun l (policy_proposal (e_oor E) q (c - k) p))"
    using Cons by (auto simp: go_simps Let_def)
  then show ?case by (simp add: word_reads)
qed (simp add: go_simps)

lemmas limit_defs = calculateScaleUpLimitWithScalingRules_def calculateScaleDownLimitWithScalingRules_def

lemma limits_outcome:
  assumes "rules = Some r" "sr_selectPolicy r = Some p"
  shows "panics (fst (calculateScaleUpLimitWithScalingRules E c es rules w)) \<longleftrightarrow>
      p \<noteq> DisabledPolicySelect \<and> p \<noteq> MinPolicySelect \<and> sr_policies r \<noteq> []"
    "panics (fst (calculateScaleDownLimitWithScalingRules E c es rules w)) \<longleftrightarrow>
      p \<noteq> DisabledPolicySelect \<and> p \<noteq> MinPolicySelect \<and> sr_policies r \<noteq> []"
proof -
  have s: "\<not> panics (fst (policy_loop E c es (Some min_fun) (sr_policies r) l q w))" for l q
    using policy_loop_Some [of E c es min_fun "sr_policies r" l q w] by force
  have n: "panics (fst (policy_loop E c es None (sr_policies r) l q w)) \<longleftrightarrow> sr_policies r \<noteq> []" for l q
    using policy_loop_nil [of "sr_policies r" E c es l q w] by (cases "sr_policies r = []") (simp_all add: go_simps)
  show "panics (fst (calculateScaleUpLimitWithScalingRules E c es rules w)) \<longleftrightarrow>
      p \<noteq> DisabledPolicySelect \<and> p \<noteq> MinPolicySelect \<and> sr_policies r \<noteq> []"
    using assms s [of min_i32 0] n [of max_i32 0]
    by (auto simp: limit_defs go_simps split: prod.splits outcome.splits)
  show "panics (fst (calculateScaleDownLimitWithScalingRules E c es rules w)) \<longleftrightarrow>
      p \<noteq> DisabledPolicySelect \<and> p \<noteq> MinPolicySelect \<and> sr_policies r \<noteq> []"
    using assms s [of max_i32 0] n [of min_i32 0]
    by (auto simp: limit_defs go_simps split: prod.splits outcome.splits)
qed

lemma limits_panic_iff:
  "panics (fst (calculateScaleUpLimitWithScalingRules E c es rules w)) \<longleftrightarrow> \<not> selection_ready rules"
  "panics (fst (calculateScaleDownLimitWithScalingRules E c es rules w)) \<longleftrightarrow> \<not> selection_ready rules"
proof -
  have "(panics (fst (calculateScaleUpLimitWithScalingRules E c es rules w)) \<longleftrightarrow> \<not> selection_ready rules) \<and>
    (panics (fst (calculateScaleDownLimitWithScalingRules E c es rules w)) \<longleftrightarrow> \<not> selection_ready rules)"
  proof (cases rules)
    case (Some r)
    show ?thesis
    proof (cases "sr_selectPolicy r")
      case None
      then show ?thesis using Some by (simp add: limit_defs go_simps selection_ready_def)
    next
      case p: (Some p)
      show ?thesis by (auto simp: Some p limits_outcome [OF refl p] selection_ready_def)
    qed
  qed (simp add: limit_defs go_simps selection_ready_def)
  then show "panics (fst (calculateScaleUpLimitWithScalingRules E c es rules w)) \<longleftrightarrow> \<not> selection_ready rules"
    "panics (fst (calculateScaleDownLimitWithScalingRules E c es rules w)) \<longleftrightarrow> \<not> selection_ready rules"
    by blast+
qed

text \<open>
  A limit for scaling up that is returned is the current count, whatever the policies and the
  past changes: the minimum with the proposals starts at the least integer. The one exception is a
  selection other than \<open>Disabled\<close> and \<open>Min\<close> without policies, whose limit is the greatest integer.
\<close>

lemma scale_up_limit_current:
  assumes "calculateScaleUpLimitWithScalingRules E c es (Some r) w = (Done limit, w')"
  shows "limit = c \<or> limit = max_i32 \<and> sr_policies r = [] \<and>
    sr_selectPolicy r \<notin> {Some DisabledPolicySelect, Some MinPolicySelect}"
proof (cases "sr_selectPolicy r = Some MinPolicySelect")
  case True
  then obtain l where l: "policy_loop E c es (Some min_fun) (sr_policies r) min_i32 0 w = (Done l, w')"
    "limit = (if sint l < sint c then c else l)"
    using assms by (auto simp: limit_defs go_simps split: prod.splits outcome.splits)
  have "sint l \<le> - 2147483648" using policy_loop_below [OF l(1)] by (simp add: word_reads)
  then have "sint l < sint c \<or> l = c" using sint_i32_bounds(1) [of c] sint_eq_iff [of l c] by linarith
  then show ?thesis using l(2) by auto
next
  case False
  show ?thesis
  proof (cases "sr_selectPolicy r = Some DisabledPolicySelect \<or> sr_selectPolicy r = None")
    case True
    then show ?thesis using assms by (auto simp: limit_defs go_simps)
  next
    case other: False
    then have "sr_policies r = []"
      using assms False policy_loop_nil [of "sr_policies r" E c es max_i32 0 w]
      by (auto simp: limit_defs go_simps split: prod.splits outcome.splits)
    then show ?thesis
      using assms False other by (auto simp: limit_defs go_simps split: if_splits)
  qed
qed

lemma conversion_in_range:
  assumes "convertDesiredReplicasWithBehaviorRate E info es w = (Done (r, reason), w')"
  shows "if sint (ri_desiredReplicas info) < sint (ri_currentReplicas info)
    then sint (ri_desiredReplicas info) \<le> sint r \<and> sint r \<le> sint (ri_currentReplicas info)
    else r = 0 \<and> reason = [] \<and> w' = w"
proof -
  have "sint l \<le> sint c" if "calculateScaleDownLimitWithScalingRules E c es rules w = (Done l, w'')" for c rules l w''
    using that by (auto simp: limit_defs go_simps split: option.splits prod.splits outcome.splits if_splits)
  then show ?thesis
    using assms unfolding convertDesiredReplicasWithBehaviorRate_def
    by (fastforce simp: go_simps Let_def split: prod.splits outcome.splits if_splits)
qed

section \<open>The revision\<close>

definition windows_set :: "hpa_behavior \<Rightarrow> bool" where
  "windows_set b \<longleftrightarrow> \<not> panics (window (hb_scaleUp b)) \<and> \<not> panics (window (hb_scaleDown b))"

text \<open>The count the stabilisation settles on.\<close>

definition stabilized :: "'w env \<Rightarrow> hpa_behavior \<Rightarrow> i32 \<Rightarrow> i32 \<Rightarrow> timestamped_recommendation_record list
    \<Rightarrow> 'w \<Rightarrow> int" where
  "stabilized E b desired current records w =
     (case window (if sint desired \<ge> sint current then hb_scaleUp b else hb_scaleDown b) of
        Done n \<Rightarrow> Min (insert (sint desired)
          (recent_counts (reading E 0 w - 1000000000 * sint n) records))
      | _ \<Rightarrow> sint desired)"

lemma window_no_fail: "window rules \<noteq> Fail e"
  by (simp add: window_def deref_def split: option.splits)

lemma windows_setE:
  assumes "windows_set b"
  obtains u d where "window (hb_scaleUp b) = Done u" "window (hb_scaleDown b) = Done d"
  using assms window_no_fail unfolding windows_set_def by (metis outcome.exhaust panics.simps(1))

lemma revise_unset:
  assumes "\<not> windows_set b"
  shows "\<exists>w'. ReviseWithBehavor E desired current (Some b) records es w = (Panic NilDereference, w')"
proof -
  have "window (hb_scaleUp b) = Panic NilDereference \<or> window (hb_scaleDown b) = Panic NilDereference"
    using assms by (auto simp: windows_set_def window_def deref_def split: option.splits)
  then show ?thesis
    by (auto simp: ReviseWithBehavor_def stabilizationRecommendationWithBehavors_def go_simps Let_def
        window_def deref_def split: option.splits)
qed

lemma revise_eq:
  assumes "windows_set b"
  obtains r records' where "sint r = stabilized E b desired current records w"
    "ReviseWithBehavor E desired current (Some b) records es w =
      bnd (convertDesiredReplicasWithBehaviorRate E \<lparr>ri_scaleUpBehavor = hb_scaleUp b,
        ri_scaleDownBehavor = hb_scaleDown b, ri_currentReplicas = current, ri_desiredReplicas = r\<rparr> es)
        (\<lambda>(scaledReplicas, _). ret (scaledReplicas, records')) (after_readings E 3 w)"
proof -
  obtain u d where ud: "window (hb_scaleUp b) = Done u" "window (hb_scaleDown b) = Done d"
    using assms by (rule windows_setE)
  let ?info = "\<lparr>ri_scaleUpBehavor = hb_scaleUp b, ri_scaleDownBehavor = hb_scaleDown b,
    ri_currentReplicas = current, ri_desiredReplicas = desired\<rparr>"
  obtain r records' where s: "stabilizationRecommendationWithBehavors E ?info records w =
      (Done (r, ''ScaleUpStabilized'', records'), after_readings E 3 w)"
    and r: "sint r = Min (insert (sint desired)
      (recent_counts (reading E 0 w - 1000000000 * sint (delay_of ?info u d)) records))"
    using stabilization_eq [of ?info u d E records w] ud by (simp add: recommendation_loop_least word_reads)
  obtain down n where "hb_scaleDown b = Some down" "sr_stabilizationWindowSeconds down = Some n"
    using ud(2) by (auto simp: window_def deref_def split: option.splits)
  then show thesis
    using that [of r records'] r s ud
    by (simp add: stabilized_def delay_of_def ReviseWithBehavor_def go_simps)
qed

lemma limit_no_fail: "fst (calculateScaleDownLimitWithScalingRules E c es rules w) \<noteq> Fail e"
proof -
  have "fst (policy_loop E c es f ps l p w) \<noteq> Fail e" for f ps l p
  proof (cases f)
    case None
    then show ?thesis using policy_loop_nil [of ps E c es l p w] by (cases "ps = []") (simp_all add: go_simps)
  qed (use policy_loop_Some in \<open>metis fst_conv outcome.distinct(5)\<close>)
  then show ?thesis
    by (auto simp: limit_defs go_simps deref_def split: option.splits prod.splits outcome.splits)
      (metis fst_conv)+
qed

lemma conversion_outcome:
  "panics (fst (convertDesiredReplicasWithBehaviorRate E info es w)) \<longleftrightarrow>
     sint (ri_desiredReplicas info) < sint (ri_currentReplicas info) \<and> \<not> selection_ready (ri_scaleUpBehavor info)"
  "fst (convertDesiredReplicasWithBehaviorRate E info es w) \<noteq> Fail e"
proof -
  let ?l = "calculateScaleDownLimitWithScalingRules E (ri_currentReplicas info) es (ri_scaleUpBehavor info) w"
  show "panics (fst (convertDesiredReplicasWithBehaviorRate E info es w)) \<longleftrightarrow>
     sint (ri_desiredReplicas info) < sint (ri_currentReplicas info) \<and> \<not> selection_ready (ri_scaleUpBehavor info)"
    using limits_panic_iff(2) [of E "ri_currentReplicas info" es "ri_scaleUpBehavor info" w]
    by (cases ?l; cases "fst ?l")
      (auto simp: convertDesiredReplicasWithBehaviorRate_def go_simps Let_def split: if_splits)
  show "fst (convertDesiredReplicasWithBehaviorRate E info es w) \<noteq> Fail e"
    using limit_no_fail [of E "ri_currentReplicas info" es "ri_scaleUpBehavor info" w e]
    by (cases ?l; cases "fst ?l")
      (auto simp: convertDesiredReplicasWithBehaviorRate_def go_simps Let_def split: if_splits)
qed

lemma revise_cases:
  "fst (ReviseWithBehavor E desired current (Some b) records es w) \<noteq> Fail e \<and>
   (\<not> panics (fst (ReviseWithBehavor E desired current (Some b) records es w)) \<longleftrightarrow>
      windows_set b \<and>
      (sint current \<le> stabilized E b desired current records w \<or> selection_ready (hb_scaleUp b)))"
proof (cases "windows_set b")
  case False
  then show ?thesis using revise_unset [OF False, of E desired current records es w] by auto
next
  case True
  obtain r records' where r: "sint r = stabilized E b desired current records w"
    "ReviseWithBehavor E desired current (Some b) records es w =
      bnd (convertDesiredReplicasWithBehaviorRate E \<lparr>ri_scaleUpBehavor = hb_scaleUp b,
        ri_scaleDownBehavor = hb_scaleDown b, ri_currentReplicas = current, ri_desiredReplicas = r\<rparr> es)
        (\<lambda>(scaledReplicas, _). ret (scaledReplicas, records')) (after_readings E 3 w)"
    by (rule revise_eq [OF True])
  let ?info = "\<lparr>ri_scaleUpBehavor = hb_scaleUp b, ri_scaleDownBehavor = hb_scaleDown b,
    ri_currentReplicas = current, ri_desiredReplicas = r\<rparr>"
  let ?c = "convertDesiredReplicasWithBehaviorRate E ?info es (after_readings E 3 w)"
  have "fst ?c \<noteq> Fail e" "panics (fst ?c) \<longleftrightarrow> sint r < sint current \<and> \<not> selection_ready (hb_scaleUp b)"
    using conversion_outcome [of E ?info es "after_readings E 3 w"] by simp_all
  then show ?thesis
    using True r by (cases ?c; cases "fst ?c") (auto simp: go_simps)
qed

text \<open>
  C23: the revision never returns an error, and it does not panic exactly when both stabilisation
  windows are set (also the one that has a default, which is stored through the nil pointer) and
  the stabilised count is not below the current one, or the rules for scaling up select
  \<open>Disabled\<close> or \<open>Min\<close>, or anything else without policies.
\<close>

theorem revise_outcome:
  "fst (ReviseWithBehavor E desired current (Some b) records es w) \<noteq> Fail e \<and>
   (\<not> panics (fst (ReviseWithBehavor E desired current (Some b) records es w)) \<longleftrightarrow>
      windows_set b \<and>
      (sint current \<le> stabilized E b desired current records w \<or> selection_ready (hb_scaleUp b)))"
  by (rule revise_cases)

text \<open>
  C24: a revision that returns never goes below the stabilised count nor above the current one
  when it scales down, and returns 0 in every other case; in particular a request to scale up
  whose recent recommendations are not below the current count is revised to 0.
\<close>

theorem revise_bounds:
  assumes "ReviseWithBehavor E desired current (Some b) records es w = (Done (n, records'), w')"
  shows "if stabilized E b desired current records w < sint current
    then stabilized E b desired current records w \<le> sint n \<and> sint n \<le> sint current
    else n = 0"
proof -
  have ws: "windows_set b"
    using assms revise_unset [of b E desired current records es w] by auto
  obtain r records'' where r: "sint r = stabilized E b desired current records w"
    "ReviseWithBehavor E desired current (Some b) records es w =
      bnd (convertDesiredReplicasWithBehaviorRate E \<lparr>ri_scaleUpBehavor = hb_scaleUp b,
        ri_scaleDownBehavor = hb_scaleDown b, ri_currentReplicas = current, ri_desiredReplicas = r\<rparr> es)
        (\<lambda>(scaledReplicas, _). ret (scaledReplicas, records'')) (after_readings E 3 w)"
    by (rule revise_eq [OF ws])
  then obtain reason w'' where
    "convertDesiredReplicasWithBehaviorRate E \<lparr>ri_scaleUpBehavor = hb_scaleUp b,
        ri_scaleDownBehavor = hb_scaleDown b, ri_currentReplicas = current, ri_desiredReplicas = r\<rparr> es
        (after_readings E 3 w) = (Done (n, reason), w'')"
    using assms by (auto simp: go_simps split: prod.splits outcome.splits)
  from conversion_in_range [OF this] show ?thesis using r(1) by (simp split: if_splits)
qed

theorem revise_bounds_witness:
  "ReviseWithBehavor (quiet_env 0) 7 5 (Some \<lparr>
      hb_scaleUp = Some \<lparr>sr_stabilizationWindowSeconds = Some 0, sr_selectPolicy = None, sr_policies = []\<rparr>,
      hb_scaleDown = Some \<lparr>sr_stabilizationWindowSeconds = Some 300, sr_selectPolicy = None, sr_policies = []\<rparr>\<rparr>)
      [] [] () = (Done (0, [\<lparr>trr_desiredReplicas = 7, trr_timestamp = 0\<rparr>]), ()) \<and> (0::i32) = 0"
proof -
  let ?b = "\<lparr>hb_scaleUp = Some \<lparr>sr_stabilizationWindowSeconds = Some 0, sr_selectPolicy = None, sr_policies = []\<rparr>,
      hb_scaleDown = Some \<lparr>sr_stabilizationWindowSeconds = Some 300, sr_selectPolicy = None, sr_policies = []\<rparr>\<rparr>"
  have e: "ReviseWithBehavor (quiet_env 0) 7 5 (Some ?b) [] [] () =
      (Done (0, [\<lparr>trr_desiredReplicas = 7, trr_timestamp = 0\<rparr>]), ())"
    by (simp add: ReviseWithBehavor_def stabilizationRecommendationWithBehavors_def go_simps Let_def
        window_def quiet_env_def convertDesiredReplicasWithBehaviorRate_def store_in_def)
  have "stabilized (quiet_env 0) ?b 7 5 [] () = 7"
    by (simp add: stabilized_def window_def recent_counts_simps)
  with revise_bounds [OF e] e show ?thesis by simp
qed

end
