(* ===== verification/Zaohua_Facts.thy ===== *)
theory Zaohua_Facts
  imports Frame Replica_Facts Behavior_Facts
begin

text \<open>
  One round of the scaling loop: the count over all metrics is the greatest answer, kept between
  the limits and never below the current one; the execution writes that count whatever the
  behaviour says; the events and the results of the rounds are kept in bounded stores.
\<close>

section \<open>A concrete run\<close>

text \<open>
  An external metric of 250 units with a target of 100 per pod, on a workload of 2 replicas: the
  specification carries an object source beside the external one, whose target type is read.
\<close>

definition grow_metric :: metric_spec where
  "grow_metric = (external_spec_of \<lparr>mt_type = AverageValueMetricType, mt_value = None, mt_averageValue = Some 100\<rparr>)
     \<lparr>ms_object := Some \<lparr>oms_describedObject = zero_ref,
        oms_target = \<lparr>mt_type = AverageValueMetricType, mt_value = None, mt_averageValue = None\<rparr>,
        oms_metric = \<lparr>mi_name = ''qps'', mi_selector = None\<rparr>\<rparr>\<rparr>"

definition grow_scale :: scale where
  "grow_scale = \<lparr>sc_name = ''web'', sc_namespace = ''ns'', sc_specReplicas = 2, sc_statusReplicas = 2,
     sc_statusSelector = ''app=web''\<rparr>"

text \<open>The calls that write to the server, which the concrete world collects.\<close>

datatype write_call = SentScale scale | SentPatch houmao json

definition grow_env :: "write_call list env" where
  "grow_env = (quiet_env 1000)\<lparr>
     e_external := \<lambda>_ _ _ w.
       (Inr [\<lparr>rmv_objectName = [], rmv_timestamp = 5, rmv_windowSeconds = None, rmv_value = 250\<rparr>], w),
     e_getScale := \<lambda>_ w. (Inr grow_scale, w),
     e_updateScale := \<lambda>sc w. (Inr sc, w @ [SentScale sc]),
     e_patchHoumao := \<lambda>h j w. (Inr h, w @ [SentPatch h j])\<rparr>"

definition grow_houmao :: houmao where
  "grow_houmao = zero_houmao\<lparr>
     hm_meta := zero_meta\<lparr>om_name := ''web'', om_namespace := ''ns''\<rparr>,
     hm_spec := zero_spec\<lparr>hs_metrics := [grow_metric], hs_minReplicas := Some 1, hs_maxReplicas := 10\<rparr>\<rparr>"

lemma grow_metric_count:
  "CalculateReplicasWithExternalMetricSourceType grow_env c ''ns'' grow_metric ''app=web'' 2 w = (Done (3, 5), w)"
proof -
  have "GetExternalMetric grow_env ''qps'' ns sel w = (Done ([250], 5), w)" for ns sel
    by (simp add: grow_env_def quiet_env_def GetExternalMetric_def go_simps)
  then have "\<exists>n. getReplicasForPerPodWithExternalMetricSourceType grow_env c ''ns'' grow_metric ''app=web'' 2 w
      = (Done (n, 5), w) \<and> sint n = ceil_div (sint (sum_values [250])) (sint (100 :: i64))"
    by (intro external_per_pod_count [where sel = "[]"], simp add: grow_metric_def external_spec_of_def)
      (simp_all add: grow_metric_def external_spec_of_def grow_env_def quiet_env_def sum_values_def ceil_div_def)
  moreover have "n = 3" if "sint (n :: i32) = 3" for n
    using that sint_eq_iff [of n 3] by simp
  ultimately have e: "getReplicasForPerPodWithExternalMetricSourceType grow_env c ''ns'' grow_metric ''app=web'' 2 w
      = (Done (3, 5), w)"
    by (force simp: sum_values_def ceil_div_def)
  obtain obj where "ms_object grow_metric = Some obj" "mt_type (oms_target obj) = AverageValueMetricType"
    by (simp add: grow_metric_def)
  then show ?thesis by (simp add: CalculateReplicasWithExternalMetricSourceType_def go_simps e)
qed

lemma grow_calculate:
  "calculate grow_env c grow_houmao grow_scale w = (Done \<lparr>el_desiredReplicas = 3, el_metricIndex = 0,
     el_metricType = ExternalMetricSourceType, el_metricName = ''qps''\<rparr>, w)"
proof -
  have t: "ms_type grow_metric = ExternalMetricSourceType"
    and n: "ms_external grow_metric = Some \<lparr>ems_metric = \<lparr>mi_name = ''qps'', mi_selector = None\<rparr>,
      ems_target = \<lparr>mt_type = AverageValueMetricType, mt_value = None, mt_averageValue = Some 100\<rparr>\<rparr>"
    by (simp_all add: grow_metric_def external_spec_of_def)
  have p: "e_labelsParse grow_env = Inr" by (simp add: grow_env_def quiet_env_def)
  show ?thesis
    by (simp add: calculate_def grow_houmao_def zero_houmao_def zero_meta_def zero_spec_def grow_scale_def
        go_simps metric_step_def t n p elect_def grow_metric_count limit_replicas_def)
qed

section \<open>The count over all metrics\<close>

text \<open>The specification: the calculator of a metric, and the answers of all of them in turn.\<close>

definition supported :: "string \<Rightarrow> bool" where
  "supported t \<longleftrightarrow> t \<in> {ContainerResourceMetricSourceType, ResourceMetricSourceType, PodsMetricSourceType,
     ObjectMetricSourceType, ExternalMetricSourceType}"

definition calculator :: "'w env \<Rightarrow> calculate_handle \<Rightarrow> string \<Rightarrow> selector \<Rightarrow> i32 \<Rightarrow> metric_spec
    \<Rightarrow> ('w, i32 \<times> time) io" where
  "calculator E c ns sel cur m =
     (if ms_type m = ContainerResourceMetricSourceType
      then CalculateReplicasWithContainerResourceMetricSourceType E c ns m sel cur
      else if ms_type m = ResourceMetricSourceType
      then CalculateReplicasWithResourceMetricSourceType E c ns sel m cur
      else if ms_type m = PodsMetricSourceType
      then CalculateReplicasWithPodsMetricSourceType E c ns sel m cur
      else if ms_type m = ObjectMetricSourceType
      then CalculateReplicasWithObjectSourceType E c ns sel m cur
      else CalculateReplicasWithExternalMetricSourceType E c ns m sel cur)"

definition answer :: "'w env \<Rightarrow> calculate_handle \<Rightarrow> string \<Rightarrow> selector \<Rightarrow> i32 \<Rightarrow> metric_spec
    \<Rightarrow> ('w, i32 option) io" where
  "answer E c ns sel cur m =
     handle (calculator E c ns sel cur m) (\<lambda>_. ret None) (\<lambda>(n, _). ret (Some n))"

primrec answers :: "'w env \<Rightarrow> calculate_handle \<Rightarrow> string \<Rightarrow> selector \<Rightarrow> i32 \<Rightarrow> metric_spec list
    \<Rightarrow> ('w, i32 option list) io" where
  "answers E c ns sel cur [] = ret []"
| "answers E c ns sel cur (m # ms) =
     bnd (answer E c ns sel cur m) (\<lambda>a. bnd (answers E c ns sel cur ms) (\<lambda>as. ret (a # as)))"

text \<open>What the election makes of an answer.\<close>

definition wins :: "election \<Rightarrow> i32 option \<Rightarrow> bool" where
  "wins acc a = (case a of None \<Rightarrow> False | Some n \<Rightarrow> sint (el_desiredReplicas acc) < sint n)"

definition elected :: "election \<Rightarrow> i32 \<Rightarrow> i32 option \<Rightarrow> election \<Rightarrow> bool" where
  "elected acc index a acc' \<longleftrightarrow>
     (if wins acc a then Some (el_desiredReplicas acc') = a \<and> el_metricIndex acc' = index else acc' = acc)"

lemma elect_elected:
  assumes "elect (calculator E c ns sel cur m) index mtype mname acc w = (Done acc', w')"
  shows "\<exists>a. answer E c ns sel cur m w = (Done a, w') \<and> elected acc index a acc'"
  using assms
  by (auto simp: elect_def answer_def elected_def wins_def go_simps
      split: prod.splits outcome.splits if_splits)

lemma metric_step_elected:
  assumes "metric_step E c ns sel cur index m acc w = (Done acc', w')"
  shows "supported (ms_type m)"
    and "\<exists>a. answer E c ns sel cur m w = (Done a, w') \<and> elected acc index a acc'"
proof -
  show "supported (ms_type m)"
    using assms by (auto simp: metric_step_def supported_def go_simps split: if_splits)
  have "\<exists>mtype mname. elect (calculator E c ns sel cur m) index mtype mname acc w = (Done acc', w')"
    using assms by (auto simp: metric_step_def calculator_def go_simps split: if_splits)
  then show "\<exists>a. answer E c ns sel cur m w = (Done a, w') \<and> elected acc index a acc'"
    by (elim exE) (rule elect_elected)
qed

text \<open>The greatest answer, and the first metric that gave it.\<close>

definition greatest :: "i32 \<Rightarrow> i32 option list \<Rightarrow> int" where
  "greatest cur as = Max (insert (sint cur) (sint ` {n. Some n \<in> set as}))"

lemma finite_answers [simp]: "finite {n. Some n \<in> set as}"
proof -
  have "{n. Some n \<in> set as} \<subseteq> the ` set as" by force
  then show ?thesis by (rule finite_subset) simp
qed

lemma greatest_simps:
  "greatest cur [] = sint cur"
  "greatest cur (None # as) = greatest cur as"
  "greatest cur (Some n # as) = greatest (if sint cur < sint n then n else cur) as"
proof -
  show "greatest cur [] = sint cur" "greatest cur (None # as) = greatest cur as"
    by (simp_all add: greatest_def)
  have "{k. Some k \<in> set (Some n # as)} = insert n {k. Some k \<in> set as}" by auto
  then show "greatest cur (Some n # as) = greatest (if sint cur < sint n then n else cur) as"
    by (cases "sint ` {k. Some k \<in> set as} = {}")
      (simp_all add: greatest_def max_def)
qed

lemma greatest_ge: "sint cur \<le> greatest cur as"
  by (simp add: greatest_def)

definition elects :: "nat \<Rightarrow> i32 option list \<Rightarrow> election \<Rightarrow> bool" where
  "elects k as el \<longleftrightarrow>
     (\<exists>i<length as. as ! i = Some (el_desiredReplicas el) \<and> el_metricIndex el = of_nat (k + i) \<and>
       (\<forall>j<i. case as ! j of None \<Rightarrow> True | Some n \<Rightarrow> sint n < sint (el_desiredReplicas el)))"

lemma elects_Cons:
  assumes "elected acc (of_nat k) a acc1"
    and "if sint (el_desiredReplicas acc1) < sint (el_desiredReplicas el) then elects (Suc k) as el else el = acc1"
  shows "if sint (el_desiredReplicas acc) < sint (el_desiredReplicas el) then elects k (a # as) el else el = acc"
proof (cases "sint (el_desiredReplicas acc1) < sint (el_desiredReplicas el)")
  case True
  then obtain i where i: "i < length as" "as ! i = Some (el_desiredReplicas el)"
    "el_metricIndex el = of_nat (Suc k + i)"
    "\<forall>j<i. case as ! j of None \<Rightarrow> True | Some n \<Rightarrow> sint n < sint (el_desiredReplicas el)"
    using assms(2) by (auto simp: elects_def)
  have "case a of None \<Rightarrow> True | Some n \<Rightarrow> sint n < sint (el_desiredReplicas el)"
    using assms(1) True by (auto simp: elected_def wins_def split: option.splits if_splits)
  then have "elects k (a # as) el"
    unfolding elects_def using i by (intro exI [of _ "Suc i"]) (auto simp: less_Suc_eq_0_disj)
  moreover have "sint (el_desiredReplicas acc) < sint (el_desiredReplicas el)"
    using assms(1) True by (auto simp: elected_def wins_def split: option.splits if_splits)
  ultimately show ?thesis by simp
next
  case False
  then have "el = acc1" using assms(2) by simp
  then show ?thesis
    using assms(1) by (auto simp: elected_def wins_def elects_def split: option.splits if_splits)
qed

lemma metric_loop_greatest:
  assumes "metric_loop E c ns sel cur k ms acc w = (Done el, w')"
  shows "\<forall>m\<in>set ms. supported (ms_type m)"
    and "\<exists>as. answers E c ns sel cur ms w = (Done as, w') \<and> length as = length ms \<and>
      sint (el_desiredReplicas el) = greatest (el_desiredReplicas acc) as \<and>
      (if sint (el_desiredReplicas acc) < sint (el_desiredReplicas el)
       then elects k as el else el = acc)"
  using assms
proof (induction ms arbitrary: k acc w)
  case Nil
  { case 1 show ?case by simp next
    case 2 then show ?case by (simp add: go_simps greatest_simps) }
next
  case (Cons m ms)
  { case 1
    then show ?case
      using Cons.IH(1) metric_step_elected(1) by (fastforce elim!: bnd_DoneE)
  next
    case 2
    then obtain acc1 w1 where
      step: "metric_step E c ns sel cur (of_nat k) m acc w = (Done acc1, w1)" and
      rest: "metric_loop E c ns sel cur (Suc k) ms acc1 w1 = (Done el, w')"
      by (auto elim!: bnd_DoneE)
    obtain a where a: "answer E c ns sel cur m w = (Done a, w1)" "elected acc (of_nat k) a acc1"
      using metric_step_elected(2) [OF step] by blast
    obtain as where as: "answers E c ns sel cur ms w1 = (Done as, w')" "length as = length ms"
      "sint (el_desiredReplicas el) = greatest (el_desiredReplicas acc1) as"
      "if sint (el_desiredReplicas acc1) < sint (el_desiredReplicas el)
       then elects (Suc k) as el else el = acc1"
      using Cons.IH(2) [OF rest] by blast
    have g: "sint (el_desiredReplicas el) = greatest (el_desiredReplicas acc) (a # as)"
      using as(3) a(2) by (cases a) (auto simp: elected_def wins_def greatest_simps split: if_splits)
    have "if sint (el_desiredReplicas acc) < sint (el_desiredReplicas el)
       then elects k (a # as) el else el = acc"
      using a(2) as(4) by (rule elects_Cons)
    then show ?case using a as g by (auto simp: go_simps)
  }
qed

section \<open>The limits\<close>

definition clamp :: "int \<Rightarrow> int \<Rightarrow> int \<Rightarrow> int" where
  "clamp lo hi n = (if n > hi then hi else if n < lo then lo else n)"

lemma limit_replicas_Done:
  "limit_replicas hi lo n = Done r \<longleftrightarrow>
     (if sint n > sint hi then r = hi
      else \<exists>m. lo = Some m \<and> r = (if sint n < sint m then m else n))"
  by (auto simp: limit_replicas_def obind_eq_Done deref_def split: option.splits)

lemma calculate_count:
  assumes "calculate E c h sc w = (Done el, w')"
  shows "\<exists>as. answers E c (om_namespace (hm_meta h)) (projr (e_labelsParse E (sc_statusSelector sc)))
        (sc_statusReplicas sc) (hs_metrics (hm_spec h)) w = (Done as, w') \<and>
      (\<forall>m\<in>set (hs_metrics (hm_spec h)). supported (ms_type m)) \<and>
      (let top = greatest (sc_statusReplicas sc) as; hi = sint (hs_maxReplicas (hm_spec h)) in
       sint (el_desiredReplicas el) =
         (case hs_minReplicas (hm_spec h) of None \<Rightarrow> hi | Some m \<Rightarrow> clamp (sint m) hi top) \<and>
       (if top = sint (sc_statusReplicas sc)
        then el_metricIndex el = 0 \<and> el_metricType el = [] \<and> el_metricName el = []
        else \<exists>i<length as. el_metricIndex el = of_nat i \<and> map_option sint (as ! i) = Some top \<and>
          (\<forall>j<i. map_option sint (as ! j) \<noteq> Some top)))"
proof -
  let ?start = "\<lparr>el_desiredReplicas = sc_statusReplicas sc, el_metricIndex = 0, el_metricType = [], el_metricName = []\<rparr>"
  obtain sel acc r where sel: "e_labelsParse E (sc_statusSelector sc) = Inr sel"
    and loop: "metric_loop E c (om_namespace (hm_meta h)) sel (sc_statusReplicas sc) 0
      (hs_metrics (hm_spec h)) ?start w = (Done acc, w')"
    and lim: "limit_replicas (hs_maxReplicas (hm_spec h)) (hs_minReplicas (hm_spec h)) (el_desiredReplicas acc) = Done r"
    and el: "el = acc\<lparr>el_desiredReplicas := r\<rparr>"
    using assms unfolding calculate_def Let_def
    by (cases "e_labelsParse E (sc_statusSelector sc)")
      (auto simp: go_simps split: prod.splits outcome.splits)
  obtain as where as: "answers E c (om_namespace (hm_meta h)) sel (sc_statusReplicas sc) (hs_metrics (hm_spec h)) w = (Done as, w')"
    and top: "sint (el_desiredReplicas acc) = greatest (sc_statusReplicas sc) as"
    and tie: "if sint (sc_statusReplicas sc) < sint (el_desiredReplicas acc) then elects 0 as acc else acc = ?start"
    using metric_loop_greatest(2) [OF loop] by auto
  have idx: "if greatest (sc_statusReplicas sc) as = sint (sc_statusReplicas sc)
      then el_metricIndex el = 0 \<and> el_metricType el = [] \<and> el_metricName el = []
      else \<exists>i<length as. el_metricIndex el = of_nat i \<and> map_option sint (as ! i) = Some (greatest (sc_statusReplicas sc) as) \<and>
        (\<forall>j<i. map_option sint (as ! j) \<noteq> Some (greatest (sc_statusReplicas sc) as))"
    using tie greatest_ge [of "sc_statusReplicas sc" as] unfolding top [symmetric] el elects_def
    by (fastforce split: if_splits option.splits)
  have "sint r = (case hs_minReplicas (hm_spec h) of None \<Rightarrow> sint (hs_maxReplicas (hm_spec h))
      | Some m \<Rightarrow> clamp (sint m) (sint (hs_maxReplicas (hm_spec h))) (greatest (sc_statusReplicas sc) as))"
    using lim top unfolding limit_replicas_Done clamp_def by (auto split: if_splits option.splits)
  then show ?thesis
    using as sel idx metric_loop_greatest(1) [OF loop] el by (auto simp: Let_def)
qed

text \<open>
  C1: whenever the calculation over all metrics returns a count, every metric has a supported
  type, the count is the greatest of the replicas in the status and the answers of the metrics
  whose calculation succeeded, cut to the limits, and the index reported is the index of the first
  metric that gave the greatest answer (0, with no type and no name, when none exceeds the
  replicas in the status).
\<close>

theorem calculate_greatest:
  assumes "calculate E c h sc w = (Done el, w')"
  shows "\<exists>as. answers E c (om_namespace (hm_meta h)) (projr (e_labelsParse E (sc_statusSelector sc)))
        (sc_statusReplicas sc) (hs_metrics (hm_spec h)) w = (Done as, w') \<and>
      (\<forall>m\<in>set (hs_metrics (hm_spec h)). supported (ms_type m)) \<and>
      (let top = greatest (sc_statusReplicas sc) as; hi = sint (hs_maxReplicas (hm_spec h)) in
       sint (el_desiredReplicas el) =
         (case hs_minReplicas (hm_spec h) of None \<Rightarrow> hi | Some m \<Rightarrow> clamp (sint m) hi top) \<and>
       (if top = sint (sc_statusReplicas sc)
        then el_metricIndex el = 0 \<and> el_metricType el = [] \<and> el_metricName el = []
        else \<exists>i<length as. el_metricIndex el = of_nat i \<and> map_option sint (as ! i) = Some top \<and>
          (\<forall>j<i. map_option sint (as ! j) \<noteq> Some top)))"
  using assms by (rule calculate_count)

theorem calculate_greatest_witness:
  "\<exists>as. answers grow_env default_handle ''ns'' ''app=web'' 2 [grow_metric] [] = (Done as, []) \<and> 3 = clamp 1 10 (greatest 2 as)"
  using calculate_greatest [OF grow_calculate, of default_handle "[]"]
  by (auto simp: grow_houmao_def zero_houmao_def zero_meta_def zero_spec_def grow_scale_def grow_env_def
      quiet_env_def Let_def)

text \<open>
  C2: the calculation never asks for fewer replicas than the status reports, unless they exceed
  the upper limit, and with a lower limit that is not above the upper one the count lies between
  the two limits.
\<close>

theorem calculate_bounds:
  assumes "calculate E c h sc w = (Done el, w')" "hs_minReplicas (hm_spec h) = Some m"
    and "sint m \<le> sint (hs_maxReplicas (hm_spec h))"
  shows "sint m \<le> sint (el_desiredReplicas el) \<and>
    sint (el_desiredReplicas el) \<le> sint (hs_maxReplicas (hm_spec h)) \<and>
    min (sint (sc_statusReplicas sc)) (sint (hs_maxReplicas (hm_spec h))) \<le> sint (el_desiredReplicas el)"
proof -
  obtain r where "sint (el_desiredReplicas el) = clamp (sint m) (sint (hs_maxReplicas (hm_spec h))) r"
    "sint (sc_statusReplicas sc) \<le> r"
    using calculate_count [OF assms(1)] greatest_ge assms(2) by (auto simp: Let_def)
  then show ?thesis using assms(3) by (auto simp: clamp_def)
qed

theorem calculate_bounds_witness:
  "fst (calculate grow_env default_handle grow_houmao grow_scale []) = Done \<lparr>el_desiredReplicas = 3, el_metricIndex = 0,
      el_metricType = ExternalMetricSourceType, el_metricName = ''qps''\<rparr> \<and>
   sint (1 :: i32) \<le> sint (3 :: i32) \<and> sint (3 :: i32) \<le> sint (10 :: i32) \<and> min (sint (2 :: i32)) (sint (10 :: i32)) \<le> sint (3 :: i32)"
proof
  show "sint (1 :: i32) \<le> sint (3 :: i32) \<and> sint (3 :: i32) \<le> sint (10 :: i32) \<and>
      min (sint (2 :: i32)) (sint (10 :: i32)) \<le> sint (3 :: i32)"
    using calculate_bounds [OF grow_calculate, of 1] by (simp add: grow_houmao_def zero_spec_def grow_scale_def)
qed (simp add: grow_calculate)

section \<open>Scale events\<close>

text \<open>The events and the rules of a direction.\<close>

definition events_of :: "bool \<Rightarrow> 'w zstate \<Rightarrow> timestamped_scale_event list" where
  "events_of up s = (if up then zs_scaleUpEvents s else zs_scaleDownEvents s)"

definition rules_of :: "bool \<Rightarrow> hpa_behavior \<Rightarrow> scaling_rules option" where
  "rules_of up b = (if up then hb_scaleUp b else hb_scaleDown b)"

definition longest_period :: "scaling_rules \<Rightarrow> i32" where
  "longest_period rules = fold (\<lambda>policy longest. if sint (sp_periodSeconds policy) > sint longest
     then sp_periodSeconds policy else longest) (sr_policies rules) 0"

lemma longest_period_Max:
  "sint (longest_period rules) = Max (insert 0 ((\<lambda>p. sint (sp_periodSeconds p)) ` set (sr_policies rules)))"
proof -
  have l: "sint (fold (\<lambda>p n. if sint (sp_periodSeconds p) > sint n then sp_periodSeconds p else n) ps n) =
      Max (insert (sint n) ((\<lambda>p. sint (sp_periodSeconds p)) ` set ps))" for ps n
  proof (induction ps arbitrary: n)
    case (Cons p ps)
    have "Max (insert (sint n) ((\<lambda>p. sint (sp_periodSeconds p)) ` set (p # ps))) =
        Max (insert (max (sint n) (sint (sp_periodSeconds p))) ((\<lambda>p. sint (sp_periodSeconds p)) ` set ps))"
      by (cases "ps = []") (simp_all add: max.assoc)
    then show ?case using Cons.IH by (auto simp: max_def)
  qed simp
  show ?thesis using l [of "sr_policies rules" 0] by (simp add: longest_period_def)
qed

lemma getLongestPolicyPeriod_eq: "getLongestPolicyPeriod (Some rules) = Done (longest_period rules)"
  by (simp add: getLongestPolicyPeriod_def longest_period_def)

text \<open>The event of a change, and what becomes of the events of its direction.\<close>

definition event_of :: "i32 \<Rightarrow> i32 \<Rightarrow> time \<Rightarrow> timestamped_scale_event" where
  "event_of pre new t = \<lparr>tse_replicaChange = (if sint pre < sint new then new - pre else pre - new),
     tse_timeStamp = t, tse_outDated = False\<rparr>"

definition outdated_at :: "time \<Rightarrow> timestamped_scale_event \<Rightarrow> bool" where
  "outdated_at cutoff e \<longleftrightarrow> tse_outDated e \<or> tse_timeStamp e < cutoff"

lemma mark_outdated_set:
  "e \<in> set (mark_outdated c es) \<Longrightarrow>
     e \<in> set es \<or> (\<exists>d\<in>set es. tse_timeStamp d < c \<and> e = d\<lparr>tse_outDated := True\<rparr>)"
  "\<not> outdated_at c e \<Longrightarrow> e \<in> set es \<Longrightarrow> e \<in> set (mark_outdated c es) \<and> \<not> tse_outDated e"
  "(\<exists>e\<in>set (mark_outdated c es). tse_outDated e) \<longleftrightarrow> (\<exists>e\<in>set es. outdated_at c e)"
  "length (mark_outdated c es) = length es"
proof -
  let ?m = "\<lambda>e. if tse_timeStamp e < c then e\<lparr>tse_outDated := True\<rparr> else e"
  have "tse_outDated (?m e) \<longleftrightarrow> outdated_at c e" for e by (simp add: outdated_at_def)
  then show "(\<exists>e\<in>set (mark_outdated c es). tse_outDated e) \<longleftrightarrow> (\<exists>e\<in>set es. outdated_at c e)"
    by (simp only: mark_outdated_def set_map bex_simps)
qed (auto simp: mark_outdated_def outdated_at_def)

lemma storage_eq:
  assumes "rules_of (sint pre < sint new) b = Some rules"
  shows "storageScaleEvent E (Some b) pre new s =
    (let w = zs_world s; up = sint pre < sint new;
         es = store_last tse_outDated (event_of pre new (reading E 1 w))
           (mark_outdated (seconds_before (longest_period rules) (reading E 0 w)) (events_of up s)) in
     (Done (), if up then s\<lparr>zs_world := after_readings E 2 w, zs_scaleUpEvents := es\<rparr>
       else s\<lparr>zs_world := after_readings E 2 w, zs_scaleDownEvents := es\<rparr>))"
  using assms
  by (cases "sint pre < sint new")
    (simp_all add: storageScaleEvent_def rules_of_def getLongestPolicyPeriod_eq go_simps
      markScaleUpEventsOutdated_def markScaleDownEventsOutdated_def Let_def events_of_def event_of_def
      store_last_def reading_def numeral_2_eq_2)

text \<open>
  C12: when the rules of the direction are there, storing a change adds its event, dated and not
  outdated, to the events of its direction; an event that is neither marked nor older than the
  longest period of the policies is kept, every other event of the direction is at most marked,
  the store grows exactly when no event is outdated, and nothing else in the state changes but the
  world that answers the clock.
\<close>

theorem storage_keeps_recent:
  assumes "rules_of (sint pre < sint new) b = Some rules"
  shows "\<exists>s'. storageScaleEvent E (Some b) pre new s = (Done (), s') \<and>
    (let up = sint pre < sint new; es = events_of up s; es' = events_of up s';
         cutoff = reading E 0 (zs_world s) - 1000000000 *
           Max (insert 0 ((\<lambda>p. sint (sp_periodSeconds p)) ` set (sr_policies rules)));
         event = event_of pre new (reading E 1 (zs_world s)) in
     event \<in> set es' \<and>
     (\<forall>e\<in>set es. outdated_at cutoff e \<or> e \<in> set es') \<and>
     (\<forall>e\<in>set es'. e = event \<or> e \<in> set es \<or> (\<exists>d\<in>set es. outdated_at cutoff d \<and> e = d\<lparr>tse_outDated := True\<rparr>)) \<and>
     length es' = length es + (if \<exists>e\<in>set es. outdated_at cutoff e then 0 else 1) \<and>
     events_of (\<not> up) s' = events_of (\<not> up) s \<and>
     zs_recommendationRecords s' = zs_recommendationRecords s \<and> zs_object s' = zs_object s)"
proof -
  let ?up = "sint pre < sint new"
  let ?c = "seconds_before (longest_period rules) (reading E 0 (zs_world s))"
  let ?event = "event_of pre new (reading E 1 (zs_world s))"
  let ?marked = "mark_outdated ?c (events_of ?up s)"
  let ?es = "store_last tse_outDated ?event ?marked"
  have c: "reading E 0 (zs_world s) - 1000000000 *
      Max (insert 0 ((\<lambda>p. sint (sp_periodSeconds p)) ` set (sr_policies rules))) = ?c"
    by (simp add: word_reads longest_period_Max)
  have new: "?event \<in> set ?es" by (rule events.store_stored)
  have kept: "\<forall>e\<in>set (events_of ?up s). outdated_at ?c e \<or> e \<in> set ?es"
    using mark_outdated_set(2) events.store_kept by blast
  have orig: "\<forall>e\<in>set ?es. e = ?event \<or> e \<in> set (events_of ?up s) \<or>
      (\<exists>d\<in>set (events_of ?up s). outdated_at ?c d \<and> e = d\<lparr>tse_outDated := True\<rparr>)"
    using mark_outdated_set(1) events.store_origin unfolding outdated_at_def by blast
  have len: "length ?es = length (events_of ?up s) + (if \<exists>e\<in>set (events_of ?up s). outdated_at ?c e then 0 else 1)"
    unfolding events.store_length mark_outdated_set(3,4) ..
  show ?thesis
    unfolding c storage_eq [OF assms] Let_def
    using new kept orig len by (cases ?up) (simp_all add: events_of_def)
qed

theorem storage_keeps_recent_witness:
  "\<exists>s'. storageScaleEvent (quiet_env 100000000000) (Some \<lparr>hb_scaleUp = Some \<lparr>
        sr_stabilizationWindowSeconds = None, sr_selectPolicy = None,
        sr_policies = [\<lparr>sp_type = PodsScalingPolicy, sp_value = 4, sp_periodSeconds = 60\<rparr>]\<rparr>, hb_scaleDown = None\<rparr>) 2 5
      \<lparr>zs_world = (), zs_originReplicas = 0, zs_houmaoObject = zero_houmao, zs_recommendationRecords = [],
       zs_scaleUpEvents = [\<lparr>tse_replicaChange = 1, tse_timeStamp = 10000000000, tse_outDated = False\<rparr>],
       zs_scaleDownEvents = [], zs_object = zero_houmao\<rparr> = (Done (), s') \<and>
    \<lparr>tse_replicaChange = 3, tse_timeStamp = 100000000000, tse_outDated = False\<rparr> \<in> set (zs_scaleUpEvents s') \<and>
    length (zs_scaleUpEvents s') = 1"
  using storage_keeps_recent [of 2 5 "\<lparr>hb_scaleUp = Some \<lparr>
        sr_stabilizationWindowSeconds = None, sr_selectPolicy = None,
        sr_policies = [\<lparr>sp_type = PodsScalingPolicy, sp_value = 4, sp_periodSeconds = 60\<rparr>]\<rparr>, hb_scaleDown = None\<rparr>"
      _ "quiet_env 100000000000"
      "\<lparr>zs_world = (), zs_originReplicas = 0, zs_houmaoObject = zero_houmao, zs_recommendationRecords = [],
       zs_scaleUpEvents = [\<lparr>tse_replicaChange = 1, tse_timeStamp = 10000000000, tse_outDated = False\<rparr>],
       zs_scaleDownEvents = [], zs_object = zero_houmao\<rparr>"]
  by (auto simp: rules_of_def events_of_def outdated_at_def event_of_def reading_def quiet_env_def Let_def)

section \<open>The execution\<close>

lemma storage_outcome:
  "fst (storageScaleEvent E (Some b) pre new s) =
     (if rules_of (sint pre < sint new) b = None then Panic NilDereference else Done ())"
proof (cases "rules_of (sint pre < sint new) b")
  case None
  then show ?thesis
    by (simp add: storageScaleEvent_def rules_of_def getLongestPolicyPeriod_def go_simps split: if_splits)
next
  case (Some rules)
  then show ?thesis by (simp add: storage_eq Let_def)
qed

definition both_directions :: "hpa_behavior \<Rightarrow> bool" where
  "both_directions b \<longleftrightarrow> hb_scaleUp b \<noteq> None \<and> hb_scaleDown b \<noteq> None"

text \<open>The revision of an execution does not panic.\<close>

definition revision_ready :: "'w env \<Rightarrow> i32 \<Rightarrow> i32 \<Rightarrow> hpa_behavior \<Rightarrow> 'w zstate \<Rightarrow> bool" where
  "revision_ready E n spec b s \<longleftrightarrow> windows_set b \<and>
     (sint spec \<le> stabilized E b n spec (zs_recommendationRecords s) (zs_world s) \<or> selection_ready (hb_scaleUp b))"

lemma revise_step_outcome:
  "if revision_ready E n k b s
   then \<exists>r rs w. revise_step E n k b s = (Done r, s\<lparr>zs_world := w, zs_recommendationRecords := rs\<rparr>)
   else panics (fst (revise_step E n k b s))"
proof -
  let ?es = "if sint n > sint k then zs_scaleUpEvents s else zs_scaleDownEvents s"
  let ?r = "ReviseWithBehavor E n k (Some b) (zs_recommendationRecords s) ?es (zs_world s)"
  have "fst ?r \<noteq> Fail e" for e by (rule revise_cases [THEN conjunct1])
  moreover have "\<not> panics (fst ?r) \<longleftrightarrow> revision_ready E n k b s"
    unfolding revision_ready_def by (rule revise_cases [THEN conjunct2])
  ultimately show ?thesis
    by (cases ?r; cases "fst ?r") (auto simp: revise_step_def go_simps, (intro exI, rule refl)?)
qed

text \<open>The part after the revision.\<close>

definition send_scale :: "'w env \<Rightarrow> scale \<Rightarrow> hpa_behavior \<Rightarrow> i32 \<Rightarrow> i32 \<Rightarrow> ('w zstate, i32) io" where
  "send_scale E sc b pre n =
     bnd (on_world (call (e_updateScale E (sc\<lparr>sc_specReplicas := n\<rparr>)))) (\<lambda>sc3.
     bnd (storageScaleEvent E (Some b) pre n) (\<lambda>_. ret (sc_specReplicas sc3)))"

lemma execScale_send:
  "execScale E n sc b s =
     (if both_directions b
      then bnd (revise_step E n (sc_specReplicas sc) b) (\<lambda>_. send_scale E sc b (sc_specReplicas sc) n) s
      else send_scale E sc b (sc_specReplicas sc) n s)"
  unfolding execScale_def send_scale_def both_directions_def Let_def
  by (simp add: bnd_assoc)

lemma send_scale_panics:
  "panics (fst (send_scale E sc b pre n s)) \<longleftrightarrow>
     rules_of (sint pre < sint n) b = None \<and>
     \<not> isl (fst (e_updateScale E (sc\<lparr>sc_specReplicas := n\<rparr>) (zs_world s)))"
proof -
  obtain r w where r: "e_updateScale E (sc\<lparr>sc_specReplicas := n\<rparr>) (zs_world s) = (r, w)"
    by (cases "e_updateScale E (sc\<lparr>sc_specReplicas := n\<rparr>) (zs_world s)")
  obtain o1 s1 where o1: "storageScaleEvent E (Some b) pre n (s\<lparr>zs_world := w\<rparr>) = (o1, s1)"
    by (cases "storageScaleEvent E (Some b) pre n (s\<lparr>zs_world := w\<rparr>)")
  then have "o1 = (if rules_of (sint pre < sint n) b = None then Panic NilDereference else Done ())"
    using storage_outcome [of E b pre n "s\<lparr>zs_world := w\<rparr>"] by simp
  then show ?thesis using r o1 by (cases r) (simp_all add: send_scale_def go_simps)
qed

lemma exec_panics:
  "panics (fst (execScale E n sc b s)) \<longleftrightarrow>
     (if both_directions b then \<not> revision_ready E n (sc_specReplicas sc) b s
      else rules_of (sint (sc_specReplicas sc) < sint n) b = None \<and>
        \<not> isl (fst (e_updateScale E (sc\<lparr>sc_specReplicas := n\<rparr>) (zs_world s))))"
proof (cases "both_directions b")
  case True
  then have rules: "rules_of up b \<noteq> None" for up by (auto simp: both_directions_def rules_of_def)
  obtain o1 s1 where o1: "revise_step E n (sc_specReplicas sc) b s = (o1, s1)"
    by (cases "revise_step E n (sc_specReplicas sc) b s")
  show ?thesis
    using revise_step_outcome [of E n "sc_specReplicas sc" b s] o1 True rules
    by (cases o1) (auto simp: execScale_send go_simps send_scale_panics split: if_splits)
qed (simp add: execScale_send send_scale_panics)

text \<open>
  C9: an execution panics exactly when, with rules for both directions, the revision does, or
  when rules are missing for the direction of the change and the API server accepts the update:
  in that case the scale has been changed before the process ends.
\<close>

theorem exec_panics_iff:
  "panics (fst (execScale E n sc b s)) \<longleftrightarrow>
     (if both_directions b then \<not> revision_ready E n (sc_specReplicas sc) b s
      else rules_of (sint (sc_specReplicas sc) < sint n) b = None \<and>
        \<not> isl (fst (e_updateScale E (sc\<lparr>sc_specReplicas := n\<rparr>) (zs_world s))))"
  by (rule exec_panics)

section \<open>The results of the rounds\<close>

lemma shift_loop_eq:
  "n = length xs \<Longrightarrow> i < n \<Longrightarrow> shift_loop n i xs = Done (take i xs @ drop (Suc i) xs @ [last xs])"
proof (induction n i xs rule: shift_loop.induct)
  case (1 len i xs)
  show ?case
  proof (cases "i < len - 1")
    case True
    let ?ys = "xs[i := xs ! Suc i]"
    have range: "at_index xs (i + 1) = Done (xs ! Suc i)" "set_index xs i (xs ! Suc i) = Done ?ys"
      using True 1(2) by (simp_all add: at_index_def set_index_def)
    then have "shift_loop len i xs = shift_loop len (i + 1) ?ys"
      using True by (subst shift_loop.simps) simp
    also have "\<dots> = Done (take (Suc i) ?ys @ drop (Suc (Suc i)) ?ys @ [last ?ys])"
      using 1(1) [OF True, of ?ys] True 1(2) by simp
    also have "take (Suc i) ?ys = take i xs @ [xs ! Suc i]"
      using True 1(2) by (simp add: take_Suc_conv_app_nth)
    also have "last ?ys = last xs"
      using True 1(2) by (subst last_list_update) auto
    finally show ?thesis
      using True 1(2) Cons_nth_drop_Suc [of "Suc i" xs] by simp
  next
    case False
    then have i: "i = length xs - 1" "xs \<noteq> []" using 1(2,3) by auto
    then have "shift_loop len i xs = Done (butlast xs @ [last xs])"
      using False by (subst shift_loop.simps) simp
    then show ?thesis using i by (simp add: butlast_conv_take)
  qed
qed

lemma shift_results_eq:
  "shift_results r xs = (if length xs < 5 then Panic IndexOutOfRange else Done (tl xs @ [r]))"
proof (cases "length xs < 5")
  case False
  then have "0 < length xs" by linarith
  then have "shift_loop (length xs) 0 xs = Done (tl xs @ [last xs])"
    using shift_loop_eq [of "length xs" xs 0] by (simp add: drop_Suc)
  then show ?thesis
    using False \<open>0 < length xs\<close> by (cases xs) (simp_all add: shift_results_def Let_def set_index_def list_update_append)
qed (simp add: shift_results_def set_index_def Let_def)

end
