(* ===== verification/Zaohua_Loop.thy ===== *)
theory Zaohua_Loop
  imports Zaohua
begin

text \<open>
  The loop \<open>StartZaohua\<close> and the controller of \<open>pkg/zaohua/controllers/zaohua_controller.go\<close>, two
  goroutines that meet at the unbuffered channel \<open>RestartZaohuaCh\<close> and share the package variable
  \<open>HoumaoObject\<close> without a lock. A round of the loop is one step. Every access to the shared object
  is a step of its own: the controller writes the specification and then the status, and the loop
  copies them one after the other, so the two may interleave. The controller has one worker, which
  is blocked while its send is pending. The world may change between the steps.
\<close>

section \<open>The functions\<close>

definition scale_round :: "'w env \<Rightarrow> calculate_handle \<Rightarrow> string \<Rightarrow> ('w zstate, round_end) io" where
  "scale_round E c mode =
     (if mode = ZaohuaModeZhudong then detectAndScale E c
      else if mode = ZaohuaModeBeidong then bnd scaleForEvent (\<lambda>_. ret Finished)
      else detectAndScale E c)"

text \<open>The two assignments of the reload.\<close>

definition reload_spec :: "houmao \<Rightarrow> 'w zstate \<Rightarrow> 'w zstate" where
  "reload_spec h s = s\<lparr>zs_houmaoObject := (zs_houmaoObject s)\<lparr>hm_spec := hm_spec h\<rparr>\<rparr>"

definition reload_status :: "houmao \<Rightarrow> 'w zstate \<Rightarrow> 'w zstate" where
  "reload_status h s = s\<lparr>zs_houmaoObject := (zs_houmaoObject s)\<lparr>hm_status := hm_status h\<rparr>\<rparr>"

definition reloadZaohuaHandle :: "houmao \<Rightarrow> 'w zstate \<Rightarrow> 'w zstate" where
  "reloadZaohuaHandle h s = reload_status h (reload_spec h s)"

section \<open>The system\<close>

text \<open>
  Where the loop is: about to run a round, waiting for the channel inside a round on an empty
  object, at the \<open>select\<close>, about to copy the shared object after a receive, with all but the status
  copied, returned, or ended by a panic.
\<close>

datatype loop_pc = L_Round | L_Waiting | L_Select | L_Reload | L_CopyStatus houmao | L_Stopped | L_Crashed

text \<open>
  Where the controller is: between two calls of the reconciler, about to write the specification or
  the status of an object in a restart, or blocked in the send of the deferred function.
\<close>

datatype controller_pc = C_Idle | C_WriteSpec houmao | C_WriteStatus houmao | C_Sending

record 'w system =
  sy_state :: "'w zstate"
  sy_pc :: loop_pc
  sy_controller :: controller_pc
  sy_objectSpec :: houmao_spec
  sy_done :: bool

abbreviation sy_sending :: "'w system \<Rightarrow> bool" where
  "sy_sending s \<equiv> sy_controller s = C_Sending"

text \<open>
  The restart enters the reload; its statements are the steps \<open>write_spec\<close> and \<open>write_status\<close>
  below, and then the send of the deferred function blocks. The reconciler ignores an error of the
  API server.
\<close>

definition RestartZaohua :: "houmao \<Rightarrow> 'w system \<Rightarrow> 'w system" where
  "RestartZaohua h s = s\<lparr>sy_controller := C_WriteSpec h\<rparr>"

definition Zaohua_Reconcile :: "'w env \<Rightarrow> namespaced_name \<Rightarrow> 'w system \<Rightarrow> 'w system" where
  "Zaohua_Reconcile E key s =
     (case e_getHoumao E key (zs_world (sy_state s)) of
        (Inl err, w) \<Rightarrow> s\<lparr>sy_state := (sy_state s)\<lparr>zs_world := w\<rparr>\<rparr>
      | (Inr object, w) \<Rightarrow>
          let s1 = s\<lparr>sy_state := (sy_state s)\<lparr>zs_world := w\<rparr>\<rparr> in
          if \<not> DeepEqual (V_Spec (hm_spec object)) (V_Spec (sy_objectSpec s))
          then RestartZaohua object (s1\<lparr>sy_objectSpec := hm_spec object\<rparr>)
          else s1)"

definition initial_system :: "'w \<Rightarrow> houmao \<Rightarrow> 'w system" where
  "initial_system w object = \<lparr>
     sy_state = \<lparr>zs_world = w, zs_originReplicas = 0, zs_houmaoObject = zero_houmao,
       zs_recommendationRecords = [], zs_scaleUpEvents = [], zs_scaleDownEvents = [], zs_object = object\<rparr>,
     sy_pc = L_Round, sy_controller = C_Idle, sy_objectSpec = zero_spec, sy_done = False\<rparr>"

section \<open>The steps\<close>

text \<open>
  The steps of the loop. An error of a round is only logged. At the \<open>select\<close> the loop takes one
  of the cases that are ready and starts the next round when there is none.
\<close>

inductive loop_step :: "'w env \<Rightarrow> calculate_handle \<Rightarrow> string \<Rightarrow> 'w system \<Rightarrow> 'w system \<Rightarrow> bool"
  for E c mode where
  round_done: "sy_pc s = L_Round \<Longrightarrow> scale_round E c mode (sy_state s) = (Done Finished, st) \<Longrightarrow>
    loop_step E c mode s (s\<lparr>sy_state := st, sy_pc := L_Select\<rparr>)"
| round_failed: "sy_pc s = L_Round \<Longrightarrow> scale_round E c mode (sy_state s) = (Fail e, st) \<Longrightarrow>
    loop_step E c mode s (s\<lparr>sy_state := st, sy_pc := L_Select\<rparr>)"
| round_waits: "sy_pc s = L_Round \<Longrightarrow> scale_round E c mode (sy_state s) = (Done Waiting, st) \<Longrightarrow>
    loop_step E c mode s (s\<lparr>sy_state := st, sy_pc := L_Waiting\<rparr>)"
| round_panics: "sy_pc s = L_Round \<Longrightarrow> scale_round E c mode (sy_state s) = (Panic p, st) \<Longrightarrow>
    loop_step E c mode s (s\<lparr>sy_state := st, sy_pc := L_Crashed\<rparr>)"
| wait_receives: "sy_pc s = L_Waiting \<Longrightarrow> sy_sending s \<Longrightarrow>
    loop_step E c mode s (s\<lparr>sy_controller := C_Idle, sy_pc := L_Select\<rparr>)"
| select_stops: "sy_pc s = L_Select \<Longrightarrow> sy_done s \<Longrightarrow> loop_step E c mode s (s\<lparr>sy_pc := L_Stopped\<rparr>)"
| select_receives: "sy_pc s = L_Select \<Longrightarrow> sy_sending s \<Longrightarrow>
    loop_step E c mode s (s\<lparr>sy_controller := C_Idle, sy_pc := L_Reload\<rparr>)"
| select_default: "sy_pc s = L_Select \<Longrightarrow> \<not> sy_done s \<Longrightarrow> \<not> sy_sending s \<Longrightarrow>
    loop_step E c mode s (s\<lparr>sy_pc := L_Round\<rparr>)"
| copy_spec: "sy_pc s = L_Reload \<Longrightarrow>
    loop_step E c mode s (s\<lparr>sy_pc := L_CopyStatus (copy_spec (zs_houmaoObject (sy_state s)) zero_houmao)\<rparr>)"
| copy_status: "sy_pc s = L_CopyStatus out \<Longrightarrow>
    loop_step E c mode s
      (s\<lparr>sy_state := (sy_state s)\<lparr>zs_object := copy_status (zs_houmaoObject (sy_state s)) out\<rparr>, sy_pc := L_Round\<rparr>)"

text \<open>The steps beside the loop, until a panic ends the process.\<close>

inductive other_step :: "'w env \<Rightarrow> 'w system \<Rightarrow> 'w system \<Rightarrow> bool" for E where
  reconcile: "sy_pc s \<noteq> L_Crashed \<Longrightarrow> sy_controller s = C_Idle \<Longrightarrow> other_step E s (Zaohua_Reconcile E key s)"
| write_spec: "sy_pc s \<noteq> L_Crashed \<Longrightarrow> sy_controller s = C_WriteSpec h \<Longrightarrow>
    other_step E s (s\<lparr>sy_state := reload_spec h (sy_state s), sy_controller := C_WriteStatus h\<rparr>)"
| write_status: "sy_pc s \<noteq> L_Crashed \<Longrightarrow> sy_controller s = C_WriteStatus h \<Longrightarrow>
    other_step E s (s\<lparr>sy_state := reload_status h (sy_state s), sy_controller := C_Sending\<rparr>)"
| cancel: "sy_pc s \<noteq> L_Crashed \<Longrightarrow> other_step E s (s\<lparr>sy_done := True\<rparr>)"
| outside: "sy_pc s \<noteq> L_Crashed \<Longrightarrow> other_step E s (s\<lparr>sy_state := (sy_state s)\<lparr>zs_world := w\<rparr>\<rparr>)"

inductive system_step :: "'w env \<Rightarrow> calculate_handle \<Rightarrow> string \<Rightarrow> 'w system \<Rightarrow> 'w system \<Rightarrow> bool" for E c mode where
  loop: "loop_step E c mode s t \<Longrightarrow> system_step E c mode s t"
| other: "other_step E s t \<Longrightarrow> system_step E c mode s t"

inductive runs :: "'w env \<Rightarrow> calculate_handle \<Rightarrow> string \<Rightarrow> 'w system \<Rightarrow> 'w system \<Rightarrow> bool" for E c mode s where
  start: "runs E c mode s s"
| then_step: "runs E c mode s t \<Longrightarrow> system_step E c mode t u \<Longrightarrow> runs E c mode s u"

inductive_cases loop_stepE: "loop_step E c mode s t"
inductive_cases other_stepE: "other_step E s t"
inductive_cases system_stepE: "system_step E c mode s t"
inductive_simps runs_simps: "runs E c mode s t"

lemma runs_trans: "runs E c mode s t \<Longrightarrow> runs E c mode t u \<Longrightarrow> runs E c mode s u"
  by (rotate_tac, induction rule: runs.induct) (auto intro: runs.then_step)

lemma runs_loop: "loop_step E c mode s t \<Longrightarrow> runs E c mode t u \<Longrightarrow> runs E c mode s u"
  by (blast intro: runs_trans runs.intros system_step.loop)

lemma runs_other: "other_step E s t \<Longrightarrow> runs E c mode t u \<Longrightarrow> runs E c mode s u"
  by (blast intro: runs_trans runs.intros system_step.other)

text \<open>
  Without an interleaving the split accesses are the functions: the two writes of a restart are the
  reload of the handle, and the two parts of a copy are the copy.
\<close>

lemma restart_runs:
  assumes "sy_pc s \<noteq> L_Crashed" "sy_controller s = C_WriteSpec h"
  shows "runs E c mode s (s\<lparr>sy_state := reloadZaohuaHandle h (sy_state s), sy_controller := C_Sending\<rparr>)"
proof -
  let ?t = "s\<lparr>sy_state := reload_spec h (sy_state s), sy_controller := C_WriteStatus h\<rparr>"
  have "other_step E s ?t" using assms by (rule other_step.write_spec)
  moreover have "other_step E ?t (s\<lparr>sy_state := reloadZaohuaHandle h (sy_state s), sy_controller := C_Sending\<rparr>)"
    using other_step.write_status [of ?t h E] assms(1) by (simp add: reloadZaohuaHandle_def)
  ultimately show ?thesis by (blast intro: runs_other runs.start)
qed

lemma copy_runs:
  assumes "sy_pc s = L_Reload"
  shows "runs E c mode s
    (s\<lparr>sy_state := (sy_state s)\<lparr>zs_object := DeepCopy (zs_houmaoObject (sy_state s))\<rparr>, sy_pc := L_Round\<rparr>)"
proof -
  let ?t = "s\<lparr>sy_pc := L_CopyStatus (copy_spec (zs_houmaoObject (sy_state s)) zero_houmao)\<rparr>"
  have "loop_step E c mode s ?t" using assms by (rule loop_step.copy_spec)
  moreover have "loop_step E c mode ?t
      (s\<lparr>sy_state := (sy_state s)\<lparr>zs_object := DeepCopy (zs_houmaoObject (sy_state s))\<rparr>, sy_pc := L_Round\<rparr>)"
    using loop_step.copy_status [of ?t _ E c mode] by (simp add: DeepCopy_def DeepCopyInto_def)
  ultimately show ?thesis by (blast intro: runs_loop runs.start)
qed

text \<open>The states that the program can be in when it is started on an object.\<close>

definition reachable :: "'w env \<Rightarrow> calculate_handle \<Rightarrow> string \<Rightarrow> 'w system \<Rightarrow> bool" where
  "reachable E c mode s \<longleftrightarrow> (\<exists>w object. runs E c mode (initial_system w object) s)"

lemma reachable_induct [consumes 1, case_names start then_step]:
  assumes "reachable E c mode s"
    and "\<And>w object. P (initial_system w object)"
    and "\<And>s t. reachable E c mode s \<Longrightarrow> P s \<Longrightarrow> system_step E c mode s t \<Longrightarrow> P t"
  shows "P s"
proof -
  obtain w object where r: "runs E c mode (initial_system w object) s"
    using assms(1) by (auto simp: reachable_def)
  then have "reachable E c mode s \<and> P s"
  proof (induction rule: runs.induct)
    case start
    show ?case using assms(2) by (auto simp: reachable_def intro: runs.start)
  next
    case (then_step t u)
    have "reachable E c mode u"
      using then_step(1,2) unfolding reachable_def by (blast intro: runs.then_step)
    then show ?case using then_step assms(3) by blast
  qed
  then show ?thesis ..
qed

lemma reachable_step: "reachable E c mode s \<Longrightarrow> system_step E c mode s t \<Longrightarrow> reachable E c mode t"
  unfolding reachable_def by (blast intro: runs.then_step)

lemma reachable_start: "reachable E c mode (initial_system w object)"
  by (auto simp: reachable_def intro: runs.start)

end
