(* ===== verification/Loop_Facts.thy ===== *)
theory Loop_Facts
  imports Zaohua_Loop Zaohua_Facts
begin

text \<open>
  The loop and the controller together: what every reachable state satisfies, what a restart
  brings to the loop, and the restarts that are lost.
\<close>

section \<open>What a round keeps\<close>

definition keeps :: "('s \<Rightarrow> bool) \<Rightarrow> ('s, 'a) io \<Rightarrow> bool" where
  "keeps P m \<longleftrightarrow> (\<forall>s. P s \<longrightarrow> P (snd (m s)))"

lemma keeps_ret: "keeps P (ret a)" "keeps P (lift_outcome r)"
  by (simp_all add: keeps_def go_simps)

lemma keeps_reads: "keeps P (reads g)"
  by (simp add: keeps_def go_simps)

lemma keeps_writes: "(\<And>s. P s \<Longrightarrow> P (g s)) \<Longrightarrow> keeps P (writes g)"
  by (simp add: keeps_def go_simps)

lemma keeps_bnd: "keeps P m \<Longrightarrow> (\<And>a. keeps P (k a)) \<Longrightarrow> keeps P (bnd m k)"
proof -
  assume m: "keeps P m" and k: "\<And>a. keeps P (k a)"
  have "P (snd (bnd m k s))" if "P s" for s
    using m k that unfolding keeps_def
    by (cases "m s"; cases "fst (m s)") (auto simp: go_simps dest: spec [of _ s])
  then show ?thesis by (simp add: keeps_def)
qed

lemma keeps_handle:
  "keeps P m \<Longrightarrow> (\<And>e. keeps P (h e)) \<Longrightarrow> (\<And>a. keeps P (k a)) \<Longrightarrow> keeps P (handle m h k)"
proof -
  assume m: "keeps P m" and h: "\<And>e. keeps P (h e)" and k: "\<And>a. keeps P (k a)"
  have "P (snd (handle m h k s))" if "P s" for s
    using m h k that unfolding keeps_def
    by (cases "m s"; cases "fst (m s)") (auto simp: go_simps dest: spec [of _ s])
  then show ?thesis by (simp add: keeps_def)
qed

lemma keeps_if: "(b \<Longrightarrow> keeps P m) \<Longrightarrow> (\<not> b \<Longrightarrow> keeps P k) \<Longrightarrow> keeps P (if b then m else k)"
  by simp

lemma keeps_option:
  "keeps P n \<Longrightarrow> (\<And>a. keeps P (g a)) \<Longrightarrow> keeps P (case p of None \<Rightarrow> n | Some a \<Rightarrow> g a)"
  by (auto split: option.splits)

lemma keeps_prod: "(\<And>a b. keeps P (q a b)) \<Longrightarrow> keeps P (case x of (a, b) \<Rightarrow> q a b)"
  by (auto split: prod.splits)

lemmas keeps_intros = keeps_ret keeps_reads keeps_writes keeps_bnd keeps_handle
  keeps_if keeps_option keeps_prod

text \<open>
  A predicate of the state that a round keeps: it does not depend on the world, on the recorded
  original count, on the records and on the events, and holds of the object as the server answers
  the patch of the status.
\<close>

locale kept =
  fixes P :: "'w zstate \<Rightarrow> bool" and E :: "'w env"
  assumes world: "P s \<Longrightarrow> P (s\<lparr>zs_world := w\<rparr>)"
    and origin: "P s \<Longrightarrow> P (s\<lparr>zs_originReplicas := n\<rparr>)"
    and records: "P s \<Longrightarrow> P (s\<lparr>zs_recommendationRecords := rs\<rparr>)"
    and ups: "P s \<Longrightarrow> P (s\<lparr>zs_scaleUpEvents := es\<rparr>)"
    and downs: "P s \<Longrightarrow> P (s\<lparr>zs_scaleDownEvents := es\<rparr>)"
    and patched: "P s \<Longrightarrow> e_patchHoumao E (zs_object s) j w = (Inr h, w') \<Longrightarrow> P (s\<lparr>zs_object := h\<rparr>)"
begin

lemma keeps_world: "keeps P (on_world m)"
  by (auto simp: keeps_def go_simps world split: prod.splits)

lemma keeps_storage: "keeps P (storageScaleEvent E b pre new)"
  unfolding storageScaleEvent_def markScaleUpEventsOutdated_def markScaleDownEventsOutdated_def Let_def
  by (intro keeps_intros keeps_world ups downs)

lemma keeps_exec: "keeps P (execScale E n sc b)"
  unfolding execScale_def revise_step_def Let_def
  by (intro keeps_intros keeps_world keeps_storage records)

lemma keeps_update: "keeps P (updateStatus E r)"
proof -
  have "P (snd (updateStatus E r s))" if P: "P s" for s
  proof -
    have "P (s\<lparr>zs_world := w, zs_object := su_object h\<rparr>)"
      if "UpdateZaohuaRecord E (fst (NewStatusUpdateHandle (zs_object s) None)) rec (zs_world s) = (Done h, w)" for h w rec
    proof -
      have "\<exists>j. e_patchHoumao E (zs_object s) j (zs_world s) = (Inr (su_object h), w)"
        using that by (auto simp: UpdateZaohuaRecord_def NewStatusUpdateHandle_def DeepEqual_def go_simps
            split: prod.splits sum.splits outcome.splits)
      then show ?thesis using patched [OF world [OF P]] by auto
    qed
    then show ?thesis
      by (auto simp: updateStatus_def go_simps Let_def world P split: prod.splits outcome.splits)
  qed
  then show ?thesis by (simp add: keeps_def)
qed

lemma keeps_detect: "keeps P (detectAndScale E c)"
  unfolding detectAndScale_def syncService_def Let_def
  by (intro keeps_intros keeps_world keeps_exec keeps_update origin)

lemma keeps_round: "keeps P (scale_round E c mode)"
  unfolding scale_round_def scaleForEvent_def
  by (intro keeps_intros keeps_detect)

lemma round_keeps: "scale_round E c mode s = (r, s') \<Longrightarrow> P s \<Longrightarrow> P s'"
  using keeps_round [of c mode] unfolding keeps_def by (metis snd_conv)

end

text \<open>A round never writes the shared object.\<close>

interpretation houmao_object: kept "\<lambda>s. zs_houmaoObject s = h" E for h and E :: "'w env"
  by unfold_locales simp_all

lemma round_houmaoObject: "scale_round E c mode s = (r, s') \<Longrightarrow> zs_houmaoObject s' = zs_houmaoObject s"
  by (erule houmao_object.round_keeps) simp

section \<open>The end of a round\<close>

definition never_waits :: "('s, round_end) io \<Rightarrow> bool" where
  "never_waits m \<longleftrightarrow> (\<forall>s. fst (m s) \<noteq> Done Waiting)"

lemma never_waits_intros:
  "never_waits (ret Finished)"
  "(\<And>a. never_waits (k a)) \<Longrightarrow> never_waits (bnd m k)"
  by (auto simp: never_waits_def go_simps split: prod.splits outcome.splits)

lemma never_waits_lift: "(\<And>a. r \<noteq> Done a) \<Longrightarrow> never_waits (lift_outcome r)"
  by (simp add: never_waits_def go_simps)

lemma never_waits_handle:
  "(\<And>e. never_waits (h e)) \<Longrightarrow> (\<And>a. never_waits (k a)) \<Longrightarrow> never_waits (handle m h k)"
  by (auto simp: never_waits_def go_simps split: prod.splits outcome.splits)

lemma never_waits_if: "never_waits m \<Longrightarrow> never_waits k \<Longrightarrow> never_waits (if b then m else k)"
  by simp

lemma detect_waits:
  assumes "detectAndScale E c s = (Done Waiting, s')"
  shows "zs_object s = zero_houmao \<and> s' = s"
proof (cases "zs_object s = zero_houmao")
  case False
  have "\<exists>rest. detectAndScale E c = bnd (reads zs_object) (\<lambda>h. if h = zero_houmao then ret Waiting else rest h) \<and>
      (\<forall>h. never_waits (rest h))"
    unfolding detectAndScale_def Let_def DeepEqual_def go_value.inject
    by (rule exI, rule conjI, rule refl)
      (intro allI never_waits_intros never_waits_handle never_waits_if)
  then obtain rest where rest: "detectAndScale E c s = rest (zs_object s) s" "never_waits (rest (zs_object s))"
    using False by (auto simp: go_simps)
  show ?thesis using assms rest unfolding never_waits_def by (metis fst_conv)
qed (use assms in \<open>simp add: detectAndScale_def DeepEqual_def go_simps\<close>)

lemma round_waits_empty:
  "scale_round E c mode s = (Done Waiting, s') \<Longrightarrow> zs_object s' = zero_houmao \<and> s' = s"
  using detect_waits [of E c s s'] by (auto simp: scale_round_def scaleForEvent_def go_simps split: if_splits)

section \<open>The invariant\<close>

text \<open>
  The objects that the controller can have seen: those the server answers with, and before the
  first of them the empty object. An object is whole when its specification and its status are of
  the same such object.
\<close>

definition seen :: "'w env \<Rightarrow> houmao \<Rightarrow> bool" where
  "seen E h \<longleftrightarrow> h = zero_houmao \<or> (\<exists>key w w'. e_getHoumao E key w = (Inr h, w'))"

definition whole :: "'w env \<Rightarrow> houmao \<Rightarrow> bool" where
  "whole E x \<longleftrightarrow> (\<exists>h. seen E h \<and> hm_spec x = hm_spec h \<and> hm_status x = hm_status h)"

lemma wholeI: "seen E h \<Longrightarrow> hm_spec x = hm_spec h \<Longrightarrow> hm_status x = hm_status h \<Longrightarrow> whole E x"
  by (auto simp: whole_def)

lemma whole_zero: "whole E zero_houmao"
  by (rule wholeI [of E zero_houmao]) (simp_all add: seen_def)

lemma whole_cong: "whole E y \<Longrightarrow> hm_spec x = hm_spec y \<Longrightarrow> hm_status x = hm_status y \<Longrightarrow> whole E x"
  by (auto simp: whole_def)

text \<open>
  The shared object is whole but between the two writes of a restart, and a copy of which the
  status is missing has the shared specification until the next restart writes it.
\<close>

definition controller_inv :: "'w env \<Rightarrow> 'w system \<Rightarrow> bool" where
  "controller_inv E s \<longleftrightarrow>
     (let shared = zs_houmaoObject (sy_state s) in
      case sy_controller s of
        C_WriteSpec h \<Rightarrow> seen E h \<and> hm_spec h = sy_objectSpec s \<and> whole E shared
      | C_WriteStatus h \<Rightarrow> seen E h \<and> hm_spec h = sy_objectSpec s \<and> hm_spec shared = sy_objectSpec s
      | _ \<Rightarrow> hm_spec shared = sy_objectSpec s \<and> whole E shared)"

definition pending :: "'w system \<Rightarrow> bool" where
  "pending s \<longleftrightarrow> (case sy_controller s of C_WriteStatus h \<Rightarrow> True | C_Sending \<Rightarrow> True | _ \<Rightarrow> False)"

definition system_inv :: "'w env \<Rightarrow> 'w system \<Rightarrow> bool" where
  "system_inv E s \<longleftrightarrow>
     hm_meta (zs_houmaoObject (sy_state s)) = zero_meta \<and> controller_inv E s \<and>
     (case sy_pc s of
        L_Waiting \<Rightarrow> zs_object (sy_state s) = zero_houmao
      | L_CopyStatus out \<Rightarrow> hm_meta out = zero_meta \<and>
          (if pending s then True else hm_spec out = hm_spec (zs_houmaoObject (sy_state s)))
      | _ \<Rightarrow> True)"

lemmas reload_defs = reloadZaohuaHandle_def reload_spec_def reload_status_def

lemma reconcile_cases:
  obtains w where "Zaohua_Reconcile E key s = s\<lparr>sy_state := (sy_state s)\<lparr>zs_world := w\<rparr>\<rparr>"
  | w h where "e_getHoumao E key (zs_world (sy_state s)) = (Inr h, w)" "hm_spec h \<noteq> sy_objectSpec s"
      "Zaohua_Reconcile E key s = s\<lparr>sy_state := (sy_state s)\<lparr>zs_world := w\<rparr>, sy_objectSpec := hm_spec h,
         sy_controller := C_WriteSpec h\<rparr>"
proof -
  obtain r w where r: "e_getHoumao E key (zs_world (sy_state s)) = (r, w)"
    by (cases "e_getHoumao E key (zs_world (sy_state s))")
  show thesis
  proof (cases "\<exists>h. r = Inr h \<and> hm_spec h \<noteq> sy_objectSpec s")
    case True
    then show ?thesis using r that(2) by (auto simp: Zaohua_Reconcile_def RestartZaohua_def DeepEqual_def Let_def)
  next
    case False
    then have "Zaohua_Reconcile E key s = s\<lparr>sy_state := (sy_state s)\<lparr>zs_world := w\<rparr>\<rparr>"
      using r by (cases r) (auto simp: Zaohua_Reconcile_def DeepEqual_def Let_def)
    then show ?thesis by (rule that(1))
  qed
qed

lemma inv_loop_step:
  assumes "loop_step E c mode s t" "system_inv E s"
  shows "system_inv E t"
  using assms
proof (cases rule: loop_step.cases)
  case (round_waits st)
  then show ?thesis using assms(2) round_waits_empty [of E c mode "sy_state s" st]
    by (auto simp: system_inv_def controller_inv_def Let_def split: controller_pc.splits)
qed (auto simp: system_inv_def controller_inv_def Let_def pending_def copy_defs zero_houmao_def
    dest: round_houmaoObject split: controller_pc.splits)

lemma inv_other_step:
  assumes "other_step E s t" "system_inv E s"
  shows "system_inv E t"
  using assms(1)
proof (cases rule: other_step.cases)
  case (reconcile key)
  then show ?thesis using assms(2)
    by (cases E key s rule: reconcile_cases)
      (auto simp: system_inv_def controller_inv_def Let_def pending_def seen_def split: loop_pc.splits)
next
  case (write_status h)
  then show ?thesis using assms(2)
    by (auto simp: system_inv_def controller_inv_def Let_def pending_def reload_defs intro: wholeI split: loop_pc.splits)
qed (use assms(2) in \<open>auto simp: system_inv_def controller_inv_def Let_def pending_def reload_defs
    split: loop_pc.splits controller_pc.splits\<close>)

lemma inv_step: "system_step E c mode s t \<Longrightarrow> system_inv E s \<Longrightarrow> system_inv E t"
  by (auto elim!: system_stepE intro: inv_loop_step inv_other_step)

lemma reachable_system_inv: "reachable E c mode s \<Longrightarrow> system_inv E s"
proof (induction rule: reachable_induct)
  case (start w object)
  show ?case by (simp add: system_inv_def controller_inv_def initial_system_def whole_zero) (simp add: zero_houmao_def)
qed (rule inv_step)

text \<open>
  C14: in every reachable state the shared object has no metadata, and what it holds is fixed by
  where the controller is. Between two restarts and while a send is pending it is whole (its
  specification and its status are of one object of the server) and its specification is the last
  that the controller recorded. When the new specification is recorded but not written yet, it is
  still whole, but may be of another object; between the two writes it has the recorded
  specification, and nothing is said of its status. The loop waits inside a round only on an empty
  object.
\<close>

theorem reachable_inv:
  assumes "reachable E c mode s"
  defines "shared \<equiv> zs_houmaoObject (sy_state s)"
  shows "hm_meta shared = zero_meta \<and>
    (case sy_controller s of
       C_WriteSpec h \<Rightarrow> seen E h \<and> hm_spec h = sy_objectSpec s \<and> whole E shared
     | C_WriteStatus h \<Rightarrow> seen E h \<and> hm_spec h = sy_objectSpec s \<and> hm_spec shared = sy_objectSpec s
     | _ \<Rightarrow> hm_spec shared = sy_objectSpec s \<and> whole E shared) \<and>
    (sy_pc s = L_Waiting \<longrightarrow> zs_object (sy_state s) = zero_houmao)"
  using reachable_system_inv [OF assms(1)] unfolding shared_def system_inv_def controller_inv_def Let_def
  by (simp split: loop_pc.splits)

section \<open>What a restart brings\<close>

lemma sending_inv:
  assumes "reachable E c mode s" "sy_controller s \<in> {C_Idle, C_Sending}"
  shows "hm_meta (zs_houmaoObject (sy_state s)) = zero_meta"
    "hm_spec (zs_houmaoObject (sy_state s)) = sy_objectSpec s" "whole E (zs_houmaoObject (sy_state s))"
  using reachable_system_inv [OF assms(1)] assms(2) by (auto simp: system_inv_def controller_inv_def Let_def)

lemma loop_step_select_receives:
  assumes "sy_pc s = L_Select" "sy_sending s" "\<not> sy_done s"
  shows "loop_step E c mode s t \<longleftrightarrow> t = s\<lparr>sy_controller := C_Idle, sy_pc := L_Reload\<rparr>"
  using assms loop_step.select_receives [of s E c mode] by (auto elim: loop_step.cases)

lemma loop_step_copies:
  "sy_pc s = L_Reload \<Longrightarrow> loop_step E c mode s t \<longleftrightarrow>
     t = s\<lparr>sy_pc := L_CopyStatus (copy_spec (zs_houmaoObject (sy_state s)) zero_houmao)\<rparr>"
  "sy_pc s = L_CopyStatus out \<Longrightarrow> loop_step E c mode s t \<longleftrightarrow>
     t = s\<lparr>sy_state := (sy_state s)\<lparr>zs_object := copy_status (zs_houmaoObject (sy_state s)) out\<rparr>, sy_pc := L_Round\<rparr>"
  by (auto elim: loop_step.cases intro: loop_step.copy_spec loop_step.copy_status)

lemma relpowp_3: "(R ^^ 3) s v \<longleftrightarrow> (\<exists>t u. R s t \<and> R t u \<and> R u v)"
  by (auto simp: numeral_3_eq_3)

text \<open>The three steps of a loop that receives a restart and is not interrupted in its copy.\<close>

lemma three_steps:
  assumes "sy_pc s = L_Select" "sy_sending s" "\<not> sy_done s"
  shows "(loop_step E c mode ^^ 3) s v \<longleftrightarrow> v = s\<lparr>sy_controller := C_Idle, sy_pc := L_Round,
    sy_state := (sy_state s)\<lparr>zs_object := DeepCopy (zs_houmaoObject (sy_state s))\<rparr>\<rparr>"
  by (auto simp: relpowp_3 loop_step_select_receives [OF assms] loop_step_copies DeepCopy_def DeepCopyInto_def)

text \<open>
  C15: a loop at its \<open>select\<close> with a restart pending and a context that is not done can take three
  steps and, when the controller takes no step between them, no others: it receives the restart and
  copies the shared object. After them nothing is pending, and the loop is about to run a round
  with the specification that the controller recorded and the status of the same object, but on an
  object without name and namespace. (When the controller writes during the copy, the copy can mix
  two objects.)
\<close>

theorem restart_received:
  assumes "reachable E c mode s" "sy_pc s = L_Select" "sy_sending s" "\<not> sy_done s"
  shows "\<exists>v. (\<forall>v'. (loop_step E c mode ^^ 3) s v' \<longleftrightarrow> v' = v) \<and>
    sy_pc v = L_Round \<and> sy_controller v = C_Idle \<and> whole E (zs_object (sy_state v)) \<and>
    hm_spec (zs_object (sy_state v)) = sy_objectSpec s \<and> hm_meta (zs_object (sy_state v)) = zero_meta"
  using sending_inv [OF assms(1)] assms(3) unfolding three_steps [OF assms(2-4)]
  by (intro exI, intro conjI allI) (rule refl, simp_all add: DeepCopy_id)

text \<open>
  A copy that a restart overlaps can mix two objects. It is only used until the restart that
  overlapped it is received: the restart has still to finish its writes and to send.
\<close>

text \<open>
  C16: the object that a reload leaves in the loop is whole unless a restart is under way that has
  changed the shared object during the copy, and that restart has still to be received.
\<close>

theorem torn_copy_pending:
  assumes "reachable E c mode s" "sy_pc s = L_CopyStatus out" "loop_step E c mode s t"
  shows "hm_meta (zs_object (sy_state t)) = zero_meta \<and>
    (pending t \<or> whole E (zs_object (sy_state t)) \<and>
       hm_spec (zs_object (sy_state t)) = hm_spec (zs_houmaoObject (sy_state t)))"
proof -
  have t: "t = s\<lparr>sy_state := (sy_state s)\<lparr>zs_object := copy_status (zs_houmaoObject (sy_state s)) out\<rparr>, sy_pc := L_Round\<rparr>"
    using assms(3,2) by (cases rule: loop_step.cases) simp_all
  have inv: "system_inv E s" using assms(1) by (rule reachable_system_inv)
  have shared: "pending s \<or> whole E (zs_houmaoObject (sy_state s))"
    using inv unfolding system_inv_def controller_inv_def pending_def Let_def by (cases "sy_controller s") simp_all
  have out: "hm_meta out = zero_meta" "pending s \<or> hm_spec out = hm_spec (zs_houmaoObject (sy_state s))"
    using inv assms(2) unfolding system_inv_def by (simp_all split: if_splits)
  have "pending s \<or> whole E (copy_status (zs_houmaoObject (sy_state s)) out)"
    using shared out(2) unfolding whole_def by (auto simp: copy_status_def)
  then show ?thesis using out by (auto simp: t copy_status_def pending_def)
qed

text \<open>
  C17: the race is real: while the loop reloads and the server holds a changed object, there are
  runs after which the loop runs a round with the new specification and the old status, and with
  the old specification and the new status.
\<close>

theorem reload_race:
  assumes "sy_pc s = L_Reload" "sy_controller s = C_Idle"
    and "e_getHoumao E key (zs_world (sy_state s)) = (Inr h, w)" "hm_spec h \<noteq> sy_objectSpec s"
  shows "\<exists>t u. runs E c mode s t \<and> runs E c mode s u \<and> sy_pc t = L_Round \<and> sy_pc u = L_Round \<and>
    hm_spec (zs_object (sy_state t)) = hm_spec h \<and>
    hm_status (zs_object (sy_state t)) = hm_status (zs_houmaoObject (sy_state s)) \<and>
    hm_spec (zs_object (sy_state u)) = hm_spec (zs_houmaoObject (sy_state s)) \<and>
    hm_status (zs_object (sy_state u)) = hm_status h"
proof -
  let ?shared = "zs_houmaoObject (sy_state s)"
  define a1 where "a1 = s\<lparr>sy_state := (sy_state s)\<lparr>zs_world := w\<rparr>, sy_objectSpec := hm_spec h, sy_controller := C_WriteSpec h\<rparr>"
  define a2 where "a2 = a1\<lparr>sy_state := reload_spec h (sy_state a1), sy_controller := C_WriteStatus h\<rparr>"
  define a3 where "a3 = a2\<lparr>sy_pc := L_CopyStatus (copy_spec (zs_houmaoObject (sy_state a2)) zero_houmao)\<rparr>"
  define t where "t = a3\<lparr>sy_state := (sy_state a3)\<lparr>zs_object := copy_status (zs_houmaoObject (sy_state a3))
    (copy_spec (zs_houmaoObject (sy_state a2)) zero_houmao)\<rparr>, sy_pc := L_Round\<rparr>"
  define b1 where "b1 = s\<lparr>sy_pc := L_CopyStatus (copy_spec ?shared zero_houmao)\<rparr>"
  define b2 where "b2 = b1\<lparr>sy_state := (sy_state b1)\<lparr>zs_world := w\<rparr>, sy_objectSpec := hm_spec h, sy_controller := C_WriteSpec h\<rparr>"
  define b3 where "b3 = b2\<lparr>sy_state := reload_spec h (sy_state b2), sy_controller := C_WriteStatus h\<rparr>"
  define b4 where "b4 = b3\<lparr>sy_state := reload_status h (sy_state b3), sy_controller := C_Sending\<rparr>"
  define u where "u = b4\<lparr>sy_state := (sy_state b4)\<lparr>zs_object := copy_status (zs_houmaoObject (sy_state b4))
    (copy_spec ?shared zero_houmao)\<rparr>, sy_pc := L_Round\<rparr>"
  have saw: "Zaohua_Reconcile E key x = x\<lparr>sy_state := (sy_state x)\<lparr>zs_world := w\<rparr>, sy_objectSpec := hm_spec h, sy_controller := C_WriteSpec h\<rparr>"
    if "zs_world (sy_state x) = zs_world (sy_state s)" "sy_objectSpec x = sy_objectSpec s" for x
    using assms(3,4) that by (simp add: Zaohua_Reconcile_def DeepEqual_def RestartZaohua_def)
  have "other_step E s a1"
    using other_step.reconcile [of s E key] assms(1,2) by (simp add: saw a1_def)
  moreover have "other_step E a1 a2"
    unfolding a2_def by (rule other_step.write_spec) (simp_all add: a1_def assms(1))
  moreover have "loop_step E c mode a2 a3"
    unfolding a3_def by (rule loop_step.copy_spec) (simp add: a2_def a1_def assms(1))
  moreover have "loop_step E c mode a3 t"
    unfolding t_def by (rule loop_step.copy_status) (simp add: a3_def)
  ultimately have t: "runs E c mode s t" by (meson runs_other runs_loop runs.start)
  have "loop_step E c mode s b1"
    unfolding b1_def using assms(1) by (rule loop_step.copy_spec)
  moreover have "other_step E b1 b2"
    using other_step.reconcile [of b1 E key] assms(2) by (simp add: saw b2_def b1_def)
  moreover have "other_step E b2 b3"
    unfolding b3_def by (rule other_step.write_spec) (simp_all add: b2_def b1_def)
  moreover have "other_step E b3 b4"
    unfolding b4_def by (rule other_step.write_status) (simp_all add: b3_def b2_def b1_def)
  moreover have "loop_step E c mode b4 u"
    unfolding u_def by (rule loop_step.copy_status) (simp add: b4_def b3_def b2_def b1_def)
  ultimately have u: "runs E c mode s u" by (meson runs_other runs_loop runs.start)
  have "hm_spec (zs_object (sy_state t)) = hm_spec h" "hm_status (zs_object (sy_state t)) = hm_status ?shared"
    "sy_pc t = L_Round"
    by (simp_all add: t_def a3_def a2_def a1_def copy_defs reload_defs)
  moreover have "hm_spec (zs_object (sy_state u)) = hm_spec ?shared" "hm_status (zs_object (sy_state u)) = hm_status h"
    "sy_pc u = L_Round"
    by (simp_all add: u_def b4_def b3_def b2_def b1_def copy_defs reload_defs)
  ultimately show ?thesis using t u by blast
qed

section \<open>The namespace is lost for good\<close>

definition namespace_of :: "'w zstate \<Rightarrow> string" where
  "namespace_of s = om_namespace (hm_meta (zs_object s))"

definition keeps_namespaces :: "'w env \<Rightarrow> bool" where
  "keeps_namespaces E \<longleftrightarrow>
     (\<forall>h j w h' w'. e_patchHoumao E h j w = (Inr h', w') \<longrightarrow>
        om_namespace (hm_meta h') = om_namespace (hm_meta h))"

lemma namespace_kept: "keeps_namespaces E \<Longrightarrow> kept (\<lambda>s. namespace_of s = []) E"
proof (unfold_locales, goal_cases)
  case (6 s j w h w')
  then show ?case unfolding keeps_namespaces_def namespace_of_def by (simp, metis)
qed (simp_all add: namespace_of_def)

lemma namespace_step:
  assumes "keeps_namespaces E" "system_step E c mode s t" "system_inv E s" "namespace_of (sy_state s) = []"
  shows "namespace_of (sy_state t) = []"
  using assms(2)
proof (cases rule: system_step.cases)
  case loop
  note round = kept.round_keeps [OF namespace_kept [OF assms(1)], of c mode "sy_state s"]
  from loop show ?thesis
    using assms(3,4) by (cases rule: loop_step.cases)
      (auto dest: round simp: namespace_of_def system_inv_def copy_defs zero_meta_def)
next
  case other
  then show ?thesis
  proof (cases rule: other_step.cases)
    case (reconcile key)
    then show ?thesis using assms(4)
      by (cases E key s rule: reconcile_cases) (auto simp: namespace_of_def)
  qed (use assms(4) in \<open>auto simp: namespace_of_def reload_defs\<close>)
qed

lemma runs_namespace:
  assumes "keeps_namespaces E" "runs E c mode t u" "system_inv E t" "namespace_of (sy_state t) = []"
  shows "system_inv E u \<and> namespace_of (sy_state u) = []"
  using assms(2)
  by (induction rule: runs.induct) (auto simp: assms(3,4) intro: inv_step namespace_step [OF assms(1)])

lemma round_lookup_fails:
  fixes E :: "'w env" and s :: "'w zstate"
  defines "ref \<equiv> hs_scaleTargetRef (hm_spec (zs_object s))"
  assumes "mode \<noteq> ZaohuaModeBeidong" "zs_object s \<noteq> zero_houmao" "ParseGroupVersion (ref_apiVersion ref) = Done gv"
    and "e_getScale E \<lparr>nn_namespace = namespace_of s, nn_name = ref_name ref\<rparr> (zs_world s) = (Inl e, w)"
  shows "scale_round E c mode s = (Fail e, s\<lparr>zs_world := w\<rparr>)"
  using assms by (simp add: scale_round_def detectAndScale_def DeepEqual_def go_simps getScaleForTarget_def
      namespace_of_def Let_def)

text \<open>
  C19: a restart loses the namespace for good. After the copy that ends a reload, in every state of
  every run that follows, the loop holds an object without a namespace, whatever further restarts
  bring (as long as the API server answers a patch with an object of the namespace of the object
  patched). The rounds of these states look for the scale in the empty namespace: when the client
  refuses that lookup, the round fails with its error before it calculates or sends anything.
\<close>

theorem namespace_lost:
  assumes "reachable E c mode s" "sy_pc s = L_CopyStatus out" "loop_step E c mode s t"
    and "runs E c mode t u" "keeps_namespaces E" "mode \<noteq> ZaohuaModeBeidong"
  defines "ref \<equiv> hs_scaleTargetRef (hm_spec (zs_object (sy_state u)))"
  shows "om_namespace (hm_meta (zs_object (sy_state u))) = [] \<and>
    (zs_object (sy_state u) \<noteq> zero_houmao \<longrightarrow> (\<forall>gv e w.
       ParseGroupVersion (ref_apiVersion ref) = Done gv \<longrightarrow>
       e_getScale E \<lparr>nn_namespace = [], nn_name = ref_name ref\<rparr> (zs_world (sy_state u)) = (Inl e, w) \<longrightarrow>
       scale_round E c mode (sy_state u) = (Fail e, (sy_state u)\<lparr>zs_world := w\<rparr>)))"
proof -
  have t: "t = s\<lparr>sy_state := (sy_state s)\<lparr>zs_object := copy_status (zs_houmaoObject (sy_state s)) out\<rparr>, sy_pc := L_Round\<rparr>"
    using assms(2,3) by (simp add: loop_step_copies)
  have inv: "system_inv E s" using assms(1) by (rule reachable_system_inv)
  then have "system_inv E t" using assms(3) inv_loop_step by blast
  moreover have "namespace_of (sy_state t) = []"
    using inv assms(2) by (simp add: t system_inv_def namespace_of_def copy_defs zero_meta_def)
  ultimately have "system_inv E u \<and> namespace_of (sy_state u) = []"
    by (intro runs_namespace [OF assms(5) assms(4)]) simp_all
  then have ns: "namespace_of (sy_state u) = []" ..
  then show ?thesis
    using round_lookup_fails [of mode "sy_state u", OF assms(6)] unfolding ref_def by (simp add: namespace_of_def)
qed

text \<open>
  A concrete run: the loop starts on the object of the concrete round, its first round fails
  because the scale cannot be read, and the controller then sees the object for the first time.
\<close>

definition demo_env :: "unit env" where
  "demo_env = (quiet_env 0)\<lparr>e_getHoumao := \<lambda>_ w. (Inr grow_houmao, w)\<rparr>"

definition demo_key :: namespaced_name where
  "demo_key = \<lparr>nn_namespace = ''ns'', nn_name = ''web''\<rparr>"

definition demo_select :: "unit system" where
  "demo_select = (initial_system () grow_houmao)\<lparr>sy_pc := L_Select\<rparr>"

definition demo_saw :: "unit system" where
  "demo_saw = Zaohua_Reconcile demo_env demo_key demo_select"

definition demo_sending :: "unit system" where
  "demo_sending = demo_saw\<lparr>sy_state := reloadZaohuaHandle grow_houmao (sy_state demo_saw), sy_controller := C_Sending\<rparr>"

lemma grow_spec_nonzero: "hm_spec grow_houmao \<noteq> zero_spec" "grow_houmao \<noteq> zero_houmao"
  by (simp_all add: grow_houmao_def zero_houmao_def zero_spec_def)

lemma demo_reconcile:
  "sy_objectSpec s = zero_spec \<Longrightarrow> Zaohua_Reconcile demo_env key s =
     s\<lparr>sy_objectSpec := hm_spec grow_houmao, sy_controller := C_WriteSpec grow_houmao\<rparr>"
  using grow_spec_nonzero
  by (simp add: Zaohua_Reconcile_def demo_env_def DeepEqual_def RestartZaohua_def)

lemma demo_saw_eq:
  "demo_saw = demo_select\<lparr>sy_objectSpec := hm_spec grow_houmao, sy_controller := C_WriteSpec grow_houmao\<rparr>"
  by (simp add: demo_saw_def demo_reconcile demo_select_def initial_system_def)

lemma demo_sending_eq:
  "demo_sending = demo_select\<lparr>sy_objectSpec := hm_spec grow_houmao,
     sy_state := reloadZaohuaHandle grow_houmao (sy_state demo_select), sy_controller := C_Sending\<rparr>"
  by (simp add: demo_sending_def demo_saw_eq)

lemma demo_round:
  assumes "hm_spec (zs_object st) = hm_spec grow_houmao"
  shows "scale_round demo_env c [] st = (Fail (ApiError ''scale''), st)"
proof -
  have "zs_object st \<noteq> zero_houmao" using assms grow_spec_nonzero(1) by (auto simp: zero_houmao_def)
  moreover have "ref_apiVersion (hs_scaleTargetRef (hm_spec grow_houmao)) = []"
    by (simp add: grow_houmao_def zero_spec_def zero_ref_def)
  ultimately show ?thesis
    using assms by (simp add: scale_round_def detectAndScale_def DeepEqual_def go_simps ParseGroupVersion_def
        getScaleForTarget_def demo_env_def quiet_env_def)
qed

lemma reachable_runs: "reachable E c mode s \<Longrightarrow> runs E c mode s t \<Longrightarrow> reachable E c mode t"
  unfolding reachable_def by (blast intro: runs_trans)

text \<open>A call of the reconciler that sees the object for the first time, up to its send.\<close>

lemma demo_restart:
  assumes "sy_pc s \<noteq> L_Crashed" "sy_controller s = C_Idle" "sy_objectSpec s = zero_spec"
  shows "runs demo_env c mode s (s\<lparr>sy_objectSpec := hm_spec grow_houmao,
     sy_state := reloadZaohuaHandle grow_houmao (sy_state s), sy_controller := C_Sending\<rparr>)"
proof -
  have "other_step demo_env s (Zaohua_Reconcile demo_env demo_key s)"
    using assms by (intro other_step.reconcile)
  moreover have "runs demo_env c mode (Zaohua_Reconcile demo_env demo_key s)
      (s\<lparr>sy_objectSpec := hm_spec grow_houmao, sy_state := reloadZaohuaHandle grow_houmao (sy_state s), sy_controller := C_Sending\<rparr>)"
    using restart_runs [of "Zaohua_Reconcile demo_env demo_key s" grow_houmao demo_env c mode] assms
    by (simp add: demo_reconcile)
  ultimately show ?thesis by (rule runs_other)
qed

lemma demo_reachable: "reachable demo_env c [] demo_sending"
proof -
  have "loop_step demo_env c [] (initial_system () grow_houmao) demo_select"
    using loop_step.round_failed [OF _ demo_round, of "initial_system () grow_houmao" c]
    by (simp add: demo_select_def initial_system_def)
  then have "reachable demo_env c [] demo_select"
    by (rule reachable_step [OF reachable_start system_step.loop])
  moreover have "runs demo_env c [] demo_select demo_sending"
    unfolding demo_sending_eq by (rule demo_restart) (simp_all add: demo_select_def initial_system_def)
  ultimately show ?thesis by (rule reachable_runs)
qed

definition demo_reload :: "unit system" where
  "demo_reload = demo_sending\<lparr>sy_controller := C_Idle, sy_pc := L_Reload\<rparr>"

definition demo_copying :: "unit system" where
  "demo_copying = demo_reload\<lparr>sy_pc := L_CopyStatus (copy_spec (zs_houmaoObject (sy_state demo_sending)) zero_houmao)\<rparr>"

definition demo_reloaded :: "unit system" where
  "demo_reloaded = demo_sending\<lparr>sy_controller := C_Idle, sy_state := (sy_state demo_sending)\<lparr>zs_object :=
     zs_houmaoObject (sy_state demo_sending)\<rparr>, sy_pc := L_Round\<rparr>"

lemma demo_reload_steps:
  "loop_step demo_env c [] demo_sending demo_reload"
  "loop_step demo_env c [] demo_reload demo_copying"
  "loop_step demo_env c [] demo_copying demo_reloaded"
proof -
  show "loop_step demo_env c [] demo_sending demo_reload"
    unfolding demo_reload_def by (rule loop_step.select_receives) (simp_all add: demo_sending_eq demo_select_def)
  show "loop_step demo_env c [] demo_reload demo_copying"
    using loop_step.copy_spec [of demo_reload demo_env c "[]"] by (simp add: demo_copying_def demo_reload_def)
  show "loop_step demo_env c [] demo_copying demo_reloaded"
    using loop_step.copy_status [of demo_copying _ demo_env c "[]"]
    by (simp add: demo_reloaded_def demo_copying_def demo_reload_def copy_both)
qed

lemma demo_reachable_all: "reachable demo_env c [] demo_reload" "reachable demo_env c [] demo_copying"
  "reachable demo_env c [] demo_reloaded"
proof -
  show reload: "reachable demo_env c [] demo_reload"
    by (rule reachable_step [OF demo_reachable system_step.loop [OF demo_reload_steps(1)]])
  show copying: "reachable demo_env c [] demo_copying"
    by (rule reachable_step [OF reload system_step.loop [OF demo_reload_steps(2)]])
  show "reachable demo_env c [] demo_reloaded"
    by (rule reachable_step [OF copying system_step.loop [OF demo_reload_steps(3)]])
qed

theorem restart_received_witness:
  "hm_spec (zs_object (sy_state demo_reloaded)) = hm_spec grow_houmao \<and>
   hm_meta (zs_object (sy_state demo_reloaded)) = zero_meta"
proof -
  have "(loop_step demo_env default_handle [] ^^ 3) demo_sending demo_reloaded"
    unfolding relpowp_3 using demo_reload_steps [of default_handle] by blast
  moreover have ready: "sy_pc demo_sending = L_Select" "sy_sending demo_sending" "\<not> sy_done demo_sending"
    "sy_objectSpec demo_sending = hm_spec grow_houmao"
    by (simp_all add: demo_sending_eq demo_select_def initial_system_def)
  ultimately show ?thesis
    using restart_received [OF demo_reachable ready(1-3), of default_handle] unfolding ready(4) by metis
qed

text \<open>
  The invariant in the state in which the restart of the concrete run is pending, and in the one in
  which its specification is recorded but not written.
\<close>

theorem reachable_inv_witness:
  "hm_spec (zs_houmaoObject (sy_state demo_sending)) = hm_spec grow_houmao \<and>
   whole demo_env (zs_houmaoObject (sy_state demo_sending)) \<and> whole demo_env (zs_houmaoObject (sy_state demo_saw))"
proof -
  have "reachable demo_env default_handle [] demo_select"
    using loop_step.round_failed [OF _ demo_round, of "initial_system () grow_houmao" default_handle]
    by (intro reachable_step [OF reachable_start system_step.loop]) (simp add: demo_select_def initial_system_def)
  then have "reachable demo_env default_handle [] demo_saw"
    unfolding demo_saw_def
    by (rule reachable_step [OF _ system_step.other [OF other_step.reconcile]])
      (simp_all add: demo_select_def initial_system_def)
  from reachable_inv [OF this] have "whole demo_env (zs_houmaoObject (sy_state demo_saw))"
    by (simp add: demo_saw_eq)
  then show ?thesis
    using reachable_inv [OF demo_reachable [of default_handle]] by (simp add: demo_sending_eq)
qed

theorem torn_copy_pending_witness:
  "pending demo_reloaded \<or> whole demo_env (zs_object (sy_state demo_reloaded))"
  using torn_copy_pending [OF demo_reachable_all(2) _ demo_reload_steps(3)] by (auto simp: demo_copying_def)

text \<open>A server on which the specification of the object has changed to the empty one.\<close>

definition changed_env :: "unit env" where
  "changed_env = demo_env\<lparr>e_getHoumao := \<lambda>_ w. (Inr zero_houmao, w)\<rparr>"

theorem reload_race_witness:
  "\<exists>t. runs changed_env default_handle [] demo_reload t \<and> sy_pc t = L_Round \<and>
     hm_spec (zs_object (sy_state t)) = zero_spec \<and> hm_status (zs_object (sy_state t)) = hm_status grow_houmao"
proof -
  have "hm_spec zero_houmao \<noteq> sy_objectSpec demo_reload"
    using grow_spec_nonzero(1) by (simp add: demo_reload_def demo_sending_eq zero_houmao_def)
  then show ?thesis
    using reload_race [of demo_reload changed_env _ zero_houmao] 
    by (auto simp: demo_reload_def changed_env_def demo_sending_eq demo_select_def reload_defs zero_houmao_def)
qed

text \<open>The client of a server refuses a lookup in the empty namespace: the round after the reload fails.\<close>

theorem namespace_lost_witness:
  "scale_round demo_env default_handle [] (sy_state demo_reloaded) = (Fail (ApiError ''scale''), sy_state demo_reloaded)"
proof -
  have "keeps_namespaces demo_env" by (simp add: keeps_namespaces_def demo_env_def quiet_env_def)
  from namespace_lost [OF demo_reachable_all(2) _ demo_reload_steps(3) runs.start this]
  have "zs_object (sy_state demo_reloaded) \<noteq> zero_houmao \<longrightarrow>
      ParseGroupVersion (ref_apiVersion (hs_scaleTargetRef (hm_spec (zs_object (sy_state demo_reloaded))))) = Done ([], []) \<longrightarrow>
      scale_round demo_env default_handle [] (sy_state demo_reloaded) = (Fail (ApiError ''scale''), sy_state demo_reloaded)"
    by (simp add: demo_copying_def demo_env_def quiet_env_def)
  moreover have spec: "hm_spec (zs_object (sy_state demo_reloaded)) = hm_spec grow_houmao"
    by (simp add: demo_reloaded_def demo_sending_eq reload_defs)
  moreover have "ref_apiVersion (hs_scaleTargetRef (hm_spec grow_houmao)) = []"
    by (simp add: grow_houmao_def zero_spec_def zero_ref_def)
  ultimately show ?thesis
    using grow_spec_nonzero(1) by (auto simp: ParseGroupVersion_def zero_houmao_def)
qed

section \<open>Lost restarts\<close>

text \<open>The controller never sees a specification other than the recorded one.\<close>

definition settled :: "'w env \<Rightarrow> houmao_spec \<Rightarrow> bool" where
  "settled E spec \<longleftrightarrow> (\<forall>key w h w'. e_getHoumao E key w = (Inr h, w') \<longrightarrow> hm_spec h = spec)"

lemma waiting_step:
  assumes "settled E (sy_objectSpec s)" "system_step E c mode s t" "sy_pc s = L_Waiting" "sy_controller s = C_Idle"
  shows "sy_pc t = L_Waiting \<and> sy_controller t = C_Idle \<and> sy_objectSpec t = sy_objectSpec s"
  using assms(2)
proof (cases rule: system_step.cases)
  case loop
  then show ?thesis using assms(3,4) by (cases rule: loop_step.cases) simp_all
next
  case other
  then show ?thesis
  proof (cases rule: other_step.cases)
    case (reconcile key)
    then show ?thesis using assms unfolding settled_def
      by (cases E key s rule: reconcile_cases) auto
  qed (use assms(3,4) in auto)
qed

text \<open>
  C21: a loop that waits while no restart is under way waits for ever, as long as the server keeps
  the specification the controller has recorded: neither the controller nor the end of the
  context wakes it.
\<close>

theorem lost_restart:
  assumes "settled E (sy_objectSpec s)" "sy_pc s = L_Waiting" "sy_controller s = C_Idle" "runs E c mode s t"
  shows "sy_pc t = L_Waiting \<and> sy_controller t = C_Idle"
proof -
  have "sy_pc t = L_Waiting \<and> sy_controller t = C_Idle \<and> sy_objectSpec t = sy_objectSpec s"
    using assms(4)
  proof (induction rule: runs.induct)
    case (then_step t u)
    then show ?case using waiting_step [of E t c mode u] assms(1) by simp
  qed (use assms(2,3) in simp)
  then show ?thesis by simp
qed

text \<open>
  C20: a restart that arrives while the loop waits on an empty object is consumed without
  reloading the object: the next round waits again, with no restart pending, although the
  controller has recorded the new specification.
\<close>

theorem wait_consumes_restart:
  assumes "reachable E c mode s" "mode \<noteq> ZaohuaModeBeidong"
    and "sy_pc s = L_Waiting" "sy_sending s" "\<not> sy_done s"
    and "loop_step E c mode s t" "loop_step E c mode t u" "loop_step E c mode u v"
  shows "sy_pc v = L_Waiting \<and> sy_controller v = C_Idle \<and> zs_object (sy_state v) = zero_houmao \<and>
    sy_objectSpec v = sy_objectSpec s"
proof -
  have empty: "zs_object (sy_state s) = zero_houmao"
    using reachable_system_inv [OF assms(1)] assms(3) by (simp add: system_inv_def)
  have t: "t = s\<lparr>sy_controller := C_Idle, sy_pc := L_Select\<rparr>"
    using assms(6,3) by (cases rule: loop_step.cases) simp_all
  have u: "u = t\<lparr>sy_pc := L_Round\<rparr>"
    using assms(7,5) t by (cases rule: loop_step.cases) simp_all
  have round: "scale_round E c mode (sy_state u) = (Done Waiting, sy_state u)"
    using assms(2) empty t u by (simp add: scale_round_def detectAndScale_def DeepEqual_def go_simps)
  have "v = u\<lparr>sy_state := sy_state u, sy_pc := L_Waiting\<rparr>"
    using assms(8) u round by (cases rule: loop_step.cases) simp_all
  then show ?thesis using t u empty by simp
qed

text \<open>A concrete run: the loop is started on an empty object.\<close>

definition idle :: "unit system" where
  "idle = (initial_system () zero_houmao)\<lparr>sy_pc := L_Waiting\<rparr>"

definition idle_sending :: "unit system" where
  "idle_sending = idle\<lparr>sy_objectSpec := hm_spec grow_houmao,
     sy_state := reloadZaohuaHandle grow_houmao (sy_state idle), sy_controller := C_Sending\<rparr>"

lemma idle_round:
  "zs_object st = zero_houmao \<Longrightarrow> scale_round demo_env c [] st = (Done Waiting, st)"
  by (simp add: scale_round_def detectAndScale_def DeepEqual_def go_simps)

lemma idle_reachable: "reachable demo_env c [] idle_sending"
proof -
  have "loop_step demo_env c [] (initial_system () zero_houmao) idle"
    using loop_step.round_waits [OF _ idle_round, of "initial_system () zero_houmao" c]
    by (simp add: idle_def initial_system_def)
  then have "reachable demo_env c [] idle"
    by (rule reachable_step [OF reachable_start system_step.loop])
  moreover have "runs demo_env c [] idle idle_sending"
    unfolding idle_sending_def by (rule demo_restart) (simp_all add: idle_def initial_system_def)
  ultimately show ?thesis by (rule reachable_runs)
qed

definition idle_again :: "unit system" where
  "idle_again = idle_sending\<lparr>sy_controller := C_Idle, sy_pc := L_Waiting\<rparr>"

theorem wait_consumes_restart_witness:
  "sy_pc idle_again = L_Waiting \<and> sy_controller idle_again = C_Idle \<and> zs_object (sy_state idle_again) = zero_houmao \<and>
   sy_objectSpec idle_again = sy_objectSpec idle_sending"
proof (rule wait_consumes_restart [OF idle_reachable])
  let ?t = "idle_sending\<lparr>sy_controller := C_Idle, sy_pc := L_Select\<rparr>"
  show "loop_step demo_env (NewCalculateHandle 0 0 0 0) [] idle_sending ?t"
    by (rule loop_step.wait_receives) (simp_all add: idle_sending_def idle_def)
  show "loop_step demo_env (NewCalculateHandle 0 0 0 0) [] ?t (?t\<lparr>sy_pc := L_Round\<rparr>)"
    by (rule loop_step.select_default) (simp_all add: idle_sending_def idle_def initial_system_def)
  have "zs_object (sy_state (?t\<lparr>sy_pc := L_Round\<rparr>)) = zero_houmao"
    by (simp add: idle_sending_def idle_def initial_system_def reload_defs)
  from loop_step.round_waits [OF _ idle_round [OF this], of "NewCalculateHandle 0 0 0 0"]
  show "loop_step demo_env (NewCalculateHandle 0 0 0 0) [] (?t\<lparr>sy_pc := L_Round\<rparr>) idle_again"
    by (simp add: idle_again_def)
qed (simp_all add: idle_sending_def idle_def initial_system_def)

theorem lost_restart_witness:
  "sy_pc (idle_again\<lparr>sy_done := True\<rparr>) = L_Waiting \<and> sy_controller (idle_again\<lparr>sy_done := True\<rparr>) = C_Idle"
proof (rule lost_restart)
  show "settled demo_env (sy_objectSpec idle_again)"
    by (simp add: settled_def demo_env_def idle_again_def idle_sending_def)
  show "runs demo_env (NewCalculateHandle 0 0 0 0) [] idle_again (idle_again\<lparr>sy_done := True\<rparr>)"
    using other_step.cancel [of idle_again demo_env]
    by (auto simp: idle_again_def intro: runs.intros system_step.other)
qed (simp_all add: idle_again_def)

end
