(* ===== verification/Round_Facts.thy ===== *)
theory Round_Facts
  imports Zaohua_Facts
begin

text \<open>
  A whole round: the window of past results that the status keeps, the rounds that send nothing,
  and the bounds of what a round ever sends.
\<close>

section \<open>The window of results\<close>

text \<open>The specification of one update of the record.\<close>

definition next_record :: "i32 \<Rightarrow> zaohua_result \<Rightarrow> zaohua_record \<Rightarrow> zaohua_record" where
  "next_record origin r rec = \<lparr>
     zrec_originReplicas = (if zrec_originReplicas rec = 0 then origin else zrec_originReplicas rec),
     zrec_current = r,
     zrec_last5 = tl (zrec_last5 rec) @ [zrec_current rec]\<rparr>"

definition record_of :: "houmao \<Rightarrow> zaohua_record" where
  "record_of h = hst_zaohuaRecord (hm_status h)"

lemma houmao_ok_record: "houmao_ok h \<longleftrightarrow> length (zrec_last5 (record_of h)) = 5"
  by (simp add: houmao_ok_def record_of_def)

lemma updateStatus_eq:
  assumes "houmao_ok (zs_object s)"
  shows "updateStatus E r s =
    (case json_record (next_record (zs_originReplicas s) r (record_of (zs_object s))) of
       Done patch \<Rightarrow> (case e_patchHoumao E (zs_object s) patch (zs_world s) of
         (Inl e, w) \<Rightarrow> (Fail e, s\<lparr>zs_world := w\<rparr>)
       | (Inr h, w) \<Rightarrow> (Done (), s\<lparr>zs_world := w, zs_object := h\<rparr>))
     | Fail e \<Rightarrow> (Fail e, s)
     | Panic p \<Rightarrow> (Panic p, s))"
proof -
  let ?rec = "record_of (zs_object s)"
  have len: "\<not> length (zrec_last5 ?rec) < 5" using assms by (simp add: houmao_ok_record)
  have n: "(let rec1 = ?rec\<lparr>zrec_current := r, zrec_last5 := tl (zrec_last5 ?rec) @ [zrec_current ?rec]\<rparr> in
      if zs_originReplicas s \<noteq> 0 \<and> zrec_originReplicas rec1 = 0
      then rec1\<lparr>zrec_originReplicas := zs_originReplicas s\<rparr> else rec1) =
      next_record (zs_originReplicas s) r ?rec"
    by (simp add: next_record_def Let_def)
  show ?thesis
    using len n unfolding record_of_def
    by (auto simp: updateStatus_def go_simps Let_def shift_results_eq NewStatusUpdateHandle_def
        UpdateZaohuaRecord_def DeepEqual_def split: outcome.splits prod.splits sum.splits)
qed

text \<open>
  The recording of one result after another, as the loop does it: an error is only logged.
\<close>

fun record_all :: "'w env \<Rightarrow> zaohua_result list \<Rightarrow> 'w zstate \<Rightarrow> 'w zstate" where
  "record_all E [] s = s"
| "record_all E (r # rs) s = record_all E rs (snd (updateStatus E r s))"

text \<open>
  A server whose stored status only a patch with a field \<open>status\<close> changes: any other patch leaves
  the record of the world \<open>stored w\<close> as it is, and an answer carries the stored record.
\<close>

definition status_by_name :: "('w \<Rightarrow> zaohua_record) \<Rightarrow> 'w env \<Rightarrow> bool" where
  "status_by_name stored E \<longleftrightarrow>
     (\<forall>h j w. \<not> patches_status j \<longrightarrow>
        (case e_patchHoumao E h j w of (r, w') \<Rightarrow> stored w' = stored w \<and>
           (case r of Inl e \<Rightarrow> True | Inr h' \<Rightarrow> record_of h' = stored w)))"

lemma status_by_nameD:
  assumes "status_by_name stored E" "\<not> patches_status j" "e_patchHoumao E h j w = (q, w')"
  shows "stored w' = stored w \<and> (case q of Inl e \<Rightarrow> True | Inr h' \<Rightarrow> record_of h' = stored w)"
  using assms(1) [unfolded status_by_name_def, rule_format, OF assms(2), where h = h and w = w] by (simp only: assms(3) prod.case)

lemma update_keeps_record:
  fixes E :: "'w env" and r :: zaohua_result and s :: "'w zstate"
  assumes "houmao_ok (zs_object s)" "status_by_name stored E" "record_of (zs_object s) = stored (zs_world s)"
  defines "t \<equiv> snd (updateStatus E r s)"
  shows "record_of (zs_object t) = record_of (zs_object s) \<and> stored (zs_world t) = stored (zs_world s) \<and>
    zs_originReplicas t = zs_originReplicas s"
proof (cases "json_record (next_record (zs_originReplicas s) r (record_of (zs_object s)))")
  case (Done patch)
  obtain q w where patched: "e_patchHoumao E (zs_object s) patch (zs_world s) = (q, w)"
    by (cases "e_patchHoumao E (zs_object s) patch (zs_world s)")
  have "stored w = stored (zs_world s) \<and> (case q of Inl e \<Rightarrow> True | Inr h \<Rightarrow> record_of h = stored (zs_world s))"
    using assms(2) no_status_patches(2) [OF Done] patched by (rule status_by_nameD)
  then show ?thesis
    using assms(3) [symmetric] by (cases q) (simp_all add: t_def updateStatus_eq [OF assms(1)] Done patched)
qed (use assms(3) [symmetric] in \<open>simp_all add: t_def updateStatus_eq [OF assms(1)]\<close>)

lemma records_kept:
  assumes "houmao_ok (zs_object s)" "status_by_name stored E" "record_of (zs_object s) = stored (zs_world s)"
  shows "record_of (zs_object (record_all E rs s)) = record_of (zs_object s) \<and>
    zs_originReplicas (record_all E rs s) = zs_originReplicas s"
  using assms
proof (induction rs arbitrary: s)
  case (Cons r rs)
  then show ?case
    using update_keeps_record [OF Cons.prems, of r] Cons.IH [of "snd (updateStatus E r s)"]
    by (simp add: houmao_ok_record)
qed simp

text \<open>
  C32: recording a result sends one patch, the record that has the result as the current one and
  the former current one at the end of the array of five, whose oldest result is dropped; the
  original count is set only once; the loop then keeps the object that the server answers, and
  after an error its own. On a server that changes the status only by a field of that name, no
  number of recordings moves the window: after any sequence of them the next patch still carries
  only the five results that the object had before the first one, and the results recorded in
  between are nowhere.
\<close>

theorem record_sent:
  assumes "houmao_ok (zs_object s)"
  shows "updateStatus E r s =
    (case json_record (next_record (zs_originReplicas s) r (record_of (zs_object s))) of
       Done patch \<Rightarrow> (case e_patchHoumao E (zs_object s) patch (zs_world s) of
         (Inl e, w) \<Rightarrow> (Fail e, s\<lparr>zs_world := w\<rparr>)
       | (Inr h, w) \<Rightarrow> (Done (), s\<lparr>zs_world := w, zs_object := h\<rparr>))
     | Fail e \<Rightarrow> (Fail e, s)
     | Panic p \<Rightarrow> (Panic p, s)) \<and>
    (status_by_name stored E \<and> record_of (zs_object s) = stored (zs_world s) \<longrightarrow>
      (let t = record_all E rs s in
       updateStatus E r t =
        (case json_record (next_record (zs_originReplicas s) r (record_of (zs_object s))) of
           Done patch \<Rightarrow> (case e_patchHoumao E (zs_object t) patch (zs_world t) of
             (Inl e, w) \<Rightarrow> (Fail e, t\<lparr>zs_world := w\<rparr>)
           | (Inr h, w) \<Rightarrow> (Done (), t\<lparr>zs_world := w, zs_object := h\<rparr>))
         | Fail e \<Rightarrow> (Fail e, t)
         | Panic p \<Rightarrow> (Panic p, t))))"
proof (intro conjI impI)
  assume stored: "status_by_name stored E \<and> record_of (zs_object s) = stored (zs_world s)"
  let ?t = "record_all E rs s"
  have t: "record_of (zs_object ?t) = record_of (zs_object s)" "zs_originReplicas ?t = zs_originReplicas s"
    using records_kept [OF assms, of stored E rs] stored by simp_all
  then have "houmao_ok (zs_object ?t)" using assms by (simp add: houmao_ok_record)
  from updateStatus_eq [OF this, of E r] show "let t = ?t in updateStatus E r t =
        (case json_record (next_record (zs_originReplicas s) r (record_of (zs_object s))) of
           Done patch \<Rightarrow> (case e_patchHoumao E (zs_object t) patch (zs_world t) of
             (Inl e, w) \<Rightarrow> (Fail e, t\<lparr>zs_world := w\<rparr>)
           | (Inr h, w) \<Rightarrow> (Done (), t\<lparr>zs_world := w, zs_object := h\<rparr>))
         | Fail e \<Rightarrow> (Fail e, t)
         | Panic p \<Rightarrow> (Panic p, t))"
    by (simp only: t Let_def)
qed (rule updateStatus_eq [OF assms])

text \<open>A concrete state.\<close>

definition start_state :: "'w \<Rightarrow> houmao \<Rightarrow> 'w zstate" where
  "start_state w h = \<lparr>zs_world = w, zs_originReplicas = 0, zs_houmaoObject = zero_houmao,
     zs_recommendationRecords = [], zs_scaleUpEvents = [], zs_scaleDownEvents = [], zs_object = h\<rparr>"

text \<open>A result with a given count, and the record of three past ones in a fresh object.\<close>

definition result_of :: "i32 \<Rightarrow> zaohua_result" where
  "result_of n = zero_result\<lparr>zr_desiredReplicas := n\<rparr>"

definition recorded_houmao :: houmao where
  "recorded_houmao = zero_houmao\<lparr>hm_status := zero_status\<lparr>hst_zaohuaRecord := zero_record\<lparr>zrec_current := result_of 3,
     zrec_last5 := [zero_result, zero_result, zero_result, result_of 1, result_of 2]\<rparr>\<rparr>\<rparr>"

lemma json_result_of: "\<exists>j. json_result (result_of n) = Done j"
  by (simp add: json_result_def json_time_def result_of_def zero_result_def zero_time_def nanos_per_day_def)

lemma next_recorded_json: "\<exists>j. json_record (next_record n (result_of 9) (record_of recorded_houmao)) = Done j"
proof -
  obtain js where js: "\<And>n. json_result (result_of n) = Done (js n)" using json_result_of by metis
  have "json_result zero_result = Done (js 0)" using js [of 0] by (simp add: result_of_def zero_result_def)
  then show ?thesis
    by (simp add: next_record_def record_of_def recorded_houmao_def zero_houmao_def zero_status_def zero_record_def
        json_record_def js)
qed

text \<open>
  A server that holds this object. After the counts 4 and 5 have been recorded on it, the record of
  9 is sent as if they had not been.
\<close>

definition recorded_env :: "unit env" where
  "recorded_env = (quiet_env 0)\<lparr>e_patchHoumao := \<lambda>h j w. (Inr recorded_houmao, w)\<rparr>"

theorem record_sent_witness:
  "\<exists>t. record_all recorded_env [result_of 4, result_of 5] (start_state () recorded_houmao) = t \<and>
     updateStatus recorded_env (result_of 9) t = (Done (), t) \<and>
     zrec_last5 (next_record (zs_originReplicas t) (result_of 9) (record_of (zs_object t))) =
       [zero_result, zero_result, result_of 1, result_of 2, result_of 3]"
proof -
  let ?s = "start_state () recorded_houmao" and ?stored = "\<lambda>w :: unit. record_of recorded_houmao"
  let ?t = "record_all recorded_env [result_of 4, result_of 5] ?s"
  have start: "zs_object ?s = recorded_houmao" by (simp add: start_state_def)
  have ok: "houmao_ok (zs_object ?s)"
    by (simp add: start_state_def houmao_ok_def recorded_houmao_def zero_houmao_def zero_status_def zero_record_def)
  have stored: "status_by_name ?stored recorded_env" by (simp add: status_by_name_def recorded_env_def)
  have obj: "zs_object (snd (updateStatus recorded_env r s)) = recorded_houmao" if "zs_object s = recorded_houmao" for r s
    using updateStatus_eq [of s recorded_env r] ok start that by (simp add: recorded_env_def split: outcome.splits)
  then have t: "zs_object ?t = recorded_houmao" by (simp add: start)
  obtain j where j: "json_record (next_record (zs_originReplicas ?s) (result_of 9) (record_of recorded_houmao)) = Done j"
    using next_recorded_json by blast
  have "updateStatus recorded_env (result_of 9) ?t = (Done (), ?t\<lparr>zs_object := recorded_houmao\<rparr>)"
    using record_sent [OF ok, of recorded_env "result_of 9" ?stored "[result_of 4, result_of 5]"] stored j start
    by (simp add: recorded_env_def Let_def del: record_all.simps)
  moreover have "?t\<lparr>zs_object := recorded_houmao\<rparr> = ?t" using t by (simp del: record_all.simps)
  ultimately show ?thesis
    using t by (simp add: next_record_def record_of_def recorded_houmao_def zero_houmao_def zero_status_def del: record_all.simps)
qed

section \<open>Rounds that send nothing\<close>

lemma detect_eq:
  assumes "zs_object s \<noteq> zero_houmao"
    and "ParseGroupVersion (ref_apiVersion (hs_scaleTargetRef (hm_spec (zs_object s)))) = Done gv"
    and "getScaleForTarget E (ref_name (hs_scaleTargetRef (hm_spec (zs_object s))))
      (om_namespace (hm_meta (zs_object s))) (zs_world s) = (Done sc, w1)"
    and "calculate E c (zs_object s) sc w1 = (r, w2)"
  defines "s2 \<equiv> s\<lparr>zs_originReplicas := sc_specReplicas sc, zs_world := w2\<rparr>"
  shows "detectAndScale E c s = (case r of
      Panic p \<Rightarrow> (Panic p, s2)
    | Fail e \<Rightarrow> (Done Finished, s2)
    | Done el \<Rightarrow>
        if el_desiredReplicas el = sc_specReplicas sc then (Done Finished, s2)
        else bnd (handle (execScale E (el_desiredReplicas el) sc (hs_behavor (hm_spec (zs_object s))))
            (\<lambda>err. ret 0) ret) (\<lambda>desiredReplicas.
          bnd (on_world (now E)) (\<lambda>t.
          bnd (updateStatus E \<lparr>zr_timestamp = t, zr_currentReplicas = sc_specReplicas sc,
             zr_desiredReplicas = desiredReplicas,
             zr_metricsElection = \<lparr>mst_isScaled = True, mst_scaledReplicas = desiredReplicas - sc_specReplicas sc,
               mst_metricIndex = el_metricIndex el, mst_metricType = el_metricType el,
               mst_metricName = el_metricName el\<rparr>\<rparr>) (\<lambda>_. ret Finished))) s2)"
proof (cases r)
  case (Done el)
  then show ?thesis
    using assms(1-4) unfolding s2_def detectAndScale_def
    by (simp add: DeepEqual_def bnd_def [of "reads _"] handle_def [of "on_world _"] state_apply
        bnd_def [of "on_world (getScaleForTarget _ _ _)"] bnd_def [of "writes _"] Let_def syncService_def io_apply(1))
qed (use assms(1-4) in \<open>simp_all add: s2_def detectAndScale_def DeepEqual_def go_simps Let_def\<close>)

lemma detect_early:
  fixes E :: "'w env" and s :: "'w zstate"
  assumes "zs_object s \<noteq> zero_houmao"
  defines "gv \<equiv> ParseGroupVersion (ref_apiVersion (hs_scaleTargetRef (hm_spec (zs_object s))))"
    and "get \<equiv> getScaleForTarget E (ref_name (hs_scaleTargetRef (hm_spec (zs_object s))))
      (om_namespace (hm_meta (zs_object s))) (zs_world s)"
  shows "gv = Fail e \<Longrightarrow> detectAndScale E c s = (Fail e, s)"
    and "gv = Done g \<Longrightarrow> get = (Fail e, w) \<Longrightarrow> detectAndScale E c s = (Fail e, s\<lparr>zs_world := w\<rparr>)"
  using assms by (simp_all add: detectAndScale_def DeepEqual_def go_simps Let_def)

lemma targets_no_panic:
  "ParseGroupVersion v \<noteq> Panic p"
  "getScaleForTarget E name ns w \<noteq> (Panic p, w')"
  by (auto simp: ParseGroupVersion_def getScaleForTarget_def go_simps split: prod.splits sum.splits)

text \<open>
  A round whose calculation fails, or returns the count that the scale already specifies,
  ends without an error and changes nothing but the recorded original count and the world that
  answered the calls; the failure is not reported.
\<close>

lemma round_unchanged:
  assumes "zs_object s \<noteq> zero_houmao"
    and "ParseGroupVersion (ref_apiVersion (hs_scaleTargetRef (hm_spec (zs_object s)))) = Done gv"
    and "getScaleForTarget E (ref_name (hs_scaleTargetRef (hm_spec (zs_object s))))
      (om_namespace (hm_meta (zs_object s))) (zs_world s) = (Done sc, wa)"
    and "calculate E c (zs_object s) sc wa = (r, wb)"
    and "case r of Done el \<Rightarrow> el_desiredReplicas el = sc_specReplicas sc | Fail e \<Rightarrow> True | Panic p \<Rightarrow> False"
  shows "detectAndScale E c s =
    (Done Finished, s\<lparr>zs_originReplicas := sc_specReplicas sc, zs_world := wb\<rparr>)"
  using detect_eq [OF assms(1-4)] assms(5) by (cases r) simp_all

section \<open>The bounds of what is sent\<close>

lemma calculate_at_least:
  assumes "calculate E c h sc w = (Done el, w')"
  shows "min (sint (sc_statusReplicas sc)) (sint (hs_maxReplicas (hm_spec h))) \<le> sint (el_desiredReplicas el)"
proof -
  obtain r where "sint (el_desiredReplicas el) =
      (case hs_minReplicas (hm_spec h) of None \<Rightarrow> sint (hs_maxReplicas (hm_spec h))
       | Some m \<Rightarrow> clamp (sint m) (sint (hs_maxReplicas (hm_spec h))) r)" "sint (sc_statusReplicas sc) \<le> r"
    using calculate_count [OF assms] greatest_ge by (auto simp: Let_def)
  then show ?thesis by (auto simp: clamp_def split: option.splits)
qed

lemma calculate_at_most:
  assumes "calculate E c h sc w = (Done el, w')"
    and "\<And>m. hs_minReplicas (hm_spec h) = Some m \<Longrightarrow> sint m \<le> sint (hs_maxReplicas (hm_spec h))"
  shows "sint (el_desiredReplicas el) \<le> sint (hs_maxReplicas (hm_spec h))"
proof -
  obtain r where "sint (el_desiredReplicas el) =
      (case hs_minReplicas (hm_spec h) of None \<Rightarrow> sint (hs_maxReplicas (hm_spec h))
       | Some m \<Rightarrow> clamp (sint m) (sint (hs_maxReplicas (hm_spec h))) r)"
    using calculate_count [OF assms(1)] by (auto simp: Let_def)
  then show ?thesis using assms(2) by (auto simp: clamp_def split: option.splits)
qed

text \<open>A round does not depend on the answers to updates with counts outside its bounds.\<close>

lemma round_within_limits:
  assumes "\<And>k w sc w'. e_getScale E k w = (Inr sc, w') \<Longrightarrow> lo \<le> sint (sc_statusReplicas sc)"
    and "lo \<le> sint (hs_maxReplicas (hm_spec (zs_object s)))"
    and "\<And>m. hs_minReplicas (hm_spec (zs_object s)) = Some m \<Longrightarrow> sint m \<le> sint (hs_maxReplicas (hm_spec (zs_object s)))"
    and "\<And>sc w. lo \<le> sint (sc_specReplicas sc) \<Longrightarrow>
      sint (sc_specReplicas sc) \<le> sint (hs_maxReplicas (hm_spec (zs_object s))) \<Longrightarrow> u sc w = e_updateScale E sc w"
  shows "detectAndScale (E\<lparr>e_updateScale := u\<rparr>) c s = detectAndScale E c s"
proof (cases "zs_object s = zero_houmao")
  case False
  let ?spec = "hm_spec (zs_object s)"
  let ?gv = "ParseGroupVersion (ref_apiVersion (hs_scaleTargetRef ?spec))"
  let ?get = "getScaleForTarget E (ref_name (hs_scaleTargetRef ?spec)) (om_namespace (hm_meta (zs_object s)))"
  have frame: "on_world (now (with_updates u E)) = on_world (now E)" by (simp only: frame_now)
  show ?thesis
  proof (cases ?gv)
    case gv: (Done gv)
    obtain r w1 where get: "?get (zs_world s) = (r, w1)" by (cases "?get (zs_world s)")
    show ?thesis
    proof (cases r)
      case (Done sc)
      obtain q w2 where calc: "calculate E c (zs_object s) sc w1 = (q, w2)"
        by (cases "calculate E c (zs_object s) sc w1")
      have "lo \<le> sint (sc_statusReplicas sc)"
        using assms(1) get Done by (auto simp: getScaleForTarget_def go_simps split: prod.splits sum.splits)
      then have exec: "execScale (with_updates u E) (el_desiredReplicas el) sc b = execScale E (el_desiredReplicas el) sc b"
        if "q = Done el" for el b
        using that calc calculate_at_least [of E c "zs_object s" sc w1 el w2]
          calculate_at_most [of E c "zs_object s" sc w1 el w2] assms(2-4)
        by (intro exec_one_update) auto
      show ?thesis
        using detect_eq [OF False gv, of E sc w1 c q w2] detect_eq [OF False gv, of "with_updates u E" sc w1 c q w2]
          get calc Done exec
        by (cases q) (simp_all only: frame_getScale frame_calculate frame_updateStatus frame outcome.simps)
    next
      case (Fail e)
      then show ?thesis
        using detect_early(2) [OF False gv, of E e w1 c] detect_early(2) [OF False gv, of "with_updates u E" e w1 c] get
        by (simp only: frame_getScale)
    qed (use get targets_no_panic in metis)
  next
    case (Fail e)
    then show ?thesis using detect_early(1) [OF False] by simp
  qed (use targets_no_panic in metis)
qed (simp add: detectAndScale_def DeepEqual_def go_simps)

text \<open>The round of the concrete run: the scale is updated to 3, and the missing rules end the process.\<close>

lemma grow_round:
  "detectAndScale grow_env default_handle (start_state [] grow_houmao) = (Panic NilDereference,
     (start_state [] grow_houmao)\<lparr>zs_originReplicas := 2, zs_world := [SentScale (grow_scale\<lparr>sc_specReplicas := 3\<rparr>)]\<rparr>)"
proof -
  let ?s = "start_state [] grow_houmao"
  have o1: "zs_object ?s = grow_houmao" "zs_world ?s = []" by (simp_all add: start_state_def)
  have h: "zs_object ?s \<noteq> zero_houmao" unfolding o1 by (simp add: grow_houmao_def zero_houmao_def zero_spec_def)
  have gv: "ParseGroupVersion (ref_apiVersion (hs_scaleTargetRef (hm_spec (zs_object ?s)))) = Done ([], [])"
    unfolding o1 by (simp add: grow_houmao_def zero_spec_def zero_ref_def ParseGroupVersion_def)
  have g: "getScaleForTarget grow_env name ns (zs_world ?s) = (Done grow_scale, [])" for name ns
    unfolding o1 by (simp add: getScaleForTarget_def grow_env_def go_simps)
  have b: "hs_behavor (hm_spec (zs_object ?s)) = \<lparr>hb_scaleUp = None, hb_scaleDown = None\<rparr>"
    unfolding o1 by (simp add: grow_houmao_def zero_spec_def)
  have "execScale grow_env 3 grow_scale \<lparr>hb_scaleUp = None, hb_scaleDown = None\<rparr> s' =
      (Panic NilDereference, s'\<lparr>zs_world := zs_world s' @ [SentScale (grow_scale\<lparr>sc_specReplicas := 3\<rparr>)]\<rparr>)" for s'
    by (simp add: execScale_send both_directions_def send_scale_def grow_env_def go_simps
        storageScaleEvent_def getLongestPolicyPeriod_def grow_scale_def)
  then show ?thesis
    using detect_eq [OF h gv g, of default_handle "Done \<lparr>el_desiredReplicas = 3, el_metricIndex = 0,
        el_metricType = ExternalMetricSourceType, el_metricName = ''qps''\<rparr>" "[]"]
      grow_calculate [of default_handle "[]"] b
    unfolding o1 by (simp add: grow_scale_def go_simps)
qed

end
