(* ===== verification/System_Facts.thy ===== *)
theory System_Facts
  imports Loop_Facts Round_Facts
begin

text \<open>
  The loop as a system: the types of the objects it holds are preserved, so that recording a result
  never runs past the end of its array; the loop ends once the context is done; and the counts that
  a run sends lie within bounds that its specifications set.
\<close>

section \<open>Types\<close>

text \<open>
  An array of five results has five elements. The clients of the API server decode an answer into
  an object of the type \<open>Houmao\<close>, so it has an array of this length.
\<close>

definition decodes_houmao :: "'w env \<Rightarrow> bool" where
  "decodes_houmao E \<longleftrightarrow>
     (\<forall>k w h w'. e_getHoumao E k w = (Inr h, w') \<longrightarrow> houmao_ok h) \<and>
     (\<forall>h j w h' w'. e_patchHoumao E h j w = (Inr h', w') \<longrightarrow> houmao_ok h \<longrightarrow> houmao_ok h')"

definition system_ok :: "'w system \<Rightarrow> bool" where
  "system_ok s \<longleftrightarrow> houmao_ok (zs_object (sy_state s)) \<and> houmao_ok (zs_houmaoObject (sy_state s)) \<and>
     (case sy_controller s of C_WriteSpec h \<Rightarrow> houmao_ok h | C_WriteStatus h \<Rightarrow> houmao_ok h | _ \<Rightarrow> True)"

lemma object_type_kept:
  "decodes_houmao E \<Longrightarrow> kept (\<lambda>s. houmao_ok (zs_object s) \<and> houmao_ok (zs_houmaoObject s)) E"
proof (unfold_locales, goal_cases)
  case (6 s j w h w')
  then show ?case unfolding decodes_houmao_def by (simp, metis)
qed simp_all

lemma houmao_ok_parts [simp]:
  "houmao_ok (x\<lparr>hm_spec := sp\<rparr>) \<longleftrightarrow> houmao_ok x"
  "houmao_ok (x\<lparr>hm_status := hm_status h\<rparr>) \<longleftrightarrow> houmao_ok h"
  by (simp_all add: houmao_ok_def)

lemma system_ok_step:
  assumes "decodes_houmao E" "system_step E c mode s t" "system_ok s"
  shows "system_ok t"
  using assms(2)
proof (cases rule: system_step.cases)
  case loop
  note round = kept.round_keeps [OF object_type_kept [OF assms(1)], of c mode "sy_state s"]
  from loop show ?thesis
    using assms(3) by (cases rule: loop_step.cases)
      (auto dest: round simp: system_ok_def copy_defs split: controller_pc.splits)
next
  case other
  then show ?thesis
  proof (cases rule: other_step.cases)
    case (reconcile key)
    then show ?thesis using assms(1,3)
      by (cases E key s rule: reconcile_cases) (auto simp: system_ok_def decodes_houmao_def)
  qed (use assms(3) in \<open>auto simp: system_ok_def reload_defs\<close>)
qed

lemma update_no_panic: "houmao_ok (zs_object s) \<Longrightarrow> \<not> panics (fst (updateStatus E r s))"
  using json_record_no_panic [of "next_record (zs_originReplicas s) r (record_of (zs_object s))"]
  by (auto simp: updateStatus_eq split: outcome.splits prod.splits sum.splits)

section \<open>Termination\<close>

text \<open>
  How many steps the loop takes at most once the context is done, unless a further restart is sent:
  a pending restart is received at most once, and each \<open>select\<close> without one stops the loop.
\<close>

definition steps_left :: "'w system \<Rightarrow> nat" where
  "steps_left s = (if sy_sending s
     then (case sy_pc s of L_Reload \<Rightarrow> 8 | L_CopyStatus h \<Rightarrow> 7 | L_Round \<Rightarrow> 6 | L_Select \<Rightarrow> 5 | L_Waiting \<Rightarrow> 2 | _ \<Rightarrow> 0)
     else (case sy_pc s of L_Reload \<Rightarrow> 4 | L_CopyStatus h \<Rightarrow> 3 | L_Round \<Rightarrow> 2 | L_Select \<Rightarrow> 1 | _ \<Rightarrow> 0))"

lemma steps_left_decreases:
  assumes "loop_step E c mode s t" "sy_done s"
  shows "steps_left t < steps_left s" "sy_done t"
  using assms by (cases rule: loop_step.cases; simp add: steps_left_def)+

lemma steps_left_bound: "steps_left s \<le> 8"
  by (simp add: steps_left_def split: loop_pc.split)

text \<open>
  A run in which the steps of the loop and the sends of the controller are counted: the second
  count grows with the step after which a restart is pending that was not before.
\<close>

inductive counted_run ::
  "'w env \<Rightarrow> calculate_handle \<Rightarrow> string \<Rightarrow> 'w system \<Rightarrow> nat \<Rightarrow> nat \<Rightarrow> 'w system \<Rightarrow> bool" for E c mode s where
  nothing: "counted_run E c mode s 0 0 s"
| loop: "counted_run E c mode s n k t \<Longrightarrow> loop_step E c mode t u \<Longrightarrow> counted_run E c mode s (Suc n) k u"
| other: "counted_run E c mode s n k t \<Longrightarrow> other_step E t u \<Longrightarrow>
    counted_run E c mode s n (if sy_sending u \<and> \<not> sy_sending t then Suc k else k) u"

text \<open>Every run has its counts.\<close>

lemma runs_counted: "runs E c mode s t \<longleftrightarrow> (\<exists>n k. counted_run E c mode s n k t)"
proof
  show "runs E c mode s t \<Longrightarrow> \<exists>n k. counted_run E c mode s n k t"
    by (induction rule: runs.induct) (auto elim!: system_stepE intro: counted_run.intros)
  have "counted_run E c mode s n k t \<Longrightarrow> runs E c mode s t" for n k
    by (induction rule: counted_run.induct) (auto intro: runs.intros system_step.intros)
  then show "(\<exists>n k. counted_run E c mode s n k t) \<Longrightarrow> runs E c mode s t" by blast
qed

lemma steps_left_other:
  assumes "other_step E s t" "sy_done s"
  shows "steps_left t \<le> steps_left s + (if sy_sending t \<and> \<not> sy_sending s then 4 else 0) \<and> sy_done t"
  using assms
proof (cases rule: other_step.cases)
  case (reconcile key)
  then show ?thesis
    using assms(2) by (cases E key s rule: reconcile_cases) (simp_all add: steps_left_def)
qed (simp_all add: steps_left_def split: loop_pc.split)

lemma steps_counted:
  "counted_run E c mode s n k t \<Longrightarrow> sy_done s \<Longrightarrow> n + steps_left t \<le> steps_left s + 4 * k \<and> sy_done t"
proof (induction rule: counted_run.induct)
  case (loop n k t u)
  then show ?case using steps_left_decreases [OF loop(2)] by auto
next
  case (other n k t u)
  then show ?case using steps_left_other [OF other(2)] by auto
qed simp

text \<open>A loop is never stuck before it has ended, but for the wait for a restart.\<close>

lemma loop_progress:
  assumes "sy_pc s \<notin> {L_Stopped, L_Crashed}" "sy_pc s = L_Waiting \<Longrightarrow> sy_sending s"
  shows "\<exists>t. loop_step E c mode s t"
proof (cases "sy_pc s")
  case L_Round
  obtain r st where r: "scale_round E c mode (sy_state s) = (r, st)" by (cases "scale_round E c mode (sy_state s)")
  show ?thesis
  proof (cases r)
    case (Done e)
    then show ?thesis
      using L_Round r loop_step.round_done loop_step.round_waits by (cases e) blast+
  qed (use L_Round r loop_step.round_failed loop_step.round_panics in blast)+
next
  case L_Select
  then show ?thesis using loop_step.select_stops loop_step.select_receives loop_step.select_default by blast
next
  case L_Waiting
  then show ?thesis using assms(2) loop_step.wait_receives by blast
next
  case L_Reload
  then show ?thesis using loop_step.copy_spec by blast
next
  case L_CopyStatus
  then show ?thesis using loop_step.copy_status by blast
qed (use assms in simp_all)

text \<open>
  C22: once the context is done, the loop takes at most eight more steps, and four more for each
  restart that the controller sends meanwhile (the \<open>select\<close> may prefer the restart to the end of the
  context), whatever its rounds do and however its steps interleave with the others. When it can
  take no more it has returned, has panicked, or is inside a round that waits for a restart, which
  the end of the context does not interrupt.
\<close>

theorem done_stops:
  assumes "sy_done s" "counted_run E c mode s n k t"
  shows "n \<le> 8 + 4 * k \<and> ((\<nexists>u. loop_step E c mode t u) \<longleftrightarrow>
    sy_pc t \<in> {L_Stopped, L_Crashed} \<or> sy_pc t = L_Waiting \<and> \<not> sy_sending t)"
proof -
  have "n \<le> 8 + 4 * k" using steps_counted [OF assms(2,1)] steps_left_bound [of s] by simp
  moreover have "\<nexists>u. loop_step E c mode t u"
    if "sy_pc t \<in> {L_Stopped, L_Crashed} \<or> sy_pc t = L_Waiting \<and> \<not> sy_sending t"
    using that by (auto elim: loop_step.cases)
  ultimately show ?thesis using loop_progress [of t E c mode] by blast
qed

text \<open>A restart whose send comes after the end of the context, and a \<open>select\<close> that stops all the same.\<close>

theorem done_stops_witness:
  "\<nexists>u. loop_step demo_env default_handle []
     (demo_select\<lparr>sy_done := True, sy_state := reload_status grow_houmao (sy_state demo_select),
        sy_controller := C_Sending, sy_pc := L_Stopped\<rparr>) u"
proof -
  let ?s = "demo_select\<lparr>sy_done := True, sy_controller := C_WriteStatus grow_houmao\<rparr>"
  let ?t = "?s\<lparr>sy_state := reload_status grow_houmao (sy_state ?s), sy_controller := C_Sending\<rparr>"
  have "other_step demo_env ?s ?t"
    by (rule other_step.write_status) (simp_all add: demo_select_def)
  then have "counted_run demo_env default_handle [] ?s 0 1 ?t"
    using counted_run.other [OF counted_run.nothing, of demo_env ?s ?t default_handle "[]"] by simp
  moreover have "loop_step demo_env default_handle [] ?t (?t\<lparr>sy_pc := L_Stopped\<rparr>)"
    by (rule loop_step.select_stops) (simp_all add: demo_select_def)
  ultimately have "counted_run demo_env default_handle [] ?s (Suc 0) 1 (?t\<lparr>sy_pc := L_Stopped\<rparr>)"
    by (rule counted_run.loop)
  from done_stops [OF _ this] show ?thesis by simp
qed

section \<open>The specifications that a run uses\<close>

text \<open>
  An object whose specification satisfies a predicate, or the empty object, on which no round
  scales; and a server that only answers with specifications that satisfy it, and to a patch when
  the object sent does.
\<close>

definition houmao_with :: "(houmao_spec \<Rightarrow> bool) \<Rightarrow> houmao \<Rightarrow> bool" where
  "houmao_with P h \<longleftrightarrow> h = zero_houmao \<or> P (hm_spec h)"

definition answers_with :: "(houmao_spec \<Rightarrow> bool) \<Rightarrow> 'w env \<Rightarrow> bool" where
  "answers_with P E \<longleftrightarrow>
     (\<forall>k w h w'. e_getHoumao E k w = (Inr h, w') \<longrightarrow> P (hm_spec h)) \<and>
     (\<forall>h j w h' w'. e_patchHoumao E h j w = (Inr h', w') \<longrightarrow> houmao_with P h \<longrightarrow> houmao_with P h')"

lemma answers_withD:
  assumes "answers_with P E"
  shows "e_getHoumao E k w = (Inr h, w') \<Longrightarrow> P (hm_spec h)"
    and "e_patchHoumao E h0 j w = (Inr h, w') \<Longrightarrow> houmao_with P h0 \<Longrightarrow> houmao_with P h"
  using assms unfolding answers_with_def by blast+

text \<open>
  What a restart carries and what the loop copies after it are specifications of the server: the
  empty object is only there before the first restart.
\<close>

definition system_with :: "(houmao_spec \<Rightarrow> bool) \<Rightarrow> 'w system \<Rightarrow> bool" where
  "system_with P s \<longleftrightarrow>
     (let shared = zs_houmaoObject (sy_state s) in
      houmao_with P (zs_object (sy_state s)) \<and>
      (case sy_controller s of
         C_Idle \<Rightarrow> True
       | C_WriteSpec h \<Rightarrow> P (hm_spec h)
       | _ \<Rightarrow> P (hm_spec shared)) \<and>
      (case sy_pc s of
         L_Reload \<Rightarrow> P (hm_spec shared)
       | L_CopyStatus out \<Rightarrow> P (hm_spec out)
       | _ \<Rightarrow> True))"

lemma system_with_object: "system_with P s \<Longrightarrow> houmao_with P (zs_object (sy_state s))"
  by (simp add: system_with_def Let_def)

lemma system_with_start: "houmao_with P object \<Longrightarrow> system_with P (initial_system w object)"
  by (simp add: system_with_def initial_system_def)

lemma with_kept: "answers_with P E \<Longrightarrow> kept (\<lambda>s. houmao_with P (zs_object s)) E"
proof (unfold_locales, goal_cases)
  case (6 s j w h w')
  then show ?case by (auto dest: answers_withD)
qed simp_all

lemma system_with_step:
  assumes "answers_with P E" "system_step E c mode s t" "system_with P s"
  shows "system_with P t"
  using assms(2)
proof (cases rule: system_step.cases)
  case loop
  note round = kept.round_keeps [OF with_kept [OF assms(1)], of c mode "sy_state s"]
  from loop show ?thesis
    using assms(3) by (cases rule: loop_step.cases)
      (auto dest: round round_houmaoObject simp: system_with_def Let_def copy_defs houmao_with_def split: controller_pc.splits)
next
  case other
  then show ?thesis
  proof (cases rule: other_step.cases)
    case (reconcile key)
    then show ?thesis using assms(1,3)
      by (cases E key s rule: reconcile_cases)
        (auto simp: system_with_def Let_def dest: answers_withD split: loop_pc.splits)
  qed (use assms(3) in \<open>auto simp: system_with_def Let_def reload_defs split: loop_pc.splits controller_pc.splits\<close>)
qed

section \<open>The bounds of what a run sends\<close>

text \<open>
  A specification whose upper limit lies between two bounds and whose lower limit is not above it;
  and a server with only such specifications, on which every scale reports at least the lower
  bound in its status.
\<close>

definition spec_within :: "int \<Rightarrow> int \<Rightarrow> houmao_spec \<Rightarrow> bool" where
  "spec_within lo hi spec \<longleftrightarrow>
     lo \<le> sint (hs_maxReplicas spec) \<and> sint (hs_maxReplicas spec) \<le> hi \<and>
     (case hs_minReplicas spec of None \<Rightarrow> True | Some m \<Rightarrow> sint m \<le> sint (hs_maxReplicas spec))"

definition answers_within :: "int \<Rightarrow> int \<Rightarrow> 'w env \<Rightarrow> bool" where
  "answers_within lo hi E \<longleftrightarrow> answers_with (spec_within lo hi) E \<and>
     (\<forall>k w sc w'. e_getScale E k w = (Inr sc, w') \<longrightarrow> lo \<le> sint (sc_statusReplicas sc))"

lemma answers_withinD:
  assumes "answers_within lo hi E"
  shows "answers_with (spec_within lo hi) E"
    and "e_getScale E k w = (Inr sc, w') \<Longrightarrow> lo \<le> sint (sc_statusReplicas sc)"
  using assms unfolding answers_within_def by blast+

lemma round_within:
  assumes "answers_within lo hi E" "houmao_with (spec_within lo hi) (zs_object s)"
    and "\<And>sc w. lo \<le> sint (sc_specReplicas sc) \<Longrightarrow> sint (sc_specReplicas sc) \<le> hi \<Longrightarrow> u sc w = e_updateScale E sc w"
  shows "scale_round (E\<lparr>e_updateScale := u\<rparr>) c mode s = scale_round E c mode s"
proof -
  have "detectAndScale (E\<lparr>e_updateScale := u\<rparr>) c s = detectAndScale E c s"
  proof (cases "zs_object s = zero_houmao")
    case False
    then have "spec_within lo hi (hm_spec (zs_object s))" using assms(2) by (simp add: houmao_with_def)
    then show ?thesis
      using assms(1,3) by (intro round_within_limits [where lo = lo]) (auto simp: spec_within_def dest: answers_withinD)
  qed (simp add: detectAndScale_def DeepEqual_def go_simps)
  then show ?thesis by (simp add: scale_round_def)
qed

lemma system_step_within:
  assumes "answers_within lo hi E" "system_with (spec_within lo hi) s"
    and "\<And>sc w. lo \<le> sint (sc_specReplicas sc) \<Longrightarrow> sint (sc_specReplicas sc) \<le> hi \<Longrightarrow> u sc w = e_updateScale E sc w"
  shows "system_step (E\<lparr>e_updateScale := u\<rparr>) c mode s t \<longleftrightarrow> system_step E c mode s t"
proof -
  have "scale_round (E\<lparr>e_updateScale := u\<rparr>) c mode (sy_state s) = scale_round E c mode (sy_state s)"
    using assms(1) _ assms(3) by (rule round_within) (use assms(2) in \<open>rule system_with_object\<close>)
  moreover have "Zaohua_Reconcile (E\<lparr>e_updateScale := u\<rparr>) = Zaohua_Reconcile E"
    by (simp add: fun_eq_iff Zaohua_Reconcile_def)
  ultimately show ?thesis
    by (simp add: system_step.simps loop_step.simps other_step.simps)
qed

lemma runs_within:
  assumes "answers_within lo hi E" "system_with (spec_within lo hi) s"
    and "\<And>sc w. lo \<le> sint (sc_specReplicas sc) \<Longrightarrow> sint (sc_specReplicas sc) \<le> hi \<Longrightarrow> u sc w = e_updateScale E sc w"
  shows "runs E c mode s t \<Longrightarrow> system_with (spec_within lo hi) t \<and> runs (E\<lparr>e_updateScale := u\<rparr>) c mode s t"
    and "runs (E\<lparr>e_updateScale := u\<rparr>) c mode s t \<Longrightarrow> system_with (spec_within lo hi) t \<and> runs E c mode s t"
proof -
  note same = system_step_within [OF assms(1) _ assms(3)] and step = system_with_step [OF answers_withinD(1) [OF assms(1)]]
  show "runs E c mode s t \<Longrightarrow> system_with (spec_within lo hi) t \<and> runs (E\<lparr>e_updateScale := u\<rparr>) c mode s t"
    by (induction rule: runs.induct) (auto intro: runs.intros assms(2) step simp: same)
  show "runs (E\<lparr>e_updateScale := u\<rparr>) c mode s t \<Longrightarrow> system_with (spec_within lo hi) t \<and> runs E c mode s t"
    by (induction rule: runs.induct) (auto intro: runs.intros assms(2) step simp: same)
qed

text \<open>
  C5: take bounds such that every specification of the server has a lower limit (if any) not above
  its upper limit, and an upper limit between the bounds, and every status reports at least the
  lower bound of replicas. Then no run of the loop and the reconciler, whatever restarts and changes
  of the specification it contains, ever sends a count outside the bounds: an API server that
  treats every other count differently admits exactly the same runs.
\<close>

theorem runs_send_within:
  assumes "answers_within lo hi E" "system_with (spec_within lo hi) s"
    and "\<And>sc w. lo \<le> sint (sc_specReplicas sc) \<Longrightarrow> sint (sc_specReplicas sc) \<le> hi \<Longrightarrow> u sc w = e_updateScale E sc w"
  shows "runs (E\<lparr>e_updateScale := u\<rparr>) c mode s t \<longleftrightarrow> runs E c mode s t"
  using runs_within [OF assms] by blast

text \<open>The concrete run of a round that sends the count 3, and then ends the process.\<close>

theorem runs_send_within_witness:
  "runs (grow_env\<lparr>e_updateScale := \<lambda>sc w. if 2 \<le> sint (sc_specReplicas sc) \<and> sint (sc_specReplicas sc) \<le> 10
       then (Inr sc, w @ [SentScale sc]) else (Inr sc, [])\<rparr>) default_handle [] (initial_system [] grow_houmao)
     ((initial_system [] grow_houmao)\<lparr>sy_pc := L_Crashed, sy_state := (start_state [] grow_houmao)\<lparr>zs_originReplicas := 2,
        zs_world := [SentScale (grow_scale\<lparr>sc_specReplicas := 3\<rparr>)]\<rparr>\<rparr>)"
proof -
  let ?s = "initial_system [] grow_houmao"
  have st: "sy_state ?s = start_state [] grow_houmao" by (simp add: initial_system_def start_state_def)
  have "scale_round grow_env default_handle [] (sy_state ?s) = (Panic NilDereference,
     (start_state [] grow_houmao)\<lparr>zs_originReplicas := 2, zs_world := [SentScale (grow_scale\<lparr>sc_specReplicas := 3\<rparr>)]\<rparr>)"
    by (simp only: st scale_round_def list.distinct not_Cons_self2 if_False if_True grow_round simp_thms
        if_cancel)
  then have "loop_step grow_env default_handle [] ?s (?s\<lparr>sy_state := (start_state [] grow_houmao)\<lparr>zs_originReplicas := 2,
        zs_world := [SentScale (grow_scale\<lparr>sc_specReplicas := 3\<rparr>)]\<rparr>, sy_pc := L_Crashed\<rparr>)"
    by (intro loop_step.round_panics) (simp_all add: initial_system_def)
  then have "runs grow_env default_handle [] ?s (?s\<lparr>sy_pc := L_Crashed, sy_state := (start_state [] grow_houmao)\<lparr>zs_originReplicas := 2,
        zs_world := [SentScale (grow_scale\<lparr>sc_specReplicas := 3\<rparr>)]\<rparr>\<rparr>)"
    by (intro runs.then_step [OF runs.start] system_step.loop) (simp add: initial_system_def)
  moreover have "answers_within 2 10 grow_env"
    by (simp add: answers_within_def answers_with_def grow_env_def quiet_env_def grow_scale_def)
  moreover have "system_with (spec_within 2 10) ?s"
    by (intro system_with_start) (simp add: houmao_with_def spec_within_def grow_houmao_def zero_spec_def)
  ultimately show ?thesis
    by (subst runs_send_within [where lo = 2 and hi = 10]) (auto simp: grow_env_def)
qed

end
