(* ===== verification/Calculator_Facts.thy ===== *)
theory Calculator_Facts
  imports Replica_Facts
begin

text \<open>
  The calculator of pods metrics on any pods, failed ones included: it never panics, and a
  rebalancing never moves the count against the ratio it started from.
\<close>

lemma groups_length:
  assumes "groupPods E ps metrics resource cip delay w = (Done g, w')"
  shows "length (gp_missingPods g) + length (gp_unreadyPods g) \<le> length ps"
proof -
  have g: "groups_of metrics resource ps g" using assms by (rule groupPods_spec)
  have disj: "set (gp_missingPods g) \<inter> set (gp_unreadyPods g) = {}" "distinct (gp_missingPods g)" "distinct (gp_unreadyPods g)"
    using g by (auto simp: groups_of_def)
  have "set (gp_missingPods g) \<union> set (gp_unreadyPods g) \<subseteq> pod_name ` set ps"
    using g by (auto simp: groups_of_def)
  then have "card (set (gp_missingPods g) \<union> set (gp_unreadyPods g)) \<le> card (pod_name ` set ps)"
    by (rule card_mono [OF finite_imageI [OF finite_set]])
  also have "\<dots> \<le> length ps" by (metis card_image_le card_length finite_set le_trans)
  finally show ?thesis using disj by (simp add: card_Un_disjoint distinct_card)
qed

text \<open>The rebalanced metrics have an entry, and not more than the metrics and the pods together.\<close>

lemma rebalanced_length:
  assumes "groupPods E ps metrics resource cip delay w = (Done g, w')" "ms \<noteq> []" "length ms + length ps < 2 ^ 63"
  shows "zero_unready b (gp_unreadyPods g) (fill_missing r t (gp_missingPods g) ms) \<noteq> []"
    and "length (zero_unready b (gp_unreadyPods g) (fill_missing r t (gp_missingPods g) ms)) < 2 ^ 63"
proof -
  let ?ms = "zero_unready b (gp_unreadyPods g) (fill_missing r t (gp_missingPods g) ms)"
  show "?ms \<noteq> []" using assms(2) by (simp add: zero_unready_not_Nil fill_missing_Nil)
  show "length ?ms < 2 ^ 63"
    using zero_unready_length [of b "gp_unreadyPods g" "fill_missing r t (gp_missingPods g) ms"]
      fill_missing_length [of r t "gp_missingPods g" ms] groups_length [OF assms(1)] assms(3) by linarith
qed

lemma outcome_Done: "\<not> panics m \<Longrightarrow> (\<And>e. m \<noteq> Fail e) \<Longrightarrow> \<exists>a. m = Done a"
  by (cases m) auto

lemma settle_Done:
  assumes "ms \<noteq> []" "length ms < 2 ^ 63" "target \<noteq> 0" "F_Zero False \<le> tol"
  shows "\<exists>n fl. settle oor tol r ms target cur = Done (n, fl) \<and>
    (r < 1 \<longrightarrow> sint n \<le> sint cur) \<and> (1 < r \<longrightarrow> sint cur \<le> sint n)"
proof -
  have "\<not> panics (settle oor tol r ms target cur)" using assms(1,2) by (simp add: settle_panics_iff)
  moreover have "settle oor tol r ms target cur \<noteq> Fail e" for e
    by (auto simp: settle_def obind_eq_Fail GetMetricUtilizationRatio_def div64_def Let_def split: prod.splits if_splits)
  ultimately obtain n fl where "settle oor tol r ms target cur = Done (n, fl)"
    by (metis outcome_Done prod.exhaust)
  then show ?thesis using settle_direction [OF _ assms(3,4)] by blast
qed

lemma metric_ratio_Done:
  assumes "ms \<noteq> []" "length ms < 2 ^ 63"
  obtains r u where "GetMetricUtilizationRatio ms target = Done (r, u)"
proof -
  have "\<not> panics (GetMetricUtilizationRatio ms target)" using assms by (simp add: metric_ratio_panics_iff)
  moreover have "GetMetricUtilizationRatio ms target \<noteq> Fail e" for e
    by (auto simp: obind_eq_Fail GetMetricUtilizationRatio_def div64_def Let_def split: if_splits)
  ultimately show thesis using that by (metis outcome_Done prod.exhaust)
qed


text \<open>A workload whose only pod has failed while its metric is at twice the target.\<close>

definition failed_pod :: pod where
  "failed_pod = \<lparr>pod_name = ''p'', pod_deletionTimestamp = None, pod_phase = PodFailed,
     pod_conditions = [], pod_startTime = None, pod_containers = []\<rparr>"

definition failed_env :: "unit env" where
  "failed_env = (quiet_env 1000)\<lparr>e_listPods := \<lambda>_ _ w. (Inr [failed_pod], w)\<rparr>"

definition failed_handle :: calculate_handle where
  "failed_handle = NewCalculateHandle 300 30 300 0"


end
