(* ===== verification/Panic_Freedom.thy ===== *)
theory Panic_Freedom
  imports Calculator_Facts Zaohua
begin

text \<open>
  The calculation of a count never panics on a complete specification: one whose metrics have the
  sources and targets that the code reads through pointers, and whose pods metrics select with a
  selector that parses. What completeness asks of an external and of a pods metric is more than
  the API does.
\<close>

section \<open>Computations without a panic\<close>

definition never_panics :: "('s, 'a) io \<Rightarrow> bool" where
  "never_panics m \<longleftrightarrow> (\<forall>s. \<not> panics (fst (m s)))"

named_theorems panic_free \<open>computations that never panic\<close>

lemma never_panics_basic [panic_free]:
  "never_panics (ret a)"
  "never_panics (call op)"
  by (auto simp: never_panics_def go_simps split: prod.splits sum.splits)

lemma never_panics_lift [simp]: "never_panics (lift_outcome r) \<longleftrightarrow> \<not> panics r"
  by (simp add: never_panics_def go_simps)

lemma never_panics_bnd:
  assumes "never_panics m" "\<And>a s s'. m s = (Done a, s') \<Longrightarrow> never_panics (k a)"
  shows "never_panics (bnd m k)"
proof -
  have "\<not> panics (fst (bnd m k s))" for s
  proof (cases "m s")
    case (Pair r s')
    then show ?thesis
      using assms(1) assms(2) [of s _ s'] unfolding never_panics_def
      by (cases r) (auto simp: go_simps dest: spec [of _ s])
  qed
  then show ?thesis by (simp add: never_panics_def)
qed

lemma never_panics_handle:
  assumes "never_panics m" "\<And>e. never_panics (h e)" "\<And>a s s'. m s = (Done a, s') \<Longrightarrow> never_panics (k a)"
  shows "never_panics (handle m h k)"
proof -
  have "\<not> panics (fst (handle m h k s))" for s
  proof (cases "m s")
    case (Pair r s')
    then show ?thesis
      using assms(1,2) assms(3) [of s _ s'] unfolding never_panics_def
      by (cases r) (auto simp: go_simps dest: spec [of _ s])
  qed
  then show ?thesis by (simp add: never_panics_def)
qed

lemma never_panics_if: "(b \<Longrightarrow> never_panics m) \<Longrightarrow> (\<not> b \<Longrightarrow> never_panics k) \<Longrightarrow> never_panics (if b then m else k)"
  by simp

lemma never_panics_prod: "(\<And>a b. x = (a, b) \<Longrightarrow> never_panics (q a b)) \<Longrightarrow> never_panics (case x of (a, b) \<Rightarrow> q a b)"
  by (cases x) simp

lemma lib_result_no_panic [simp]: "\<not> panics (lib_result r)"
  by (cases r) (simp_all add: lib_result_def)

lemmas never_panics_intros = never_panics_bnd never_panics_handle never_panics_if never_panics_prod

section \<open>The metrics clients\<close>

lemma clients_panic_free [panic_free]:
  "never_panics (GetResouceMetric E r ns sel n)"
  "never_panics (GetRawMetric E name ns sel (Some labels))"
  "never_panics (GetObjectMetric E name ns ref sel)"
  "never_panics (GetExternalMetric E name ns sel)"
  using GetResouceMetric_no_panic [of E r ns sel n]
  by (auto simp: never_panics_def GetRawMetric_def GetForObjects_def GetObjectMetric_def GetExternalMetric_def go_simps
      split: prod.splits sum.splits list.splits)

text \<open>
  A server never answers with more than \<open>2 ^ 62\<close> items, so the number of entries of a map of
  metrics, with those that are filled in, fits an \<open>int64\<close>.
\<close>

definition small_answers :: "'w env \<Rightarrow> bool" where
  "small_answers E \<longleftrightarrow>
     (\<forall>ns sel w xs w'. e_listPods E ns sel w = (Inr xs, w') \<longrightarrow> length xs < 2 ^ 62) \<and>
     (\<forall>ns sel w xs w'. e_podMetricses E ns sel w = (Inr xs, w') \<longrightarrow> length xs < 2 ^ 62) \<and>
     (\<forall>resource ns sel name labels w xs w'. e_podsCustom E resource ns sel name labels w = (Inr xs, w') \<longrightarrow> length xs < 2 ^ 62)"

lemma small_answersD:
  assumes "small_answers E"
  shows "e_listPods E ns sel w = (Inr ps, w') \<Longrightarrow> length ps < 2 ^ 62"
    and "e_podMetricses E ns sel w = (Inr rs, w') \<Longrightarrow> length rs < 2 ^ 62"
    and "e_podsCustom E resource ns sel name labels w = (Inr vs, w') \<Longrightarrow> length vs < 2 ^ 62"
  using assms unfolding small_answers_def by blast+

lemma update_length_step: "n \<le> length (AList.update k v m) + b \<Longrightarrow> n \<le> Suc (length m + b)"
  using length_update_le [of k v m] by linarith

lemma container_loop_length: "container_loop r n ms res = Done res' \<Longrightarrow> length res' \<le> length res + length ms"
proof (induction r n ms res rule: container_loop.induct)
  case (2 r n m ms res)
  then show ?case
    by (fastforce split: option.splits dest: update_length_step)
qed simp

lemma pod_loop_length: "length (pod_loop r ms res) \<le> length res + length ms"
proof (induction r ms res rule: pod_loop.induct)
  case (2 r m ms res)
  then show ?case
    by (cases "pod_sum r m") (auto dest: update_length_step)
qed simp

lemma raw_loop_length: "length (raw_loop ms res) \<le> length res + length ms"
proof (induction ms res rule: raw_loop.induct)
  case (2 m ms res)
  then show ?case by (auto simp: Let_def dest: update_length_step)
qed simp

lemma client_lengths:
  assumes "small_answers E"
  shows "GetResouceMetric E r ns sel n w = (Done (m, ts), w') \<Longrightarrow> length m < 2 ^ 62"
    and "GetRawMetric E name ns sel msel w = (Done (m, ts), w') \<Longrightarrow> length m < 2 ^ 62"
proof -
  show "length m < 2 ^ 62" if run: "GetResouceMetric E r ns sel n w = (Done (m, ts), w')"
  proof -
    obtain items where i: "e_podMetricses E ns sel w = (Inr items, w')"
      "container_loop r n items [] = Done m \<or> m = pod_loop r items []"
      using run by (auto simp: GetResouceMetric_def getContainerMetrics_def getPodMetrics_def go_simps
          simp del: container_loop.simps pod_loop.simps split: prod.splits sum.splits list.splits outcome.splits if_splits)
    have "length m \<le> length items"
      using i(2) container_loop_length [of r n items "[]" m] pod_loop_length [of r items "[]"] by auto
    then show ?thesis using small_answersD(2) [OF assms i(1)] by linarith
  qed
  show "length m < 2 ^ 62" if run: "GetRawMetric E name ns sel msel w = (Done (m, ts), w')"
  proof -
    obtain items where i: "GetForObjects E ns sel name msel w = (Done items, w')" "m = raw_loop items []"
      using run by (auto simp: GetRawMetric_def go_simps simp del: raw_loop.simps split: prod.splits outcome.splits list.splits)
    obtain resource labels w0 where c: "e_podsCustom E resource ns sel name labels w0 = (Inr items, w')"
      using i(1) by (rule GetForObjects_Done)
    then show ?thesis
      using raw_loop_length [of items "[]"] small_answersD(3) [OF assms c] i(2) by simp
  qed
qed

section \<open>The calculators\<close>

lemma panics_case_pair: "panics (case x of (a, b) \<Rightarrow> f a b) \<longleftrightarrow> (case x of (a, b) \<Rightarrow> panics (f a b))"
  by (cases x) simp

lemma group_panic_free [panic_free]: "never_panics (groupPods E ps m r cip delay)"
  using group_loop_total unfolding never_panics_def groupPods_def by (metis fst_conv panics.simps(3))

lemma requests_panic_free [panic_free]: "\<not> panics (calculatePodRequests ps c r)"
  by (simp add: calculatePodRequests_def request_loop_outcome)

lemma decision_panic_free:
  assumes "groupPods E ps m r cip delay w = (Done g, w')" "drop_pods g m \<noteq> []" "length m < 2 ^ 62" "length ps < 2 ^ 62"
  shows "\<not> panics (resource_decision E c g ratio (drop_pods g m) t cur)"
  using groups_length [OF assms(1)] drop_pods_length [of g m] assms(2-4)
  by (intro resource_decision_no_panic) simp_all

lemma ratio_not_Nil: "GetResourceUtilizationRatio m rq t = Done x \<Longrightarrow> m \<noteq> []"
  by (auto simp: GetResourceUtilizationRatio_def)

lemma ratio_panic_free: "length m < 2 ^ 62 \<Longrightarrow> \<not> panics (GetResourceUtilizationRatio (drop_pods g m) rq t)"
  using drop_pods_length [of g m] by (intro resource_ratio_no_panic) simp

lemma lift_Done: "lift_outcome r s = (Done a, s') \<longleftrightarrow> r = Done a \<and> s' = s"
  by (auto simp: go_simps)

lemma call_Done: "call op s = (Done a, s') \<longleftrightarrow> op s = (Inr a, s')"
  by (auto simp: go_simps split: prod.splits sum.splits)

lemma resource_panic_free:
  assumes "small_answers E" "ms_resource metric = Some src" "mt_averageValue (rms_target src) \<noteq> None"
  shows "never_panics (CalculateReplicasWithResourceMetricSourceType E c ns psel metric cur)"
  using assms unfolding CalculateReplicasWithResourceMetricSourceType_def Let_def
  by (intro never_panics_intros panic_free)
    (auto simp: lift_Done call_Done ratio_panic_free requests_panic_free
      dest: client_lengths small_answersD(1) decision_panic_free ratio_not_Nil intro: panic_free)

lemma container_resource_panic_free:
  assumes "small_answers E" "ms_containerResource metric = Some src" "mt_averageValue (crms_target src) \<noteq> None"
  shows "never_panics (CalculateReplicasWithContainerResourceMetricSourceType E c ns metric psel cur)"
  using assms unfolding CalculateReplicasWithContainerResourceMetricSourceType_def Let_def
  by (intro never_panics_intros panic_free)
    (auto simp: lift_Done call_Done ratio_panic_free requests_panic_free
      dest: client_lengths small_answersD(1) decision_panic_free ratio_not_Nil intro: panic_free)

text \<open>The calculation behind a pods metric: the ratio is of metrics that are not empty.\<close>

lemma metric_ratio_panic_free:
  "drop_pods g m \<noteq> [] \<Longrightarrow> length m < 2 ^ 62 \<Longrightarrow> \<not> panics (GetMetricUtilizationRatio (drop_pods g m) t)"
  using drop_pods_length [of g m] by (simp add: metric_ratio_panics_iff)

lemma settle_panic_free:
  assumes "groupPods E ps m r cip delay w = (Done g, w')" "drop_pods g m \<noteq> []" "length m < 2 ^ 62" "length ps < 2 ^ 62"
  shows "\<not> panics (settle oor tol ratio
    (zero_unready b (gp_unreadyPods g) (fill_missing ratio t (gp_missingPods g) (drop_pods g m))) t cur)"
  using rebalanced_length [OF assms(1,2)] drop_pods_length [of g m] assms(3,4)
  by (simp add: settle_panics_iff)

lemma plain_panic_free:
  assumes "small_answers E" "length m < 2 ^ 62"
  shows "never_panics (calculatePlainMetricReplicas E c m cur t ns sel)"
  using assms unfolding calculatePlainMetricReplicas_def Let_def
  by (intro never_panics_intros panic_free)
    (auto simp: lift_Done call_Done metric_ratio_panic_free settle_panic_free
      dest: small_answersD(1) intro: panic_free)

lemma pods_panic_free:
  assumes "small_answers E" "ms_pods metric = Some src" "mt_averageValue (pms_target src) \<noteq> None"
    "selector_parses E (mi_selector (pms_metric src))"
  shows "never_panics (CalculateReplicasWithPodsMetricSourceType E c ns psel metric cur)"
proof -
  obtain labels where "e_asSelector E (mi_selector (pms_metric src)) = Inr labels"
    using assms(4) by (rule selector_parsesE)
  then show ?thesis
    using assms(1-3) unfolding CalculateReplicasWithPodsMetricSourceType_def Let_def
    by (intro never_panics_intros panic_free)
      (auto simp: lift_Done intro!: plain_panic_free clients_panic_free dest: client_lengths)
qed

lemma ready_panic_free [panic_free]: "never_panics (getReadyPodsCount E ns sel)"
  by (auto simp: never_panics_def getReadyPodsCount_def go_simps Let_def split: prod.splits sum.splits)

lemma usage_panic_free [panic_free]: "never_panics (getUsageRatioReplicas E c cur r ns sel)"
  unfolding getUsageRatioReplicas_def by (intro never_panics_intros panic_free)

text \<open>A target has the value that its type names.\<close>

definition target_complete :: "string \<Rightarrow> metric_target \<Rightarrow> bool" where
  "target_complete ty target \<longleftrightarrow>
     (if ty = ValueMetricType then mt_value target \<noteq> None
      else if ty = AverageValueMetricType then mt_averageValue target \<noteq> None
      else True)"

lemma object_panic_free:
  assumes "ms_object metric = Some src" "target_complete (mt_type (oms_target src)) (oms_target src)"
  shows "never_panics (CalculateReplicasWithObjectSourceType E c ns psel metric cur)"
  using assms
  unfolding CalculateReplicasWithObjectSourceType_def getReplicasWithObjectSourceType_def
    getReplicasForPerPodWithObjectSourceType_def Let_def
  by (intro never_panics_intros panic_free) (auto simp: lift_Done target_complete_def)

lemma external_panic_free:
  assumes "ms_object metric = Some obj" "ms_external metric = Some src"
    and "target_complete (mt_type (oms_target obj)) (ems_target src)"
  shows "never_panics (CalculateReplicasWithExternalMetricSourceType E c ns metric psel cur)"
  using assms
  unfolding CalculateReplicasWithExternalMetricSourceType_def getReplicasWithExternalMetricSourceType_def
    getReplicasForPerPodWithExternalMetricSourceType_def Let_def
  by (intro never_panics_intros panic_free) (auto simp: lift_Done target_complete_def)

section \<open>The calculation over all metrics\<close>

text \<open>
  What a metric must carry, by its type: the code reads the name of an elected pods metric from
  the container-resource source, and the target type of an external metric from the object source;
  it hands the selector of a pods metric to the client even when it did not parse.
\<close>

definition metric_complete :: "'w env \<Rightarrow> metric_spec \<Rightarrow> bool" where
  "metric_complete E metric \<longleftrightarrow>
     (if ms_type metric = ContainerResourceMetricSourceType then
        (case ms_containerResource metric of None \<Rightarrow> False | Some src \<Rightarrow> mt_averageValue (crms_target src) \<noteq> None)
      else if ms_type metric = ResourceMetricSourceType then
        (case ms_resource metric of None \<Rightarrow> False | Some src \<Rightarrow> mt_averageValue (rms_target src) \<noteq> None)
      else if ms_type metric = PodsMetricSourceType then
        (case ms_pods metric of None \<Rightarrow> False
         | Some src \<Rightarrow> mt_averageValue (pms_target src) \<noteq> None \<and> selector_parses E (mi_selector (pms_metric src))) \<and>
        ms_containerResource metric \<noteq> None
      else if ms_type metric = ObjectMetricSourceType then
        (case ms_object metric of None \<Rightarrow> False
         | Some src \<Rightarrow> target_complete (mt_type (oms_target src)) (oms_target src))
      else if ms_type metric = ExternalMetricSourceType then
        (case (ms_object metric, ms_external metric) of
           (Some obj, Some src) \<Rightarrow> target_complete (mt_type (oms_target obj)) (ems_target src)
         | _ \<Rightarrow> False)
      else True)"

lemma elect_panic_free:
  assumes "never_panics calculator" "\<not> panics name"
  shows "never_panics (elect calculator index ty name acc)"
  using assms unfolding elect_def by (intro never_panics_intros panic_free) auto

lemma metric_step_panic_free:
  assumes "small_answers E" "metric_complete E metric"
  shows "never_panics (metric_step E c ns psel cur index metric acc)"
  using assms(2) unfolding metric_step_def metric_complete_def
  by (intro never_panics_if elect_panic_free)
    (auto split: option.splits if_splits
      intro: resource_panic_free [OF assms(1)] container_resource_panic_free [OF assms(1)] pods_panic_free [OF assms(1)]
        object_panic_free external_panic_free)

lemma metric_loop_panic_free:
  assumes "small_answers E" "list_all (metric_complete E) metrics"
  shows "never_panics (metric_loop E c ns psel cur i metrics acc)"
  using assms(2)
proof (induction metrics arbitrary: i acc)
  case Nil
  then show ?case by (simp add: panic_free)
next
  case (Cons metric metrics)
  then show ?case
    using metric_step_panic_free [OF assms(1)] by (auto intro!: never_panics_bnd)
qed

lemma calculate_never_panics:
  assumes "small_answers E" "list_all (metric_complete E) (hs_metrics (hm_spec h))" "hs_minReplicas (hm_spec h) \<noteq> None"
  shows "never_panics (calculate E c h sc)"
  using assms(3) unfolding calculate_def Let_def
  by (intro never_panics_intros metric_loop_panic_free [OF assms(1,2)] panic_free)
    (auto simp: limit_replicas_def)

text \<open>
  C10: a calculation on a complete specification with a lower limit never panics, whatever the
  servers answer (with fewer than \<open>2 ^ 62\<close> items) and whichever metrics fail: all its divisions
  have a divisor and all its pointers are set. Complete means \<open>metric_complete\<close>: the source and
  the target value of the metric's type are set, a pods metric has a container-resource source and
  a selector that parses, and an external metric has an object source, whose target type the code
  reads.
\<close>

theorem calculate_panic_free:
  assumes "small_answers E" "list_all (metric_complete E) (hs_metrics (hm_spec h))" "hs_minReplicas (hm_spec h) \<noteq> None"
  shows "\<not> panics (fst (calculate E c h sc w))"
  using calculate_never_panics [OF assms] by (simp add: never_panics_def)

text \<open>A specification with a resource, a pods and an external metric, and a server with a busy pod.\<close>

definition limited_houmao :: houmao where
  "limited_houmao = zero_houmao\<lparr>hm_spec := zero_spec\<lparr>hs_metrics := [spec_of ResourceMetricSourceType, spec_of PodsMetricSourceType,
       spec_of ExternalMetricSourceType],
     hs_minReplicas := Some 1, hs_maxReplicas := 9\<rparr>\<rparr>"

theorem calculate_panic_free_witness:
  "\<not> panics (fst (calculate busy_env default_handle limited_houmao
     \<lparr>sc_name = [], sc_namespace = [], sc_specReplicas = 1, sc_statusReplicas = 1, sc_statusSelector = []\<rparr> ()))"
proof (rule calculate_panic_free)
  show "small_answers busy_env" by (simp add: small_answers_def busy_env_def)
  show "list_all (metric_complete busy_env) (hs_metrics (hm_spec limited_houmao))"
    by (simp add: limited_houmao_def metric_complete_def spec_of_def average_target_def target_complete_def object_source_of_def
        selector_parses_def) (simp add: busy_env_def quiet_env_def)
  show "hs_minReplicas (hm_spec limited_houmao) \<noteq> None" by (simp add: limited_houmao_def)
qed

end
