(* ===== verification/Crash_Freedom.thy ===== *)
theory Crash_Freedom
  imports System_Facts Panic_Freedom
begin

text \<open>
  A process that never crashes: what a specification has to carry so that no round of the loop
  panics, whatever the servers answer and however the restarts interleave with the rounds.
\<close>

section \<open>A round\<close>

text \<open>
  A specification is complete when its metrics have what the code reads through pointers, a lower
  limit is set, and the behaviour has rules for both directions, both with a window, of which those
  for scaling up select something that the code handles.
\<close>

definition behaviour_complete :: "hpa_behavior \<Rightarrow> bool" where
  "behaviour_complete b \<longleftrightarrow> both_directions b \<and> windows_set b \<and> selection_ready (hb_scaleUp b)"

definition spec_complete :: "'w env \<Rightarrow> houmao_spec \<Rightarrow> bool" where
  "spec_complete E spec \<longleftrightarrow> list_all (metric_complete E) (hs_metrics spec) \<and> hs_minReplicas spec \<noteq> None \<and>
     behaviour_complete (hs_behavor spec)"

lemma exec_panic_free: "behaviour_complete b \<Longrightarrow> never_panics (execScale E n sc b)"
  by (simp add: never_panics_def exec_panics behaviour_complete_def revision_ready_def)

text \<open>
  A computation that never panics in a state that satisfies a predicate, and leaves such a state:
  the recording of a result needs the type of the object, which the steps before it keep.
\<close>

definition safe_on :: "('s \<Rightarrow> bool) \<Rightarrow> ('s, 'a) io \<Rightarrow> bool" where
  "safe_on P m \<longleftrightarrow> (\<forall>s. P s \<longrightarrow> \<not> panics (fst (m s)) \<and> P (snd (m s)))"

lemma safe_onI: "never_panics m \<Longrightarrow> keeps P m \<Longrightarrow> safe_on P m"
  by (simp add: safe_on_def never_panics_def keeps_def)

lemma safe_bnd: "safe_on P m \<Longrightarrow> (\<And>a. safe_on P (k a)) \<Longrightarrow> safe_on P (bnd m k)"
  unfolding safe_on_def by (auto simp: go_simps split: prod.splits outcome.splits)

lemma safe_handle:
  "safe_on P m \<Longrightarrow> (\<And>e. safe_on P (h e)) \<Longrightarrow> (\<And>a. safe_on P (k a)) \<Longrightarrow> safe_on P (handle m h k)"
  unfolding safe_on_def by (auto simp: go_simps split: prod.splits outcome.splits)

lemma safe_reads: "(\<And>s. P s \<Longrightarrow> safe_on P (k (f s))) \<Longrightarrow> safe_on P (bnd (reads f) k)"
  by (simp add: safe_on_def go_simps)

lemma safe_if: "(b \<Longrightarrow> safe_on P m) \<Longrightarrow> (\<not> b \<Longrightarrow> safe_on P k) \<Longrightarrow> safe_on P (if b then m else k)"
  by simp

lemma never_panics_on_world: "never_panics m \<Longrightarrow> never_panics (on_world m)"
  by (auto simp: never_panics_def go_simps split: prod.splits) (metis fst_conv)

text \<open>The objects on which a round is safe: well-typed, and empty or with a complete specification.\<close>

definition object_safe :: "'w env \<Rightarrow> 'w zstate \<Rightarrow> bool" where
  "object_safe E s \<longleftrightarrow> houmao_ok (zs_object s) \<and> houmao_with (spec_complete E) (zs_object s)"

definition server_complete :: "'w env \<Rightarrow> bool" where
  "server_complete E \<longleftrightarrow> decodes_houmao E \<and> answers_with (spec_complete E) E \<and> small_answers E"

lemma object_safe_kept: "server_complete E \<Longrightarrow> kept (object_safe E) E"
proof (unfold_locales, goal_cases)
  case (6 s j w h w')
  then show ?case
    unfolding server_complete_def object_safe_def decodes_houmao_def answers_with_def by (simp, metis)
qed (simp_all add: object_safe_def)

lemma safe_basic:
  "safe_on P (ret a)"
  "\<not> panics r \<Longrightarrow> safe_on P (lift_outcome r)"
  by (simp_all add: safe_on_def go_simps)

lemma targets_never_panic: "\<not> panics (ParseGroupVersion v)" "never_panics (getScaleForTarget E name ns)"
  using targets_no_panic by (auto simp: never_panics_def getScaleForTarget_def go_simps ParseGroupVersion_def
      split: prod.splits sum.splits)

lemma now_never_panics: "never_panics (now E)"
  by (simp add: never_panics_def now_no_panic)

lemma round_safe:
  fixes E :: "'w env"
  assumes "server_complete E"
  shows "safe_on (object_safe E) (scale_round E c mode)"
proof -
  note kept = object_safe_kept [OF assms]
  note keeps = kept.keeps_exec [OF kept] kept.keeps_update [OF kept]
  have world: "safe_on (object_safe E) (on_world m)" if "never_panics m" for m :: "('w, 'b) io"
    using that kept.keeps_world [OF kept, of m] by (intro safe_onI never_panics_on_world)
  have update: "safe_on (object_safe E) (updateStatus E r)" for r
    using keeps(2) [of r] update_no_panic unfolding safe_on_def keeps_def object_safe_def by blast
  have "safe_on (object_safe E) (detectAndScale E c)"
    unfolding detectAndScale_def
  proof (rule safe_reads, rule safe_if)
    fix s assume "object_safe E s" "\<not> DeepEqual (V_Houmao (zs_object s)) (V_Houmao zero_houmao)"
    then have spec: "spec_complete E (hm_spec (zs_object s))"
      by (auto simp: object_safe_def houmao_with_def DeepEqual_def)
    have calc: "never_panics (calculate E c (zs_object s) sc)" for sc
      using assms spec by (intro calculate_never_panics) (simp_all add: server_complete_def spec_complete_def)
    have exec: "safe_on (object_safe E) (execScale E n sc (hs_behavor (hm_spec (zs_object s))))" for n sc
      using spec by (intro safe_onI keeps exec_panic_free) (simp add: spec_complete_def)
    have writes: "safe_on (object_safe E) (writes (\<lambda>s. s\<lparr>zs_originReplicas := n\<rparr>))" for n
      by (simp add: safe_on_def go_simps object_safe_def)
    show "safe_on (object_safe E)
      (bnd (lift_outcome (ParseGroupVersion (ref_apiVersion (hs_scaleTargetRef (hm_spec (zs_object s)))))) (\<lambda>targetGV.
       bnd (on_world (getScaleForTarget E (ref_name (hs_scaleTargetRef (hm_spec (zs_object s))))
         (om_namespace (hm_meta (zs_object s))))) (\<lambda>sc.
       bnd (writes (\<lambda>s. s\<lparr>zs_originReplicas := sc_specReplicas sc\<rparr>)) (\<lambda>_.
       let currentReplicas = sc_specReplicas sc in
       handle (on_world (calculate E c (zs_object s) sc)) (\<lambda>err. ret Finished) (\<lambda>el.
       if el_desiredReplicas el = currentReplicas then ret Finished
       else
         bnd (handle (execScale E (el_desiredReplicas el) sc (hs_behavor (hm_spec (zs_object s))))
           (\<lambda>err. ret 0) ret) (\<lambda>desiredReplicas.
         bnd (syncService desiredReplicas) (\<lambda>_.
         bnd (on_world (now E)) (\<lambda>t.
         bnd (updateStatus E \<lparr>zr_timestamp = t, zr_currentReplicas = currentReplicas,
             zr_desiredReplicas = desiredReplicas,
             zr_metricsElection = \<lparr>mst_isScaled = True, mst_scaledReplicas = desiredReplicas - currentReplicas,
               mst_metricIndex = el_metricIndex el, mst_metricType = el_metricType el,
               mst_metricName = el_metricName el\<rparr>\<rparr>) (\<lambda>_.
         ret Finished)))))))))"
      unfolding Let_def syncService_def
      by (intro safe_bnd safe_handle safe_if safe_basic world exec update writes calc targets_never_panic now_never_panics)
  qed (rule safe_basic)
  then show ?thesis
    unfolding scale_round_def scaleForEvent_def by (intro safe_if safe_bnd safe_basic)
qed

section \<open>A run\<close>

lemma never_crashes_step:
  assumes "server_complete E" "system_step E c mode s t" "system_ok s" "system_with (spec_complete E) s" "sy_pc s \<noteq> L_Crashed"
  shows "sy_pc t \<noteq> L_Crashed"
proof -
  have "object_safe E (sy_state s)"
    using assms(3,4) by (simp add: object_safe_def system_ok_def system_with_object)
  then have round: "\<not> panics (fst (scale_round E c mode (sy_state s)))"
    using round_safe [OF assms(1)] unfolding safe_on_def by blast
  from assms(2) show ?thesis
  proof (cases rule: system_step.cases)
    case loop
    then show ?thesis using round assms(5) by (cases rule: loop_step.cases) auto
  next
    case other
    then show ?thesis
    proof (cases rule: other_step.cases)
      case (reconcile key)
      then show ?thesis using assms(5) by (cases E key s rule: reconcile_cases) simp_all
    qed (use assms(5) in simp_all)
  qed
qed

text \<open>
  C4: a process whose server only holds complete specifications (\<open>spec_complete\<close>: complete
  metrics, the selectors of pods metrics among them parse, a lower limit, and rules with a window
  for both directions) never crashes, whatever its services answer, whichever counts are computed
  and however restarts, cancellation and changes of the world interleave with the rounds: every
  state of a run can go on, unless the loop has returned or waits for a restart on an empty object.
\<close>

theorem runs_never_crash:
  assumes "server_complete E" "houmao_ok object" "houmao_with (spec_complete E) object"
    and "runs E c mode (initial_system w object) t"
  shows "sy_pc t \<noteq> L_Crashed \<and>
    ((\<exists>u. loop_step E c mode t u) \<or> sy_pc t = L_Stopped \<or>
     sy_pc t = L_Waiting \<and> zs_object (sy_state t) = zero_houmao)"
proof -
  have E: "decodes_houmao E" "answers_with (spec_complete E) E" using assms(1) by (simp_all add: server_complete_def)
  have "system_ok t \<and> system_with (spec_complete E) t \<and> system_inv E t \<and> sy_pc t \<noteq> L_Crashed"
    using assms(4)
  proof (induction rule: runs.induct)
    case start
    have "system_inv E (initial_system w object)" by (rule reachable_system_inv [OF reachable_start])
    then show ?case
      using assms(2,3) by (simp add: system_with_start) (simp add: system_ok_def initial_system_def zero_houmao_ok)
  next
    case (then_step t u)
    then show ?case
      using system_ok_step [OF E(1)] system_with_step [OF E(2)] inv_step never_crashes_step [OF assms(1)] by blast
  qed
  then show ?thesis
    using loop_progress [of t E c mode] by (cases "sy_pc t") (auto simp: system_inv_def)
qed

text \<open>A complete specification, and a server that holds it.\<close>

definition careful_rules :: scaling_rules where
  "careful_rules = \<lparr>sr_stabilizationWindowSeconds = Some 60, sr_selectPolicy = Some MinPolicySelect,
     sr_policies = [\<lparr>sp_type = PodsScalingPolicy, sp_value = 4, sp_periodSeconds = 60\<rparr>]\<rparr>"

definition careful_houmao :: houmao where
  "careful_houmao = limited_houmao\<lparr>hm_spec := (hm_spec limited_houmao)\<lparr>hs_behavor :=
     \<lparr>hb_scaleUp = Some careful_rules, hb_scaleDown = Some careful_rules\<rparr>\<rparr>\<rparr>"

definition careful_env :: "unit env" where
  "careful_env = (quiet_env 0)\<lparr>e_getHoumao := \<lambda>_ w. (Inr careful_houmao, w)\<rparr>"

lemma careful_selectors: "selector_parses careful_env None"
  by (simp add: selector_parses_def careful_env_def quiet_env_def)

lemma careful_complete: "spec_complete careful_env (hm_spec careful_houmao)" "houmao_ok careful_houmao"
  by (simp_all add: careful_selectors spec_complete_def careful_houmao_def limited_houmao_def metric_complete_def spec_of_def
      average_target_def target_complete_def object_source_of_def behaviour_complete_def both_directions_def
      windows_set_def window_def careful_rules_def selection_ready_def deref_def houmao_ok_def zero_houmao_def
      zero_status_def zero_record_def)

theorem runs_never_crash_witness:
  "sy_pc (Zaohua_Reconcile careful_env demo_key (initial_system () careful_houmao)) \<noteq> L_Crashed \<and>
   sy_controller (Zaohua_Reconcile careful_env demo_key (initial_system () careful_houmao)) = C_WriteSpec careful_houmao"
proof -
  let ?t = "Zaohua_Reconcile careful_env demo_key (initial_system () careful_houmao)"
  have "server_complete careful_env"
    using careful_complete
    by (simp add: server_complete_def decodes_houmao_def answers_with_def small_answers_def careful_env_def quiet_env_def)
  moreover have "other_step careful_env (initial_system () careful_houmao) ?t"
    by (rule other_step.reconcile) (simp_all add: initial_system_def)
  ultimately have "sy_pc ?t \<noteq> L_Crashed"
    using runs_never_crash [of careful_env careful_houmao default_handle "[]" "()" ?t] careful_complete
    by (simp add: houmao_with_def) (blast intro: runs_other runs.start)
  moreover have "hm_spec careful_houmao \<noteq> zero_spec"
    by (simp add: careful_houmao_def limited_houmao_def zero_spec_def)
  ultimately show ?thesis
    by (simp add: Zaohua_Reconcile_def careful_env_def initial_system_def DeepEqual_def RestartZaohua_def)
qed

end
