(* ===== verification/Round_Calls.thy ===== *)
theory Round_Calls
  imports Crash_Freedom
begin

text \<open>
  The calls of a round that write to the API server: at most one update of the scale, and after it
  at most one patch of the status. They are observed through a trace that the world keeps.
\<close>

section \<open>The trace\<close>

text \<open>A world with a trace: the calls that read leave it, and the two that write append to it.\<close>

definition reads_keep :: "('w \<Rightarrow> bool) \<Rightarrow> 'w env \<Rightarrow> bool" where
  "reads_keep P E \<longleftrightarrow>
     (\<forall>w. P w \<longrightarrow> P (snd (e_now E w))) \<and>
     (\<forall>ns sel w. P w \<longrightarrow> P (snd (e_listPods E ns sel w))) \<and>
     (\<forall>ns sel w. P w \<longrightarrow> P (snd (e_podMetricses E ns sel w))) \<and>
     (\<forall>w. P w \<longrightarrow> P (snd (e_podsMapping E w))) \<and>
     (\<forall>r ns sel n ms w. P w \<longrightarrow> P (snd (e_podsCustom E r ns sel n ms w))) \<and>
     (\<forall>gk o1 n ms w. P w \<longrightarrow> P (snd (e_rootCustom E gk o1 n ms w))) \<and>
     (\<forall>ns gk o1 n ms w. P w \<longrightarrow> P (snd (e_objectCustom E ns gk o1 n ms w))) \<and>
     (\<forall>ns n ms w. P w \<longrightarrow> P (snd (e_external E ns n ms w))) \<and>
     (\<forall>k w. P w \<longrightarrow> P (snd (e_getScale E k w)))"

definition logs :: "('w \<Rightarrow> write_call list) \<Rightarrow> 'w env \<Rightarrow> bool" where
  "logs trace E \<longleftrightarrow> (\<forall>l. reads_keep (\<lambda>w. trace w = l) E) \<and>
     (\<forall>sc w. trace (snd (e_updateScale E sc w)) = trace w @ [SentScale sc]) \<and>
     (\<forall>h j w. trace (snd (e_patchHoumao E h j w)) = trace w @ [SentPatch h j])"

section \<open>Computations that only read\<close>

lemma keeps_call: "(\<And>w. P w \<Longrightarrow> P (snd (op w))) \<Longrightarrow> keeps P (call op)"
  by (auto simp: keeps_def go_simps split: prod.splits sum.splits) (metis snd_conv)+

lemma keeps_now: "reads_keep P E \<Longrightarrow> keeps P (now E)"
  by (simp add: keeps_def go_simps reads_keep_def)

lemma keeps_sum: "(\<And>a. keeps P (f a)) \<Longrightarrow> (\<And>b. keeps P (g b)) \<Longrightarrow> keeps P (case x of Inl a \<Rightarrow> f a | Inr b \<Rightarrow> g b)"
  by (cases x) simp_all

lemmas reads_intros = keeps_ret keeps_bnd keeps_handle keeps_if keeps_option keeps_prod keeps_sum keeps_now

lemma keeps_list: "keeps P n \<Longrightarrow> (\<And>x xs. keeps P (g x xs)) \<Longrightarrow> keeps P (case l of [] \<Rightarrow> n | x # xs \<Rightarrow> g x xs)"
  by (cases l) simp_all

lemma keeps_calls:
  assumes "reads_keep P E"
  shows "keeps P (call (e_listPods E ns sel))" "keeps P (call (e_getScale E key))"
    "keeps P (call (e_podMetricses E ns sel))" "keeps P (call (e_podsCustom E r ns sel n ms))"
    "keeps P (call (e_podsMapping E))"
    "keeps P (call (e_rootCustom E (g, k) o1 n sel))" "keeps P (call (e_objectCustom E ns (g, k) o1 n sel))"
    "keeps P (call (e_external E ns n sel))"
  by (rule keeps_call, use assms in \<open>simp add: reads_keep_def\<close>)+

lemma keeps_call_if: "keeps P (call f) \<Longrightarrow> keeps P (call g) \<Longrightarrow> keeps P (call (if b then f else g))"
  by simp

lemma keeps_clients:
  assumes E: "reads_keep P E"
  shows "keeps P (GetResouceMetric E r ns sel n)" "keeps P (GetRawMetric E name ns sel msel)"
    "keeps P (GetObjectMetric E name ns ref sel)" "keeps P (GetExternalMetric E name ns sel)"
  unfolding GetResouceMetric_def GetRawMetric_def GetForObjects_def GetObjectMetric_def GetExternalMetric_def Let_def
  by (intro reads_intros keeps_list keeps_call_if keeps_calls [OF E])+

lemma keeps_groups:
  assumes E: "reads_keep P E"
  shows "keeps P (groupPods E ps m r cip delay)"
proof -
  have unready: "keeps P (cpu_unready E cip delay p metric)" for p metric
    unfolding cpu_unready_def Let_def by (intro reads_intros E)
  have "keeps P (group_loop E m r cip delay ps g)" for g
  proof (induction ps arbitrary: g)
    case (Cons p ps)
    show ?case unfolding group_loop.simps by (intro reads_intros unready Cons.IH)
  qed (simp add: keeps_ret)
  then show ?thesis by (simp add: groupPods_def)
qed

lemma keeps_plain:
  assumes E: "reads_keep P E"
  shows "keeps P (calculatePlainMetricReplicas E c m cur t ns sel)"
  unfolding calculatePlainMetricReplicas_def Let_def
  by (intro reads_intros keeps_calls [OF E] keeps_groups [OF E])

lemma keeps_usage:
  assumes E: "reads_keep P E"
  shows "keeps P (getUsageRatioReplicas E c cur r ns sel)"
proof -
  have "keeps P (getReadyPodsCount E ns sel)"
    unfolding getReadyPodsCount_def Let_def by (intro reads_intros keeps_calls [OF E])
  then show ?thesis
    unfolding getUsageRatioReplicas_def by (intro reads_intros)
qed

lemma keeps_resource:
  assumes E: "reads_keep P E"
  shows "keeps P (CalculateReplicasWithResourceMetricSourceType E c ns psel metric cur)"
  unfolding CalculateReplicasWithResourceMetricSourceType_def Let_def
  by (intro reads_intros keeps_calls [OF E] keeps_groups [OF E] keeps_clients [OF E])

lemma keeps_container_resource:
  assumes E: "reads_keep P E"
  shows "keeps P (CalculateReplicasWithContainerResourceMetricSourceType E c ns metric psel cur)"
  unfolding CalculateReplicasWithContainerResourceMetricSourceType_def Let_def
  by (intro reads_intros keeps_calls [OF E] keeps_groups [OF E] keeps_clients [OF E])

lemma keeps_pods:
  assumes E: "reads_keep P E"
  shows "keeps P (CalculateReplicasWithPodsMetricSourceType E c ns psel metric cur)"
  unfolding CalculateReplicasWithPodsMetricSourceType_def Let_def
  by (intro reads_intros keeps_clients [OF E] keeps_plain [OF E])

lemma keeps_object:
  assumes E: "reads_keep P E"
  shows "keeps P (CalculateReplicasWithObjectSourceType E c ns psel metric cur)"
  unfolding CalculateReplicasWithObjectSourceType_def getReplicasWithObjectSourceType_def
    getReplicasForPerPodWithObjectSourceType_def Let_def
  by (intro reads_intros keeps_clients [OF E] keeps_usage [OF E])

lemma keeps_external:
  assumes E: "reads_keep P E"
  shows "keeps P (CalculateReplicasWithExternalMetricSourceType E c ns metric psel cur)"
  unfolding CalculateReplicasWithExternalMetricSourceType_def getReplicasWithExternalMetricSourceType_def
    getReplicasForPerPodWithExternalMetricSourceType_def Let_def
  by (intro reads_intros keeps_clients [OF E] keeps_usage [OF E])

lemma keeps_calculate:
  assumes E: "reads_keep P E"
  shows "keeps P (calculate E c h sc)"
proof -
  have step: "keeps P (metric_step E c ns psel cur i metric acc)" for ns psel cur i metric acc
    unfolding metric_step_def elect_def
    by (intro reads_intros keeps_resource [OF E] keeps_container_resource [OF E] keeps_pods [OF E] keeps_object [OF E]
        keeps_external [OF E])
  have "keeps P (metric_loop E c ns psel cur i metrics acc)" for ns psel cur i metrics acc
  proof (induction metrics arbitrary: i acc)
    case (Cons metric metrics)
    show ?case unfolding metric_loop.simps by (intro reads_intros step Cons.IH)
  qed (simp add: keeps_ret)
  then show ?thesis
    unfolding calculate_def Let_def by (intro reads_intros)
qed

section \<open>The calls of an execution\<close>

text \<open>A predicate of the world alone, over the steps of the loop.\<close>

lemma keeps_on_world: "keeps P m \<Longrightarrow> keeps (\<lambda>s. P (zs_world s)) (on_world m)"
  by (auto simp: keeps_def go_simps split: prod.splits)

lemma keeps_writes_world: "(\<And>s. zs_world (g s) = zs_world s) \<Longrightarrow> keeps (\<lambda>s. P (zs_world s)) (writes g)"
  by (rule keeps_writes) simp

lemma keeps_revise_world:
  assumes E: "reads_keep P E"
  shows "keeps (\<lambda>s. P (zs_world s)) (revise_step E n k b)"
proof -
  have change: "keeps P (getReplicasChangePerScalePolicyPeriod E m es)" for m es
    unfolding getReplicasChangePerScalePolicyPeriod_def Let_def by (intro reads_intros E)
  have policies: "keeps P (policy_loop E m es f ps l q)" for m es f ps l q
  proof (induction ps arbitrary: l q)
    case (Cons p ps)
    show ?case unfolding policy_loop.simps Let_def by (intro reads_intros change Cons.IH)
  qed (simp add: keeps_ret)
  have "keeps P (stabilizationRecommendationWithBehavors E info rs)" for info rs
    unfolding stabilizationRecommendationWithBehavors_def Let_def by (intro reads_intros E)
  moreover have "keeps P (convertDesiredReplicasWithBehaviorRate E info es)" for info es
    unfolding convertDesiredReplicasWithBehaviorRate_def calculateScaleUpLimitWithScalingRules_def
      calculateScaleDownLimitWithScalingRules_def Let_def
    by (intro reads_intros policies)
  ultimately have "keeps P (ReviseWithBehavor E n k b' rs es)" for b' rs es
    unfolding ReviseWithBehavor_def Let_def by (intro reads_intros)
  then show ?thesis
    unfolding revise_step_def Let_def
    by (intro reads_intros keeps_reads keeps_on_world keeps_writes_world) simp_all
qed

lemma keeps_storage_world:
  assumes E: "reads_keep P E"
  shows "keeps (\<lambda>s. P (zs_world s)) (storageScaleEvent E b pre n)"
  unfolding storageScaleEvent_def markScaleUpEventsOutdated_def markScaleDownEventsOutdated_def Let_def
  by (intro reads_intros keeps_reads keeps_on_world keeps_writes_world E) simp_all

lemma kept_trace:
  assumes "m s = (r, s')" "\<And>l. keeps (\<lambda>s. trace (zs_world s) = l) m"
  shows "trace (zs_world s') = trace (zs_world s)"
  using assms unfolding keeps_def by (metis snd_conv)

lemma send_scale_trace:
  assumes "logs trace E" "send_scale E sc b pre n s = (r, s')"
  shows "trace (zs_world s') = trace (zs_world s) @ [SentScale (sc\<lparr>sc_specReplicas := n\<rparr>)]"
proof -
  obtain a w where a: "e_updateScale E (sc\<lparr>sc_specReplicas := n\<rparr>) (zs_world s) = (a, w)"
    by (cases "e_updateScale E (sc\<lparr>sc_specReplicas := n\<rparr>) (zs_world s)")
  then have w: "trace w = trace (zs_world s) @ [SentScale (sc\<lparr>sc_specReplicas := n\<rparr>)]"
    using assms(1) unfolding logs_def by (metis snd_conv)
  obtain q t where q: "storageScaleEvent E (Some b) pre n (s\<lparr>zs_world := w\<rparr>) = (q, t)"
    by (cases "storageScaleEvent E (Some b) pre n (s\<lparr>zs_world := w\<rparr>)")
  have "keeps (\<lambda>s. trace (zs_world s) = l) (storageScaleEvent E (Some b) pre n)" for l
    using assms(1) by (intro keeps_storage_world) (simp add: logs_def)
  then have "trace (zs_world t) = trace w"
    using kept_trace [where trace = trace and m = "storageScaleEvent E (Some b) pre n"] q by fastforce
  then show ?thesis
    using a q w assms(2) by (cases a; cases q) (auto simp: send_scale_def go_simps)
qed

text \<open>An execution that gets past the revision sends exactly one update.\<close>

lemma exec_trace:
  assumes "logs trace E" "execScale E n sc b s = (r, s')"
  shows "if both_directions b \<and> \<not> revision_ready E n (sc_specReplicas sc) b s
    then panics r \<and> trace (zs_world s') = trace (zs_world s)
    else trace (zs_world s') = trace (zs_world s) @ [SentScale (sc\<lparr>sc_specReplicas := n\<rparr>)]"
proof (cases "both_directions b")
  case True
  obtain q t where q: "revise_step E n (sc_specReplicas sc) b s = (q, t)"
    by (cases "revise_step E n (sc_specReplicas sc) b s")
  have "keeps (\<lambda>s. trace (zs_world s) = l) (revise_step E n (sc_specReplicas sc) b)" for l
    using assms(1) by (intro keeps_revise_world) (simp add: logs_def)
  then have t: "trace (zs_world t) = trace (zs_world s)"
    using kept_trace [where trace = trace and m = "revise_step E n (sc_specReplicas sc) b"] q by fastforce
  show ?thesis
    using revise_step_outcome [of E n "sc_specReplicas sc" b s] q t True assms(2)
      send_scale_trace [OF assms(1), of sc b "sc_specReplicas sc" n t r s']
    by (cases q) (auto simp: execScale_send go_simps split: if_splits)
next
  case False
  then show ?thesis using send_scale_trace [OF assms(1)] assms(2) by (simp add: execScale_send)
qed

lemma exec_object: "execScale E n sc b s = (r, s') \<Longrightarrow> zs_object s' = zs_object s \<and> zs_originReplicas s' = zs_originReplicas s"
proof -
  have w: "keeps (\<lambda>s. zs_object s = h \<and> zs_originReplicas s = k) (on_world m)" for h k and m :: "('a, 'b) io"
    by (auto simp: keeps_def go_simps split: prod.splits)
  have "keeps (\<lambda>s. zs_object s = h \<and> zs_originReplicas s = k) (execScale E n sc b)" for h k
    unfolding execScale_def revise_step_def storageScaleEvent_def markScaleUpEventsOutdated_def
      markScaleDownEventsOutdated_def Let_def
    by (intro keeps_intros w) simp_all
  then show "execScale E n sc b s = (r, s') \<Longrightarrow> zs_object s' = zs_object s \<and> zs_originReplicas s' = zs_originReplicas s"
    unfolding keeps_def by (metis snd_conv)
qed

section \<open>The calls of a round\<close>

text \<open>
  What a round is about to do: nothing, or to scale, with the scale that was read, the election of
  the calculation and the world after it.
\<close>

definition round_plan :: "'w env \<Rightarrow> calculate_handle \<Rightarrow> 'w zstate \<Rightarrow> (scale \<times> election \<times> 'w) option" where
  "round_plan E c s =
     (let spec = hm_spec (zs_object s) in
      if zs_object s = zero_houmao then None
      else case ParseGroupVersion (ref_apiVersion (hs_scaleTargetRef spec)) of
        Done gv \<Rightarrow>
          (case getScaleForTarget E (ref_name (hs_scaleTargetRef spec)) (om_namespace (hm_meta (zs_object s))) (zs_world s) of
             (Done sc, w1) \<Rightarrow>
               (case calculate E c (zs_object s) sc w1 of
                  (Done el, w2) \<Rightarrow> if el_desiredReplicas el = sc_specReplicas sc then None else Some (sc, el, w2)
                | _ \<Rightarrow> None)
           | _ \<Rightarrow> None)
      | _ \<Rightarrow> None)"

lemma update_trace:
  assumes "logs trace E" "houmao_ok (zs_object s)" "updateStatus E r s = (q, s')"
  shows "trace (zs_world s') = trace (zs_world s) \<or>
    (\<exists>patch. json_record (next_record (zs_originReplicas s) r (record_of (zs_object s))) = Done patch \<and>
       trace (zs_world s') = trace (zs_world s) @ [SentPatch (zs_object s) patch])"
proof -
  have "trace w' = trace w @ [SentPatch h j]" if "e_patchHoumao E h j w = (a, w')" for h j w a w'
    using assms(1) that unfolding logs_def by (metis snd_conv)
  then show ?thesis
    using assms(3) unfolding updateStatus_eq [OF assms(2)] by (auto split: outcome.splits prod.splits sum.splits)
qed

text \<open>The record that a round sends.\<close>

definition result_of :: "time \<Rightarrow> scale \<Rightarrow> election \<Rightarrow> i32 \<Rightarrow> zaohua_result" where
  "result_of t sc el d = \<lparr>zr_timestamp = t, zr_currentReplicas = sc_specReplicas sc, zr_desiredReplicas = d,
     zr_metricsElection = \<lparr>mst_isScaled = True, mst_scaledReplicas = d - sc_specReplicas sc,
       mst_metricIndex = el_metricIndex el, mst_metricType = el_metricType el, mst_metricName = el_metricName el\<rparr>\<rparr>"

lemma reads_trace:
  assumes "logs trace E"
  shows "getScaleForTarget E name ns w = (q, w') \<Longrightarrow> trace w' = trace w"
    and "calculate E c h sc w = (p, w') \<Longrightarrow> trace w' = trace w"
    and "now E w = (x, w') \<Longrightarrow> trace w' = trace w"
proof -
  have E: "reads_keep (\<lambda>w. trace w = l) E" for l using assms by (simp add: logs_def)
  show "getScaleForTarget E name ns w = (q, w') \<Longrightarrow> trace w' = trace w"
    using keeps_calls(2) [OF E] unfolding keeps_def getScaleForTarget_def by (metis snd_conv)
  show "calculate E c h sc w = (p, w') \<Longrightarrow> trace w' = trace w"
    using keeps_calculate [OF E] unfolding keeps_def by (metis snd_conv)
  show "now E w = (x, w') \<Longrightarrow> trace w' = trace w"
    using keeps_now [OF E] unfolding keeps_def by (metis snd_conv)
qed

text \<open>The part of a round after the calculation.\<close>

lemma scaling_trace:
  fixes s :: "'w zstate"
  assumes "logs trace E" "houmao_ok (zs_object s)" "zs_originReplicas s = sc_specReplicas sc"
    and "bnd (handle (execScale E n sc b) (\<lambda>err. ret 0) ret) (\<lambda>d.
      bnd (on_world (now E)) (\<lambda>t. bnd (updateStatus E (result_of t sc el d)) (\<lambda>_. ret Finished))) s = (r, s')"
  defines "sent \<equiv> trace (zs_world s) @ [SentScale (sc\<lparr>sc_specReplicas := n\<rparr>)]"
  shows "if both_directions b \<and> \<not> revision_ready E n (sc_specReplicas sc) b s
    then panics r \<and> trace (zs_world s') = trace (zs_world s)
    else trace (zs_world s') = sent \<or>
      (\<exists>t d patch. json_record (next_record (sc_specReplicas sc) (result_of t sc el d) (record_of (zs_object s))) = Done patch \<and>
         trace (zs_world s') = sent @ [SentPatch (zs_object s) patch])"
proof -
  obtain q s1 where q: "execScale E n sc b s = (q, s1)" by (cases "execScale E n sc b s")
  note ex = exec_trace [OF assms(1) q] and ob = exec_object [OF q]
  have after: "trace (zs_world s') = trace (zs_world s1) \<or>
      (\<exists>t patch. json_record (next_record (sc_specReplicas sc) (result_of t sc el d) (record_of (zs_object s))) = Done patch \<and>
         trace (zs_world s') = trace (zs_world s1) @ [SentPatch (zs_object s) patch])"
    if run: "bnd (on_world (now E)) (\<lambda>t. bnd (updateStatus E (result_of t sc el d)) (\<lambda>_. ret Finished)) s1 = (r, s')" for d
  proof -
    obtain t w where t: "now E (zs_world s1) = (Done t, w)" by (simp add: go_simps)
    obtain u s2 where u: "updateStatus E (result_of t sc el d) (s1\<lparr>zs_world := w\<rparr>) = (u, s2)"
      by (cases "updateStatus E (result_of t sc el d) (s1\<lparr>zs_world := w\<rparr>)")
    have "s' = s2" using run t u by (cases u) (auto simp: io_apply(3) state_apply(1) io_apply(1))
    then show ?thesis
      using update_trace [OF assms(1) _ u] reads_trace(3) [OF assms(1) t] ob assms(2,3) by auto
  qed
  show ?thesis
  proof (cases q)
    case (Panic p)
    then show ?thesis using ex q assms(4) unfolding sent_def by (auto simp: io_apply(3,4))
  next
    case (Fail e)
    then show ?thesis
      using ex after [of 0] q assms(4) unfolding sent_def by (auto simp: io_apply(1,3,4) split: if_splits)
  next
    case (Done d)
    then show ?thesis
      using ex after [of d] q assms(4) unfolding sent_def by (auto simp: io_apply(1,3,4) split: if_splits)
  qed
qed

text \<open>A round without a plan writes nothing, and one with a plan continues with the execution.\<close>

lemma detect_plan:
  fixes s :: "'w zstate"
  assumes "logs trace E" "detectAndScale E c s = (r, s')"
  obtains "round_plan E c s = None" "trace (zs_world s') = trace (zs_world s)"
  | sc el w where "round_plan E c s = Some (sc, el, w)" "trace w = trace (zs_world s)"
      "bnd (handle (execScale E (el_desiredReplicas el) sc (hs_behavor (hm_spec (zs_object s)))) (\<lambda>err. ret 0) ret) (\<lambda>d.
        bnd (on_world (now E)) (\<lambda>t. bnd (updateStatus E (result_of t sc el d)) (\<lambda>_. ret Finished)))
        (s\<lparr>zs_originReplicas := sc_specReplicas sc, zs_world := w\<rparr>) = (r, s')"
proof (cases "zs_object s = zero_houmao")
  case True
  then show ?thesis
    using assms(2) that(1) by (simp add: round_plan_def detectAndScale_def DeepEqual_def go_simps)
next
  case False
  let ?spec = "hm_spec (zs_object s)"
  obtain q w1 where get: "getScaleForTarget E (ref_name (hs_scaleTargetRef ?spec)) (om_namespace (hm_meta (zs_object s)))
      (zs_world s) = (q, w1)" by fastforce
  have w1: "trace w1 = trace (zs_world s)" by (rule reads_trace(1) [OF assms(1) get])
  show ?thesis
  proof (cases "ParseGroupVersion (ref_apiVersion (hs_scaleTargetRef ?spec))")
    case gv: (Done gv)
    show ?thesis
    proof (cases q)
      case sc: (Done sc)
      obtain p w2 where calc: "calculate E c (zs_object s) sc w1 = (p, w2)" by fastforce
      have w2: "trace w2 = trace (zs_world s)" using reads_trace(2) [OF assms(1) calc] w1 by simp
      have plan: "round_plan E c s = (case p of Done el \<Rightarrow>
          if el_desiredReplicas el = sc_specReplicas sc then None else Some (sc, el, w2) | _ \<Rightarrow> None)"
        using False gv get sc calc by (simp add: round_plan_def Let_def)
      show ?thesis
        using detect_eq [OF False gv get [unfolded sc] calc] assms(2) w2 plan that
        by (cases p) (auto simp: result_of_def split: if_splits)
    next
      case (Fail e)
      then show ?thesis
        using detect_early(2) [OF False gv, of E e w1 c] get assms(2) w1 False gv that(1)
        by (auto simp: round_plan_def Let_def)
    qed (use get targets_no_panic in metis)
  next
    case (Fail e)
    then show ?thesis using detect_early(1) [OF False Fail] assms(2) False that(1) by (auto simp: round_plan_def Let_def)
  qed (use targets_no_panic in metis)
qed

text \<open>
  C3: a round writes to the server exactly when its plan says so: without a plan it writes
  nothing; otherwise it sends one update, of the scale that it read with the elected count, and
  then at most one patch, with the record of this result, unless the revision by the behaviour
  panics before the update.
\<close>

theorem round_calls:
  fixes s :: "'w zstate"
  assumes "logs trace E" "houmao_ok (zs_object s)" "detectAndScale E c s = (r, s')"
  shows "case round_plan E c s of
      None \<Rightarrow> trace (zs_world s') = trace (zs_world s)
    | Some (sc, el, w) \<Rightarrow>
        (let b = hs_behavor (hm_spec (zs_object s)); n = el_desiredReplicas el;
             sent = trace (zs_world s) @ [SentScale (sc\<lparr>sc_specReplicas := n\<rparr>)] in
         if both_directions b \<and>
           \<not> revision_ready E n (sc_specReplicas sc) b (s\<lparr>zs_originReplicas := sc_specReplicas sc, zs_world := w\<rparr>)
         then panics r \<and> trace (zs_world s') = trace (zs_world s)
         else trace (zs_world s') = sent \<or>
           (\<exists>t d patch. json_record (next_record (sc_specReplicas sc) (result_of t sc el d) (record_of (zs_object s))) = Done patch \<and>
              trace (zs_world s') = sent @ [SentPatch (zs_object s) patch]))"
proof (cases rule: detect_plan [OF assms(1,3), case_names none some])
  case (some sc el w)
  let ?s2 = "s\<lparr>zs_originReplicas := sc_specReplicas sc, zs_world := w\<rparr>"
  have s2: "houmao_ok (zs_object ?s2)" "zs_originReplicas ?s2 = sc_specReplicas sc" "zs_object ?s2 = zs_object s"
    "trace (zs_world ?s2) = trace (zs_world s)"
    using assms(2) some(2) by simp_all
  note scaling_trace [OF assms(1) s2(1,2) some(3), unfolded s2(3,4)]
  then show ?thesis using some(1) by (simp add: Let_def)
qed simp

lemma grow_logs: "logs (\<lambda>w. w) grow_env"
  by (simp add: logs_def reads_keep_def grow_env_def quiet_env_def)

theorem round_calls_witness:
  "zs_world (snd (detectAndScale grow_env default_handle (start_state [] grow_houmao))) = [SentScale (grow_scale\<lparr>sc_specReplicas := 3\<rparr>)] \<or>
   (\<exists>h j. zs_world (snd (detectAndScale grow_env default_handle (start_state [] grow_houmao))) =
      [SentScale (grow_scale\<lparr>sc_specReplicas := 3\<rparr>), SentPatch h j])"
proof -
  let ?s = "start_state [] grow_houmao :: write_call list zstate"
  have o1: "zs_object ?s = grow_houmao" "zs_world ?s = []" by (simp_all add: start_state_def)
  have h: "grow_houmao \<noteq> zero_houmao" "houmao_ok grow_houmao"
    by (simp_all add: grow_houmao_def zero_houmao_def zero_spec_def houmao_ok_def zero_status_def zero_record_def)
  have gv: "ParseGroupVersion (ref_apiVersion (hs_scaleTargetRef (hm_spec grow_houmao))) = Done ([], [])"
    by (simp add: grow_houmao_def zero_spec_def zero_ref_def ParseGroupVersion_def)
  have g: "getScaleForTarget grow_env name ns w = (Done grow_scale, w)" for name ns w
    by (simp add: getScaleForTarget_def grow_env_def go_simps)
  have plan: "round_plan grow_env default_handle ?s = Some (grow_scale, \<lparr>el_desiredReplicas = 3, el_metricIndex = 0,
      el_metricType = ExternalMetricSourceType, el_metricName = ''qps''\<rparr>, [])"
    using grow_calculate [of default_handle "[]"] unfolding round_plan_def o1 Let_def
    by (simp add: h gv g) (simp add: grow_scale_def)
  have b: "\<not> both_directions (hs_behavor (hm_spec grow_houmao))"
    by (simp add: grow_houmao_def zero_spec_def both_directions_def)
  obtain r s' where run: "detectAndScale grow_env default_handle ?s = (r, s')" by (cases "detectAndScale grow_env default_handle ?s")
  show ?thesis
    using round_calls [OF grow_logs _ run] h(2) plan b unfolding o1 by (simp add: run Let_def) blast
qed

end
