(* ===== verification/Xianqi_Manager.thy ===== *)
theory Xianqi_Manager
  imports Environment
begin

text \<open>
  \<open>pkg/xianqi_manager/xianqi_manager.go\<close>: the deployment that runs the scaling loop of one
  \<open>Houmao\<close>. It is created with one container, updated in the resources of its first container,
  and deleted.
\<close>

section \<open>The operations\<close>

record xianqi_manager_handle =
  xm_xianqiKey :: namespaced_name

text \<open>The resources of the first container are replaced; a template without containers panics.\<close>

definition set_resources :: "resource_requirements \<Rightarrow> deployment \<Rightarrow> deployment outcome" where
  "set_resources resources d =
     (case dp_containers d of
        [] \<Rightarrow> Panic IndexOutOfRange
      | c # cs \<Rightarrow> Done (d\<lparr>dp_containers := c\<lparr>dc_resources := resources\<rparr> # cs\<rparr>))"

text \<open>The deployment to create: its selector has labels that its template has not.\<close>

definition new_xianqi :: "namespaced_name \<Rightarrow> houmao \<Rightarrow> deployment" where
  "new_xianqi key object = (let labels = [
       (''Type'', ''Xianqi''),
       (''Name'', XianqiPrefix @ nn_name key),
       (''Namespace'', nn_namespace key),
       (''HoumaoName'', nn_name key),
       (''HoumaoNamespace'', nn_namespace key)] in
     \<lparr>dp_name = XianqiPrefix @ nn_name key,
      dp_namespace = nn_namespace key,
      dp_replicas = Some 1,
      dp_matchLabels = labels,
      dp_templateLabels = [],
      dp_containers = [\<lparr>dc_name = ''Zaohua'', dc_image = XianqiImage,
        dc_resources = hs_xianqiLiang (hm_spec object)\<rparr>]\<rparr>)"

text \<open>Any error of the read, not only that the deployment is not found, leads to the creation.\<close>

definition CreateOrUpdateXianqi ::
  "'w env \<Rightarrow> xianqi_manager_handle \<Rightarrow> namespaced_name \<Rightarrow> houmao \<Rightarrow> ('w, unit) io" where
  "CreateOrUpdateXianqi E x key object =
     handle (call (e_getDeployment E (xm_xianqiKey x)))
       (\<lambda>err. bnd (call (e_createDeployment E (new_xianqi key object))) (\<lambda>_. ret ()))
       (\<lambda>xianqiObj. bnd (lift_outcome (set_resources (hs_xianqiLiang (hm_spec object)) xianqiObj)) (\<lambda>xianqiObj1.
          bnd (call (e_updateDeployment E xianqiObj1)) (\<lambda>_. ret ())))"

definition UpdateXianqi ::
  "'w env \<Rightarrow> xianqi_manager_handle \<Rightarrow> namespaced_name \<Rightarrow> houmao \<Rightarrow> ('w, unit) io" where
  "UpdateXianqi E x key object =
     bnd (call (e_getDeployment E (xm_xianqiKey x))) (\<lambda>xianqiObj.
     bnd (lift_outcome (set_resources (hs_xianqiLiang (hm_spec object)) xianqiObj)) (\<lambda>xianqiObj1.
     bnd (call (e_updateDeployment E xianqiObj1)) (\<lambda>_. ret ())))"

definition DestroyXianqi :: "'w env \<Rightarrow> xianqi_manager_handle \<Rightarrow> namespaced_name \<Rightarrow> ('w, unit) io" where
  "DestroyXianqi E x key =
     handle (call (e_getDeployment E (xm_xianqiKey x)))
       (\<lambda>err. ret ())
       (\<lambda>xianqiObj. call (e_deleteDeployment E xianqiObj))"

section \<open>What the operations do to the deployments of a cluster\<close>

text \<open>
  The documented behaviour of the API server on deployments, over a view of the deployments by
  key: a read that succeeds answers what is stored, a creation succeeds only under a key that is
  free, a successful write changes the entry of its object and no other. Every call may fail, for
  a reason that passes as well as for a deployment that is not there.
\<close>

definition key_of :: "deployment \<Rightarrow> namespaced_name" where
  "key_of d = \<lparr>nn_namespace = dp_namespace d, nn_name = dp_name d\<rparr>"

definition deployment_api :: "'w env \<Rightarrow> ('w \<Rightarrow> namespaced_name \<Rightarrow> deployment option) \<Rightarrow> bool" where
  "deployment_api E view \<longleftrightarrow>
     (\<forall>k w r w'. e_getDeployment E k w = (r, w') \<longrightarrow> view w' = view w \<and>
        (case r of Inr d \<Rightarrow> view w k = Some d \<and> key_of d = k | Inl e \<Rightarrow> True)) \<and>
     (\<forall>d w r w'. e_createDeployment E d w = (r, w') \<longrightarrow>
        (case r of Inr _ \<Rightarrow> view w (key_of d) = None \<and> view w' = (view w)(key_of d \<mapsto> d) | Inl e \<Rightarrow> view w' = view w)) \<and>
     (\<forall>d w r w'. e_updateDeployment E d w = (r, w') \<longrightarrow>
        view w' = (case r of Inr _ \<Rightarrow> (view w)(key_of d \<mapsto> d) | Inl e \<Rightarrow> view w)) \<and>
     (\<forall>d w r w'. e_deleteDeployment E d w = (r, w') \<longrightarrow>
        view w' = (case r of Inr _ \<Rightarrow> (view w)(key_of d := None) | Inl e \<Rightarrow> view w))"

lemma deployment_apiD:
  assumes "deployment_api E view"
  shows "e_getDeployment E k w = (Inr d, w') \<Longrightarrow> view w' = view w \<and> view w k = Some d \<and> key_of d = k"
    and "e_getDeployment E k w = (Inl e, w') \<Longrightarrow> view w' = view w"
    and "e_createDeployment E d w = (Inr d', w') \<Longrightarrow> view w (key_of d) = None \<and> view w' = (view w)(key_of d \<mapsto> d)"
    and "e_updateDeployment E d w = (Inr d', w') \<Longrightarrow> view w' = (view w)(key_of d \<mapsto> d)"
    and "e_deleteDeployment E d w = (Inr u, w') \<Longrightarrow> view w' = (view w)(key_of d := None)"
  using assms unfolding deployment_api_def by fastforce+

lemma set_resources_Done:
  "set_resources r d = Done d' \<longleftrightarrow>
     (\<exists>c cs. dp_containers d = c # cs \<and> d' = d\<lparr>dp_containers := c\<lparr>dc_resources := r\<rparr> # cs\<rparr>)"
  by (auto simp: set_resources_def split: list.splits)

definition xianqi_key :: "namespaced_name \<Rightarrow> namespaced_name" where
  "xianqi_key key = \<lparr>nn_namespace = nn_namespace key, nn_name = XianqiPrefix @ nn_name key\<rparr>"

definition handle_for :: "namespaced_name \<Rightarrow> xianqi_manager_handle" where
  "handle_for key = \<lparr>xm_xianqiKey = xianqi_key key\<rparr>"

lemma new_xianqi_key: "key_of (new_xianqi key h) = xianqi_key key"
  by (simp add: key_of_def new_xianqi_def xianqi_key_def Let_def)

text \<open>
  A creation or update that returns without an error leaves exactly one deployment changed, the one
  named after the \<open>Houmao\<close>: its first container has the resources of the specification, and it is the
  new deployment when there was none and the old one, with nothing else changed, when there was one.
\<close>

lemma create_or_update_view:
  assumes api: "deployment_api E view"
    and run: "CreateOrUpdateXianqi E (handle_for key) key h w = (Done (), w')"
  shows "\<exists>d c cs. view w' = (view w)(xianqi_key key \<mapsto> d) \<and> dp_containers d = c # cs \<and>
    dc_resources c = hs_xianqiLiang (hm_spec h) \<and>
    (case view w (xianqi_key key) of
       None \<Rightarrow> d = new_xianqi key h
     | Some d0 \<Rightarrow> d = d0\<lparr>dp_containers := hd (dp_containers d0)\<lparr>dc_resources := hs_xianqiLiang (hm_spec h)\<rparr>
         # tl (dp_containers d0)\<rparr>)"
proof -
  let ?k = "xianqi_key key"
  obtain r w1 where get: "e_getDeployment E ?k w = (r, w1)" by (cases "e_getDeployment E ?k w")
  show ?thesis
  proof (cases r)
    case (Inl e)
    have v: "view w1 = view w" using deployment_apiD(2) [OF api] get Inl by auto
    have "\<exists>d'. e_createDeployment E (new_xianqi key h) w1 = (Inr d', w')"
      using run get Inl by (auto simp: CreateOrUpdateXianqi_def handle_for_def go_simps split: prod.splits sum.splits)
    then have "view w ?k = None" "view w' = (view w)(?k \<mapsto> new_xianqi key h)"
      using deployment_apiD(3) [OF api] v new_xianqi_key by metis+
    then show ?thesis by (auto simp: new_xianqi_def Let_def)
  next
    case (Inr d0)
    have v: "view w1 = view w" "view w ?k = Some d0" "key_of d0 = ?k" using deployment_apiD(1) [OF api] get Inr by auto
    obtain d1 d2 where d1: "set_resources (hs_xianqiLiang (hm_spec h)) d0 = Done d1"
      "e_updateDeployment E d1 w1 = (Inr d2, w')"
      using run get Inr by (auto simp: CreateOrUpdateXianqi_def handle_for_def go_simps
          split: prod.splits sum.splits outcome.splits)
    obtain c cs where c: "dp_containers d0 = c # cs"
      "d1 = d0\<lparr>dp_containers := c\<lparr>dc_resources := hs_xianqiLiang (hm_spec h)\<rparr> # cs\<rparr>"
      using d1(1) by (auto simp: set_resources_Done)
    have "key_of d1 = ?k" using v(3) by (simp add: c(2) key_of_def)
    then have "view w' = (view w)(?k \<mapsto> d1)" using deployment_apiD(4) [OF api d1(2)] v(1) by simp
    then show ?thesis using v(2) c by auto
  qed
qed

text \<open>Whether the read of the deployment of a \<open>Houmao\<close> fails, for whatever reason.\<close>

definition read_fails :: "'w env \<Rightarrow> namespaced_name \<Rightarrow> 'w \<Rightarrow> bool" where
  "read_fails E key w \<longleftrightarrow> isl (fst (e_getDeployment E (xianqi_key key) w))"

text \<open>
  The destruction takes an error of its read for the absence of the deployment: it returns without
  an error and leaves what is there.
\<close>

lemma destroy_view:
  assumes api: "deployment_api E view" and run: "DestroyXianqi E (handle_for key) key w = (Done (), w')"
  shows "view w' = (if read_fails E key w then view w else (view w)(xianqi_key key := None))"
proof -
  let ?k = "xianqi_key key"
  obtain r w1 where get: "e_getDeployment E ?k w = (r, w1)" by (cases "e_getDeployment E ?k w")
  show ?thesis
  proof (cases r)
    case (Inl e)
    then have "w' = w1" using run get by (simp add: DestroyXianqi_def handle_for_def go_simps)
    then show ?thesis using deployment_apiD(2) [OF api] get Inl by (auto simp: read_fails_def)
  next
    case (Inr d)
    then have "e_deleteDeployment E d w1 = (Inr (), w')"
      using run get by (auto simp: DestroyXianqi_def handle_for_def go_simps split: prod.splits sum.splits)
    then show ?thesis
      using deployment_apiD(1) [OF api] deployment_apiD(5) [OF api] get Inr by (auto simp: read_fails_def)
  qed
qed

lemma xianqi_destroyed:
  assumes "deployment_api E view"
    and "CreateOrUpdateXianqi E (handle_for key) key h w = (Done (), w1)"
    and "DestroyXianqi E (handle_for key) key w1 = (Done (), w2)"
  shows "view w2 = (if read_fails E key w1 then view w1 else (view w)(xianqi_key key := None))"
  using create_or_update_view [OF assms(1,2)] destroy_view [OF assms(1,3)] by auto

text \<open>The update alone fails where the other operation creates, and is the same otherwise.\<close>

lemma UpdateXianqi_eq:
  "UpdateXianqi E x key h w = (case e_getDeployment E (xm_xianqiKey x) w of
     (Inl e, w1) \<Rightarrow> (Fail e, w1)
   | (Inr d, w1) \<Rightarrow> CreateOrUpdateXianqi E x key h w)"
  by (auto simp: UpdateXianqi_def CreateOrUpdateXianqi_def go_simps split: prod.splits sum.splits)

text \<open>What is in place is applied again without a change.\<close>

lemma create_or_update_again:
  assumes api: "deployment_api E view"
    and first: "CreateOrUpdateXianqi E (handle_for key) key h w = (Done (), w1)"
    and again: "CreateOrUpdateXianqi E (handle_for key) key h' w2 = (Done (), w3)"
    and same: "view w2 = view w1" "hs_xianqiLiang (hm_spec h') = hs_xianqiLiang (hm_spec h)"
  shows "view w3 = view w1"
proof -
  obtain d c cs where d: "view w1 = (view w)(xianqi_key key \<mapsto> d)" "dp_containers d = c # cs"
    "dc_resources c = hs_xianqiLiang (hm_spec h)"
    using create_or_update_view [OF api first] by blast
  have v2: "view w2 (xianqi_key key) = Some d" using d(1) same(1) by simp
  obtain d' where d': "view w3 = (view w2)(xianqi_key key \<mapsto> d')"
    "d' = d\<lparr>dp_containers := hd (dp_containers d)\<lparr>dc_resources := hs_xianqiLiang (hm_spec h')\<rparr> # tl (dp_containers d)\<rparr>"
    using create_or_update_view [OF api again] unfolding v2 by auto
  have "d' = d" using d(2,3) same(2) unfolding d'(2) by simp
  then show ?thesis using d'(1) d(1) same(1) by simp
qed

text \<open>
  A cluster that accepts every write: an entry stored under a key other than its own is not seen.
\<close>

definition cluster_view :: "(namespaced_name \<Rightarrow> deployment option) \<Rightarrow> namespaced_name \<Rightarrow> deployment option" where
  "cluster_view w k = (case w k of None \<Rightarrow> None | Some d \<Rightarrow> if key_of d = k then Some d else None)"

definition cluster_env :: "(namespaced_name \<Rightarrow> deployment option) env" where
  "cluster_env = (quiet_env 0)\<lparr>
     e_getDeployment := \<lambda>k w. (case cluster_view w k of None \<Rightarrow> Inl (ApiError ''not found'') | Some d \<Rightarrow> Inr d, w),
     e_createDeployment := \<lambda>d w. (if cluster_view w (key_of d) = None then (Inr d, w(key_of d \<mapsto> d))
       else (Inl (ApiError ''already exists''), w)),
     e_updateDeployment := \<lambda>d w. (Inr d, w(key_of d \<mapsto> d)),
     e_deleteDeployment := \<lambda>d w. (Inr (), w(key_of d := None))\<rparr>"

lemma cluster_view_upd:
  "cluster_view (w(key_of d \<mapsto> d)) = (cluster_view w)(key_of d \<mapsto> d)"
  "cluster_view (w(k := None)) = (cluster_view w)(k := None)"
  by (auto simp: cluster_view_def fun_eq_iff)

lemma cluster_env_api: "deployment_api cluster_env cluster_view"
  by (auto simp: deployment_api_def cluster_env_def cluster_view_upd)
    (auto simp: cluster_view_def split: option.splits if_splits)

section \<open>Names\<close>

text \<open>
  The names of objects and containers that the API server accepts: lower-case letters, digits,
  and the signs \<open>-\<close> and \<open>.\<close>, as its documentation says.
\<close>

definition name_char :: "char \<Rightarrow> bool" where
  "name_char ch \<longleftrightarrow> ch \<in> set ''abcdefghijklmnopqrstuvwxyz0123456789-.''"

definition refuses_names :: "'w env \<Rightarrow> bool" where
  "refuses_names E \<longleftrightarrow>
     (\<forall>d w. list_all name_char (dp_name d) \<or> isl (fst (e_createDeployment E d w)))"

lemma create_refused:
  assumes "refuses_names E" "e_getDeployment E (xianqi_key key) w = (Inl e, w1)"
  shows "\<exists>e' w'. CreateOrUpdateXianqi E (handle_for key) key h w = (Fail e', w')"
proof -
  have "\<not> list_all name_char (dp_name (new_xianqi key h))"
    by (simp add: new_xianqi_def name_char_def Let_def)
  then have "isl (fst (e_createDeployment E (new_xianqi key h) w1))"
    using assms(1) unfolding refuses_names_def by blast
  then obtain e' w' where "e_createDeployment E (new_xianqi key h) w1 = (Inl e', w')"
    by (metis isl_def prod.collapse)
  then show ?thesis using assms(2) by (simp add: CreateOrUpdateXianqi_def handle_for_def go_simps)
qed

text \<open>A server that accepts a deployment exactly when its name is valid, and stores nothing.\<close>

definition checking_env :: "unit env" where
  "checking_env = (quiet_env 0)\<lparr>e_createDeployment := \<lambda>d w.
     (if list_all name_char (dp_name d) then Inr d else Inl (ApiError ''invalid name''), w)\<rparr>"

end
