(* ===== verification/Houmao_Controller.thy ===== *)
theory Houmao_Controller
  imports Xianqi_Manager Status_Updator
begin

text \<open>
  \<open>controllers/houmao_controller.go\<close>: the reconciler of the operator. It keeps the finalizer, the
  deployment and the status of a \<open>Houmao\<close>; the object that is read is shared by pointer with the
  handle of the status updates, so each call returns it as the API server answered.
\<close>

section \<open>The operations\<close>

definition IsZero :: "time option \<Rightarrow> bool" where
  "IsZero t = (case t of None \<Rightarrow> True | Some x \<Rightarrow> x = zero_time)"

primrec contains_loop :: "string list \<Rightarrow> string \<Rightarrow> bool" where
  "contains_loop [] param = False"
| "contains_loop (s # list) param = (if s = param then True else contains_loop list param)"

definition addString :: "string list \<Rightarrow> string \<Rightarrow> string list" where
  "addString list param = (if contains_loop list param then list else list @ [param])"

primrec removeString :: "string list \<Rightarrow> string \<Rightarrow> string list" where
  "removeString [] param = []"
| "removeString (s # list) param = (if s \<noteq> param then s # removeString list param else removeString list param)"

abbreviation with_finalizers :: "string list \<Rightarrow> houmao \<Rightarrow> houmao" where
  "with_finalizers fs obj \<equiv> obj\<lparr>hm_meta := (hm_meta obj)\<lparr>om_finalizers := fs\<rparr>\<rparr>"

definition addFinalizers :: "'w env \<Rightarrow> houmao \<Rightarrow> ('w, houmao) io" where
  "addFinalizers E obj =
     (if IsZero (om_deletionTimestamp (hm_meta obj)) then
        if length (om_finalizers (hm_meta obj)) = 0 then
          let obj1 = with_finalizers (addString (om_finalizers (hm_meta obj)) HoumaoFilalizer) obj in
          call (e_updateHoumao E obj1)
        else ret obj
      else ret obj)"

text \<open>The deletion adds the finalizer when there is none, and removes nothing.\<close>

definition delFinalizers :: "'w env \<Rightarrow> houmao \<Rightarrow> ('w, houmao) io" where
  "delFinalizers E obj =
     (if IsZero (om_deletionTimestamp (hm_meta obj)) then ret obj
      else if length (om_finalizers (hm_meta obj)) = 0 then
        let obj1 = with_finalizers (om_finalizers (hm_meta obj) @ [HoumaoFilalizer]) obj in
        call (e_updateHoumao E obj1)
      else ret obj)"

definition update_phase :: "'w env \<Rightarrow> string \<Rightarrow> houmao \<Rightarrow> ('w, houmao) io" where
  "update_phase E phase obj =
     bnd (UpdateShifaPhase E (fst (NewStatusUpdateHandle obj None)) phase) (\<lambda>h. ret (su_object h))"

definition Houmao_Reconcile :: "'w env \<Rightarrow> namespaced_name \<Rightarrow> ('w, unit) io" where
  "Houmao_Reconcile E objectKey =
     (let xianqiManagerHandle = \<lparr>xm_xianqiKey = \<lparr>nn_namespace = nn_namespace objectKey,
            nn_name = XianqiPrefix @ nn_name objectKey\<rparr>\<rparr> in
      handle (call (e_getHoumao E objectKey))
        (\<lambda>err. DestroyXianqi E xianqiManagerHandle objectKey)
        (\<lambda>object.
          if IsZero (om_deletionTimestamp (hm_meta object)) then
            bnd (addFinalizers E object) (\<lambda>object1.
            bnd (CreateOrUpdateXianqi E xianqiManagerHandle objectKey object1) (\<lambda>_.
            bnd (if hst_shifaPhase (hm_status object1) \<noteq> HoumaoPhaseXianqi
                 then update_phase E HoumaoPhaseXianqi object1 else ret object1) (\<lambda>object2.
            let xianqiInfo = \<lparr>xi_name = XianqiPrefix @ nn_name objectKey, xi_namespace = nn_namespace objectKey\<rparr> in
            if \<not> DeepEqual (V_Xianqi xianqiInfo) (V_Xianqi (hst_xianqiInfo (hm_status object2)))
            then bnd (UpdateXianqiInfo E (fst (NewStatusUpdateHandle object2 None)) xianqiInfo) (\<lambda>_. ret ())
            else ret ())))
          else
            bnd (DestroyXianqi E xianqiManagerHandle objectKey) (\<lambda>_.
            bnd (update_phase E HoumaoPhaseDestroy object) (\<lambda>object1.
            bnd (delFinalizers E object1) (\<lambda>_. ret ())))))"

section \<open>Lists of strings\<close>

lemma contains_loop_set: "contains_loop list param \<longleftrightarrow> param \<in> set list"
  by (induction list) auto

lemma addString_set: "set (addString list param) = insert param (set list)"
  by (auto simp: addString_def contains_loop_set)

lemma addString_distinct: "distinct list \<Longrightarrow> distinct (addString list param)"
  by (auto simp: addString_def contains_loop_set)

lemma removeString_filter: "removeString list param = filter (\<lambda>s. s \<noteq> param) list"
  by (induction list) auto

text \<open>
  Adding a string and removing it gives back a list without the string, adding one that is
  there changes nothing, and what is added is found.
\<close>

lemma strings_roundtrip:
  "removeString (addString list param) param = removeString list param \<and>
   addString (addString list param) param = addString list param \<and>
   (if param \<in> set list then addString list param = list
    else addString list param = list @ [param] \<and> removeString (addString list param) param = list)"
  by (auto simp: addString_def contains_loop_set removeString_filter filter_id_conv)

section \<open>Finalizers\<close>

lemma finalizer_frame:
  assumes "\<And>obj w. HoumaoFilalizer \<in> set (om_finalizers (hm_meta obj)) \<Longrightarrow> u obj w = e_updateHoumao E obj w"
  shows "addFinalizers (E\<lparr>e_updateHoumao := u\<rparr>) obj = addFinalizers E obj"
    and "delFinalizers (E\<lparr>e_updateHoumao := u\<rparr>) obj = delFinalizers E obj"
proof -
  have "call (u (with_finalizers fs obj)) = call (e_updateHoumao E (with_finalizers fs obj))"
    if "HoumaoFilalizer \<in> set fs" for fs
    using that assms [of "with_finalizers fs obj"] by (simp add: call_def fun_eq_iff)
  then have add: "call (u (with_finalizers (addString fs HoumaoFilalizer) obj)) =
        call (e_updateHoumao E (with_finalizers (addString fs HoumaoFilalizer) obj))"
    and del: "call (u (with_finalizers (fs @ [HoumaoFilalizer]) obj)) =
        call (e_updateHoumao E (with_finalizers (fs @ [HoumaoFilalizer]) obj))" for fs
    by (simp_all add: addString_set)
  have u: "e_updateHoumao (E\<lparr>e_updateHoumao := u\<rparr>) = u" by simp
  show "addFinalizers (E\<lparr>e_updateHoumao := u\<rparr>) obj = addFinalizers E obj"
    unfolding addFinalizers_def Let_def u add ..
  show "delFinalizers (E\<lparr>e_updateHoumao := u\<rparr>) obj = delFinalizers E obj"
    unfolding delFinalizers_def Let_def u del ..
qed

lemma update_frame:
  "CreateOrUpdateXianqi (E\<lparr>e_updateHoumao := u\<rparr>) x key h = CreateOrUpdateXianqi E x key h"
  "DestroyXianqi (E\<lparr>e_updateHoumao := u\<rparr>) x key = DestroyXianqi E x key"
  "update_phase (E\<lparr>e_updateHoumao := u\<rparr>) phase h = update_phase E phase h"
  "UpdateXianqiInfo (E\<lparr>e_updateHoumao := u\<rparr>) s xi = UpdateXianqiInfo E s xi"
  by (simp_all add: CreateOrUpdateXianqi_def DestroyXianqi_def update_phase_def UpdateShifaPhase_def UpdateXianqiInfo_def)

text \<open>
  C35: the reconciler never sends an update of a \<open>Houmao\<close> without the finalizer, also for an object
  that is being deleted: answers to such updates have no influence on it. So the finalizer, once
  added, stays until something else removes it.
\<close>

theorem finalizer_never_removed:
  assumes "\<And>obj w. HoumaoFilalizer \<in> set (om_finalizers (hm_meta obj)) \<Longrightarrow> u obj w = e_updateHoumao E obj w"
  shows "Houmao_Reconcile (E\<lparr>e_updateHoumao := u\<rparr>) key = Houmao_Reconcile E key"
proof -
  have f: "addFinalizers (E\<lparr>e_updateHoumao := u\<rparr>) obj = addFinalizers E obj"
    "delFinalizers (E\<lparr>e_updateHoumao := u\<rparr>) obj = delFinalizers E obj" for obj
    by (simp_all only: finalizer_frame [of u E, OF assms])
  have g: "e_getHoumao (E\<lparr>e_updateHoumao := u\<rparr>) = e_getHoumao E" by simp
  show ?thesis unfolding Houmao_Reconcile_def f g update_frame ..
qed

text \<open>A cluster with one object that is being deleted and still carries its finalizer.\<close>

definition deleting_houmao :: houmao where
  "deleting_houmao = zero_houmao\<lparr>hm_meta := zero_meta\<lparr>om_name := ''web'', om_namespace := ''ns'',
     om_deletionTimestamp := Some 5, om_finalizers := [HoumaoFilalizer]\<rparr>\<rparr>"

definition web_key :: namespaced_name where
  "web_key = \<lparr>nn_namespace = ''ns'', nn_name = ''web''\<rparr>"

definition one_houmao_env :: "houmao \<Rightarrow> (namespaced_name \<Rightarrow> deployment option) env" where
  "one_houmao_env h = cluster_env\<lparr>
     e_getHoumao := \<lambda>k w. (if k = web_key then Inr h else Inl (ApiError ''not found''), w),
     e_updateHoumao := \<lambda>obj w. (Inr obj, w),
     e_patchHoumao := \<lambda>obj j w. (Inr obj, w)\<rparr>"

theorem finalizer_never_removed_witness:
  "Houmao_Reconcile ((one_houmao_env deleting_houmao)\<lparr>e_updateHoumao := \<lambda>obj w.
      if HoumaoFilalizer \<in> set (om_finalizers (hm_meta obj)) then (Inr obj, w) else (Inl (ApiError ''refused''), w)\<rparr>) web_key =
   Houmao_Reconcile (one_houmao_env deleting_houmao) web_key"
  by (rule finalizer_never_removed) (simp add: one_houmao_env_def)

section \<open>The reconciler on a cluster\<close>

text \<open>
  The documented behaviour of the API server on the objects: no call on them changes a
  deployment, and the answer to an update has the specification that was sent.
\<close>

definition houmao_api :: "'w env \<Rightarrow> ('w \<Rightarrow> namespaced_name \<Rightarrow> deployment option) \<Rightarrow> bool" where
  "houmao_api E view \<longleftrightarrow>
     (\<forall>k w. view (snd (e_getHoumao E k w)) = view w) \<and>
     (\<forall>h w. view (snd (e_updateHoumao E h w)) = view w) \<and>
     (\<forall>h j w. view (snd (e_patchHoumao E h j w)) = view w) \<and>
     (\<forall>h w h' w'. e_updateHoumao E h w = (Inr h', w') \<longrightarrow> hm_spec h' = hm_spec h)"

lemma houmao_apiD:
  assumes "houmao_api E view"
  shows "e_getHoumao E k w = (r, w') \<Longrightarrow> view w' = view w"
    and "e_updateHoumao E h w = (r, w') \<Longrightarrow> view w' = view w"
    and "e_patchHoumao E h j w = (r, w') \<Longrightarrow> view w' = view w"
    and "e_updateHoumao E h w = (Inr h', w') \<Longrightarrow> hm_spec h' = hm_spec h"
  using assms unfolding houmao_api_def by (metis snd_conv)+

lemma finalizers_view:
  assumes "houmao_api E view"
  shows "addFinalizers E h w = (Done h', w') \<Longrightarrow> view w' = view w \<and> hm_spec h' = hm_spec h"
    and "delFinalizers E h w = (Done h', w') \<Longrightarrow> view w' = view w"
  using houmao_apiD [OF assms]
  by (auto simp: addFinalizers_def delFinalizers_def go_simps Let_def split: if_splits prod.splits sum.splits)

lemma status_view:
  assumes "houmao_api E view"
  shows "update_phase E phase h w = (Done h', w') \<Longrightarrow> view w' = view w"
    and "UpdateXianqiInfo E s xi w = (Done s', w') \<Longrightarrow> view w' = view w"
  using houmao_apiD(3) [OF assms]
  by (auto simp: update_phase_def UpdateShifaPhase_def UpdateXianqiInfo_def go_simps
      split: if_splits prod.splits sum.splits)

lemma handle_key: "\<lparr>xm_xianqiKey = \<lparr>nn_namespace = nn_namespace key, nn_name = XianqiPrefix @ nn_name key\<rparr>\<rparr> = handle_for key"
  by (simp add: handle_for_def xianqi_key_def)

lemma reconcile_live:
  assumes "e_getHoumao E key w = (Inr h, w1)" "IsZero (om_deletionTimestamp (hm_meta h))"
    and "Houmao_Reconcile E key w = (Done (), w')"
  obtains h1 w2 w3 where "addFinalizers E h w1 = (Done h1, w2)"
    "CreateOrUpdateXianqi E (handle_for key) key h1 w2 = (Done (), w3)"
    "\<And>view. houmao_api E view \<Longrightarrow> view w' = view w3"
proof -
  have run: "(bnd (addFinalizers E h) (\<lambda>object1.
      bnd (CreateOrUpdateXianqi E (handle_for key) key object1) (\<lambda>_.
      bnd (if hst_shifaPhase (hm_status object1) \<noteq> HoumaoPhaseXianqi
           then update_phase E HoumaoPhaseXianqi object1 else ret object1) (\<lambda>object2.
      let xi = \<lparr>xi_name = XianqiPrefix @ nn_name key, xi_namespace = nn_namespace key\<rparr> in
      if \<not> DeepEqual (V_Xianqi xi) (V_Xianqi (hst_xianqiInfo (hm_status object2)))
      then bnd (UpdateXianqiInfo E (fst (NewStatusUpdateHandle object2 None)) xi) (\<lambda>_. ret ())
      else ret ())))) w1 = (Done (), w')"
    using assms unfolding Houmao_Reconcile_def Let_def handle_key by (simp add: io_apply(4,5))
  obtain h1 w2 u w3 h2 w4 where s: "addFinalizers E h w1 = (Done h1, w2)"
    "CreateOrUpdateXianqi E (handle_for key) key h1 w2 = (Done u, w3)"
    "(if hst_shifaPhase (hm_status h1) \<noteq> HoumaoPhaseXianqi then update_phase E HoumaoPhaseXianqi h1 else ret h1) w3
      = (Done h2, w4)"
    "(let xi = \<lparr>xi_name = XianqiPrefix @ nn_name key, xi_namespace = nn_namespace key\<rparr> in
      if \<not> DeepEqual (V_Xianqi xi) (V_Xianqi (hst_xianqiInfo (hm_status h2)))
      then bnd (UpdateXianqiInfo E (fst (NewStatusUpdateHandle h2 None)) xi) (\<lambda>_. ret ())
      else ret ()) w4 = (Done (), w')"
    using run by (elim bnd_DoneE)
  have "view w' = view w3" if "houmao_api E view" for view
  proof -
    have "view w4 = view w3" using s(3) status_view(1) [OF that] by (auto simp: go_simps split: if_splits)
    moreover have "view w' = view w4"
      using s(4) status_view(2) [OF that] by (auto simp: go_simps Let_def split: if_splits prod.splits outcome.splits)
    ultimately show ?thesis by simp
  qed
  moreover have "CreateOrUpdateXianqi E (handle_for key) key h1 w2 = (Done (), w3)" using s(2) by simp
  ultimately show thesis using s(1) that by blast
qed

lemma reconcile_gone:
  assumes "e_getHoumao E key w = (r, w1)"
    and "case r of Inl e \<Rightarrow> True | Inr h \<Rightarrow> \<not> IsZero (om_deletionTimestamp (hm_meta h))"
    and "Houmao_Reconcile E key w = (Done (), w')"
  obtains w2 where "DestroyXianqi E (handle_for key) key w1 = (Done (), w2)"
    "\<And>view. houmao_api E view \<Longrightarrow> view w' = view w2"
proof (cases r)
  case (Inl e)
  then have "DestroyXianqi E (handle_for key) key w1 = (Done (), w')"
    using assms(1,3) unfolding Houmao_Reconcile_def Let_def handle_key by (simp add: io_apply(4,5))
  then show thesis using that by blast
next
  case (Inr h)
  then have "bnd (DestroyXianqi E (handle_for key) key) (\<lambda>_.
      bnd (update_phase E HoumaoPhaseDestroy h) (\<lambda>h1. bnd (delFinalizers E h1) (\<lambda>_. ret ()))) w1 = (Done (), w')"
    using assms unfolding Houmao_Reconcile_def Let_def handle_key by (simp add: io_apply(4,5))
  then obtain w2 h1 w3 h2 where s: "DestroyXianqi E (handle_for key) key w1 = (Done (), w2)"
    "update_phase E HoumaoPhaseDestroy h w2 = (Done h1, w3)" "delFinalizers E h1 w3 = (Done h2, w')"
    by (auto simp: io_apply(1) elim!: bnd_DoneE)
  have "view w' = view w2" if "houmao_api E view" for view
    using status_view(1) [OF that s(2)] finalizers_view(2) [OF that s(3)] by simp
  with s(1) show thesis by (rule that)
qed

definition is_live :: "gerror + houmao \<Rightarrow> bool" where
  "is_live r = (case r of Inl e \<Rightarrow> False | Inr h \<Rightarrow> IsZero (om_deletionTimestamp (hm_meta h)))"

lemma reconcile_live_view:
  assumes "houmao_api E view" "Houmao_Reconcile E key w = (Done (), w')"
    and "e_getHoumao E key w = (Inr h, w1)" "IsZero (om_deletionTimestamp (hm_meta h))"
  obtains h1 w2 w3 where "CreateOrUpdateXianqi E (handle_for key) key h1 w2 = (Done (), w3)"
    "view w' = view w3" "view w2 = view w" "hm_spec h1 = hm_spec h"
proof -
  obtain h1 w2 w3 where s: "addFinalizers E h w1 = (Done h1, w2)"
    "CreateOrUpdateXianqi E (handle_for key) key h1 w2 = (Done (), w3)" "view w' = view w3"
    using reconcile_live [OF assms(3,4,2)] assms(1) by metis
  have "view w2 = view w" "hm_spec h1 = hm_spec h"
    using finalizers_view(1) [OF assms(1) s(1)] houmao_apiD(1) [OF assms(1,3)] by simp_all
  with s show thesis using that by blast
qed

text \<open>
  C6: on a cluster whose API server behaves as documented, a reconciliation that returns without
  an error has put the deployment of a live object in place, with the resources of its
  specification and otherwise as it was, or new when there was none; no other deployment is
  touched. When the object is being deleted, or its read fails for whatever reason, the deployment
  is removed, unless its own read fails: then it stays.
\<close>

theorem reconcile_cluster:
  assumes "deployment_api E view" "houmao_api E view"
    and "Houmao_Reconcile E key w = (Done (), w')" "e_getHoumao E key w = (r, w1)"
  shows "if is_live r
    then \<exists>d c cs. view w' = (view w)(xianqi_key key \<mapsto> d) \<and> dp_containers d = c # cs \<and>
      dc_resources c = hs_xianqiLiang (hm_spec (projr r)) \<and>
      (case view w (xianqi_key key) of
         None \<Rightarrow> d = new_xianqi key (projr r)
       | Some d0 \<Rightarrow> d = d0\<lparr>dp_containers := hd (dp_containers d0)\<lparr>dc_resources := hs_xianqiLiang (hm_spec (projr r))\<rparr>
           # tl (dp_containers d0)\<rparr>)
    else view w' = (if read_fails E key w1 then view w else (view w)(xianqi_key key := None))"
proof (cases "is_live r")
  case True
  then obtain h where h: "r = Inr h" "IsZero (om_deletionTimestamp (hm_meta h))" by (auto simp: is_live_def split: sum.splits)
  obtain h1 w2 w3 where s: "CreateOrUpdateXianqi E (handle_for key) key h1 w2 = (Done (), w3)"
    "view w' = view w3" "view w2 = view w" "hm_spec h1 = hm_spec h"
    using reconcile_live_view [OF assms(2,3)] assms(4) h by metis
  have n: "new_xianqi key h1 = new_xianqi key h" using s(4) by (simp add: new_xianqi_def)
  show ?thesis
    using create_or_update_view [OF assms(1) s(1)] unfolding if_P [OF True] unfolding h(1) sum.sel s(2-4) n .
next
  case False
  then have gone: "case r of Inl e \<Rightarrow> True | Inr h \<Rightarrow> \<not> IsZero (om_deletionTimestamp (hm_meta h))"
    by (simp add: is_live_def split: sum.splits)
  obtain w2 where s: "DestroyXianqi E (handle_for key) key w1 = (Done (), w2)" "view w' = view w2"
    using reconcile_gone [OF assms(4) gone assms(3)] assms(2) by metis
  show ?thesis
    using destroy_view [OF assms(1) s(1)] s(2) houmao_apiD(1) [OF assms(2,4)] False by simp
qed

definition live_houmao :: houmao where
  "live_houmao = zero_houmao\<lparr>hm_meta := zero_meta\<lparr>om_name := ''web'', om_namespace := ''ns''\<rparr>\<rparr>"

lemma one_houmao_api: "deployment_api (one_houmao_env h) cluster_view" "houmao_api (one_houmao_env h) cluster_view"
proof -
  show "deployment_api (one_houmao_env h) cluster_view"
    using cluster_env_api by (simp add: deployment_api_def one_houmao_env_def)
  show "houmao_api (one_houmao_env h) cluster_view"
    by (simp add: houmao_api_def one_houmao_env_def)
qed

lemma one_houmao_get: "e_getHoumao (one_houmao_env h) web_key w = (Inr h, w)"
  by (simp add: one_houmao_env_def)

lemma live_is_live: "IsZero (om_deletionTimestamp (hm_meta live_houmao))"
  by (simp add: live_houmao_def zero_meta_def IsZero_def)

text \<open>On a cluster that accepts every valid write, the reconciliation of a live object succeeds.\<close>

lemma live_reconciled:
  assumes "case cluster_view w (xianqi_key web_key) of None \<Rightarrow> True | Some d \<Rightarrow> dp_containers d \<noteq> []"
  shows "\<exists>w'. Houmao_Reconcile (one_houmao_env live_houmao) web_key w = (Done (), w')"
proof -
  let ?E = "one_houmao_env live_houmao"
  note data = one_houmao_env_def cluster_env_def
  have create: "\<exists>w'. CreateOrUpdateXianqi ?E (handle_for web_key) web_key h w = (Done (), w')" for h
  proof (cases "cluster_view w (xianqi_key web_key)")
    case None
    then show ?thesis
      using new_xianqi_key [of web_key h] by (simp add: CreateOrUpdateXianqi_def handle_for_def data go_simps)
  next
    case (Some d)
    then obtain c cs where "dp_containers d = c # cs" using assms by (cases "dp_containers d") auto
    then show ?thesis
      using Some by (simp add: CreateOrUpdateXianqi_def handle_for_def data go_simps set_resources_def)
  qed
  have add: "\<exists>h. addFinalizers ?E live_houmao u = (Done h, u)" for u
    by (simp add: addFinalizers_def data go_simps Let_def)
  have phase: "\<exists>h'. (if b then update_phase ?E phase h else ret h) u = (Done h', u)" for phase h u b
    by (simp add: update_phase_def UpdateShifaPhase_def data go_simps)
  have info: "\<exists>u'. (if b then bnd (UpdateXianqiInfo ?E s xi) (\<lambda>_. ret ()) else ret ()) u = (Done (), u')" for b s xi u
    by (simp add: UpdateXianqiInfo_def data go_simps)
  obtain h where h: "addFinalizers ?E live_houmao w = (Done h, w)" using add by blast
  obtain w' where c: "CreateOrUpdateXianqi ?E (handle_for web_key) web_key h w = (Done (), w')" using create by blast
  obtain h' where p: "(if hst_shifaPhase (hm_status h) \<noteq> HoumaoPhaseXianqi
      then update_phase ?E HoumaoPhaseXianqi h else ret h) w' = (Done h', w')"
    using phase by blast
  have get: "call (e_getHoumao ?E web_key) w = (Done live_houmao, w)" by (simp add: io_apply(5) one_houmao_get)
  show ?thesis
    unfolding Houmao_Reconcile_def Let_def handle_key io_apply(4) get
    by (simp only: prod.case outcome.case live_is_live if_True bnd_run [where m = "addFinalizers ?E live_houmao", OF h]
      bnd_run [where m = "CreateOrUpdateXianqi ?E (handle_for web_key) web_key h", OF c]
      bnd_run [where m = "if hst_shifaPhase (hm_status h) \<noteq> HoumaoPhaseXianqi
        then update_phase ?E HoumaoPhaseXianqi h else ret h", OF p] info)
qed

theorem reconcile_cluster_witness:
  "\<exists>w'. Houmao_Reconcile (one_houmao_env live_houmao) web_key (\<lambda>_. None) = (Done (), w') \<and>
     cluster_view w' = (\<lambda>_. None)(xianqi_key web_key \<mapsto> new_xianqi web_key live_houmao)"
proof -
  have v: "cluster_view (\<lambda>_. None) = (\<lambda>_. None)" by (simp add: cluster_view_def fun_eq_iff)
  then obtain w' where run: "Houmao_Reconcile (one_houmao_env live_houmao) web_key (\<lambda>_. None) = (Done (), w')"
    using live_reconciled [of "\<lambda>_. None"] by auto
  then show ?thesis
    using reconcile_cluster [OF one_houmao_api run one_houmao_get] v by (auto simp: is_live_def live_is_live)
qed

text \<open>
  C7: once a reconciliation of a live object has returned without an error, one that follows it and
  reads a live object with the same resources changes no deployment: what is reconciled is a fixed
  point, as long as the deployments and the resources stay as they are.
\<close>

theorem reconcile_idempotent:
  assumes "deployment_api E view" "houmao_api E view"
    and "Houmao_Reconcile E key w = (Done (), w')" "is_live (fst (e_getHoumao E key w))"
    and "Houmao_Reconcile E key v = (Done (), v')" "is_live (fst (e_getHoumao E key v))"
    and "view v = view w'"
    and "hs_xianqiLiang (hm_spec (projr (fst (e_getHoumao E key v)))) =
         hs_xianqiLiang (hm_spec (projr (fst (e_getHoumao E key w))))"
  shows "view v' = view w'"
proof -
  have live: "\<exists>h w1. e_getHoumao E key u = (Inr h, w1) \<and> IsZero (om_deletionTimestamp (hm_meta h))"
    if "is_live (fst (e_getHoumao E key u))" for u
    using that by (cases "e_getHoumao E key u") (auto simp: is_live_def split: sum.splits)
  obtain h w1 where h: "e_getHoumao E key w = (Inr h, w1)" "IsZero (om_deletionTimestamp (hm_meta h))"
    using live assms(4) by blast
  obtain g v1 where g: "e_getHoumao E key v = (Inr g, v1)" "IsZero (om_deletionTimestamp (hm_meta g))"
    using live assms(6) by blast
  obtain h1 w2 w3 where a: "CreateOrUpdateXianqi E (handle_for key) key h1 w2 = (Done (), w3)"
    "view w' = view w3" "hm_spec h1 = hm_spec h" by (rule reconcile_live_view [OF assms(2,3) h])
  obtain g1 v2 v3 where b: "CreateOrUpdateXianqi E (handle_for key) key g1 v2 = (Done (), v3)"
    "view v' = view v3" "view v2 = view v" "hm_spec g1 = hm_spec g" by (rule reconcile_live_view [OF assms(2,5) g])
  show ?thesis
    using create_or_update_again [OF assms(1) a(1) b(1)] a(2,3) b(2-4) assms(7,8) h(1) g(1) by simp
qed

theorem reconcile_idempotent_witness:
  "\<exists>w' v'. Houmao_Reconcile (one_houmao_env live_houmao) web_key (\<lambda>_. None) = (Done (), w') \<and>
     Houmao_Reconcile (one_houmao_env live_houmao) web_key w' = (Done (), v') \<and> cluster_view v' = cluster_view w'"
proof -
  have v: "cluster_view (\<lambda>_. None) = (\<lambda>_. None)" by (simp add: cluster_view_def fun_eq_iff)
  then obtain w' where run: "Houmao_Reconcile (one_houmao_env live_houmao) web_key (\<lambda>_. None) = (Done (), w')"
    using live_reconciled [of "\<lambda>_. None"] by auto
  obtain h1 w2 w3 where a: "CreateOrUpdateXianqi (one_houmao_env live_houmao) (handle_for web_key) web_key h1 w2 = (Done (), w3)"
    "cluster_view w' = cluster_view w3"
    by (rule reconcile_live_view [OF one_houmao_api(2) run one_houmao_get live_is_live])
  have "case cluster_view w' (xianqi_key web_key) of None \<Rightarrow> True | Some d \<Rightarrow> dp_containers d \<noteq> []"
    using create_or_update_view [OF one_houmao_api(1) a(1)] a(2) by auto
  then obtain v' where again: "Houmao_Reconcile (one_houmao_env live_houmao) web_key w' = (Done (), v')"
    using live_reconciled by blast
  show ?thesis
    using run again reconcile_idempotent [OF one_houmao_api run _ again]
    by (simp add: one_houmao_get is_live_def live_is_live)
qed

text \<open>
  C34: on a server that checks names, the reconciliation of a live object whose deployment does
  not exist always fails, and no status is ever sent for it.
\<close>

theorem reconcile_live_fails:
  fixes E :: "'w env" and w :: 'w
  assumes "refuses_names E" "\<And>w'. isl (fst (e_getDeployment E (xianqi_key key) w'))"
    and "e_getHoumao E key w = (Inr h, w1)" "IsZero (om_deletionTimestamp (hm_meta h))"
  shows "\<exists>e w'. Houmao_Reconcile E key w = (Fail e, w') \<and>
    Houmao_Reconcile (E\<lparr>e_patchHoumao := p\<rparr>) key w = (Fail e, w')"
proof -
  have create: "\<exists>e w'. CreateOrUpdateXianqi E (handle_for key) key h' w2 = (Fail e, w')" for h' w2
  proof -
    obtain e w3 where "e_getDeployment E (xianqi_key key) w2 = (Inl e, w3)"
      using assms(2) [of w2] by (metis isl_def prod.collapse)
    then show ?thesis using create_refused [OF assms(1)] by blast
  qed
  have same: "CreateOrUpdateXianqi (E\<lparr>e_patchHoumao := p\<rparr>) = CreateOrUpdateXianqi E"
    "addFinalizers (E\<lparr>e_patchHoumao := p\<rparr>) = addFinalizers E"
    by (simp_all add: fun_eq_iff CreateOrUpdateXianqi_def addFinalizers_def)
  obtain r w2 where add: "addFinalizers E h w1 = (r, w2)" by (cases "addFinalizers E h w1")
  have np: "r \<noteq> Panic q" for q
    using add by (auto simp: addFinalizers_def go_simps Let_def split: if_splits prod.splits sum.splits)
  have red: "Houmao_Reconcile E' key w = (case addFinalizers E' h w1 of
      (Done h1, w2) \<Rightarrow> (case CreateOrUpdateXianqi E' (handle_for key) key h1 w2 of
        (Fail e, w3) \<Rightarrow> (Fail e, w3) | _ \<Rightarrow> Houmao_Reconcile E' key w)
      | (Fail e, w2) \<Rightarrow> (Fail e, w2) | (Panic q, w2) \<Rightarrow> (Panic q, w2))"
    if "e_getHoumao E' key w = (Inr h, w1)" for E' :: "'w env"
    using that assms(4) unfolding Houmao_Reconcile_def Let_def handle_key
    by (auto simp: io_apply(3,4,5) split: prod.splits outcome.splits)
  show ?thesis
  proof (cases r)
    case (Done h1)
    obtain e w3 where c: "CreateOrUpdateXianqi E (handle_for key) key h1 w2 = (Fail e, w3)" using create by blast
    show ?thesis using red [of E] red [of "E\<lparr>e_patchHoumao := p\<rparr>"] assms(3) add Done c by (simp add: same)
  next
    case (Fail e)
    then show ?thesis using red [of E] red [of "E\<lparr>e_patchHoumao := p\<rparr>"] assms(3) add by (simp add: same)
  qed (use np in blast)
qed

definition strict_env :: "unit env" where
  "strict_env = checking_env\<lparr>e_getHoumao := \<lambda>k w. (Inr live_houmao, w), e_updateHoumao := \<lambda>obj w. (Inr obj, w)\<rparr>"

theorem reconcile_live_fails_witness:
  "\<exists>e w'. Houmao_Reconcile strict_env web_key () = (Fail e, w') \<and>
     Houmao_Reconcile (strict_env\<lparr>e_patchHoumao := \<lambda>h j w. (Inr h, w)\<rparr>) web_key () = (Fail e, w')"
proof (rule reconcile_live_fails)
  show "refuses_names strict_env" by (simp add: refuses_names_def strict_env_def checking_env_def)
  show "isl (fst (e_getDeployment strict_env (xianqi_key web_key) w'))" for w'
    by (simp add: strict_env_def checking_env_def quiet_env_def)
  show "e_getHoumao strict_env web_key () = (Inr live_houmao, ())" by (simp add: strict_env_def)
  show "IsZero (om_deletionTimestamp (hm_meta live_houmao))"
    by (simp add: live_houmao_def zero_meta_def IsZero_def)
qed

end
