(* ===== verification/Command_Line.thy ===== *)
theory Command_Line
  imports Float64
begin

text \<open>
  The command line. The flags that the program documents belong to the standard package \<open>flag\<close>,
  whose parser is modelled here with the flags of \<open>cmd/zaohua.go\<close>, of \<open>cmd/initial/initial.go\<close> and
  of the vendored logging library. The command itself is found by the library \<open>cobra\<close>, which has a
  parser and flags of its own (theory \<open>Cobra\<close>).
\<close>

section \<open>The flags\<close>

datatype flag_kind = F_Bool | F_String | F_Duration | F_Float | F_Other

type_synonym flag_set = "(string \<times> flag_kind) list"

definition zaohua_flags :: flag_set where
  "zaohua_flags = [(''cpu-initialization-period'', F_Duration), (''initial-readiness-delay'', F_Duration),
     (''down-scale-stabilization-window'', F_Duration), (''scale-tolerance'', F_Float)]"

definition initial_flags :: flag_set where
  "initial_flags = [(''metrics-bind-address'', F_String), (''health-probe-bind-address'', F_String),
     (''leader-elect'', F_Bool), (''log-level'', F_String)]"

definition zap_flags :: flag_set where
  "zap_flags = [(''zap-devel'', F_Bool), (''zap-encoder'', F_Other), (''zap-log-level'', F_Other),
     (''zap-stacktrace-level'', F_Other)]"

section \<open>The parser of the package flag\<close>

text \<open>
  How a text becomes a value: the standard library decides it for durations and floats, and the
  logging library for its own flags.
\<close>

record flag_values =
  fv_duration :: "string \<Rightarrow> i64 option"
  fv_float :: "string \<Rightarrow> f64 option"
  fv_other :: "string \<Rightarrow> string \<Rightarrow> bool"

definition bool_texts :: "string list" where
  "bool_texts = [''1'', ''t'', ''T'', ''true'', ''TRUE'', ''True'', ''0'', ''f'', ''F'', ''false'', ''FALSE'', ''False'']"

definition flag_accepts :: "flag_values \<Rightarrow> flag_kind \<Rightarrow> string \<Rightarrow> string \<Rightarrow> bool" where
  "flag_accepts vals kind name value =
     (case kind of
        F_Bool \<Rightarrow> value \<in> set bool_texts
      | F_String \<Rightarrow> True
      | F_Duration \<Rightarrow> fv_duration vals value \<noteq> None
      | F_Float \<Rightarrow> fv_float vals value \<noteq> None
      | F_Other \<Rightarrow> fv_other vals name value)"

text \<open>An argument is a flag when it starts with a minus and has more than it.\<close>

definition flag_like :: "string \<Rightarrow> bool" where
  "flag_like s \<longleftrightarrow> 2 \<le> length s \<and> hd s = CHR ''-'' \<and> s \<noteq> ''--''"

text \<open>The text after one or two minuses, split at the first equality sign but one in front.\<close>

definition flag_text :: "string \<Rightarrow> string" where
  "flag_text s = (if s ! 1 = CHR ''-'' then drop 2 s else drop 1 s)"

definition split_value :: "string \<Rightarrow> string \<times> string option" where
  "split_value text =
     (case text of
        [] \<Rightarrow> ([], None)
      | c # cs \<Rightarrow>
          (case dropWhile (\<lambda>x. x \<noteq> CHR ''='') cs of
             [] \<Rightarrow> (text, None)
           | e # value \<Rightarrow> (c # takeWhile (\<lambda>x. x \<noteq> CHR ''='') cs, Some value)))"

text \<open>
  The parser takes flags until the first argument that is none. A flag that needs a value takes
  the next argument when it has none of its own. Every error ends the process with the code 2,
  and the request for help, which is no flag of the program, with 0. The result are the values
  that were set, in order.
\<close>

fun flag_parse :: "flag_values \<Rightarrow> flag_set \<Rightarrow> string list \<Rightarrow> (string \<times> string) list
    \<Rightarrow> nat + (string \<times> string) list" where
  "flag_parse vals flags [] parsed = Inr parsed"
| "flag_parse vals flags (s # args) parsed =
     (if \<not> flag_like s then Inr parsed
      else
        let text = flag_text s in
        if text = [] \<or> hd text = CHR ''-'' \<or> hd text = CHR ''='' then Inl 2
        else
          let (name, value) = split_value text in
          case map_of flags name of
            None \<Rightarrow> Inl (if name = ''help'' \<or> name = ''h'' then 0 else 2)
          | Some F_Bool \<Rightarrow>
              (let v = (case value of Some v \<Rightarrow> v | None \<Rightarrow> ''true'') in
               if flag_accepts vals F_Bool name v then flag_parse vals flags args (parsed @ [(name, v)]) else Inl 2)
          | Some kind \<Rightarrow>
              (case value of
                 Some v \<Rightarrow>
                   if flag_accepts vals kind name v then flag_parse vals flags args (parsed @ [(name, v)]) else Inl 2
               | None \<Rightarrow>
                   (case args of
                      [] \<Rightarrow> Inl 2
                    | v # rest \<Rightarrow>
                        if flag_accepts vals kind name v then flag_parse vals flags rest (parsed @ [(name, v)])
                        else Inl 2)))"

text \<open>The text that a flag was last set to, if any.\<close>

definition flag_value :: "string \<Rightarrow> (string \<times> string) list \<Rightarrow> string option" where
  "flag_value name parsed = map_of (rev parsed) name"

section \<open>Command lines that set nothing\<close>

lemma flag_parse_none: "case args of [] \<Rightarrow> True | s # rest \<Rightarrow> \<not> flag_like s \<Longrightarrow> flag_parse vals flags args parsed = Inr parsed"
  by (cases args) simp_all

end
