(* ===== verification/Cobra.thy ===== *)
theory Cobra
  imports Command_Line
begin

text \<open>
  The vendored library \<open>cobra\<close> with its parser \<open>pflag\<close>: the tree of the commands, the search for the
  command that a command line names, and the parser of its flags (\<open>command.go\<close>, \<open>args.go\<close>,
  \<open>completions.go\<close> and \<open>pflag/flag.go\<close> under \<open>vendor/github.com/spf13\<close>).
\<close>

section \<open>Commands and flags\<close>

text \<open>A flag is a boolean, which has a value when none is given, or a string, which has not.\<close>

record pflag =
  pf_name :: string
  pf_shorthand :: "char option"
  pf_bool :: bool

definition NoOptDefVal :: "pflag \<Rightarrow> string" where
  "NoOptDefVal f = (if pf_bool f then ''true'' else [])"

datatype positional_args = LegacyArgs | NoArgs | MinimumNArgs nat

datatype command_run = ShifaRunner | ZaohuaRunner | CustomizemetricsRun | LibraryRun

datatype cobra_command = Command
  (cc_use: string) (cc_aliases: "string list") (cc_flags: "pflag list") (cc_persistentFlags: "pflag list")
  (cc_args: positional_args) (cc_disableFlagParsing: bool) (cc_run: "command_run option")
  (cc_commands: "cobra_command list")

definition with_commands :: "cobra_command list \<Rightarrow> cobra_command \<Rightarrow> cobra_command" where
  "with_commands cs c = Command (cc_use c) (cc_aliases c) (cc_flags c) (cc_persistentFlags c)
     (cc_args c) (cc_disableFlagParsing c) (cc_run c) cs"

definition Name :: "cobra_command \<Rightarrow> string" where
  "Name c = takeWhile (\<lambda>x. x \<noteq> CHR '' '') (cc_use c)"

definition HasAlias :: "cobra_command \<Rightarrow> string \<Rightarrow> bool" where
  "HasAlias c s \<longleftrightarrow> s \<in> set (cc_aliases c)"

definition Lookup :: "pflag list \<Rightarrow> string \<Rightarrow> pflag option" where
  "Lookup flags name = find (\<lambda>f. pf_name f = name) flags"

definition ShorthandLookup :: "pflag list \<Rightarrow> char \<Rightarrow> pflag option" where
  "ShorthandLookup flags c = find (\<lambda>f. pf_shorthand f = Some c) flags"

text \<open>The flags of a set that are not there by name are added; none that is merged has a shorthand.\<close>

primrec AddFlagSet :: "pflag list \<Rightarrow> pflag list \<Rightarrow> pflag list" where
  "AddFlagSet flags [] = flags"
| "AddFlagSet flags (f # new) =
     AddFlagSet (if Lookup flags (pf_name f) = None then flags @ [f] else flags) new"

definition mergePersistentFlags :: "pflag list \<Rightarrow> cobra_command \<Rightarrow> pflag list" where
  "mergePersistentFlags parents c = AddFlagSet (AddFlagSet (cc_flags c) (cc_persistentFlags c)) parents"

section \<open>The search for the command\<close>

definition hasNoOptDefVal :: "string \<Rightarrow> pflag list \<Rightarrow> bool" where
  "hasNoOptDefVal name flags = (case Lookup flags name of None \<Rightarrow> False | Some f \<Rightarrow> NoOptDefVal f \<noteq> [])"

definition shortHasNoOptDefVal :: "string \<Rightarrow> pflag list \<Rightarrow> bool" where
  "shortHasNoOptDefVal name flags =
     (case name of
        [] \<Rightarrow> False
      | c # cs \<Rightarrow> (case ShorthandLookup flags c of None \<Rightarrow> False | Some f \<Rightarrow> NoOptDefVal f \<noteq> []))"

definition HasPrefix :: "string \<Rightarrow> string \<Rightarrow> bool" where
  "HasPrefix s p \<longleftrightarrow> take (length p) s = p"

text \<open>
  The arguments that are no flags and no values of flags. A flag that needs a value ends the loop
  when at most one argument follows it.
\<close>

fun stripFlags :: "string list \<Rightarrow> pflag list \<Rightarrow> string list" where
  "stripFlags [] flags = []"
| "stripFlags (s # args) flags =
     (if s = ''--'' then []
      else if HasPrefix s ''--'' \<and> CHR ''='' \<notin> set s \<and> \<not> hasNoOptDefVal (drop 2 s) flags \<or>
        HasPrefix s ''-'' \<and> CHR ''='' \<notin> set s \<and> length s = 2 \<and> \<not> shortHasNoOptDefVal (drop 1 s) flags
      then (if length args \<le> 1 then [] else stripFlags (tl args) flags)
      else if s \<noteq> [] \<and> \<not> HasPrefix s ''-'' then s # stripFlags args flags
      else stripFlags args flags)"

primrec argsMinusFirstX :: "string list \<Rightarrow> string \<Rightarrow> string list" where
  "argsMinusFirstX [] x = []"
| "argsMinusFirstX (y # args) x = (if x = y then args else y # argsMinusFirstX args x)"

definition findNext :: "cobra_command \<Rightarrow> string \<Rightarrow> cobra_command option" where
  "findNext c nextSubCmd = find (\<lambda>cmd. Name cmd = nextSubCmd \<or> HasAlias cmd nextSubCmd) (cc_commands c)"

text \<open>What is found: whether it is the root, the persistent flags of its parents, the command, and the arguments left.\<close>

record found =
  fd_root :: bool
  fd_parents :: "pflag list"
  fd_command :: cobra_command
  fd_args :: "string list"

lemma findNext_child: "findNext c x = Some cmd \<Longrightarrow> cmd \<in> set (cc_commands c)"
  by (auto simp: findNext_def find_Some_iff)

lemma findNext_size: "findNext c x = Some cmd \<Longrightarrow> size cmd < size c"
  by (drule findNext_child, cases c) (force dest: size_list_estimation' [of _ _ _ size, OF _ order.refl])

function innerfind :: "bool \<Rightarrow> pflag list \<Rightarrow> cobra_command \<Rightarrow> string list \<Rightarrow> found" where
  "innerfind is_root parents c innerArgs =
     (case stripFlags innerArgs (mergePersistentFlags parents c) of
        [] \<Rightarrow> \<lparr>fd_root = is_root, fd_parents = parents, fd_command = c, fd_args = innerArgs\<rparr>
      | nextSubCmd # _ \<Rightarrow>
          (case findNext c nextSubCmd of
             Some cmd \<Rightarrow> innerfind False (cc_persistentFlags c @ parents) cmd (argsMinusFirstX innerArgs nextSubCmd)
           | None \<Rightarrow> \<lparr>fd_root = is_root, fd_parents = parents, fd_command = c, fd_args = innerArgs\<rparr>))"
  by pat_completeness auto

termination
  by (relation "measure (\<lambda>(is_root, parents, c, args). size c)") (auto dest: findNext_size)

declare innerfind.simps [simp del]

datatype cobra_error = ErrHelp | CobraError

definition legacyArgs :: "found \<Rightarrow> string list \<Rightarrow> cobra_error option" where
  "legacyArgs f args =
     (if cc_commands (fd_command f) = [] then None
      else if fd_root f \<and> args \<noteq> [] then Some CobraError
      else None)"

definition Find :: "cobra_command \<Rightarrow> string list \<Rightarrow> cobra_error + found" where
  "Find c args =
     (let f = innerfind True [] c args in
      if cc_args (fd_command f) = LegacyArgs then
        (case legacyArgs f (stripFlags (fd_args f) (mergePersistentFlags (fd_parents f) (fd_command f))) of
           Some err \<Rightarrow> Inl err
         | None \<Rightarrow> Inr f)
      else Inr f)"

section \<open>The parser of the flags\<close>

type_synonym settings = "(string \<times> string) list"

definition set_flag :: "pflag \<Rightarrow> string \<Rightarrow> cobra_error + settings" where
  "set_flag f value = (if pf_bool f \<and> value \<notin> set bool_texts then Inl CobraError else Inr [(pf_name f, value)])"

text \<open>Each step answers the arguments that are left and what was set.\<close>

definition parseLongArg :: "pflag list \<Rightarrow> string \<Rightarrow> string list \<Rightarrow> cobra_error + string list \<times> settings" where
  "parseLongArg flags s args =
     (let name = drop 2 s in
      if name = [] \<or> hd name = CHR ''-'' \<or> hd name = CHR ''='' then Inl CobraError
      else
        let (name, value) = split_value name in
        case Lookup flags name of
          None \<Rightarrow> Inl (if name = ''help'' then ErrHelp else CobraError)
        | Some f \<Rightarrow>
            (let set = (\<lambda>value rest. case set_flag f value of Inl err \<Rightarrow> Inl err | Inr sets \<Rightarrow> Inr (rest, sets)) in
             case value of
               Some v \<Rightarrow> set v args
             | None \<Rightarrow>
                 if NoOptDefVal f \<noteq> [] then set (NoOptDefVal f) args
                 else (case args of [] \<Rightarrow> Inl CobraError | v # rest \<Rightarrow> set v rest)))"

text \<open>
  One letter of a group: the answer has the letters that are left, the arguments that are left and
  what was set. A group that starts with the prefix of the test flags is skipped.
\<close>

definition parseSingleShortArg :: "pflag list \<Rightarrow> char \<Rightarrow> string \<Rightarrow> string list
    \<Rightarrow> cobra_error + string \<times> string list \<times> settings" where
  "parseSingleShortArg flags c cs args =
     (if HasPrefix (c # cs) ''test.'' then Inr ([], args, [])
      else case ShorthandLookup flags c of
        None \<Rightarrow> Inl (if c = CHR ''h'' then ErrHelp else CobraError)
      | Some f \<Rightarrow>
          (let set = (\<lambda>value shorts rest. case set_flag f value of
                 Inl err \<Rightarrow> Inl err | Inr sets \<Rightarrow> Inr (shorts, rest, sets)) in
           if length cs > 1 \<and> hd cs = CHR ''='' then set (tl cs) [] args
           else if NoOptDefVal f \<noteq> [] then set (NoOptDefVal f) cs args
           else if cs \<noteq> [] then set cs [] args
           else (case args of [] \<Rightarrow> Inl CobraError | v # rest \<Rightarrow> set v cs rest)))"

lemma parseSingleShortArg_shorter:
  "parseSingleShortArg flags c cs args = Inr (cs', rest, sets) \<Longrightarrow> cs' \<in> {[], cs}"
  by (auto simp: parseSingleShortArg_def Let_def split: if_splits option.splits sum.splits list.splits)

lemma parseSingleShortArg_rest:
  "parseSingleShortArg flags c cs args = Inr (cs', rest, sets) \<Longrightarrow> length rest \<le> length args"
  by (auto simp: parseSingleShortArg_def Let_def split: if_splits option.splits sum.splits list.splits)

text \<open>Every letter of a group starts from the arguments behind the group; the last one tells which are left.\<close>

function parseShortArg :: "pflag list \<Rightarrow> string \<Rightarrow> string list \<Rightarrow> string list \<Rightarrow> settings
    \<Rightarrow> cobra_error + string list \<times> settings" where
  "parseShortArg flags [] args a sets = Inr (a, sets)"
| "parseShortArg flags (c # cs) args a sets =
     (case parseSingleShortArg flags c cs args of
        Inl err \<Rightarrow> Inl err
      | Inr (cs', a', sets') \<Rightarrow> parseShortArg flags cs' args a' (sets @ sets'))"
  by pat_completeness auto

termination
  by (relation "measure (\<lambda>(flags, cs, args, a, sets). length cs)")
    (auto dest!: parseSingleShortArg_shorter)

lemma parseShortArg_rest:
  "parseShortArg flags cs args a sets = Inr (rest, sets') \<Longrightarrow> length a \<le> length args \<Longrightarrow> length rest \<le> length args"
  by (induction flags cs args a sets rule: parseShortArg.induct)
    (auto dest: parseSingleShortArg_rest split: sum.splits)

lemma parseLongArg_rest:
  "parseLongArg flags s args = Inr (rest, sets) \<Longrightarrow> length rest \<le> length args"
  by (auto simp: parseLongArg_def Let_def split: if_splits option.splits sum.splits list.splits prod.splits)

text \<open>The answer has the arguments that are no flags and what was set, both in order.\<close>

function parseArgs :: "pflag list \<Rightarrow> string list \<Rightarrow> cobra_error + string list \<times> settings" where
  "parseArgs flags [] = Inr ([], [])"
| "parseArgs flags (s # args) =
     (if s = [] \<or> hd s \<noteq> CHR ''-'' \<or> length s = 1 then
        (case parseArgs flags args of Inl err \<Rightarrow> Inl err | Inr (as, sets) \<Rightarrow> Inr (s # as, sets))
      else if s = ''--'' then Inr (args, [])
      else
        case (if s ! 1 = CHR ''-'' then parseLongArg flags s args else parseShortArg flags (tl s) args args []) of
          Inl err \<Rightarrow> Inl err
        | Inr (rest, sets) \<Rightarrow>
            (case parseArgs flags rest of Inl err \<Rightarrow> Inl err | Inr (as, sets') \<Rightarrow> Inr (as, sets @ sets')))"
  by pat_completeness auto

termination
  by (relation "measure (\<lambda>(flags, args). length args)")
    (auto dest!: parseLongArg_rest parseShortArg_rest split: if_splits)

section \<open>The commands of the library\<close>

definition help_command :: cobra_command where
  "help_command = Command ''help [command]'' [] [] [] LegacyArgs False (Some LibraryRun) []"

definition InitDefaultHelpCmd :: "cobra_command \<Rightarrow> cobra_command" where
  "InitDefaultHelpCmd c =
     (if cc_commands c = [] then c else with_commands (cc_commands c @ [help_command]) c)"

definition completion_command :: cobra_command where
  "completion_command =
     (let shell = (\<lambda>name. Command name [] [\<lparr>pf_name = ''no-descriptions'', pf_shorthand = None, pf_bool = True\<rparr>] []
            NoArgs False (Some LibraryRun) []) in
      Command ''completion'' [] [] [] NoArgs False None
        [shell ''bash'', shell ''zsh'', shell ''fish'', shell ''powershell''])"

definition initDefaultCompletionCmd :: "cobra_command \<Rightarrow> cobra_command" where
  "initDefaultCompletionCmd c =
     (if cc_commands c = [] then c
      else if list_ex (\<lambda>cmd. Name cmd = ''completion'' \<or> HasAlias cmd ''completion'') (cc_commands c) then c
      else with_commands (cc_commands c @ [completion_command]) c)"

text \<open>The hidden command is added for the search, and stays only when it is found.\<close>

definition complete_command :: cobra_command where
  "complete_command = Command ''__complete [command-line]'' [''__completeNoDesc''] [] [] (MinimumNArgs 1) True
     (Some LibraryRun) []"

definition initCompleteCmd :: "string list \<Rightarrow> cobra_command \<Rightarrow> cobra_command" where
  "initCompleteCmd args c =
     (let c1 = with_commands (cc_commands c @ [complete_command]) c in
      case Find c1 args of
        Inl err \<Rightarrow> c
      | Inr f \<Rightarrow> if Name (fd_command f) \<noteq> ''__complete'' then c else c1)"

section \<open>The execution\<close>

definition InitDefaultHelpFlag :: "pflag list \<Rightarrow> pflag list" where
  "InitDefaultHelpFlag flags =
     (if Lookup flags ''help'' = None
      then flags @ [\<lparr>pf_name = ''help'', pf_shorthand = Some CHR ''h'', pf_bool = True\<rparr>] else flags)"

definition ParseFlags :: "cobra_command \<Rightarrow> pflag list \<Rightarrow> string list \<Rightarrow> cobra_error + string list \<times> settings" where
  "ParseFlags c flags args = (if cc_disableFlagParsing c then Inr ([], []) else parseArgs flags args)"

text \<open>The value of a flag is what it was last set to, or its default.\<close>

definition GetBool :: "string \<Rightarrow> settings \<Rightarrow> bool" where
  "GetBool name sets = (case flag_value name sets of None \<Rightarrow> False | Some v \<Rightarrow> v \<in> set (take 6 bool_texts))"

definition GetString :: "string \<Rightarrow> settings \<Rightarrow> string" where
  "GetString name sets = (case flag_value name sets of None \<Rightarrow> [] | Some v \<Rightarrow> v)"

definition ValidateArgs :: "positional_args \<Rightarrow> string list \<Rightarrow> bool" where
  "ValidateArgs rule args =
     (case rule of LegacyArgs \<Rightarrow> True | NoArgs \<Rightarrow> args = [] | MinimumNArgs n \<Rightarrow> n \<le> length args)"

text \<open>
  A command as far as its execution goes before the initializers of the program: its flags are
  parsed, and the help is asked for by its flag or by a command that cannot be run. The answer has
  what to run, whether its arguments are valid, its arguments, and what was set.
\<close>

record prepared =
  pr_run :: command_run
  pr_valid :: bool
  pr_name :: string
  pr_args :: "string list"
  pr_settings :: settings

definition execute_command :: "found \<Rightarrow> cobra_error + prepared" where
  "execute_command f =
     (let c = fd_command f;
          flags = InitDefaultHelpFlag (mergePersistentFlags (fd_parents f) c) in
      case ParseFlags c flags (fd_args f) of
        Inl err \<Rightarrow> Inl err
      | Inr (args, sets) \<Rightarrow>
          if GetBool ''help'' sets then Inl ErrHelp
          else case cc_run c of
            None \<Rightarrow> Inl ErrHelp
          | Some run \<Rightarrow>
              (let argWoFlags = (if cc_disableFlagParsing c then fd_args f else args) in
               Inr \<lparr>pr_run = run, pr_valid = ValidateArgs (cc_args c) argWoFlags, pr_name = Name c,
                 pr_args = argWoFlags, pr_settings = sets\<rparr>))"

definition ExecuteC :: "cobra_command \<Rightarrow> string list \<Rightarrow> cobra_error + prepared" where
  "ExecuteC c args =
     (let c1 = initCompleteCmd args (initDefaultCompletionCmd (InitDefaultHelpCmd c)) in
      case Find c1 args of
        Inl err \<Rightarrow> Inl err
      | Inr f \<Rightarrow> execute_command f)"

section \<open>Command lines that set nothing\<close>

text \<open>
  The names and letters of the flags that the commands of the program have, with those of the
  library. Only booleans have a letter, and only a command of the library has its flags not parsed.
\<close>

definition cobra_names :: "string list" where
  "cobra_names = [''config'', ''toggle'', ''help'', ''no-descriptions'']"

definition flag_ok :: "pflag \<Rightarrow> bool" where
  "flag_ok f \<longleftrightarrow> pf_name f \<in> set cobra_names \<and> pf_shorthand f \<in> {None, Some CHR ''t'', Some CHR ''h''} \<and>
     (pf_shorthand f \<noteq> None \<longrightarrow> pf_bool f)"

fun tree_ok :: "cobra_command \<Rightarrow> bool" where
  "tree_ok (Command use as flags pflags rule disable run cs) \<longleftrightarrow>
     list_all flag_ok flags \<and> list_all flag_ok pflags \<and> (disable \<longrightarrow> run = Some LibraryRun) \<and> list_all tree_ok cs"

lemma tree_okD:
  assumes "tree_ok c"
  shows "list_all flag_ok (cc_flags c)" "list_all flag_ok (cc_persistentFlags c)"
    "cc_disableFlagParsing c \<Longrightarrow> cc_run c = Some LibraryRun" "list_all tree_ok (cc_commands c)"
  using assms by (cases c, simp)+

lemma tree_ok_with: "tree_ok c \<Longrightarrow> tree_ok (with_commands cs c) \<longleftrightarrow> list_all tree_ok cs"
  by (cases c) (simp add: with_commands_def)

lemma AddFlagSet_set: "set (AddFlagSet flags new) \<subseteq> set flags \<union> set new"
  by (induction new arbitrary: flags) (force split: if_splits)+

lemma merged_ok:
  "tree_ok c \<Longrightarrow> list_all flag_ok parents \<Longrightarrow> list_all flag_ok (mergePersistentFlags parents c)"
  using AddFlagSet_set [of "AddFlagSet (cc_flags c) (cc_persistentFlags c)" parents]
    AddFlagSet_set [of "cc_flags c" "cc_persistentFlags c"] tree_okD(1,2) [of c]
  by (fastforce simp: mergePersistentFlags_def list_all_iff)

lemma help_flag_ok: "list_all flag_ok flags \<Longrightarrow> list_all flag_ok (InitDefaultHelpFlag flags)"
  by (simp add: InitDefaultHelpFlag_def flag_ok_def cobra_names_def)

lemma library_commands_ok: "tree_ok help_command" "tree_ok completion_command" "tree_ok complete_command"
  by (simp_all add: help_command_def completion_command_def complete_command_def Let_def flag_ok_def cobra_names_def)

lemma initialized_ok:
  assumes "tree_ok c"
  shows "tree_ok (initCompleteCmd args (initDefaultCompletionCmd (InitDefaultHelpCmd c)))"
proof -
  have default_help: "tree_ok (InitDefaultHelpCmd d)" if "tree_ok d" for d
    using that tree_okD(4) [OF that] by (simp add: InitDefaultHelpCmd_def tree_ok_with library_commands_ok)
  have completion: "tree_ok (initDefaultCompletionCmd d)" if "tree_ok d" for d
    using that tree_okD(4) [OF that] by (simp add: initDefaultCompletionCmd_def tree_ok_with library_commands_ok)
  have complete: "tree_ok (initCompleteCmd args d)" if "tree_ok d" for d
    using that tree_okD(4) [OF that]
    by (simp add: initCompleteCmd_def tree_ok_with library_commands_ok Let_def split: sum.split)
  show ?thesis using assms by (intro complete completion default_help)
qed

text \<open>A word that is no flag is found, so a flag at the front stays at the front.\<close>

lemma stripFlags_words: "x \<in> set (stripFlags args flags) \<Longrightarrow> \<not> HasPrefix x ''-''"
  by (induction args flags rule: stripFlags.induct) (auto split: if_splits)

lemma flag_like_prefix: "flag_like s \<Longrightarrow> HasPrefix s ''-''"
  by (cases s) (simp_all add: flag_like_def HasPrefix_def)

lemma innerfind_ok:
  assumes "tree_ok c" "list_all flag_ok parents"
  shows "tree_ok (fd_command (innerfind is_root parents c args)) \<and>
    list_all flag_ok (fd_parents (innerfind is_root parents c args)) \<and>
    (\<forall>s rest. args = s # rest \<longrightarrow> flag_like s \<longrightarrow> (\<exists>rest'. fd_args (innerfind is_root parents c args) = s # rest'))"
  using assms
proof (induction is_root parents c args rule: innerfind.induct)
  case (1 is_root parents c args)
  let ?words = "stripFlags args (mergePersistentFlags parents c)"
  show ?case
  proof (cases "\<exists>x xs cmd. ?words = x # xs \<and> findNext c x = Some cmd")
    case True
    then obtain x xs cmd where x: "?words = x # xs" "findNext c x = Some cmd" by blast
    have found: "innerfind is_root parents c args =
        innerfind False (cc_persistentFlags c @ parents) cmd (argsMinusFirstX args x)"
      using x by (subst innerfind.simps) simp
    have cmd: "tree_ok cmd" "list_all flag_ok (cc_persistentFlags c @ parents)"
      using findNext_child [OF x(2)] tree_okD(2,4) [OF 1(2)] 1(3) by (auto simp: list_all_iff)
    have "\<not> flag_like x" using stripFlags_words [of x args "mergePersistentFlags parents c"] x(1) flag_like_prefix by auto
    then have "\<exists>rest'. argsMinusFirstX args x = s # rest'" if "args = s # rest" "flag_like s" for s rest
      using that by auto
    then show ?thesis unfolding found using 1(1) [OF x cmd] by blast
  next
    case False
    then have found: "innerfind is_root parents c args =
        \<lparr>fd_root = is_root, fd_parents = parents, fd_command = c, fd_args = args\<rparr>"
      by (subst innerfind.simps) (auto split: list.splits option.splits)
    show ?thesis unfolding found using 1(2,3) by simp
  qed
qed

text \<open>What the parser of \<open>cobra\<close> accepts as its first flag.\<close>

definition accepted_flag :: "string \<Rightarrow> bool" where
  "accepted_flag s \<longleftrightarrow>
     (if s ! 1 = CHR ''-'' then fst (split_value (drop 2 s)) \<in> set cobra_names
      else s ! 1 = CHR ''t'' \<or> s ! 1 = CHR ''h'' \<and> (length s = 2 \<or> s ! 2 \<in> set ''th=''))"

lemma Lookup_name: "Lookup flags name = Some f \<Longrightarrow> f \<in> set flags \<and> pf_name f = name"
  by (auto simp: Lookup_def find_Some_iff)

lemma ShorthandLookup_letter: "ShorthandLookup flags c = Some f \<Longrightarrow> f \<in> set flags \<and> pf_shorthand f = Some c"
  by (auto simp: ShorthandLookup_def find_Some_iff)

lemma long_accepted:
  assumes "parseLongArg flags s args = Inr r" "list_all flag_ok flags"
  shows "fst (split_value (drop 2 s)) \<in> set cobra_names"
  using assms Lookup_name [of flags "fst (split_value (drop 2 s))"]
  by (cases "split_value (drop 2 s)")
    (auto simp: parseLongArg_def Let_def list_all_iff flag_ok_def split: if_splits option.splits)

lemma letter_accepted:
  assumes "parseSingleShortArg flags c cs args = Inr (cs', rest, sets)" "list_all flag_ok flags"
  shows "c = CHR ''t'' \<or> c = CHR ''h'' \<and> (cs' = cs \<or> length cs > 1 \<and> hd cs = CHR ''='')"
proof (cases "HasPrefix (c # cs) ''test.''")
  case False
  then obtain f where f: "ShorthandLookup flags c = Some f"
    using assms(1) by (auto simp: parseSingleShortArg_def split: option.splits)
  then have "flag_ok f" "pf_shorthand f = Some c" using ShorthandLookup_letter assms(2) by (auto simp: list_all_iff)
  then show ?thesis
    using assms(1) False f
    by (auto simp: parseSingleShortArg_def Let_def flag_ok_def NoOptDefVal_def split: if_splits sum.splits)
qed (simp add: HasPrefix_def)

lemma short_accepted:
  assumes "parseShortArg flags (c # cs) args args [] = Inr r" "list_all flag_ok flags"
  shows "c = CHR ''t'' \<or> c = CHR ''h'' \<and> (cs = [] \<or> hd cs \<in> set ''th='')"
proof -
  obtain cs' a sets where one: "parseSingleShortArg flags c cs args = Inr (cs', a, sets)"
    "parseShortArg flags cs' args a sets = Inr r"
    using assms(1) by (auto split: sum.splits)
  show ?thesis
  proof (cases "cs = [] \<or> hd cs = CHR ''='' \<or> c = CHR ''t''")
    case False
    then have "c = CHR ''h''" "cs' = cs" using letter_accepted [OF one(1) assms(2)] by auto
    then obtain d ds cs'' a' sets' where "cs = d # ds" "parseSingleShortArg flags d ds args = Inr (cs'', a', sets')"
      using one(2) False by (cases cs) (auto split: sum.splits)
    then show ?thesis using letter_accepted [OF _ assms(2)] \<open>c = CHR ''h''\<close> by fastforce
  qed (use letter_accepted [OF one(1) assms(2)] in auto)
qed

lemma first_accepted:
  assumes "parseArgs flags (s # args) = Inr r" "list_all flag_ok flags" "flag_like s"
  shows "accepted_flag s"
proof -
  obtain c d cs where s: "s = c # d # cs" using assms(3) by (cases s rule: list.exhaust [case_product list.exhaust [of "tl s"]]) (auto simp: flag_like_def)
  have c: "c = CHR ''-''" "s \<noteq> ''--''" using assms(3) s by (simp_all add: flag_like_def)
  show ?thesis
  proof (cases "d = CHR ''-''")
    case True
    then obtain r' where "parseLongArg flags s args = Inr r'" using assms(1) s c by (auto split: sum.splits)
    then show ?thesis using long_accepted [OF _ assms(2), of s args r'] s True by (simp add: accepted_flag_def)
  next
    case False
    then obtain r' where "parseShortArg flags (d # cs) args args [] = Inr r'"
      using assms(1) s c by (auto simp del: parseShortArg.simps split: sum.splits)
    then show ?thesis using short_accepted [OF _ assms(2), of d cs args r'] s False
      by (cases cs) (auto simp: accepted_flag_def simp del: parseShortArg.simps)
  qed
qed

text \<open>Flags of the standard library that \<open>cobra\<close> would not accept in their place.\<close>

definition foreign :: "flag_set \<Rightarrow> bool" where
  "foreign flags \<longleftrightarrow> list_all (\<lambda>(name, kind). name \<notin> set cobra_names \<and>
     (case name of
        [] \<Rightarrow> True
      | c # cs \<Rightarrow> c \<noteq> CHR ''t'' \<and> (c = CHR ''h'' \<longrightarrow> cs \<noteq> [] \<and> hd cs \<notin> set ''th=''))) flags"

lemma split_value_name: "fst (split_value (c # cs)) = c # takeWhile (\<lambda>x. x \<noteq> CHR ''='') cs"
proof (cases "dropWhile (\<lambda>x. x \<noteq> CHR ''='') cs")
  case Nil
  then have "takeWhile (\<lambda>x. x \<noteq> CHR ''='') cs = cs"
    by (simp only: dropWhile_eq_Nil_conv takeWhile_eq_all_conv)
  then show ?thesis using Nil by (simp only: split_value_def list.case fst_conv)
qed (simp add: split_value_def)

lemma accepted_unknown:
  assumes "accepted_flag s" "flag_like s" "foreign flags" "flag_text s \<noteq> []" "hd (flag_text s) \<noteq> CHR ''=''"
  shows "map_of flags (fst (split_value (flag_text s))) = None"
proof -
  obtain d cs where s: "s = CHR ''-'' # d # cs"
    using assms(2) by (cases s rule: list.exhaust [case_product list.exhaust [of "tl s"]]) (auto simp: flag_like_def)
  have "fst (split_value (flag_text s)) \<noteq> fst f" if f: "f \<in> set flags" for f
  proof (cases "d = CHR ''-''")
    case True
    then show ?thesis
      using assms(1,3) f s by (fastforce simp: accepted_flag_def foreign_def list_all_iff flag_text_def)
  next
    case False
    then have "fst (split_value (flag_text s)) = d # takeWhile (\<lambda>x. x \<noteq> CHR ''='') cs"
      "d = CHR ''t'' \<or> d = CHR ''h'' \<and> (cs = [] \<or> hd cs \<in> set ''th='')"
      using assms(1) s by (cases cs; simp add: accepted_flag_def flag_text_def split_value_name)+
    then show ?thesis
      using assms(3) f by (cases f; cases cs) (auto simp: foreign_def list_all_iff split: if_splits)
  qed
  then show ?thesis by (auto simp: map_of_eq_None_iff)
qed

lemma accepted_exits:
  assumes "accepted_flag s" "flag_like s" "foreign flags"
  shows "flag_parse vals flags (s # args) parsed \<in> {Inl 0, Inl 2}"
  using accepted_unknown [OF assms] assms(2)
  by (cases "split_value (flag_text s)") (auto simp: Let_def)

text \<open>
  When \<open>cobra\<close> runs a command of the program, the same arguments set no flag of the standard library:
  they do not start with a flag, or end the process.
\<close>

lemma cobra_sets_nothing:
  assumes "ExecuteC c args = Inr p" "pr_run p \<noteq> LibraryRun" "tree_ok c" "foreign flags"
  shows "flag_parse vals flags args [] \<in> {Inl 0, Inl 2, Inr []}"
proof (cases "case args of [] \<Rightarrow> True | s # rest \<Rightarrow> \<not> flag_like s")
  case False
  then obtain s rest where args: "args = s # rest" "flag_like s" by (cases args) auto
  let ?c = "initCompleteCmd args (initDefaultCompletionCmd (InitDefaultHelpCmd c))"
  let ?f = "innerfind True [] ?c args"
  have f: "tree_ok (fd_command ?f)" "list_all flag_ok (fd_parents ?f)" "\<exists>rest'. fd_args ?f = s # rest'"
    using innerfind_ok [OF initialized_ok [OF assms(3)], of "[]" True args args] args by auto
  have run: "execute_command ?f = Inr p"
    using assms(1) by (auto simp: ExecuteC_def Find_def Let_def split: if_splits sum.splits option.splits)
  have "\<not> cc_disableFlagParsing (fd_command ?f)"
    using run tree_okD(3) [OF f(1)] assms(2)
    by (auto simp: execute_command_def Let_def split: sum.splits prod.splits if_splits option.splits)
  moreover have "list_all flag_ok (InitDefaultHelpFlag (mergePersistentFlags (fd_parents ?f) (fd_command ?f)))"
    by (rule help_flag_ok [OF merged_ok [OF f(1,2)]])
  ultimately have "accepted_flag s"
    using run f(3) first_accepted [OF _ _ args(2)]
    by (auto simp: execute_command_def Let_def ParseFlags_def simp del: parseArgs.simps split: sum.splits)
  then show ?thesis using accepted_exits [OF _ args(2) assms(4), of vals rest "[]"] args(1) by auto
qed (simp add: flag_parse_none)

end
