(* ===== verification/Scheme.thy ===== *)
theory Scheme
  imports Go_Prelude
begin

text \<open>
  The registration of the types of \<open>api/v1\<close> (\<open>groupversion_info.go\<close> and the \<open>init\<close> of
  \<open>houmao_types.go\<close>) in a scheme, with the part of the vendored Kubernetes libraries that decides
  whether it succeeds. A Go type is its package and its name, and a scheme maps a group, a version
  and a kind to a type.
\<close>

section \<open>Schemes\<close>

type_synonym group_version = "string \<times> string"
type_synonym gvk = "string \<times> string \<times> string"
type_synonym go_type = "string \<times> string"
type_synonym scheme = "(gvk \<times> go_type) list"

definition with_kind :: "group_version \<Rightarrow> string \<Rightarrow> gvk" where
  "with_kind gv kind = (fst gv, snd gv, kind)"

definition AddKnownTypeWithName :: "gvk \<Rightarrow> go_type \<Rightarrow> scheme \<Rightarrow> scheme outcome" where
  "AddKnownTypeWithName gvk t scheme =
     (if fst (snd gvk) = [] then Panic (RegistrationFailed (snd (snd gvk)))
      else case map_of scheme gvk of
        Some oldT \<Rightarrow> if oldT \<noteq> t then Panic (RegistrationFailed (snd (snd gvk))) else Done scheme
      | None \<Rightarrow> Done (scheme @ [(gvk, t)]))"

primrec add_types :: "(gvk \<times> go_type) list \<Rightarrow> scheme \<Rightarrow> scheme outcome" where
  "add_types [] scheme = Done scheme"
| "add_types (e # es) scheme = obind (AddKnownTypeWithName (fst e) (snd e) scheme) (add_types es)"

text \<open>The name of a type is its kind.\<close>

definition AddKnownTypes :: "group_version \<Rightarrow> go_type list \<Rightarrow> scheme \<Rightarrow> scheme outcome" where
  "AddKnownTypes gv types = add_types (map (\<lambda>t. (with_kind gv (snd t), t)) types)"

text \<open>
  The common types that every group has: the events of a watch in both of its versions, the
  options, and the types without a version, which are always the same. The registration of their
  conversions and defaults is the library.
\<close>

definition meta_type :: "string \<Rightarrow> go_type" where
  "meta_type name = (''meta/v1'', name)"

definition AddToGroupVersion :: "group_version \<Rightarrow> scheme \<Rightarrow> scheme outcome" where
  "AddToGroupVersion gv scheme =
     obind (AddKnownTypeWithName (with_kind gv ''WatchEvent'') (meta_type ''WatchEvent'') scheme) (\<lambda>s1.
     obind (AddKnownTypeWithName (with_kind (fst gv, ''__internal'') ''WatchEvent'') (meta_type ''InternalEvent'') s1) (\<lambda>s2.
     obind (AddKnownTypes gv (map meta_type [''ListOptions'', ''GetOptions'', ''DeleteOptions'', ''CreateOptions'',
       ''UpdateOptions'', ''PatchOptions'']) s2) (\<lambda>s3.
     AddKnownTypes ([], ''v1'') (map meta_type [''Status'', ''APIVersions'', ''APIGroupList'', ''APIGroup'',
       ''APIResourceList'']) s3)))"

section \<open>The builder\<close>

record scheme_builder =
  sb_groupVersion :: group_version
  sb_registered :: "go_type list list"

definition Register :: "go_type list \<Rightarrow> scheme_builder \<Rightarrow> scheme_builder" where
  "Register types b = b\<lparr>sb_registered := sb_registered b @ [types]\<rparr>"

primrec run_registered :: "group_version \<Rightarrow> go_type list list \<Rightarrow> scheme \<Rightarrow> scheme outcome" where
  "run_registered gv [] scheme = Done scheme"
| "run_registered gv (types # rest) scheme =
     obind (AddKnownTypes gv types scheme) (\<lambda>s1.
     obind (AddToGroupVersion gv s1) (run_registered gv rest))"

definition AddToScheme :: "scheme_builder \<Rightarrow> scheme \<Rightarrow> scheme outcome" where
  "AddToScheme b = run_registered (sb_groupVersion b) (sb_registered b)"

section \<open>The package api/v1\<close>

definition GroupVersion :: group_version where
  "GroupVersion = (''sunwukong.my.domain'', ''v1'')"

definition SchemeBuilder :: scheme_builder where
  "SchemeBuilder = \<lparr>sb_groupVersion = GroupVersion, sb_registered = []\<rparr>"

definition Houmao_type :: go_type where
  "Houmao_type = (''api/v1'', ''Houmao'')"

definition HoumaoList_type :: go_type where
  "HoumaoList_type = (''api/v1'', ''HoumaoList'')"

definition houmao_types_init :: "scheme_builder \<Rightarrow> scheme_builder" where
  "houmao_types_init = Register [Houmao_type, HoumaoList_type]"

section \<open>The registration\<close>

text \<open>
  New entries are compatible with a scheme when none of their keys has another type there or
  among themselves; they can then be added, and the scheme knows them beside its own.
\<close>

definition compatible :: "(gvk \<times> go_type) list \<Rightarrow> scheme \<Rightarrow> bool" where
  "compatible es scheme \<longleftrightarrow>
     (\<forall>e \<in> set es. fst (snd (fst e)) \<noteq> [] \<and> map_of scheme (fst e) \<in> {None, Some (snd e)}) \<and>
     (\<forall>e \<in> set es. \<forall>e' \<in> set es. fst e = fst e' \<longrightarrow> e = e')"

lemma add_types_compatible:
  "compatible es scheme \<Longrightarrow> \<exists>scheme'. add_types es scheme = Done scheme' \<and>
     map_of scheme' = map_of scheme ++ map_of es"
proof (induction es arbitrary: scheme)
  case (Cons e es)
  have known: "\<exists>s1. AddKnownTypeWithName (fst e) (snd e) scheme = Done s1 \<and> map_of s1 = (map_of scheme)(fst e \<mapsto> snd e)"
    using Cons.prems by (auto simp: compatible_def AddKnownTypeWithName_def map_of_append fun_eq_iff map_add_def
        split: option.splits)
  then obtain s1 where s1: "AddKnownTypeWithName (fst e) (snd e) scheme = Done s1"
    "map_of s1 = (map_of scheme)(fst e \<mapsto> snd e)" by blast
  have "compatible es s1"
    using Cons.prems s1(2) unfolding compatible_def by (auto split: if_splits)
  then obtain s2 where s2: "add_types es s1 = Done s2" "map_of s2 = map_of s1 ++ map_of es"
    using Cons.IH by blast
  have "map_of s1 ++ map_of es = map_of scheme ++ map_of (e # es)"
  proof
    fix k
    have "t = snd e" if "map_of es (fst e) = Some t" for t
      using Cons.prems map_of_SomeD [OF that] unfolding compatible_def by (metis fst_conv list.set_intros snd_conv)
    then have "map_of es (fst e) \<in> {None, Some (snd e)}" by (cases "map_of es (fst e)") simp_all
    then show "(map_of s1 ++ map_of es) k = (map_of scheme ++ map_of (e # es)) k"
      using s1(2) by (cases e) (auto simp: map_add_def split: option.splits)
  qed
  then show ?case using s1(1) s2 by (intro exI [of _ s2]) (simp del: map_of.simps map_add_upd)
qed simp

lemma obind_assoc: "obind (obind m f) g = obind m (\<lambda>a. obind (f a) g)"
  by (cases m) simp_all

lemma obind_Done: "obind m Done = m"
  by (cases m) simp_all

lemma add_types_eqs:
  "add_types [] = Done"
  "add_types (e # es) = (\<lambda>scheme. obind (AddKnownTypeWithName (fst e) (snd e) scheme) (add_types es))"
  "run_registered gv [] = Done"
  by (rule ext, simp)+

lemma add_types_append: "add_types (es @ fs) = (\<lambda>scheme. obind (add_types es scheme) (add_types fs))"
  by (induction es) (simp_all add: add_types_eqs obind_assoc)

text \<open>The entries of a call, in order.\<close>

definition meta_entries :: "group_version \<Rightarrow> (gvk \<times> go_type) list" where
  "meta_entries gv =
     [(with_kind gv ''WatchEvent'', meta_type ''WatchEvent''),
      (with_kind (fst gv, ''__internal'') ''WatchEvent'', meta_type ''InternalEvent'')] @
     map (\<lambda>n. (with_kind gv n, meta_type n)) [''ListOptions'', ''GetOptions'', ''DeleteOptions'', ''CreateOptions'',
       ''UpdateOptions'', ''PatchOptions''] @
     map (\<lambda>n. (with_kind ([], ''v1'') n, meta_type n)) [''Status'', ''APIVersions'', ''APIGroupList'', ''APIGroup'',
       ''APIResourceList'']"

definition houmao_entries :: "(gvk \<times> go_type) list" where
  "houmao_entries = [(with_kind GroupVersion ''Houmao'', Houmao_type), (with_kind GroupVersion ''HoumaoList'', HoumaoList_type)]
     @ meta_entries GroupVersion"

lemma AddToGroupVersion_entries: "AddToGroupVersion gv = add_types (meta_entries gv)"
  by (rule ext) (simp add: AddToGroupVersion_def meta_entries_def add_types_append add_types_eqs AddKnownTypes_def
      meta_type_def obind_assoc obind_Done)

lemma houmao_AddToScheme: "AddToScheme (houmao_types_init SchemeBuilder) scheme = add_types houmao_entries scheme"
  by (simp add: AddToScheme_def houmao_types_init_def Register_def SchemeBuilder_def houmao_entries_def
      AddToGroupVersion_entries AddKnownTypes_def Houmao_type_def HoumaoList_type_def obind_assoc
      add_types_eqs obind_Done)

text \<open>
  On a scheme that has not met the group of the program, and has the common types at most as they
  are, the registration succeeds: the two types are known under their kinds, and what was known
  before is unchanged.
\<close>

lemma houmao_registered:
  assumes "compatible houmao_entries scheme"
  obtains scheme' where "AddToScheme (houmao_types_init SchemeBuilder) scheme = Done scheme'"
    "map_of scheme' (with_kind GroupVersion ''Houmao'') = Some Houmao_type"
    "map_of scheme' (with_kind GroupVersion ''HoumaoList'') = Some HoumaoList_type"
    "\<And>k. k \<notin> fst ` set houmao_entries \<Longrightarrow> map_of scheme' k = map_of scheme k"
proof -
  obtain scheme' where "add_types houmao_entries scheme = Done scheme'"
    "map_of scheme' = map_of scheme ++ map_of houmao_entries"
    using add_types_compatible [OF assms] by blast
  note scheme' = this
  show thesis
  proof (rule that)
    show "AddToScheme (houmao_types_init SchemeBuilder) scheme = Done scheme'"
      using scheme'(1) by (simp only: houmao_AddToScheme)
    show "map_of scheme' (with_kind GroupVersion ''Houmao'') = Some Houmao_type"
      "map_of scheme' (with_kind GroupVersion ''HoumaoList'') = Some HoumaoList_type"
      by (simp_all add: scheme'(2) houmao_entries_def with_kind_def map_add_def)
    show "map_of scheme' k = map_of scheme k" if "k \<notin> fst ` set houmao_entries" for k
      using that map_of_eq_None_iff [of houmao_entries k] by (simp add: scheme'(2) map_add_def)
  qed
qed

lemma empty_compatible: "compatible houmao_entries []"
  by (simp add: compatible_def houmao_entries_def meta_entries_def with_kind_def GroupVersion_def)

end
