(* ===== verification/Startup.thy ===== *)
theory Startup
  imports Replica_Calculator Cobra Scheme
begin

text \<open>
  The start of the program: the commands of \<open>main.go\<close> and \<open>cmd/\<close>, the aggregated
  initialisation of \<open>cmd/initial/initial.go\<close> and the log levels of \<open>util/logger/logger.go\<close>.
  What the libraries answer (configuration, manager, clients, health checks, the environment and
  the run of a command of \<open>cobra\<close> itself) is a parameter; what the program starts is recorded in order.
\<close>

section \<open>The tree of the commands\<close>

definition shifaCmd :: cobra_command where
  "shifaCmd = Command ''Sunwukong'' [] [] [] LegacyArgs False (Some ShifaRunner) []"

definition customizemetricsCmd :: cobra_command where
  "customizemetricsCmd = Command ''customizemetrics'' [] [] [] LegacyArgs False (Some CustomizemetricsRun) []"

definition ZaohuaCmd :: cobra_command where
  "ZaohuaCmd = Command ''zaohua'' [] [] [] LegacyArgs False (Some ZaohuaRunner) []"

definition config_flag :: pflag where
  "config_flag = \<lparr>pf_name = ''config'', pf_shorthand = None, pf_bool = False\<rparr>"

definition toggle_flag :: pflag where
  "toggle_flag = \<lparr>pf_name = ''toggle'', pf_shorthand = Some CHR ''t'', pf_bool = True\<rparr>"

text \<open>The tree of the commands when the packages have been initialised.\<close>

definition program_commands :: cobra_command where
  "program_commands = Command ''Sunwukong'' [] [toggle_flag] [config_flag] LegacyArgs False (Some ShifaRunner)
     [customizemetricsCmd, ZaohuaCmd]"

lemma program_commands_ok: "tree_ok program_commands"
  by (simp add: program_commands_def toggle_flag_def config_flag_def customizemetricsCmd_def ZaohuaCmd_def
      flag_ok_def cobra_names_def)

section \<open>What the libraries answer\<close>

text \<open>
  The options of the manager that the program sets, beside the scheme of the state. A configuration
  of the client library is opaque; it depends on the path of the flag \<open>kubeconfig\<close>. A manager is what
  it was made of.
\<close>

record manager_options =
  mgo_metricsBindAddress :: string
  mgo_port :: nat
  mgo_healthProbeBindAddress :: string
  mgo_leaderElection :: bool
  mgo_leaderElectionID :: string

type_synonym rest_config = string
type_synonym manager = "rest_config \<times> manager_options"

record boot =
  b_args :: "string list"
  b_values :: flag_values
  b_getConfig :: "string \<Rightarrow> gerror + rest_config"
  b_newManager :: "rest_config \<Rightarrow> manager_options \<Rightarrow> gerror option"
  b_loggerFromConfig :: "string \<Rightarrow> gerror option"
  b_getenv :: "string \<Rightarrow> string"
  b_informer :: "manager \<Rightarrow> gerror option"
  b_getHoumao :: "manager \<Rightarrow> namespaced_name \<Rightarrow> gerror + houmao"
  b_resourceClient :: "rest_config \<Rightarrow> gerror option"
  b_discoveryClient :: "rest_config \<Rightarrow> gerror option"
  b_externalClient :: "rest_config \<Rightarrow> gerror option"
  b_setupController :: "manager \<Rightarrow> gerror option"
  b_addHealthz :: "manager \<Rightarrow> gerror option"
  b_addReadyz :: "manager \<Rightarrow> gerror option"
  b_managerStart :: "manager \<Rightarrow> gerror option"
  b_libraryRun :: "string \<Rightarrow> string list \<Rightarrow> gerror option"
  b_homedir :: "gerror option"
  b_addClientGoScheme :: "gerror option"
  b_clientGoTypes :: scheme
  b_addSunwukongScheme :: "gerror option"

section \<open>The state of the start\<close>

text \<open>
  The flags defined so far, what has been started, the names of the metrics in the default registry
  of the metrics library, the scheme, the commands and flags that \<open>cobra\<close> knows, and the settings of
  the logger, once there is one. The program
  ends by an exit with a code or by the return of the initialisation; a flag that is defined twice
  panics.
\<close>

datatype activity =
    ShifaController
  | ZaohuaLoop string calculate_handle houmao
  | ZaohuaController
  | ManagerStart manager
  | DemoCounterIncrement
  | MetricsServer string

record boot_state =
  bs_flags :: flag_set
  bs_started :: "activity list"
  bs_metrics :: "string list"
  bs_scheme :: scheme
  bs_shifaCmd :: cobra_command
  bs_logger :: "(string \<times> string) list option"

datatype boot_end = Exited nat | Returned

definition define_flag :: "string \<times> flag_kind \<Rightarrow> (boot_state, unit) io" where
  "define_flag flag s =
     (if fst flag \<in> fst ` set (bs_flags s) then (Panic (FlagRedefined (fst flag)), s)
      else (Done (), s\<lparr>bs_flags := bs_flags s @ [flag]\<rparr>))"

primrec define_flags :: "flag_set \<Rightarrow> (boot_state, unit) io" where
  "define_flags [] = ret ()"
| "define_flags (flag # flags) = bnd (define_flag flag) (\<lambda>_. define_flags flags)"

text \<open>
  The command line is parsed for the flags defined so far, which may end the process with a code
  and else gives the values that were set.
\<close>

definition parse_flags :: "boot \<Rightarrow> (boot_state, nat + (string \<times> string) list) io" where
  "parse_flags b s = (Done (flag_parse (b_values b) (bs_flags s) (b_args b) []), s)"

definition start_activity :: "activity \<Rightarrow> (boot_state, unit) io" where
  "start_activity a s = (Done (), s\<lparr>bs_started := bs_started s @ [a]\<rparr>)"

section \<open>The logger\<close>

abbreviation (input) LOG_LEVEL_DEBUG :: string where "LOG_LEVEL_DEBUG \<equiv> ''debug''"
abbreviation (input) LOG_LEVEL_INFO :: string where "LOG_LEVEL_INFO \<equiv> ''info''"
abbreviation (input) LOG_LEVEL_WARN :: string where "LOG_LEVEL_WARN \<equiv> ''warn''"
abbreviation (input) LOG_LEVEL_ERROR :: string where "LOG_LEVEL_ERROR \<equiv> ''error''"

definition unlines :: "string list \<Rightarrow> string" where
  "unlines ls = concat (map (\<lambda>l. CHR 0x0A # l) ls)"

text \<open>The level is put between the quotes of the attribute; a tab stands at the start of a nested line.\<close>

definition logger_config :: "string \<Rightarrow> string" where
  \<open>logger_config level = unlines [
     ''<seelog type="asynctimer" asyncinterval="1000000" minlevel="'' @ level @ ''" maxlevel="error">'',
     CHR 0x09 # ''<outputs formatid="kube">'',
     CHR 0x09 # CHR 0x09 # ''<console/>'',
     CHR 0x09 # CHR 0x09 # ''<rollingfile formatid="kube" type="size" filename="niwo.log" maxsize="1000000" maxrolls="5" />'',
     CHR 0x09 # ''</outputs>'',
     CHR 0x09 # ''<formats>'',
     CHR 0x09 # CHR 0x09 # ''<format id="kube" format="[%Date %Time %LEVEL %FullPath %Func %Line]: %Msg%n"/>'',
     CHR 0x09 # ''</formats>'',
     ''</seelog>'']\<close>

definition SwitchLoggerLevel :: "boot \<Rightarrow> string \<Rightarrow> boot_end option" where
  "SwitchLoggerLevel b level =
     (case b_loggerFromConfig b (logger_config level) of Some err \<Rightarrow> Some (Exited 1) | None \<Rightarrow> None)"

definition setLoggerLevel :: "boot \<Rightarrow> string \<Rightarrow> boot_end option" where
  "setLoggerLevel b level =
     (if level = LOG_LEVEL_DEBUG \<or> level = LOG_LEVEL_INFO \<or> level = LOG_LEVEL_WARN \<or> level = LOG_LEVEL_ERROR
      then SwitchLoggerLevel b level
      else Some (Exited 1))"

section \<open>The initialisation\<close>

record initial_param =
  ip_role :: string
  ip_cpuInitializationPeriod :: duration
  ip_initialReadinessDelay :: duration
  ip_downScaleStabilizationWindow :: duration
  ip_scaleTolerance :: f64

text \<open>
  The branch of a role answers how the program ends there, or that it goes on. In the role of the
  scaling loop an error of a client makes the initialisation return, and the loop is started
  before its controller is set up. Its mode is read from the variable whose name is the constant
  of a mode.
\<close>

text \<open>
  The builder of the library completes a controller for a type when the scheme of the manager knows
  it and nothing else fails. Both controllers are for the resource.
\<close>

definition complete_controller :: "boot \<Rightarrow> manager \<Rightarrow> go_type \<Rightarrow> (boot_state, gerror option) io" where
  "complete_controller b mgr t s =
     (Done (if t \<in> snd ` set (bs_scheme s) then b_setupController b mgr else Some (ApiError (snd t))), s)"

definition Houmao_SetupWithManager :: "boot \<Rightarrow> manager \<Rightarrow> (boot_state, gerror option) io" where
  "Houmao_SetupWithManager b mgr = complete_controller b mgr Houmao_type"

definition Zaohua_SetupWithManager :: "boot \<Rightarrow> manager \<Rightarrow> (boot_state, gerror option) io" where
  "Zaohua_SetupWithManager b mgr = complete_controller b mgr Houmao_type"

definition init_shifa :: "boot \<Rightarrow> manager \<Rightarrow> (boot_state, boot_end option) io" where
  "init_shifa b mgr =
     bnd (Houmao_SetupWithManager b mgr) (\<lambda>r.
     case r of
       Some err \<Rightarrow> ret (Some (Exited 1))
     | None \<Rightarrow> bnd (start_activity ShifaController) (\<lambda>_. ret None))"

text \<open>
  The client of a manager reads objects through its cache. The vendored cache needs the kind of the
  object from the scheme and an informer for it, and refuses every read until it is started, which
  the start of its manager does.
\<close>

definition informer_cache_get :: "boot \<Rightarrow> manager \<Rightarrow> namespaced_name \<Rightarrow> (boot_state, gerror + houmao) io" where
  "informer_cache_get b mgr key s =
     (Done (if Houmao_type \<notin> snd ` set (bs_scheme s) then Inl (ApiError (snd Houmao_type))
       else case b_informer b mgr of
         Some err \<Rightarrow> Inl err
       | None \<Rightarrow>
           if ManagerStart mgr \<notin> set (bs_started s) then Inl (ApiError ''ErrCacheNotStarted'')
           else b_getHoumao b mgr key), s)"

definition init_zaohua :: "boot \<Rightarrow> manager \<Rightarrow> initial_param \<Rightarrow> (boot_state, boot_end option) io" where
  "init_zaohua b mgr initParam =
     (let key = \<lparr>nn_namespace = b_getenv b ''HoumaoNamespace'', nn_name = b_getenv b ''HoumaoName''\<rparr> in
      bnd (informer_cache_get b mgr key) (\<lambda>r.
      case r of
        Inl err \<Rightarrow> ret (Some Returned)
      | Inr object \<Rightarrow>
          if b_resourceClient b (fst mgr) \<noteq> None then ret (Some Returned)
          else if b_discoveryClient b (fst mgr) \<noteq> None then ret (Some Returned)
          else if b_externalClient b (fst mgr) \<noteq> None then ret (Some Returned)
          else
            let calculateHandle = NewCalculateHandle (ip_cpuInitializationPeriod initParam)
                  (ip_initialReadinessDelay initParam) (ip_downScaleStabilizationWindow initParam)
                  (ip_scaleTolerance initParam);
                zaohuaMode = b_getenv b ZaohuaModeBeidong in
            bnd (start_activity (ZaohuaLoop zaohuaMode calculateHandle object)) (\<lambda>_.
            bnd (Zaohua_SetupWithManager b mgr) (\<lambda>r.
            case r of
              Some err \<Rightarrow> ret (Some (Exited 1))
            | None \<Rightarrow> bnd (start_activity ZaohuaController) (\<lambda>_. ret None)))))"

text \<open>What the command line sets a flag to, or its default; and the settings of the logging library.\<close>

definition string_value :: "string \<Rightarrow> string \<Rightarrow> (string \<times> string) list \<Rightarrow> string" where
  "string_value name dflt parsed = (case flag_value name parsed of Some v \<Rightarrow> v | None \<Rightarrow> dflt)"

definition bool_value :: "string \<Rightarrow> bool \<Rightarrow> (string \<times> string) list \<Rightarrow> bool" where
  "bool_value name dflt parsed =
     (case flag_value name parsed of Some v \<Rightarrow> v \<in> set [''1'', ''t'', ''T'', ''true'', ''TRUE'', ''True''] | None \<Rightarrow> dflt)"

definition log_level :: "(string \<times> string) list \<Rightarrow> string" where
  "log_level parsed = string_value ''log-level'' LOG_LEVEL_INFO parsed"

definition zap_settings :: "(string \<times> string) list \<Rightarrow> (string \<times> string) list" where
  "zap_settings parsed = filter (\<lambda>(name, value). name \<in> fst ` set zap_flags) parsed"

definition SetLogger :: "(string \<times> string) list \<Rightarrow> (boot_state, unit) io" where
  "SetLogger settings s = (Done (), s\<lparr>bs_logger := Some settings\<rparr>)"

definition manager_options_of :: "(string \<times> string) list \<Rightarrow> manager_options" where
  "manager_options_of parsed = \<lparr>
     mgo_metricsBindAddress = string_value ''metrics-bind-address'' '':8080'' parsed,
     mgo_port = 9443,
     mgo_healthProbeBindAddress = string_value ''health-probe-bind-address'' '':8081'' parsed,
     mgo_leaderElection = bool_value ''leader-elect'' True parsed,
     mgo_leaderElectionID = ''a47d2438.my.domain''\<rparr>"

definition InitialAggrator :: "boot \<Rightarrow> initial_param \<Rightarrow> (boot_state, boot_end) io" where
  "InitialAggrator b initParam =
     bnd (define_flags initial_flags) (\<lambda>_.
     bnd (define_flags zap_flags) (\<lambda>_.
     bnd (parse_flags b) (\<lambda>r.
     case r of
       Inl code \<Rightarrow> ret (Exited code)
     | Inr parsed \<Rightarrow>
     bnd (SetLogger (zap_settings parsed)) (\<lambda>_.
     case b_getConfig b (string_value ''kubeconfig'' [] parsed) of
       Inl err \<Rightarrow> ret (Exited 1)
     | Inr config \<Rightarrow>
     if b_newManager b config (manager_options_of parsed) \<noteq> None then ret (Exited 1)
     else let mgr = (config, manager_options_of parsed) in
     case setLoggerLevel b (log_level parsed) of
       Some e \<Rightarrow> ret e
     | None \<Rightarrow>
         bnd (if ip_role initParam = ShifaCmdRole then init_shifa b mgr
              else if ip_role initParam = ZaohuaCmdRole then init_zaohua b mgr initParam
              else ret (Some (Exited 1))) (\<lambda>r.
         case r of
           Some e \<Rightarrow> ret e
         | None \<Rightarrow>
             if b_addHealthz b mgr \<noteq> None then ret (Exited 1)
             else if b_addReadyz b mgr \<noteq> None then ret (Exited 1)
             else bnd (start_activity (ManagerStart mgr)) (\<lambda>_.
               if b_managerStart b mgr \<noteq> None then ret (Exited 1) else ret Returned))))))"

section \<open>The commands\<close>

definition zaohua_param :: "flag_values \<Rightarrow> (string \<times> string) list \<Rightarrow> initial_param" where
  "zaohua_param vals parsed =
     (let duration = (\<lambda>name value. case Option.bind (flag_value name parsed) (fv_duration vals) of
            Some d \<Rightarrow> d | None \<Rightarrow> word_of_int value) in
      \<lparr>ip_role = ZaohuaCmdRole,
       ip_cpuInitializationPeriod = duration ''cpu-initialization-period'' CpuInitializationPeriod,
       ip_initialReadinessDelay = duration ''initial-readiness-delay'' InitialReadinessDelay,
       ip_downScaleStabilizationWindow = duration ''down-scale-stabilization-window'' 300,
       ip_scaleTolerance = (case Option.bind (flag_value ''scale-tolerance'' parsed) (fv_float vals) of
         Some t \<Rightarrow> t | None \<Rightarrow> to_f64 False ScaleTolerance)\<rparr>)"

definition initZaohuaOptions :: "boot \<Rightarrow> (boot_state, nat + initial_param) io" where
  "initZaohuaOptions b =
     bnd (define_flags zaohua_flags) (\<lambda>_.
     bnd (define_flags zap_flags) (\<lambda>_.
     bnd (parse_flags b) (\<lambda>r.
     case r of
       Inl code \<Rightarrow> ret (Inl code)
     | Inr parsed \<Rightarrow> ret (Inr (zaohua_param (b_values b) parsed)))))"

definition zaohuaRunner :: "boot \<Rightarrow> (boot_state, boot_end) io" where
  "zaohuaRunner b = bnd (initZaohuaOptions b) (\<lambda>r.
     case r of Inl code \<Rightarrow> ret (Exited code) | Inr initParam \<Rightarrow> InitialAggrator b initParam)"

definition initshifaOptions :: "(boot_state, unit) io" where
  "initshifaOptions = ret ()"

definition shifaRunner :: "boot \<Rightarrow> (boot_state, boot_end) io" where
  "shifaRunner b = bnd initshifaOptions (\<lambda>_.
     InitialAggrator b \<lparr>ip_role = ShifaCmdRole, ip_cpuInitializationPeriod = 0,
       ip_initialReadinessDelay = 0, ip_downScaleStabilizationWindow = 0, ip_scaleTolerance = 0\<rparr>)"

section \<open>Flags\<close>

lemma define_flags_eq:
  "if distinct (map fst flags) \<and> fst ` set flags \<inter> fst ` set (bs_flags s) = {}
   then define_flags flags s = (Done (), s\<lparr>bs_flags := bs_flags s @ flags\<rparr>)
   else \<exists>p s'. define_flags flags s = (Panic p, s') \<and> bs_started s' = bs_started s"
proof (induction flags arbitrary: s)
  case (Cons f flags)
  show ?case
  proof (cases "fst f \<in> fst ` set (bs_flags s)")
    case False
    then show ?thesis
      using Cons.IH [of "s\<lparr>bs_flags := bs_flags s @ [f]\<rparr>"]
      by (auto simp: go_simps define_flag_def split: if_splits)
  qed (auto simp: go_simps define_flag_def)
qed (simp add: go_simps)

text \<open>The flags of the logging library and of the program can be defined when none is yet.\<close>

lemma define_own_flags:
  assumes "fst ` set (bs_flags s) \<inter> fst ` set (own @ zap_flags) = {}" "own \<in> {initial_flags, zaohua_flags}"
  shows "define_flags own s = (Done (), s\<lparr>bs_flags := bs_flags s @ own\<rparr>)"
    "define_flags zap_flags (s\<lparr>bs_flags := bs_flags s @ own\<rparr>) = (Done (), s\<lparr>bs_flags := bs_flags s @ own @ zap_flags\<rparr>)"
proof -
  have d: "distinct (map fst (own @ zap_flags))"
    using assms(2) by (auto simp: initial_flags_def zaohua_flags_def zap_flags_def)
  show "define_flags own s = (Done (), s\<lparr>bs_flags := bs_flags s @ own\<rparr>)"
    using define_flags_eq [of own s] assms(1) d by (auto split: if_splits)
  show "define_flags zap_flags (s\<lparr>bs_flags := bs_flags s @ own\<rparr>) = (Done (), s\<lparr>bs_flags := bs_flags s @ own @ zap_flags\<rparr>)"
    using define_flags_eq [of zap_flags "s\<lparr>bs_flags := bs_flags s @ own\<rparr>"] assms(1) d
    by (auto split: if_splits)
qed

lemma define_flags_cases:
  obtains "define_flags flags s = (Done (), s\<lparr>bs_flags := bs_flags s @ flags\<rparr>)"
  | p s' where "define_flags flags s = (Panic p, s')" "bs_started s' = bs_started s"
  using define_flags_eq [of flags s] by (auto split: if_splits)

lemma initialisation_panics:
  assumes "fst ` set zap_flags \<subseteq> fst ` set (bs_flags s)"
  shows "\<exists>p s'. InitialAggrator b ip s = (Panic p, s') \<and> bs_started s' = bs_started s"
proof (cases rule: define_flags_cases [of "initial_flags" s])
  case 1
  have "\<exists>p s'. define_flags zap_flags (s\<lparr>bs_flags := bs_flags s @ initial_flags\<rparr>) = (Panic p, s') \<and> bs_started s' = bs_started s"
    using define_flags_eq [of zap_flags "s\<lparr>bs_flags := bs_flags s @ initial_flags\<rparr>"] assms
    by (auto simp: zap_flags_def split: if_splits)
  then show ?thesis using 1 unfolding InitialAggrator_def by (auto simp: io_apply(3))
qed (auto simp: InitialAggrator_def io_apply(3))

section \<open>The effect of the command line\<close>

text \<open>
  The flags of the program are none of those of \<open>cobra\<close>, and the libraries define at most the path
  of the cluster configuration. No flag is one that \<open>cobra\<close> would accept in its place.
\<close>

definition only_kubeconfig :: flag_set where
  "only_kubeconfig = [(''kubeconfig'', F_String)]"

lemma own_flags_foreign:
  "own \<in> {initial_flags, zaohua_flags} \<Longrightarrow> foreign (only_kubeconfig @ own @ zap_flags)"
  by (auto simp: foreign_def cobra_names_def only_kubeconfig_def initial_flags_def zaohua_flags_def zap_flags_def)

text \<open>Libraries that answer without errors, and the state after the initialisation of the packages.\<close>

definition fair_boot :: boot where
  "fair_boot = \<lparr>b_args = [], b_values = \<lparr>fv_duration = (\<lambda>_. None), fv_float = (\<lambda>_. None), fv_other = (\<lambda>_ _. False)\<rparr>,
     b_getConfig = Inr,
     b_newManager = (\<lambda>_ _. None), b_loggerFromConfig = (\<lambda>_. None), b_getenv = (\<lambda>_. []),
     b_informer = (\<lambda>_. None), b_getHoumao = (\<lambda>_ _. Inr zero_houmao), b_resourceClient = (\<lambda>_. None),
     b_discoveryClient = (\<lambda>_. None), b_externalClient = (\<lambda>_. None), b_setupController = (\<lambda>_. None),
     b_addHealthz = (\<lambda>_. None), b_addReadyz = (\<lambda>_. None), b_managerStart = (\<lambda>_. None), b_libraryRun = (\<lambda>_ _. None), b_homedir = None,
     b_addClientGoScheme = None, b_clientGoTypes = [], b_addSunwukongScheme = None\<rparr>"

definition boot_start :: boot_state where
  "boot_start = \<lparr>bs_flags = only_kubeconfig, bs_started = [], bs_metrics = [], bs_scheme = houmao_entries,
     bs_shifaCmd = program_commands, bs_logger = None\<rparr>"

section \<open>The initialisation\<close>

lemma start_activity_apply: "start_activity a s = (Done (), s\<lparr>bs_started := bs_started s @ [a]\<rparr>)"
  by (simp add: start_activity_def)

text \<open>None of the flags of the initialisation and of the logging library is defined yet.\<close>

definition flags_free :: "boot_state \<Rightarrow> bool" where
  "flags_free s \<longleftrightarrow> fst ` set (bs_flags s) \<inter> fst ` set (initial_flags @ zap_flags) = {}"

definition parsed_flags :: "boot \<Rightarrow> boot_state \<Rightarrow> nat + (string \<times> string) list" where
  "parsed_flags b s = flag_parse (b_values b) (bs_flags s @ initial_flags @ zap_flags) (b_args b) []"

text \<open>
  The manager that a command line makes, what the libraries must answer for the initialisation to
  reach the branch of the role, and for a controller to be set up there.
\<close>

definition the_manager :: "boot \<Rightarrow> (string \<times> string) list \<Rightarrow> manager" where
  "the_manager b parsed = (projr (b_getConfig b (string_value ''kubeconfig'' [] parsed)), manager_options_of parsed)"

definition reaches_role :: "boot \<Rightarrow> (string \<times> string) list \<Rightarrow> bool" where
  "reaches_role b parsed \<longleftrightarrow> \<not> isl (b_getConfig b (string_value ''kubeconfig'' [] parsed)) \<and>
     b_newManager b (fst (the_manager b parsed)) (snd (the_manager b parsed)) = None \<and>
     log_level parsed \<in> {LOG_LEVEL_DEBUG, LOG_LEVEL_INFO, LOG_LEVEL_WARN, LOG_LEVEL_ERROR} \<and>
     b_loggerFromConfig b (logger_config (log_level parsed)) = None"

definition controller_ready :: "boot \<Rightarrow> manager \<Rightarrow> boot_state \<Rightarrow> bool" where
  "controller_ready b mgr s \<longleftrightarrow> Houmao_type \<in> snd ` set (bs_scheme s) \<and> b_setupController b mgr = None"

lemma setup_apply:
  "\<exists>err. Houmao_SetupWithManager b mgr s = (Done err, s) \<and> (err = None \<longleftrightarrow> controller_ready b mgr s)"
  "\<exists>err. Zaohua_SetupWithManager b mgr s = (Done err, s) \<and> (err = None \<longleftrightarrow> controller_ready b mgr s)"
  by (simp_all add: Houmao_SetupWithManager_def Zaohua_SetupWithManager_def complete_controller_def controller_ready_def)

lemma controller_ready_other [simp]:
  "controller_ready b mgr (s\<lparr>bs_flags := fs\<rparr>) = controller_ready b mgr s"
  "controller_ready b mgr (s\<lparr>bs_started := as\<rparr>) = controller_ready b mgr s"
  "controller_ready b mgr (s\<lparr>bs_logger := l\<rparr>) = controller_ready b mgr s"
  by (simp_all add: controller_ready_def)

lemma init_shifa_eq:
  "init_shifa b mgr s = (if controller_ready b mgr s then (Done None, s\<lparr>bs_started := bs_started s @ [ShifaController]\<rparr>)
     else (Done (Some (Exited 1)), s))"
  using setup_apply(1) [of b mgr s] by (auto simp: init_shifa_def io_apply start_activity_apply split: option.splits)

text \<open>The cache is not started before its manager: the role of the scaling loop ends at the read.\<close>

lemma init_zaohua_ends:
  assumes "ManagerStart mgr \<notin> set (bs_started s)"
  shows "init_zaohua b mgr ip s = (Done (Some Returned), s)"
  using assms by (cases "b_informer b mgr") (simp_all add: init_zaohua_def informer_cache_get_def io_apply Let_def)

lemma setLoggerLevel_None:
  "setLoggerLevel b level = None \<longleftrightarrow>
     level \<in> {LOG_LEVEL_DEBUG, LOG_LEVEL_INFO, LOG_LEVEL_WARN, LOG_LEVEL_ERROR} \<and>
     b_loggerFromConfig b (logger_config level) = None"
  "setLoggerLevel b level = Some e \<Longrightarrow> e = Exited 1"
  by (auto simp: setLoggerLevel_def SwitchLoggerLevel_def split: option.splits if_splits)

lemma initialisation_eq:
  assumes "flags_free s"
  shows "InitialAggrator b ip s =
    (let s1 = s\<lparr>bs_flags := bs_flags s @ initial_flags @ zap_flags\<rparr> in
     case parsed_flags b s of
       Inl code \<Rightarrow> (Done (Exited code), s1)
     | Inr parsed \<Rightarrow>
         let s2 = s1\<lparr>bs_logger := Some (zap_settings parsed)\<rparr>; mgr = the_manager b parsed in
         if reaches_role b parsed then
           bnd (if ip_role ip = ShifaCmdRole then init_shifa b mgr
                else if ip_role ip = ZaohuaCmdRole then init_zaohua b mgr ip
                else ret (Some (Exited 1))) (\<lambda>r.
           case r of
             Some e \<Rightarrow> ret e
           | None \<Rightarrow>
               if b_addHealthz b mgr \<noteq> None then ret (Exited 1)
               else if b_addReadyz b mgr \<noteq> None then ret (Exited 1)
               else bnd (start_activity (ManagerStart mgr)) (\<lambda>_.
                 if b_managerStart b mgr \<noteq> None then ret (Exited 1) else ret Returned)) s2
         else (Done (Exited 1), s2))"
proof -
  note own = define_own_flags [of s initial_flags]
  let ?s1 = "s\<lparr>bs_flags := bs_flags s @ initial_flags @ zap_flags\<rparr>"
  have flags: "define_flags initial_flags s = (Done (), s\<lparr>bs_flags := bs_flags s @ initial_flags\<rparr>)"
    "define_flags zap_flags (s\<lparr>bs_flags := bs_flags s @ initial_flags\<rparr>) = (Done (), ?s1)"
    using assms own unfolding flags_free_def by blast+
  have parse: "parse_flags b ?s1 = (Done (parsed_flags b s), ?s1)"
    by (simp add: parse_flags_def parsed_flags_def)
  have logger: "SetLogger settings t = (Done (), t\<lparr>bs_logger := Some settings\<rparr>)" for settings t
    by (simp add: SetLogger_def)
  note head = InitialAggrator_def io_apply(3) flags parse Let_def
  show ?thesis
  proof (cases "parsed_flags b s")
    case (Inr parsed)
    show ?thesis
    proof (cases "b_getConfig b (string_value ''kubeconfig'' [] parsed)")
      case (Inl err)
      then have "\<not> reaches_role b parsed" by (simp add: reaches_role_def)
      then show ?thesis using Inl Inr by (simp add: head io_apply(1) logger)
    next
      case config: (Inr config)
      then have mgr: "the_manager b parsed = (config, manager_options_of parsed)" by (simp add: the_manager_def)
      show ?thesis
      proof (cases "setLoggerLevel b (log_level parsed)")
        case None
        then have "reaches_role b parsed \<longleftrightarrow> b_newManager b config (manager_options_of parsed) = None"
          using setLoggerLevel_None(1) [of b "log_level parsed"] by (simp add: reaches_role_def mgr config)
        then show ?thesis using None Inr config mgr by (simp add: head io_apply(1) logger)
      next
        case (Some e)
        then have "\<not> reaches_role b parsed" using setLoggerLevel_None(1) [of b "log_level parsed"] by (auto simp: reaches_role_def)
        then show ?thesis
          using Some setLoggerLevel_None(2) [OF Some] Inr config by (simp add: head io_apply(1) logger)
      qed
    qed
  qed (simp add: InitialAggrator_def io_apply flags parse)
qed

text \<open>
  In the role of the operator the initialisation starts the controller and then the manager,
  and returns exactly when the configuration, the manager, a valid log level, the controller (whose
  type the scheme must know), the two health checks and the run of the manager are all without an
  error; otherwise the process exits with the code 1. The logger has the settings of the command line.
\<close>

lemma shifa_starts:
  assumes "flags_free s" "parsed_flags b s = Inr parsed"
  defines "mgr \<equiv> the_manager b parsed"
  shows "\<exists>s'. shifaRunner b s =
      (Done (if reaches_role b parsed \<and> controller_ready b mgr s \<and> b_addHealthz b mgr = None \<and> b_addReadyz b mgr = None \<and>
          b_managerStart b mgr = None then Returned else Exited 1), s') \<and>
    bs_logger s' = Some (zap_settings parsed) \<and>
    bs_started s' = bs_started s @
      (if reaches_role b parsed \<and> controller_ready b mgr s
       then ShifaController # (if b_addHealthz b mgr = None \<and> b_addReadyz b mgr = None then [ManagerStart mgr] else [])
       else [])"
proof -
  note eqs = shifaRunner_def initshifaOptions_def initialisation_eq [OF assms(1)] assms(2) Let_def init_shifa_eq io_apply
    start_activity_apply mgr_def [symmetric]
  show ?thesis
  proof (cases "reaches_role b parsed \<and> controller_ready b mgr s")
    case True
    then show ?thesis
      by (cases "b_addHealthz b mgr"; cases "b_addReadyz b mgr"; cases "b_managerStart b mgr") (simp_all add: eqs)
  next
    case False
    then show ?thesis by (cases "reaches_role b parsed") (auto simp: eqs)
  qed
qed

lemma fair_boot_free: "flags_free boot_start" "parsed_flags fair_boot boot_start = Inr []"
  by (simp_all add: flags_free_def initial_flags_def zap_flags_def only_kubeconfig_def fair_boot_def boot_start_def
      parsed_flags_def)

section \<open>The scaling loop is never started\<close>

text \<open>A command line that cannot be parsed ends the process, and any other one panics.\<close>

lemma zaohuaRunner_ends:
  "\<exists>r s'. zaohuaRunner b s = (r, s') \<and> bs_started s' = bs_started s \<and>
    ((\<exists>p. r = Panic p) \<or> (\<exists>code. r = Done (Exited code) \<and>
      flag_parse (b_values b) (bs_flags s @ zaohua_flags @ zap_flags) (b_args b) [] = Inl code))"
proof (cases rule: define_flags_cases [of zaohua_flags s])
  case first: 1
  let ?s1 = "s\<lparr>bs_flags := bs_flags s @ zaohua_flags\<rparr>"
  show ?thesis
  proof (cases rule: define_flags_cases [of zap_flags ?s1])
    case 1
    let ?s2 = "?s1\<lparr>bs_flags := bs_flags ?s1 @ zap_flags\<rparr>"
    have init: "initZaohuaOptions b s = (Done (case flag_parse (b_values b) (bs_flags ?s2) (b_args b) [] of
        Inl code \<Rightarrow> Inl code | Inr parsed \<Rightarrow> Inr (zaohua_param (b_values b) parsed)), ?s2)"
      using first 1 by (auto simp: initZaohuaOptions_def io_apply parse_flags_def split: sum.splits)
    have "fst ` set zap_flags \<subseteq> fst ` set (bs_flags ?s2)" by auto
    then have panics: "\<exists>p s'. InitialAggrator b ip ?s2 = (Panic p, s') \<and> bs_started s' = bs_started s" for ip
      using initialisation_panics [of ?s2 b ip] by simp
    show ?thesis
    proof (cases "flag_parse (b_values b) (bs_flags ?s2) (b_args b) []")
      case (Inl code)
      then show ?thesis by (simp add: zaohuaRunner_def io_apply init)
    next
      case (Inr parsed)
      then have "zaohuaRunner b s = InitialAggrator b (zaohua_param (b_values b) parsed) ?s2"
        by (simp add: zaohuaRunner_def io_apply init)
      then show ?thesis using panics [of "zaohua_param (b_values b) parsed"] by metis
    qed
  qed (use first in \<open>auto simp: zaohuaRunner_def initZaohuaOptions_def io_apply(3)\<close>)
qed (auto simp: zaohuaRunner_def initZaohuaOptions_def io_apply(3))

lemma aggregator_zaohua:
  assumes "ip_role ip = ZaohuaCmdRole" "\<And>mgr. ManagerStart mgr \<notin> set (bs_started s)"
  shows "\<exists>r s'. InitialAggrator b ip s = (r, s') \<and> bs_started s' = bs_started s \<and>
    (flags_free s \<longrightarrow> r = (case parsed_flags b s of Inl code \<Rightarrow> Done (Exited code)
       | Inr parsed \<Rightarrow> if reaches_role b parsed then Done Returned else Done (Exited 1)))"
proof (cases "flags_free s")
  case True
  then show ?thesis
    using assms(1) init_zaohua_ends [of _ "s\<lparr>bs_flags := f, bs_logger := l\<rparr>" b ip for f l] assms(2)
    by (auto simp: initialisation_eq [OF True] Let_def io_apply split: sum.splits)
next
  case False
  have "\<exists>p s'. InitialAggrator b ip s = (Panic p, s') \<and> bs_started s' = bs_started s"
  proof (cases rule: define_flags_cases [of initial_flags s])
    case first: 1
    let ?s1 = "s\<lparr>bs_flags := bs_flags s @ initial_flags\<rparr>"
    show ?thesis
    proof (cases rule: define_flags_cases [of zap_flags ?s1])
      case 1
      have "fst ` set initial_flags \<inter> fst ` set (bs_flags s) = {}"
        using define_flags_eq [of initial_flags s] first by (auto split: if_splits)
      moreover have "fst ` set zap_flags \<inter> fst ` set (bs_flags ?s1) = {}"
        using define_flags_eq [of zap_flags ?s1] 1 by (auto split: if_splits)
      ultimately show ?thesis using False by (auto simp: flags_free_def)
    qed (use first in \<open>auto simp: InitialAggrator_def io_apply(3)\<close>)
  qed (auto simp: InitialAggrator_def io_apply(3))
  then show ?thesis using False by blast
qed

text \<open>
  C38: the scaling loop is never started, whatever the arguments and whatever the libraries answer.
  The command for it exits when its command line is refused and panics otherwise: it defines the flags of the logging library
  before the initialisation defines them again. And the initialisation in the role of the loop
  starts nothing either, when no manager has been started yet and those flags are not defined twice:
  it reads its object through the cache of a manager that is started only later, and returns without
  an error (or exits, when the command line, the configuration, the manager or the log level is
  refused).
\<close>

theorem zaohua_never_starts:
  assumes "ip_role ip = ZaohuaCmdRole" "\<And>mgr. ManagerStart mgr \<notin> set (bs_started s)"
  shows "(\<exists>r s'. zaohuaRunner b s = (r, s') \<and> bs_started s' = bs_started s \<and>
      ((\<exists>p. r = Panic p) \<or> (\<exists>code. r = Done (Exited code) \<and>
        flag_parse (b_values b) (bs_flags s @ zaohua_flags @ zap_flags) (b_args b) [] = Inl code))) \<and>
    (\<exists>r s'. InitialAggrator b ip s = (r, s') \<and> bs_started s' = bs_started s \<and>
      (flags_free s \<longrightarrow> r = (case parsed_flags b s of Inl code \<Rightarrow> Done (Exited code)
         | Inr parsed \<Rightarrow> if reaches_role b parsed then Done Returned else Done (Exited 1))))"
  using zaohuaRunner_ends aggregator_zaohua [OF assms] by blast

lemma fair_boot_reaches: "reaches_role fair_boot []"
  by (simp add: reaches_role_def log_level_def string_value_def flag_value_def, simp add: fair_boot_def)

text \<open>Libraries that answer without errors: the role of the loop returns with nothing started.\<close>

theorem zaohua_never_starts_witness:
  "\<exists>s'. InitialAggrator fair_boot \<lparr>ip_role = ZaohuaCmdRole, ip_cpuInitializationPeriod = 300,
      ip_initialReadinessDelay = 30, ip_downScaleStabilizationWindow = 300, ip_scaleTolerance = 0\<rparr> boot_start = (Done Returned, s') \<and>
    bs_started s' = []"
  using zaohua_never_starts [of "\<lparr>ip_role = ZaohuaCmdRole, ip_cpuInitializationPeriod = 300, ip_initialReadinessDelay = 30,
      ip_downScaleStabilizationWindow = 300, ip_scaleTolerance = 0\<rparr>" boot_start fair_boot] fair_boot_free fair_boot_reaches
  by (auto simp: boot_start_def)

end
