(* ===== verification/Program.thy ===== *)
theory Program
  imports Startup
begin

text \<open>
  The whole program: the initialisation of its packages, the command line of \<open>cmd/\<close> and
  \<open>main.go\<close>, and the demo metrics of \<open>customize_metrics/customize_metrics_builder.go\<close> with the
  part of the vendored metrics library that decides whether a metric can be registered.
\<close>

section \<open>The registration of a metric\<close>

record metric_opts =
  mo_namespace :: string
  mo_subsystem :: string
  mo_name :: string

definition no_opts :: metric_opts where
  "no_opts = \<lparr>mo_namespace = [], mo_subsystem = [], mo_name = []\<rparr>"

definition BuildFQName :: "string \<Rightarrow> string \<Rightarrow> string \<Rightarrow> string" where
  "BuildFQName namespace subsystem name =
     (if name = [] then []
      else if namespace \<noteq> [] \<and> subsystem \<noteq> [] then namespace @ ''_'' @ subsystem @ ''_'' @ name
      else if namespace \<noteq> [] then namespace @ ''_'' @ name
      else if subsystem \<noteq> [] then subsystem @ ''_'' @ name
      else name)"

definition byte_in :: "char \<Rightarrow> char \<Rightarrow> char \<Rightarrow> bool" where
  "byte_in lo hi b \<longleftrightarrow> (of_char lo :: nat) \<le> of_char b \<and> (of_char b :: nat) \<le> of_char hi"

text \<open>A digit may stand at every place but the first.\<close>

fun IsValidMetricName :: "string \<Rightarrow> bool" where
  "IsValidMetricName [] = False"
| "IsValidMetricName (b # bs) =
     (let letter = (\<lambda>b. byte_in CHR ''a'' CHR ''z'' b \<or> byte_in CHR ''A'' CHR ''Z'' b \<or> b = CHR ''_'' \<or> b = CHR '':'') in
      letter b \<and> list_all (\<lambda>b. letter b \<or> byte_in CHR ''0'' CHR ''9'' b) bs)"

text \<open>
  The constructors of the library make a descriptor without labels and register it in the
  default registry, which refuses an invalid name and a name it already has; they then panic.
\<close>

definition promauto_new :: "metric_opts \<Rightarrow> (boot_state, unit) io" where
  "promauto_new opts s =
     (let fqName = BuildFQName (mo_namespace opts) (mo_subsystem opts) (mo_name opts) in
      if \<not> IsValidMetricName fqName then (Panic (RegistrationFailed fqName), s)
      else if fqName \<in> set (bs_metrics s) then (Panic (RegistrationFailed fqName), s)
      else (Done (), s\<lparr>bs_metrics := bs_metrics s @ [fqName]\<rparr>))"

section \<open>The demo metrics\<close>

definition demo_metrics_init :: "(boot_state, unit) io" where
  "demo_metrics_init =
     bnd (promauto_new (no_opts\<lparr>mo_name := ''test_demo_metrics_total''\<rparr>)) (\<lambda>demoMetrics.
     bnd (promauto_new no_opts) (\<lambda>demoMetricsGauge.
     bnd (promauto_new no_opts) (\<lambda>demoMetricsHistogram.
     promauto_new (no_opts\<lparr>mo_name := ''test_demo_metrics_summary''\<rparr>))))"

definition recordMetrics :: "(boot_state, unit) io" where
  "recordMetrics = start_activity DemoCounterIncrement"

definition StartCustomizeMetrics :: "(boot_state, unit) io" where
  "StartCustomizeMetrics =
     bnd recordMetrics (\<lambda>_. start_activity (MetricsServer ''127.0.0.1:45641''))"

section \<open>The initialisation of the packages\<close>

definition logger_init :: "boot \<Rightarrow> boot_end option" where
  "logger_init b =
     (case b_loggerFromConfig b (logger_config ''debug'') of Some err \<Rightarrow> Some (Exited 1) | None \<Rightarrow> None)"

text \<open>
  The scheme is filled with the types of the client library and then with those of \<open>api/v1\<close>, whose
  \<open>init\<close> has registered them with the builder; an error panics.
\<close>

definition initial_init :: "boot \<Rightarrow> (boot_state, unit) io" where
  "initial_init b =
     bnd (lift_outcome (case b_addClientGoScheme b of Some err \<Rightarrow> Panic (InitFailed err) | None \<Rightarrow> Done ())) (\<lambda>_.
     bnd (\<lambda>s. (Done (), s\<lparr>bs_scheme := bs_scheme s @ b_clientGoTypes b\<rparr>)) (\<lambda>_.
     bnd (\<lambda>s. (AddToScheme (houmao_types_init SchemeBuilder) (bs_scheme s), s)) (\<lambda>scheme.
     bnd (\<lambda>s. (Done (), s\<lparr>bs_scheme := scheme\<rparr>)) (\<lambda>_.
     lift_outcome (case b_addSunwukongScheme b of Some err \<Rightarrow> Panic (InitFailed err) | None \<Rightarrow> Done ())))))"

text \<open>
  The commands, their flags, and the order of their files. A flag set refuses a name or a letter that
  it has by a panic.
\<close>

definition AddCommand :: "cobra_command \<Rightarrow> (boot_state, unit) io" where
  "AddCommand cmd s = (Done (), s\<lparr>bs_shifaCmd := with_commands (cc_commands (bs_shifaCmd s) @ [cmd]) (bs_shifaCmd s)\<rparr>)"

definition AddFlag :: "pflag list \<Rightarrow> pflag \<Rightarrow> pflag list outcome" where
  "AddFlag flags f =
     (if Lookup flags (pf_name f) \<noteq> None then Panic (FlagRedefined (pf_name f))
      else case pf_shorthand f of
        None \<Rightarrow> Done (flags @ [f])
      | Some c \<Rightarrow> if ShorthandLookup flags c \<noteq> None then Panic (FlagRedefined [c]) else Done (flags @ [f]))"

definition customizemetrics_init :: "(boot_state, unit) io" where
  "customizemetrics_init = AddCommand customizemetricsCmd"

definition shifa_init :: "(boot_state, unit) io" where
  "shifa_init s =
     (let c = bs_shifaCmd s in
      bnd (lift_outcome (AddFlag (cc_persistentFlags c) config_flag)) (\<lambda>pflags.
      bnd (lift_outcome (AddFlag (cc_flags c) toggle_flag)) (\<lambda>flags.
      \<lambda>s. (Done (), s\<lparr>bs_shifaCmd := Command (cc_use c) (cc_aliases c) flags pflags (cc_args c)
        (cc_disableFlagParsing c) (cc_run c) (cc_commands c)\<rparr>))) s)"

definition zaohua_init :: "(boot_state, unit) io" where
  "zaohua_init = AddCommand ZaohuaCmd"

definition cmd_init :: "(boot_state, unit) io" where
  "cmd_init = bnd customizemetrics_init (\<lambda>_. bnd shifa_init (\<lambda>_. zaohua_init))"

text \<open>
  The packages are initialised in the order of the imports, those of the package \<open>cmd\<close> by the
  names of its files: the demo metrics first, then the logger, then \<open>cmd/initial\<close>, and the package
  \<open>cmd\<close> itself last.
\<close>

definition package_init :: "boot \<Rightarrow> (boot_state, boot_end option) io" where
  "package_init b =
     bnd demo_metrics_init (\<lambda>_.
     case logger_init b of
       Some e \<Rightarrow> ret (Some e)
     | None \<Rightarrow> bnd (initial_init b) (\<lambda>_. bnd cmd_init (\<lambda>_. ret None)))"

section \<open>The command line\<close>

text \<open>
  The library parses the command line for the tree of the commands: the help, an error, which ends the
  process, or a command to run. Before that the configuration file is looked up, and the arguments
  are checked after it.
\<close>

definition initConfig :: "boot \<Rightarrow> string \<Rightarrow> boot_end option" where
  "initConfig b cfgFile =
     (if cfgFile \<noteq> [] then None
      else case b_homedir b of Some err \<Rightarrow> Some (Exited 1) | None \<Rightarrow> None)"

definition run_command :: "boot \<Rightarrow> prepared \<Rightarrow> (boot_state, boot_end) io" where
  "run_command b p =
     (case initConfig b (GetString ''config'' (pr_settings p)) of
        Some e \<Rightarrow> ret e
      | None \<Rightarrow>
          if \<not> pr_valid p then ret (Exited 1)
          else case pr_run p of
            ShifaRunner \<Rightarrow> shifaRunner b
          | ZaohuaRunner \<Rightarrow> zaohuaRunner b
          | CustomizemetricsRun \<Rightarrow> bnd StartCustomizeMetrics (\<lambda>_. ret Returned)
          | LibraryRun \<Rightarrow>
              (case b_libraryRun b (pr_name p) (pr_args p) of Some err \<Rightarrow> ret (Exited 1) | None \<Rightarrow> ret Returned))"

definition Execute :: "boot \<Rightarrow> (boot_state, boot_end) io" where
  "Execute b =
     bnd (\<lambda>s. (Done (ExecuteC (bs_shifaCmd s) (b_args b)), s)) (\<lambda>r.
     case r of
       Inl ErrHelp \<Rightarrow> ret Returned
     | Inl CobraError \<Rightarrow> ret (Exited 1)
     | Inr p \<Rightarrow> run_command b p)"

definition main_program :: "boot \<Rightarrow> (boot_state, boot_end) io" where
  "main_program b =
     bnd (package_init b) (\<lambda>r. case r of Some e \<Rightarrow> ret e | None \<Rightarrow> Execute b)"

section \<open>The start of the program\<close>

text \<open>
  The initialisation of \<open>cmd/initial\<close> and \<open>cmd\<close> leaves what the start of a role relies on: the type of
  the resource is in the scheme, and \<open>cobra\<close> knows the commands and their flags.
\<close>

lemma inits_done:
  assumes "compatible houmao_entries (bs_scheme s @ b_clientGoTypes b)"
    and "b_addClientGoScheme b = None" "b_addSunwukongScheme b = None" "bs_shifaCmd s = shifaCmd"
  shows "\<exists>s1 s2. initial_init b s = (Done (), s1) \<and> cmd_init s1 = (Done (), s2) \<and>
    (controller_ready b mgr s2 \<longleftrightarrow> b_setupController b mgr = None) \<and>
    bs_shifaCmd s2 = program_commands \<and> bs_flags s2 = bs_flags s"
proof -
  obtain scheme' where "AddToScheme (houmao_types_init SchemeBuilder) (bs_scheme s @ b_clientGoTypes b) = Done scheme'"
    "map_of scheme' (with_kind GroupVersion ''Houmao'') = Some Houmao_type"
    by (rule houmao_registered [OF assms(1)])
  moreover from this(2) have "Houmao_type \<in> snd ` set scheme'" by (force dest: map_of_SomeD)
  ultimately show ?thesis
    using assms(2-4) by (simp add: initial_init_def cmd_init_def customizemetrics_init_def shifa_init_def
        zaohua_init_def AddCommand_def AddFlag_def Lookup_def ShorthandLookup_def with_commands_def shifaCmd_def
        program_commands_def config_flag_def toggle_flag_def controller_ready_def go_simps)
qed

lemma valid_names:
  "IsValidMetricName (BuildFQName [] [] ''test_demo_metrics_total'')"
  "\<not> IsValidMetricName (BuildFQName ns sub [])"
  by (simp_all add: BuildFQName_def byte_in_def Let_def)

lemma metrics_init_panics:
  "\<exists>name s'. demo_metrics_init s = (Panic (RegistrationFailed name), s') \<and> bs_started s' = bs_started s \<and>
     bs_flags s' = bs_flags s \<and>
     name = (if ''test_demo_metrics_total'' \<in> set (bs_metrics s) then ''test_demo_metrics_total'' else [])"
  using valid_names by (auto simp: demo_metrics_init_def promauto_new_def no_opts_def Let_def go_simps BuildFQName_def)

text \<open>
  C8: whatever the libraries answer and whichever command is given, the program panics before
  \<open>main\<close> is entered: two of the demo metrics, which every command imports, have no name, and
  nothing has been started by then.
\<close>

theorem program_panics:
  "\<exists>name s'. main_program b s = (Panic (RegistrationFailed name), s') \<and> bs_started s' = bs_started s \<and>
     name = (if ''test_demo_metrics_total'' \<in> set (bs_metrics s) then ''test_demo_metrics_total'' else [])"
  using metrics_init_panics [of s] by (auto simp: main_program_def package_init_def go_simps)

end
