(* ===== verification/Command_Effects.thy ===== *)
theory Command_Effects
  imports Program
begin

text \<open>
  What a command line can change. The library \<open>cobra\<close> parses it for the command and the standard
  library parses the same arguments again for the flags of the program; both parsers together leave
  three command lines that make a difference.
\<close>

section \<open>The second parser\<close>

text \<open>What the second parser answers when \<open>cobra\<close> has found a command of the program.\<close>

definition own_run :: "boot \<Rightarrow> prepared \<Rightarrow> bool" where
  "own_run b p \<longleftrightarrow> ExecuteC program_commands (b_args b) = Inr p \<and> pr_run p \<noteq> LibraryRun"

lemma own_run_parse:
  assumes "own_run b p" "own \<in> {initial_flags, zaohua_flags}"
  shows "flag_parse (b_values b) (only_kubeconfig @ own @ zap_flags) (b_args b) [] \<in> {Inl 0, Inl 2, Inr []}"
proof -
  have "ExecuteC program_commands (b_args b) = Inr p" "pr_run p \<noteq> LibraryRun"
    using assms(1) by (simp_all add: own_run_def)
  then show ?thesis by (rule cobra_sets_nothing [OF _ _ program_commands_ok own_flags_foreign [OF assms(2)]])
qed

lemma only_kubeconfig_free:
  assumes "bs_flags s = only_kubeconfig"
  shows "fst ` set (bs_flags s) \<inter> fst ` set (zaohua_flags @ zap_flags) = {}" "flags_free s"
  by (simp_all add: assms flags_free_def only_kubeconfig_def zaohua_flags_def initial_flags_def zap_flags_def)

lemma no_args_same:
  "reaches_role (b\<lparr>b_args := as\<rparr>) = reaches_role b" "the_manager (b\<lparr>b_args := as\<rparr>) = the_manager b"
  "init_shifa (b\<lparr>b_args := as\<rparr>) = init_shifa b" "init_zaohua (b\<lparr>b_args := as\<rparr>) = init_zaohua b"
proof -
  have ready: "Houmao_SetupWithManager (b\<lparr>b_args := as\<rparr>) = Houmao_SetupWithManager b"
    "Zaohua_SetupWithManager (b\<lparr>b_args := as\<rparr>) = Zaohua_SetupWithManager b"
    "informer_cache_get (b\<lparr>b_args := as\<rparr>) = informer_cache_get b"
    by (simp_all add: fun_eq_iff Houmao_SetupWithManager_def Zaohua_SetupWithManager_def complete_controller_def
        informer_cache_get_def cong: option.case_cong)
  show mgr: "the_manager (b\<lparr>b_args := as\<rparr>) = the_manager b" by (simp add: fun_eq_iff the_manager_def)
  show "reaches_role (b\<lparr>b_args := as\<rparr>) = reaches_role b" "init_shifa (b\<lparr>b_args := as\<rparr>) = init_shifa b"
    by (simp_all add: fun_eq_iff reaches_role_def mgr init_shifa_def ready)
  show "init_zaohua (b\<lparr>b_args := as\<rparr>) = init_zaohua b"
    unfolding fun_eq_iff init_zaohua_def ready Let_def by (simp cong: sum.case_cong if_cong)
qed

text \<open>Arguments that set nothing make no difference to the initialisation.\<close>

lemma aggregator_same:
  assumes "flags_free s" "parsed_flags b s = parsed_flags (b\<lparr>b_args := as\<rparr>) s"
  shows "InitialAggrator b ip s = InitialAggrator (b\<lparr>b_args := as\<rparr>) ip s"
proof -
  have "b_addHealthz (b\<lparr>b_args := as\<rparr>) = b_addHealthz b" "b_addReadyz (b\<lparr>b_args := as\<rparr>) = b_addReadyz b"
    "b_managerStart (b\<lparr>b_args := as\<rparr>) = b_managerStart b"
    by simp_all
  note same = this
  show ?thesis unfolding initialisation_eq [OF assms(1)] assms(2) no_args_same same ..
qed

lemma aggregator_exits:
  assumes "flags_free s" "parsed_flags b s = Inl code"
  shows "\<exists>s'. InitialAggrator b ip s = (Done (Exited code), s') \<and> bs_started s' = bs_started s"
  by (simp add: initialisation_eq [OF assms(1)] assms(2) Let_def)

lemma own_run_aggregator:
  assumes "bs_flags s = only_kubeconfig" "own_run b p"
  shows "(\<exists>code s'. code \<in> {0, 2} \<and> InitialAggrator b ip s = (Done (Exited code), s') \<and> bs_started s' = bs_started s) \<or>
    (\<forall>as. (case as of [] \<Rightarrow> True | a # _ \<Rightarrow> \<not> flag_like a) \<longrightarrow>
      InitialAggrator b ip s = InitialAggrator (b\<lparr>b_args := as\<rparr>) ip s)"
proof -
  note free = only_kubeconfig_free(2) [OF assms(1)]
  consider "parsed_flags b s = Inl 0" | "parsed_flags b s = Inl 2" | "parsed_flags b s = Inr []"
    using own_run_parse [OF assms(2), of initial_flags] by (auto simp: parsed_flags_def assms(1))
  then show ?thesis
  proof cases
    case 3
    have "parsed_flags (b\<lparr>b_args := as\<rparr>) s = Inr []" if "case as of [] \<Rightarrow> True | a # _ \<Rightarrow> \<not> flag_like a" for as
      using that by (simp add: parsed_flags_def flag_parse_none)
    then show ?thesis using aggregator_same [OF free] 3 by simp
  qed (use aggregator_exits [OF free] in fastforce)+
qed

text \<open>What the initialisation in the role of the operator starts and sets on a command line without flags.\<close>

definition default_options :: manager_options where
  "default_options = \<lparr>mgo_metricsBindAddress = '':8080'', mgo_port = 9443, mgo_healthProbeBindAddress = '':8081'',
     mgo_leaderElection = True, mgo_leaderElectionID = ''a47d2438.my.domain''\<rparr>"

lemma shifa_defaults:
  assumes "flags_free s" "parsed_flags b s = Inr []"
  shows "\<exists>r s'. shifaRunner b s = (r, s') \<and> bs_logger s' = Some [] \<and>
    (\<forall>config options. ManagerStart (config, options) \<in> set (bs_started s') - set (bs_started s) \<longrightarrow>
       b_getConfig b [] = Inr config \<and> options = default_options)"
proof -
  have mgr: "the_manager b [] = (projr (b_getConfig b []), default_options)"
    by (simp add: the_manager_def manager_options_of_def default_options_def string_value_def bool_value_def flag_value_def)
  have config: "b_getConfig b [] = Inr (projr (b_getConfig b []))" if "reaches_role b []"
    using that by (simp add: reaches_role_def string_value_def flag_value_def)
  obtain r s' where s': "shifaRunner b s = (r, s')" "bs_logger s' = Some []" "bs_started s' = bs_started s @
      (if reaches_role b [] \<and> controller_ready b (the_manager b []) s
       then ShifaController # (if b_addHealthz b (the_manager b []) = None \<and> b_addReadyz b (the_manager b []) = None
         then [ManagerStart (the_manager b [])] else [])
       else [])"
    using shifa_starts [OF assms] by (auto simp: zap_settings_def)
  have "b_getConfig b [] = Inr config' \<and> options = default_options"
    if "ManagerStart (config', options) \<in> set (bs_started s') - set (bs_started s)" for config' options
    using that config unfolding s'(3) mgr by (auto split: if_splits)
  then show ?thesis using s'(1,2) by blast
qed

lemma shifa_exits:
  assumes "flags_free s" "parsed_flags b s = Inl code"
  shows "\<exists>s'. shifaRunner b s = (Done (Exited code), s') \<and> bs_started s' = bs_started s"
  using aggregator_exits [OF assms] by (simp add: shifaRunner_def initshifaOptions_def io_apply)

text \<open>The command of the loop: its parameters are the defaults, and the initialisation then panics.\<close>

lemma zaohua_options:
  assumes "bs_flags s = only_kubeconfig" "own_run b p"
  shows "\<exists>r. initZaohuaOptions b s = (r, s\<lparr>bs_flags := bs_flags s @ zaohua_flags @ zap_flags\<rparr>) \<and>
    r \<in> {Done (Inl 0), Done (Inl 2), Done (Inr \<lparr>ip_role = ZaohuaCmdRole,
      ip_cpuInitializationPeriod = 300, ip_initialReadinessDelay = 30, ip_downScaleStabilizationWindow = 300,
      ip_scaleTolerance = to_f64 False (1 / 10)\<rparr>)}"
  using own_run_parse [OF assms(2), of zaohua_flags] define_own_flags [OF only_kubeconfig_free(1) [OF assms(1)]]
  by (auto simp: initZaohuaOptions_def io_apply parse_flags_def zaohua_param_def flag_value_def assms(1)
      CpuInitializationPeriod_def InitialReadinessDelay_def ScaleTolerance_def Let_def)

lemma aggregator_redefines:
  assumes "bs_flags s = only_kubeconfig @ zaohua_flags @ zap_flags"
  shows "\<exists>s'. InitialAggrator b ip s = (Panic (FlagRedefined ''zap-devel''), s') \<and> bs_started s' = bs_started s"
proof -
  have "define_flags initial_flags s = (Done (), s\<lparr>bs_flags := bs_flags s @ initial_flags\<rparr>)"
    using define_flags_eq [of initial_flags s]
    by (simp add: assms only_kubeconfig_def zaohua_flags_def zap_flags_def initial_flags_def)
  then show ?thesis
    by (simp add: InitialAggrator_def io_apply(3) zap_flags_def define_flag_def assms)
qed

lemma zaohua_without_effect:
  assumes "bs_flags s = only_kubeconfig" "own_run b p"
  shows "\<exists>r s'. zaohuaRunner b s = (r, s') \<and> bs_started s' = bs_started s \<and>
    r \<in> {Done (Exited 0), Done (Exited 2), Panic (FlagRedefined ''zap-devel'')}"
proof -
  let ?s2 = "s\<lparr>bs_flags := bs_flags s @ zaohua_flags @ zap_flags\<rparr>"
  have "\<exists>s'. InitialAggrator b ip ?s2 = (Panic (FlagRedefined ''zap-devel''), s') \<and> bs_started s' = bs_started s" for ip
    using aggregator_redefines [of ?s2 b ip] assms(1) by simp
  then show ?thesis
    using zaohua_options [OF assms] by (auto simp: zaohuaRunner_def io_apply) metis
qed

text \<open>
  C36: no flag that the program documents has an effect, on any command line for which \<open>cobra\<close> runs a
  command of the program. The command of the operator exits with the code 0 or 2 and nothing
  started, or it does exactly what it does without arguments: the logger gets no setting, the
  configuration is read without a path, and every manager it starts has the default addresses and
  leader election. The command of the scaling loop computes the defaults of its four parameters (the
  window is 300 nanoseconds) or exits; either way nothing is started, since the initialisation
  that should use them panics at the first flag of the logging library.
\<close>

theorem flags_without_effect:
  assumes "bs_flags s = only_kubeconfig" "own_run b p"
  shows "(\<exists>r s'. shifaRunner b s = (r, s') \<and>
      (r \<in> {Done (Exited 0), Done (Exited 2)} \<and> bs_started s' = bs_started s \<or>
       shifaRunner b s = shifaRunner (b\<lparr>b_args := []\<rparr>) s \<and> bs_logger s' = Some [] \<and>
       (\<forall>config options. ManagerStart (config, options) \<in> set (bs_started s') - set (bs_started s) \<longrightarrow>
          b_getConfig b [] = Inr config \<and>
          options = \<lparr>mgo_metricsBindAddress = '':8080'', mgo_port = 9443, mgo_healthProbeBindAddress = '':8081'',
            mgo_leaderElection = True, mgo_leaderElectionID = ''a47d2438.my.domain''\<rparr>))) \<and>
    fst (initZaohuaOptions b s) \<in> {Done (Inl 0), Done (Inl 2), Done (Inr \<lparr>ip_role = ZaohuaCmdRole,
      ip_cpuInitializationPeriod = 300, ip_initialReadinessDelay = 30, ip_downScaleStabilizationWindow = 300,
      ip_scaleTolerance = to_f64 False (1 / 10)\<rparr>)} \<and>
    (\<exists>r s'. zaohuaRunner b s = (r, s') \<and> bs_started s' = bs_started s \<and>
      r \<in> {Done (Exited 0), Done (Exited 2), Panic (FlagRedefined ''zap-devel'')})"
proof (intro conjI)
  note free = only_kubeconfig_free(2) [OF assms(1)]
  consider "parsed_flags b s = Inl 0" | "parsed_flags b s = Inl 2" | "parsed_flags b s = Inr []"
    using own_run_parse [OF assms(2), of initial_flags] by (auto simp: parsed_flags_def assms(1))
  then show "\<exists>r s'. shifaRunner b s = (r, s') \<and>
      (r \<in> {Done (Exited 0), Done (Exited 2)} \<and> bs_started s' = bs_started s \<or>
       shifaRunner b s = shifaRunner (b\<lparr>b_args := []\<rparr>) s \<and> bs_logger s' = Some [] \<and>
       (\<forall>config options. ManagerStart (config, options) \<in> set (bs_started s') - set (bs_started s) \<longrightarrow>
          b_getConfig b [] = Inr config \<and>
          options = \<lparr>mgo_metricsBindAddress = '':8080'', mgo_port = 9443, mgo_healthProbeBindAddress = '':8081'',
            mgo_leaderElection = True, mgo_leaderElectionID = ''a47d2438.my.domain''\<rparr>))"
  proof cases
    case 3
    have same: "parsed_flags b s = parsed_flags (b\<lparr>b_args := []\<rparr>) s" using 3 by (simp add: parsed_flags_def)
    have "shifaRunner b s = shifaRunner (b\<lparr>b_args := []\<rparr>) s"
      unfolding shifaRunner_def aggregator_same [OF free same] by (simp add: initshifaOptions_def io_apply aggregator_same [OF free same, symmetric])
    moreover obtain r s' where "shifaRunner b s = (r, s')" "bs_logger s' = Some []"
      "\<forall>config options. ManagerStart (config, options) \<in> set (bs_started s') - set (bs_started s) \<longrightarrow>
         b_getConfig b [] = Inr config \<and> options = default_options"
      using shifa_defaults [OF free 3] by blast
    ultimately show ?thesis unfolding default_options_def by (intro exI conjI disjI2)
  next
    case 1
    then show ?thesis using shifa_exits [OF free 1] by auto
  next
    case 2
    then show ?thesis using shifa_exits [OF free 2] by auto
  qed
  show "fst (initZaohuaOptions b s) \<in> {Done (Inl 0), Done (Inl 2), Done (Inr \<lparr>ip_role = ZaohuaCmdRole,
      ip_cpuInitializationPeriod = 300, ip_initialReadinessDelay = 30, ip_downScaleStabilizationWindow = 300,
      ip_scaleTolerance = to_f64 False (1 / 10)\<rparr>)}"
    using zaohua_options [OF assms] by auto
qed (rule zaohua_without_effect [OF assms])

text \<open>The flag for the tolerance after the command, which \<open>cobra\<close> refuses, and the command alone.\<close>

lemma zaohua_found:
  "ExecuteC program_commands [''zaohua''] = Inr \<lparr>pr_run = ZaohuaRunner, pr_valid = True, pr_name = ''zaohua'',
     pr_args = [], pr_settings = []\<rparr>"
  by code_simp

lemma own_run_zaohua:
  "own_run (fair_boot\<lparr>b_args := [''zaohua'']\<rparr>) \<lparr>pr_run = ZaohuaRunner, pr_valid = True, pr_name = ''zaohua'',
     pr_args = [], pr_settings = []\<rparr>"
  using zaohua_found by (simp add: own_run_def)

theorem flags_without_effect_witness:
  "(\<exists>s'. zaohuaRunner (fair_boot\<lparr>b_args := [''zaohua'']\<rparr>) boot_start = (Panic (FlagRedefined ''zap-devel''), s') \<and>
      bs_started s' = []) \<and>
   fst (initZaohuaOptions (fair_boot\<lparr>b_args := [''zaohua'']\<rparr>) boot_start) \<in> {Done (Inl 0), Done (Inl 2),
     Done (Inr \<lparr>ip_role = ZaohuaCmdRole, ip_cpuInitializationPeriod = 300, ip_initialReadinessDelay = 30,
       ip_downScaleStabilizationWindow = 300, ip_scaleTolerance = to_f64 False (1 / 10)\<rparr>)}"
proof -
  let ?b = "fair_boot\<lparr>b_args := [''zaohua'']\<rparr>"
  note facts = flags_without_effect [of boot_start ?b, OF _ own_run_zaohua]
  have "bs_flags boot_start = only_kubeconfig" by (simp add: boot_start_def)
  from facts [OF this] obtain r s' where run: "zaohuaRunner ?b boot_start = (r, s')" "bs_started s' = bs_started boot_start"
    "r \<in> {Done (Exited 0), Done (Exited 2), Panic (FlagRedefined ''zap-devel'')}"
    and options: "fst (initZaohuaOptions ?b boot_start) \<in> {Done (Inl 0), Done (Inl 2), Done (Inr \<lparr>ip_role = ZaohuaCmdRole,
      ip_cpuInitializationPeriod = 300, ip_initialReadinessDelay = 30, ip_downScaleStabilizationWindow = 300,
      ip_scaleTolerance = to_f64 False (1 / 10)\<rparr>)}"
    by blast
  have "\<not> (\<exists>code. r = Done (Exited code))"
    using zaohuaRunner_ends [of ?b boot_start] run(1) by (auto simp: fair_boot_def flag_like_def)
  then show ?thesis using run options by (auto simp: boot_start_def)
qed

section \<open>The three command lines\<close>

lemma shifa_found:
  "ExecuteC program_commands [] = Inr \<lparr>pr_run = ShifaRunner, pr_valid = True, pr_name = ''Sunwukong'',
     pr_args = [], pr_settings = []\<rparr>"
  by code_simp

lemma customizemetrics_found:
  "ExecuteC program_commands [''customizemetrics''] = Inr \<lparr>pr_run = CustomizemetricsRun, pr_valid = True,
     pr_name = ''customizemetrics'', pr_args = [], pr_settings = []\<rparr>"
  by code_simp

lemma initConfig_home: "b_homedir b = None \<Longrightarrow> initConfig b cfgFile = None"
  by (simp add: initConfig_def)

text \<open>The initialisation after that of the scaling loop panics before it looks at the arguments.\<close>

lemma aggregator_panics_same:
  assumes "fst ` set zap_flags \<subseteq> fst ` set (bs_flags s)"
  shows "InitialAggrator b ip s = InitialAggrator b' ip s"
proof (cases rule: define_flags_cases [of initial_flags s])
  case 1
  have "\<exists>p s'. define_flags zap_flags (s\<lparr>bs_flags := bs_flags s @ initial_flags\<rparr>) = (Panic p, s')"
    using define_flags_eq [of zap_flags "s\<lparr>bs_flags := bs_flags s @ initial_flags\<rparr>"] assms
    by (auto simp: zap_flags_def split: if_splits)
  then show ?thesis using 1 unfolding InitialAggrator_def by (auto simp: io_apply(3))
qed (auto simp: InitialAggrator_def io_apply(3))

lemma zaohuaRunner_cases:
  assumes "bs_flags s = only_kubeconfig" "own_run b p"
  shows "(\<exists>code s'. code \<in> {0, 2} \<and> zaohuaRunner b s = (Done (Exited code), s') \<and> bs_started s' = bs_started s) \<or>
    zaohuaRunner b s = zaohuaRunner (b\<lparr>b_args := [''zaohua'']\<rparr>) s"
proof -
  note flags = define_own_flags [OF only_kubeconfig_free(1) [OF assms(1)]]
  let ?s2 = "s\<lparr>bs_flags := bs_flags s @ zaohua_flags @ zap_flags\<rparr>"
  have run: "initZaohuaOptions c s = (Done (case parsed of Inl code \<Rightarrow> Inl code
      | Inr sets \<Rightarrow> Inr (zaohua_param (b_values c) sets)), ?s2)"
    if "flag_parse (b_values c) (only_kubeconfig @ zaohua_flags @ zap_flags) (b_args c) [] = parsed" for c parsed
    using that flags by (auto simp: initZaohuaOptions_def io_apply parse_flags_def assms(1) split: sum.splits)
  consider "flag_parse (b_values b) (only_kubeconfig @ zaohua_flags @ zap_flags) (b_args b) [] = Inl 0"
    | "flag_parse (b_values b) (only_kubeconfig @ zaohua_flags @ zap_flags) (b_args b) [] = Inl 2"
    | "flag_parse (b_values b) (only_kubeconfig @ zaohua_flags @ zap_flags) (b_args b) [] = Inr []"
    using own_run_parse [OF assms(2), of zaohua_flags] by auto
  then show ?thesis
  proof cases
    case 3
    have alone: "flag_parse (b_values c) (only_kubeconfig @ zaohua_flags @ zap_flags) (b_args c) [] = Inr []"
      if "b_args c = [''zaohua'']" for c
      using that by (simp add: flag_like_def)
    have "InitialAggrator b ip ?s2 = InitialAggrator (b\<lparr>b_args := [''zaohua'']\<rparr>) ip ?s2" for ip
      by (rule aggregator_panics_same) auto
    then show ?thesis
      using run [OF 3] run [OF alone [of "b\<lparr>b_args := [''zaohua'']\<rparr>"]] by (simp add: zaohuaRunner_def io_apply(3))
  qed (use run in \<open>auto simp: zaohuaRunner_def io_apply\<close>)
qed

text \<open>
  C37: once the packages are initialised and when the home directory is found, every command line
  either makes the process end with nothing started, by a return or by an exit with a code up to 2, or
  does exactly what one of three command lines does: the empty one, the name of the scaling loop's
  command, and the name of the demo metrics' command. No other argument makes a difference.
\<close>

theorem command_lines:
  assumes "bs_flags s = only_kubeconfig" "bs_shifaCmd s = program_commands" "b_homedir b = None"
  shows "(\<exists>e s'. Execute b s = (Done e, s') \<and> e \<in> {Returned, Exited 0, Exited 1, Exited 2} \<and> bs_started s' = bs_started s) \<or>
    (\<exists>args \<in> {[], [''zaohua''], [''customizemetrics'']}. Execute b s = Execute (b\<lparr>b_args := args\<rparr>) s)"
proof -
  have execute: "Execute c s = run_command c p s" if "ExecuteC program_commands (b_args c) = Inr p" for c p
    using that by (simp add: Execute_def io_apply assms(2))
  have home: "run_command c p s = (if \<not> pr_valid p then ret (Exited 1) else case pr_run p of
      ShifaRunner \<Rightarrow> shifaRunner c | ZaohuaRunner \<Rightarrow> zaohuaRunner c
    | CustomizemetricsRun \<Rightarrow> bnd StartCustomizeMetrics (\<lambda>_. ret Returned)
    | LibraryRun \<Rightarrow> (case b_libraryRun c (pr_name p) (pr_args p) of Some err \<Rightarrow> ret (Exited 1) | None \<Rightarrow> ret Returned)) s"
    if "b_homedir c = None" for c p
    using that by (simp add: run_command_def initConfig_home)
  show ?thesis
  proof (cases "\<exists>p. own_run b p \<and> pr_valid p")
    case True
    then obtain p where p: "own_run b p" "pr_valid p" "ExecuteC program_commands (b_args b) = Inr p"
      by (auto simp: own_run_def)
    show ?thesis
    proof (cases "pr_run p")
      case ShifaRunner
      have "Execute b s = shifaRunner b s" using execute [OF p(3)] home [OF assms(3)] p(2) ShifaRunner by simp
      moreover have "Execute (b\<lparr>b_args := []\<rparr>) s = shifaRunner (b\<lparr>b_args := []\<rparr>) s"
        using execute [of "b\<lparr>b_args := []\<rparr>"] home [of "b\<lparr>b_args := []\<rparr>"] assms(3) by (simp add: shifa_found)
      ultimately show ?thesis
        using own_run_aggregator [OF assms(1) p(1)]
        by (simp add: shifaRunner_def initshifaOptions_def io_apply) (metis list.simps(4))
    next
      case ZaohuaRunner
      have "Execute b s = zaohuaRunner b s" using execute [OF p(3)] home [OF assms(3)] p(2) ZaohuaRunner by simp
      moreover have "Execute (b\<lparr>b_args := [''zaohua'']\<rparr>) s = zaohuaRunner (b\<lparr>b_args := [''zaohua'']\<rparr>) s"
        using execute [of "b\<lparr>b_args := [''zaohua'']\<rparr>"] home [of "b\<lparr>b_args := [''zaohua'']\<rparr>"] assms(3)
        by (simp add: zaohua_found)
      ultimately show ?thesis using zaohuaRunner_cases [OF assms(1) p(1)] by auto
    next
      case CustomizemetricsRun
      have "Execute b s = Execute (b\<lparr>b_args := [''customizemetrics'']\<rparr>) s"
        using execute [OF p(3)] home [OF assms(3)] p(2) CustomizemetricsRun
          execute [of "b\<lparr>b_args := [''customizemetrics'']\<rparr>"] home [of "b\<lparr>b_args := [''customizemetrics'']\<rparr>"] assms(3)
        by (simp add: customizemetrics_found)
      then show ?thesis by blast
    qed (use p(1) in \<open>simp add: own_run_def\<close>)
  next
    case False
    have "\<exists>e s'. Execute b s = (Done e, s') \<and> e \<in> {Returned, Exited 1} \<and> s' = s"
    proof (cases "ExecuteC program_commands (b_args b)")
      case (Inr p)
      then show ?thesis
        using execute [OF Inr] home [OF assms(3)] False by (auto simp: own_run_def io_apply split: option.splits)
    qed (auto simp: Execute_def io_apply assms(2) split: cobra_error.splits)
    then show ?thesis by auto
  qed
qed

text \<open>The flag for the tolerance behind the command: \<open>cobra\<close> refuses it, and the process exits.\<close>

theorem command_lines_witness:
  "let b = fair_boot\<lparr>b_args := [''zaohua'', ''--scale-tolerance=0.5'']\<rparr> in
   fst (Execute b boot_start) = Done (Exited 1) \<and>
   ((\<exists>e s'. Execute b boot_start = (Done e, s') \<and> e \<in> {Returned, Exited 0, Exited 1, Exited 2} \<and>
      bs_started s' = bs_started boot_start) \<or>
    (\<exists>args \<in> {[], [''zaohua''], [''customizemetrics'']}. Execute b boot_start = Execute (b\<lparr>b_args := args\<rparr>) boot_start))"
proof -
  have refused: "ExecuteC program_commands [''zaohua'', ''--scale-tolerance=0.5''] = Inl CobraError" by code_simp
  have "fst (Execute (fair_boot\<lparr>b_args := [''zaohua'', ''--scale-tolerance=0.5'']\<rparr>) boot_start) = Done (Exited 1)"
    by (simp add: Execute_def io_apply boot_start_def refused)
  then show ?thesis
    unfolding Let_def by (intro conjI command_lines) (simp_all add: boot_start_def fair_boot_def)
qed

end
