(* ===== verification/Deep_Copy.thy ===== *)
theory Deep_Copy
  imports Api_Types
begin

text \<open>
  The generated copies of \<open>api/v1/zz_generated.deepcopy.go\<close> over a store: what an object reaches by a
  pointer or a slice is a cell of a heap, and a copy allocates cells for the metadata only. The
  copies of \<open>Api_Types\<close> are what these copies are when the store is read.
\<close>

section \<open>Objects with references\<close>

text \<open>
  There is a heap for each type of cell, and an address is a position in it. A slice is an array
  with a length, a map is one cell. What a cell reaches itself is part of its value.
\<close>

type_synonym addr = nat
type_synonym slice = "(addr \<times> nat) option"

record meta_ref =
  mref_name :: string
  mref_namespace :: string
  mref_deletionTimestamp :: "addr option"
  mref_finalizers :: slice

record spec_ref =
  sref_scaleTargetRef :: cross_version_object_reference
  sref_metrics :: slice
  sref_scaleUp :: "addr option"
  sref_scaleDown :: "addr option"
  sref_minReplicas :: "addr option"
  sref_maxReplicas :: i32
  sref_serviceName :: slice
  sref_limits :: addr
  sref_requests :: addr

record houmao_ref =
  href_meta :: meta_ref
  href_spec :: spec_ref
  href_status :: houmao_status

record store =
  st_times :: "time list"
  st_strings :: "string list list"
  st_ints :: "i32 list"
  st_metrics :: "metric_spec list list"
  st_rules :: "scaling_rules list"
  st_quantities :: "(string, quantity) gomap list"
  st_items :: "houmao_ref list list"

definition read_slice :: "'a list list \<Rightarrow> slice \<Rightarrow> 'a list" where
  "read_slice heap s = (case s of None \<Rightarrow> [] | Some (a, n) \<Rightarrow> take n (heap ! a))"

definition read_meta :: "store \<Rightarrow> meta_ref \<Rightarrow> object_meta" where
  "read_meta st m = \<lparr>om_name = mref_name m, om_namespace = mref_namespace m,
     om_deletionTimestamp = map_option (nth (st_times st)) (mref_deletionTimestamp m),
     om_finalizers = read_slice (st_strings st) (mref_finalizers m)\<rparr>"

definition read_spec :: "store \<Rightarrow> spec_ref \<Rightarrow> houmao_spec" where
  "read_spec st s = \<lparr>hs_scaleTargetRef = sref_scaleTargetRef s,
     hs_metrics = read_slice (st_metrics st) (sref_metrics s),
     hs_behavor = \<lparr>hb_scaleUp = map_option (nth (st_rules st)) (sref_scaleUp s),
       hb_scaleDown = map_option (nth (st_rules st)) (sref_scaleDown s)\<rparr>,
     hs_minReplicas = map_option (nth (st_ints st)) (sref_minReplicas s),
     hs_maxReplicas = sref_maxReplicas s,
     hs_serviceName = read_slice (st_strings st) (sref_serviceName s),
     hs_xianqiLiang = \<lparr>rr_limits = st_quantities st ! sref_limits s, rr_requests = st_quantities st ! sref_requests s\<rparr>\<rparr>"

definition read_houmao :: "store \<Rightarrow> houmao_ref \<Rightarrow> houmao" where
  "read_houmao st h = \<lparr>hm_meta = read_meta st (href_meta h), hm_spec = read_spec st (href_spec h),
     hm_status = href_status h\<rparr>"

section \<open>The copies\<close>

text \<open>
  The copy of the metadata is the library's: after the assignment it allocates the timestamp and the
  array of the finalizers.
\<close>

definition copy_timestamp :: "addr option \<Rightarrow> store \<Rightarrow> addr option \<times> store" where
  "copy_timestamp p st =
     (case p of
        None \<Rightarrow> (None, st)
      | Some a \<Rightarrow> (Some (length (st_times st)), st\<lparr>st_times := st_times st @ [st_times st ! a]\<rparr>))"

definition copy_strings :: "slice \<Rightarrow> store \<Rightarrow> slice \<times> store" where
  "copy_strings s st =
     (case s of
        None \<Rightarrow> (None, st)
      | Some (a, n) \<Rightarrow>
          (Some (length (st_strings st), n), st\<lparr>st_strings := st_strings st @ [take n (st_strings st ! a)]\<rparr>))"

definition ObjectMeta_DeepCopyInto :: "meta_ref \<Rightarrow> store \<Rightarrow> meta_ref \<times> store" where
  "ObjectMeta_DeepCopyInto src st =
     (let (t, st1) = copy_timestamp (mref_deletionTimestamp src) st;
          (fs, st2) = copy_strings (mref_finalizers src) st1 in
      (src\<lparr>mref_deletionTimestamp := t, mref_finalizers := fs\<rparr>, st2))"

text \<open>The destination is overwritten, then its metadata is copied, and the rest assigned again.\<close>

definition Ref_DeepCopyInto :: "houmao_ref \<Rightarrow> store \<Rightarrow> houmao_ref \<times> store" where
  "Ref_DeepCopyInto src st =
     (let out = src;
          (m, st1) = ObjectMeta_DeepCopyInto (href_meta src) st in
      (out\<lparr>href_meta := m, href_spec := href_spec src, href_status := href_status src\<rparr>, st1))"

text \<open>The items of a list are copied into a new array, one after the other.\<close>

definition zero_houmao_ref :: houmao_ref where
  "zero_houmao_ref = \<lparr>href_meta = \<lparr>mref_name = [], mref_namespace = [], mref_deletionTimestamp = None,
       mref_finalizers = None\<rparr>,
     href_spec = \<lparr>sref_scaleTargetRef = zero_ref, sref_metrics = None, sref_scaleUp = None, sref_scaleDown = None,
       sref_minReplicas = None, sref_maxReplicas = 0, sref_serviceName = None, sref_limits = 0, sref_requests = 0\<rparr>,
     href_status = zero_status\<rparr>"

primrec copy_items :: "addr \<Rightarrow> addr \<Rightarrow> nat list \<Rightarrow> store \<Rightarrow> store" where
  "copy_items a b [] st = st"
| "copy_items a b (i # is) st =
     (let (h, st1) = Ref_DeepCopyInto (st_items st ! a ! i) st in
      copy_items a b is (st1\<lparr>st_items := (st_items st1)[b := (st_items st1 ! b)[i := h]]\<rparr>))"

definition RefList_DeepCopyInto :: "slice \<Rightarrow> store \<Rightarrow> slice \<times> store" where
  "RefList_DeepCopyInto items st =
     (case items of
        None \<Rightarrow> (None, st)
      | Some (a, n) \<Rightarrow>
          (let b = length (st_items st);
               st1 = st\<lparr>st_items := st_items st @ [replicate n zero_houmao_ref]\<rparr> in
           (Some (b, n), copy_items a b [0..<n] st1)))"

section \<open>What a store keeps\<close>

text \<open>The references that a copy follows, or that lie in a heap in which it allocates, are allocated.\<close>

definition time_ok :: "store \<Rightarrow> addr option \<Rightarrow> bool" where
  "time_ok st p = (case p of None \<Rightarrow> True | Some a \<Rightarrow> a < length (st_times st))"

definition strings_ok :: "store \<Rightarrow> slice \<Rightarrow> bool" where
  "strings_ok st s = (case s of None \<Rightarrow> True | Some (a, n) \<Rightarrow> a < length (st_strings st))"

definition ref_ok :: "store \<Rightarrow> houmao_ref \<Rightarrow> bool" where
  "ref_ok st h \<longleftrightarrow>
     time_ok st (mref_deletionTimestamp (href_meta h)) \<and>
     strings_ok st (mref_finalizers (href_meta h)) \<and> strings_ok st (sref_serviceName (href_spec h))"

text \<open>A store that has grown in the two heaps of the metadata and is the same in the others but the items.\<close>

definition grown :: "store \<Rightarrow> store \<Rightarrow> bool" where
  "grown st st' \<longleftrightarrow> (\<exists>ts. st_times st' = st_times st @ ts) \<and> (\<exists>ss. st_strings st' = st_strings st @ ss) \<and>
     st_ints st' = st_ints st \<and> st_metrics st' = st_metrics st \<and> st_rules st' = st_rules st \<and>
     st_quantities st' = st_quantities st"

lemma grown_refl [simp]: "grown st st"
  by (simp add: grown_def)

lemma grown_items [simp]: "grown st (st'\<lparr>st_items := x\<rparr>) = grown st st'"
  by (simp add: grown_def)

lemma read_items [simp]:
  "read_houmao (st\<lparr>st_items := x\<rparr>) = read_houmao st" "ref_ok (st\<lparr>st_items := x\<rparr>) = ref_ok st"
  by (simp_all add: fun_eq_iff read_houmao_def read_meta_def read_spec_def ref_ok_def time_ok_def strings_ok_def
      cong: option.case_cong)

lemma grown_trans: "grown st st' \<Longrightarrow> grown st' st'' \<Longrightarrow> grown st st''"
  by (auto simp: grown_def)

text \<open>Each of the two allocations of a copy: what is read there, and where it is.\<close>

lemma copy_timestamp_read:
  assumes "copy_timestamp p st = (t, st')" "time_ok st p"
  shows "map_option (nth (st_times st')) t = map_option (nth (st_times st)) p" "time_ok st' t"
    "grown st st'" "st_strings st' = st_strings st" "st_items st' = st_items st"
    "t = Some a \<Longrightarrow> length (st_times st) \<le> a"
  using assms by (cases p; force simp: copy_timestamp_def time_ok_def grown_def)+

lemma copy_strings_read:
  assumes "copy_strings s st = (r, st')" "strings_ok st s"
  shows "read_slice (st_strings st') r = read_slice (st_strings st) s" "strings_ok st' r"
    "grown st st'" "st_times st' = st_times st" "st_items st' = st_items st"
    "r = Some (a, n) \<Longrightarrow> length (st_strings st) \<le> a"
  using assms by (cases s; force simp: copy_strings_def strings_ok_def grown_def read_slice_def)+

lemma grown_strings: "grown st st' \<Longrightarrow> strings_ok st s \<Longrightarrow>
    read_slice (st_strings st') s = read_slice (st_strings st) s \<and> strings_ok st' s"
  by (auto simp: grown_def strings_ok_def read_slice_def nth_append split: option.splits)

lemma grown_times: "grown st st' \<Longrightarrow> time_ok st p \<Longrightarrow>
    map_option (nth (st_times st')) p = map_option (nth (st_times st)) p \<and> time_ok st' p"
  by (auto simp: grown_def time_ok_def nth_append split: option.splits)

lemma grown_read:
  assumes "grown st st'" "ref_ok st h"
  shows "read_houmao st' h = read_houmao st h" "ref_ok st' h"
  using assms grown_strings [OF assms(1)] grown_times [OF assms(1)]
  by (simp_all add: ref_ok_def read_houmao_def read_meta_def read_spec_def grown_def)

text \<open>The two allocations of a copy.\<close>

lemma copy_steps:
  assumes "Ref_DeepCopyInto h st = (c, st')" "ref_ok st h"
  obtains t st1 fs where "copy_timestamp (mref_deletionTimestamp (href_meta h)) st = (t, st1)"
    "copy_strings (mref_finalizers (href_meta h)) st1 = (fs, st')" "time_ok st (mref_deletionTimestamp (href_meta h))"
    "strings_ok st1 (mref_finalizers (href_meta h))"
    "c = h\<lparr>href_meta := (href_meta h)\<lparr>mref_deletionTimestamp := t, mref_finalizers := fs\<rparr>\<rparr>"
proof -
  obtain t st1 where t: "copy_timestamp (mref_deletionTimestamp (href_meta h)) st = (t, st1)" by fastforce
  obtain fs st2 where fs: "copy_strings (mref_finalizers (href_meta h)) st1 = (fs, st2)" by fastforce
  have ok: "time_ok st (mref_deletionTimestamp (href_meta h))" "strings_ok st (mref_finalizers (href_meta h))"
    using assms(2) by (simp_all add: ref_ok_def)
  have c: "st2 = st'" "c = h\<lparr>href_meta := (href_meta h)\<lparr>mref_deletionTimestamp := t, mref_finalizers := fs\<rparr>\<rparr>"
    using assms(1) t fs by (simp_all add: Ref_DeepCopyInto_def ObjectMeta_DeepCopyInto_def)
  have "strings_ok st1 (mref_finalizers (href_meta h))"
    using grown_strings [OF copy_timestamp_read(3) [OF t ok(1)] ok(2)] by simp
  then show thesis using that [OF t _ ok(1) _ c(2)] fs c(1) by simp
qed

lemma copy_grown:
  assumes "Ref_DeepCopyInto h st = (c, st')" "ref_ok st h"
  shows "grown st st'" "st_items st' = st_items st"
proof -
  obtain t st1 fs where s: "copy_timestamp (mref_deletionTimestamp (href_meta h)) st = (t, st1)"
    "copy_strings (mref_finalizers (href_meta h)) st1 = (fs, st')" "time_ok st (mref_deletionTimestamp (href_meta h))"
    "strings_ok st1 (mref_finalizers (href_meta h))"
    by (rule copy_steps [OF assms])
  show "grown st st'" "st_items st' = st_items st"
    using copy_timestamp_read(3,5) [OF s(1,3)] copy_strings_read(3,5) [OF s(2,4)] by (auto elim: grown_trans)
qed

lemma copy_read:
  assumes "Ref_DeepCopyInto h st = (c, st')" "ref_ok st h"
  shows "read_houmao st' c = read_houmao st h" "ref_ok st' c" "href_spec c = href_spec h"
proof -
  obtain t st1 fs where s: "copy_timestamp (mref_deletionTimestamp (href_meta h)) st = (t, st1)"
    "copy_strings (mref_finalizers (href_meta h)) st1 = (fs, st')" "time_ok st (mref_deletionTimestamp (href_meta h))"
    "strings_ok st1 (mref_finalizers (href_meta h))"
    and c: "c = h\<lparr>href_meta := (href_meta h)\<lparr>mref_deletionTimestamp := t, mref_finalizers := fs\<rparr>\<rparr>"
    by (rule copy_steps [OF assms])
  note time = copy_timestamp_read [OF s(1,3)] and strings = copy_strings_read [OF s(2,4)]
  note grown = grown_read [OF copy_grown(1) [OF assms] assms(2)]
  have fins: "read_slice (st_strings st') fs = read_slice (st_strings st) (mref_finalizers (href_meta h))"
    using strings(1) time(4) by simp
  show "read_houmao st' c = read_houmao st h"
    using grown(1) time(1) fins strings(4) by (simp add: read_houmao_def read_meta_def c)
  show "ref_ok st' c" using grown(2) time(2) strings(2,4) by (simp add: ref_ok_def time_ok_def c split: option.splits)
  show "href_spec c = href_spec h" by (simp add: c)
qed

text \<open>The metadata of a copy lies in cells that were not there before.\<close>

lemma copy_fresh:
  assumes "Ref_DeepCopyInto h st = (c, st')" "ref_ok st h"
    and later: "\<And>a. length (st_times st) \<le> a \<Longrightarrow> st_times later ! a = st_times st' ! a"
      "\<And>a. length (st_strings st) \<le> a \<Longrightarrow> st_strings later ! a = st_strings st' ! a"
  shows "read_meta later (href_meta c) = read_meta st' (href_meta c)"
proof -
  obtain t st1 fs where s: "copy_timestamp (mref_deletionTimestamp (href_meta h)) st = (t, st1)"
    "copy_strings (mref_finalizers (href_meta h)) st1 = (fs, st')" "time_ok st (mref_deletionTimestamp (href_meta h))"
    "strings_ok st1 (mref_finalizers (href_meta h))"
    and c: "c = h\<lparr>href_meta := (href_meta h)\<lparr>mref_deletionTimestamp := t, mref_finalizers := fs\<rparr>\<rparr>"
    by (rule copy_steps [OF assms(1,2)])
  have "map_option (nth (st_times later)) t = map_option (nth (st_times st')) t"
    using copy_timestamp_read(6) [OF s(1,3)] later(1) by (cases t) auto
  moreover have "read_slice (st_strings later) fs = read_slice (st_strings st') fs"
    using copy_strings_read(6) [OF s(2,4)] copy_timestamp_read(4) [OF s(1,3)] later(2)
    by (cases fs) (auto simp: read_slice_def)
  ultimately show ?thesis by (simp add: read_meta_def c)
qed

text \<open>
  C18: a generated copy has the value of its original, which it leaves as it was, but it is deep in
  the metadata only: in every later store the copy and the original have the same specification but
  for what the structure itself holds, so a write through a pointer or a slice of one is seen in the
  other, while no write to a cell that was there before the copy is seen in its metadata.
\<close>

theorem deep_copy_shares:
  assumes "Ref_DeepCopyInto h st = (c, st')" "ref_ok st h"
  shows "read_houmao st' c = DeepCopyInto (read_houmao st h) out \<and> read_houmao st' h = read_houmao st h \<and>
    (\<forall>later. hm_spec (read_houmao later c) = hm_spec (read_houmao later h)) \<and>
    (\<forall>later. (\<forall>a \<ge> length (st_times st). st_times later ! a = st_times st' ! a) \<longrightarrow>
       (\<forall>a \<ge> length (st_strings st). st_strings later ! a = st_strings st' ! a) \<longrightarrow>
       hm_meta (read_houmao later c) = hm_meta (read_houmao st h))"
proof (intro conjI allI impI)
  show "read_houmao st' c = DeepCopyInto (read_houmao st h) out"
    using copy_read(1) [OF assms] by (simp add: DeepCopyInto_eq)
  show "read_houmao st' h = read_houmao st h"
    using grown_read(1) [OF copy_grown(1) [OF assms] assms(2)] .
  show "hm_spec (read_houmao later c) = hm_spec (read_houmao later h)" for later
    using copy_read(3) [OF assms] by (simp add: read_houmao_def)
  show "hm_meta (read_houmao later c) = hm_meta (read_houmao st h)"
    if "\<forall>a \<ge> length (st_times st). st_times later ! a = st_times st' ! a"
      "\<forall>a \<ge> length (st_strings st). st_strings later ! a = st_strings st' ! a" for later
  proof -
    have "read_meta later (href_meta c) = read_meta st' (href_meta c)"
      using that by (intro copy_fresh [OF assms]) auto
    also have "\<dots> = hm_meta (read_houmao st' c)" by (simp add: read_houmao_def)
    finally show ?thesis using copy_read(1) [OF assms] by (simp add: read_houmao_def)
  qed
qed

text \<open>A shared object of the loop: a lower limit, a finalizer and nothing else.\<close>

definition example_store :: store where
  "example_store = \<lparr>st_times = [], st_strings = [[''f'']], st_ints = [2], st_metrics = [], st_rules = [],
     st_quantities = [[]], st_items = []\<rparr>"

definition example_ref :: houmao_ref where
  "example_ref = zero_houmao_ref
     \<lparr>href_meta := (href_meta zero_houmao_ref)\<lparr>mref_finalizers := Some (0, 1)\<rparr>,
      href_spec := (href_spec zero_houmao_ref)\<lparr>sref_minReplicas := Some 0\<rparr>\<rparr>"

text \<open>
  A write of the lower limit and of the finalizer of the original after the copy: the limit of the
  copy changes with it, its finalizer does not.
\<close>

theorem deep_copy_shares_witness:
  "\<exists>c st'. Ref_DeepCopyInto example_ref example_store = (c, st') \<and>
     (let later = st'\<lparr>st_ints := [7], st_strings := (st_strings st')[0 := [''g'']]\<rparr> in
      hs_minReplicas (hm_spec (read_houmao later c)) = Some 7 \<and>
      om_finalizers (hm_meta (read_houmao later example_ref)) = [''g''] \<and>
      om_finalizers (hm_meta (read_houmao later c)) = [''f''])"
proof -
  obtain c st' where copy: "Ref_DeepCopyInto example_ref example_store = (c, st')" by fastforce
  have ok: "ref_ok example_store example_ref"
    by (simp add: ref_ok_def time_ok_def strings_ok_def example_ref_def example_store_def zero_houmao_ref_def)
  let ?later = "st'\<lparr>st_ints := [7], st_strings := (st_strings st')[0 := [''g'']]\<rparr>"
  note all = deep_copy_shares [OF copy ok, of undefined]
  have "hm_spec (read_houmao ?later c) = hm_spec (read_houmao ?later example_ref)" using all by blast
  then have limit: "hs_minReplicas (hm_spec (read_houmao ?later c)) = Some 7"
    by (simp add: read_houmao_def read_spec_def example_ref_def)
  have "hm_meta (read_houmao ?later c) = hm_meta (read_houmao example_store example_ref)"
    using all by (simp add: example_store_def)
  then have own: "om_finalizers (hm_meta (read_houmao ?later c)) = [''f'']"
    by (simp add: read_houmao_def read_meta_def read_slice_def example_ref_def example_store_def)
  have "st_strings st' \<noteq> []" using copy_grown(1) [OF copy ok] by (auto simp: grown_def example_store_def)
  then have "om_finalizers (hm_meta (read_houmao ?later example_ref)) = [''g'']"
    by (cases "st_strings st'") (simp_all add: read_houmao_def read_meta_def read_slice_def example_ref_def)
  then show ?thesis using copy limit own by (simp add: Let_def)
qed

section \<open>The copy of a list\<close>

lemma copy_items_read:
  assumes "\<And>i. i \<in> set is \<Longrightarrow> i < n \<and> ref_ok st (st_items st ! a ! i)" "distinct is"
    and "b < length (st_items st)" "a \<noteq> b" "length (st_items st ! b) = n"
  shows "\<exists>xs. length xs = n \<and> st_items (copy_items a b is st) = (st_items st)[b := xs] \<and>
    grown st (copy_items a b is st) \<and>
    (\<forall>i. if i \<in> set is then read_houmao (copy_items a b is st) (xs ! i) = read_houmao st (st_items st ! a ! i) \<and>
         href_spec (xs ! i) = href_spec (st_items st ! a ! i)
       else xs ! i = st_items st ! b ! i)"
  using assms
proof (induction "is" arbitrary: st)
  case Nil
  then show ?case by auto
next
  case (Cons i "is")
  let ?h = "st_items st ! a ! i"
  obtain c st1 where copy: "Ref_DeepCopyInto ?h st = (c, st1)" by fastforce
  have ok: "ref_ok st ?h" "i < n" using Cons.prems(1) by simp_all
  note grown = copy_grown [OF copy ok(1)] and read = copy_read [OF copy ok(1)]
  let ?st2 = "st1\<lparr>st_items := (st_items st1)[b := (st_items st1 ! b)[i := c]]\<rparr>"
  have step: "copy_items a b (i # is) st = copy_items a b is ?st2" using copy by simp
  have st2: "grown st ?st2" "st_items ?st2 = (st_items st)[b := (st_items st ! b)[i := c]]"
    "st_items ?st2 ! a = st_items st ! a" "st_items ?st2 ! b = (st_items st ! b)[i := c]"
    using grown Cons.prems(3,4) by simp_all
  have kept: "ref_ok ?st2 h \<and> read_houmao ?st2 h = read_houmao st h" if "ref_ok st h" for h
    using grown_read [OF st2(1) that] by simp
  obtain xs where xs: "length xs = n" "st_items (copy_items a b is ?st2) = (st_items ?st2)[b := xs]"
    "grown ?st2 (copy_items a b is ?st2)"
    "\<And>j. if j \<in> set is then read_houmao (copy_items a b is ?st2) (xs ! j) = read_houmao ?st2 (st_items ?st2 ! a ! j) \<and>
         href_spec (xs ! j) = href_spec (st_items ?st2 ! a ! j)
       else xs ! j = st_items ?st2 ! b ! j"
    using Cons.IH [of ?st2] Cons.prems kept st2 by (metis distinct.simps(2) length_list_update list.set_intros(2))
  have ends: "grown st (copy_items a b is ?st2)" "st_items (copy_items a b is ?st2) = (st_items st)[b := xs]"
    using grown_trans [OF st2(1) xs(3)] xs(2) st2(2) by simp_all
  have "ref_ok ?st2 c" "read_houmao ?st2 c = read_houmao st1 c"
    using read(2) by simp_all
  then have first: "read_houmao (copy_items a b is ?st2) c = read_houmao st ?h"
    using grown_read(1) [OF xs(3)] read(1) by simp
  have "xs ! i = c" using xs(4) [of i] Cons.prems(2,5) ok(2) st2(4) by simp
  then have "if j \<in> set (i # is) then read_houmao (copy_items a b is ?st2) (xs ! j) = read_houmao st (st_items st ! a ! j) \<and>
      href_spec (xs ! j) = href_spec (st_items st ! a ! j) else xs ! j = st_items st ! b ! j" for j
    using xs(4) [of j] st2(3,4) kept Cons.prems(1) [of j] first read(3) by (cases "j = i") auto
  then show ?case unfolding step using xs(1) ends by blast
qed

text \<open>
  The copy of a list has the value of the original in a new array, and shares the specification of
  every item with it.
\<close>

lemma list_copy:
  assumes "RefList_DeepCopyInto (Some (a, n)) st = (items, st')"
    and "a < length (st_items st)" "n \<le> length (st_items st ! a)"
    and "\<And>i. i < n \<Longrightarrow> ref_ok st (st_items st ! a ! i)"
  shows "\<lparr>hl_items = map (read_houmao st') (read_slice (st_items st') items)\<rparr> =
      HoumaoList_DeepCopyInto \<lparr>hl_items = map (read_houmao st) (read_slice (st_items st) (Some (a, n)))\<rparr> out \<and>
    map href_spec (read_slice (st_items st') items) = map href_spec (read_slice (st_items st) (Some (a, n)))"
proof -
  let ?b = "length (st_items st)" and ?st1 = "st\<lparr>st_items := st_items st @ [replicate n zero_houmao_ref]\<rparr>"
  have st1: "st_items ?st1 ! a = st_items st ! a" "read_houmao ?st1 = read_houmao st" "ref_ok ?st1 = ref_ok st"
    using assms(2) by (simp_all add: nth_append)
  have run: "items = Some (?b, n)" "st' = copy_items a ?b [0..<n] ?st1"
    using assms(1) by (simp_all add: RefList_DeepCopyInto_def Let_def)
  obtain xs where xs: "length xs = n" "st_items st' = (st_items ?st1)[?b := xs]"
    "\<And>i. i < n \<Longrightarrow> read_houmao st' (xs ! i) = read_houmao st (st_items st ! a ! i) \<and>
      href_spec (xs ! i) = href_spec (st_items st ! a ! i)"
  proof -
    have pre: "i < n \<and> ref_ok ?st1 (st_items ?st1 ! a ! i)" if "i \<in> set [0..<n]" for i
      using that assms(4) st1(1,3) by simp
    have "distinct [0..<n]" "?b < length (st_items ?st1)" "a \<noteq> ?b" "length (st_items ?st1 ! ?b) = n"
      using assms(2) by simp_all
    from copy_items_read [OF pre this] obtain xs where xs: "length xs = n" "st_items st' = (st_items ?st1)[?b := xs]"
      "\<And>i. if i \<in> set [0..<n] then read_houmao st' (xs ! i) = read_houmao ?st1 (st_items ?st1 ! a ! i) \<and>
         href_spec (xs ! i) = href_spec (st_items ?st1 ! a ! i) else xs ! i = st_items ?st1 ! ?b ! i"
      unfolding run(2) by blast
    have "read_houmao st' (xs ! i) = read_houmao st (st_items st ! a ! i) \<and>
        href_spec (xs ! i) = href_spec (st_items st ! a ! i)" if "i < n" for i
      using xs(3) [of i] that unfolding st1(1,2) by simp
    with xs(1,2) show thesis by (rule that)
  qed
  have "read_slice (st_items st') items = xs" "read_slice (st_items st) (Some (a, n)) = take n (st_items st ! a)"
    using xs(1,2) run(1) by (simp_all add: read_slice_def)
  moreover have "map (read_houmao st') xs = map (read_houmao st) (take n (st_items st ! a))"
    "map href_spec xs = map href_spec (take n (st_items st ! a))"
    using xs(1,3) assms(3) by (auto intro!: nth_equalityI)
  ultimately show ?thesis by (simp add: HoumaoList_DeepCopyInto_eq)
qed

end
