(* ===== verification/Spec2Isabelle.thy ===== *)
theory Spec2Isabelle
  imports Zaohua_Facts Behavior_Facts Round_Calls Houmao_Controller Command_Effects Deep_Copy
begin

text \<open>
  A verification development for Sunwukong, a Kubernetes operator in Go that scales workloads by a
  custom resource called \<open>Houmao\<close>.

  \<^bold>\<open>The program.\<close> One binary has two roles. In the role \<^emph>\<open>shifa\<close> it is the operator: a
  reconciler (\<open>controllers/houmao_controller.go\<close>) keeps, for every \<open>Houmao\<close>, a finalizer, a
  deployment named after it (\<open>pkg/xianqi_manager\<close>) and its status (\<open>pkg/status_updator\<close>). The
  deployment runs the binary in the role \<^emph>\<open>zaohua\<close>: a loop (\<open>pkg/zaohua/daofa/zaohua.go\<close>) reads the
  scale of the target, asks one calculator per metric for a count (\<open>replica_calculator.go\<close>, over
  the clients and ratios of \<open>daofa/metrics\<close>), takes the greatest, cuts it to the limits, revises it
  by the scaling behaviour (\<open>behavor_processor.go\<close>), sends it and records the result in the status.
  A second reconciler (\<open>pkg/zaohua/controllers\<close>) watches the specification and tells the loop to
  reload through an unbuffered channel. \<open>cmd/\<close>, \<open>main.go\<close> and \<open>util/logger\<close> start all this;
  \<open>customize_metrics\<close> serves demo metrics.

  \<^bold>\<open>Theories and sources.\<close>
  \<^item> \<open>Go_Prelude\<close>: outcomes (value, error, panic), computations over a state, Go's integers, time, maps.
  \<^item> \<open>Float64\<close>: float64 as an exact rational, an infinity, a signed zero or a NaN, every operation
    rounded to the nearest even significand of 53 bits; ceiling and conversions.
  \<^item> \<open>Api_Types\<close> (\<open>api/v1\<close>, \<open>util/consts\<close>, the read parts of the Kubernetes types), \<open>Json\<close>
    (the tags of \<open>api/v1/houmao_types.go\<close>), \<open>Environment\<close> (the services as a record of functions
    on a world).
  \<^item> \<open>Utilization\<close> and \<open>Metrics_Client\<close> (\<open>daofa/metrics\<close>), \<open>Pod_Groups\<close> and \<open>Replica_Calculator\<close>
    (\<open>replica_calculator.go\<close>), \<open>Behavior\<close> (\<open>behavor_processor.go\<close>), \<open>Status_Updator\<close>, \<open>Zaohua\<close>
    (one round of \<open>zaohua.go\<close>), \<open>Zaohua_Loop\<close> (the loop, the channel and the second reconciler),
    \<open>Xianqi_Manager\<close>, \<open>Houmao_Controller\<close>, \<open>Command_Line\<close> (the flags and the parser of the
    standard library), \<open>Cobra\<close> (the vendored library that finds and runs a command), \<open>Scheme\<close>
    (\<open>api/v1/groupversion_info.go\<close> and the registration of types), \<open>Startup\<close> (\<open>cmd/initial\<close>, the
    commands, the logger), \<open>Program\<close> (\<open>main.go\<close>, the initialisation of the packages,
    \<open>customize_metrics\<close> and the vendored check of metric names).
  \<^item> \<open>Deep_Copy\<close>: the generated copies of \<open>api/v1\<close> over a store of cells, with what a copy shares.
  \<^item> \<open>Replica_Facts\<close>, \<open>Calculator_Facts\<close>, \<open>Panic_Freedom\<close>, \<open>Behavior_Facts\<close>, \<open>Frame\<close>, \<open>Zaohua_Facts\<close>,
    \<open>Round_Facts\<close>, \<open>Loop_Facts\<close>, \<open>System_Facts\<close>, \<open>Crash_Freedom\<close>, \<open>Round_Calls\<close>,
    \<open>Command_Effects\<close>: lemmas and properties about these definitions.

  Every definition that models code has the name of the Go function or type, with the loops and
  branches that needed a name of their own beside it.

  \<^bold>\<open>State.\<close> A Go function that calls a service, reads the clock or writes package variables is a
  computation \<open>'s \<Rightarrow> 'a outcome \<times> 's\<close>: the state survives an error and a panic, as it does in Go.
  The state of a calculator is the world of the services alone; that of a round is the record
  \<open>zstate\<close> (the world, the package variables, the object of the handle); that of the loop is the
  record \<open>system\<close>, which adds where the loop and the reconciler are, the specification that the
  reconciler recorded, and whether the context is done. The loop and the reconciler are the
  inductive step relations \<open>loop_step\<close> and \<open>other_step\<close>; every access of either to the object they
  share is a step.

  \<^bold>\<open>What is shown.\<close>
  \<^item> The count (\<open>Zaohua_Facts\<close>): which metric is elected, the count against its abstract
    specification and its bounds; exactly when an execution panics; what storing an event keeps;
    that the count that is sent never depends on the behaviour, because the revised count is
    assigned to a shadowed variable.
  \<^item> A round (\<open>Round_Facts\<close>): the rounds that change nothing, the bounds of the count that is sent
    (as independence of the answers to all other updates, by the lemmas of \<open>Frame\<close>), what recording
    a result sends, and that no sequence of recordings moves the window of the last results on a
    server that changes the status only by a field of that name. \<open>Round_Calls\<close>: the calls of a round that write to the server, through a trace
    that the world keeps, against the abstract \<open>round_plan\<close>.
  \<^item> The loop (\<open>Loop_Facts\<close>, \<open>System_Facts\<close>): invariants of the reachable states by rule induction
    (the locale \<open>kept\<close> lifts a predicate of the state over a round), what a restart brings, the race
    between a copy and a restart and how long its effect lasts, the restarts and the namespace that
    are lost, well-typedness, the bounds of every count that a whole run sends, and termination once
    the context is done, by a measure over runs that count their steps: at most eight more steps of
    the loop, and four for each restart sent meanwhile. \<open>Crash_Freedom\<close>: on complete
    specifications no run ever panics.
  \<^item> The behaviour (\<open>Behavior_Facts\<close>): the stabilisation as a least element, the bounds of the
    revision, exactly when it panics. The two buffers of records and events are instances of the
    locale \<open>slot_buffer\<close>.
  \<^item> The calculators (\<open>Pod_Groups\<close>, \<open>Replica_Facts\<close>, \<open>Calculator_Facts\<close>, \<open>Utilization\<close>): how pods
    are grouped and which are unready at which instant, the direction of a decision, exact per-pod counts despite the floats, exact
    utilization when the sums fit, independence of the order of maps, and the metrics that can never
    yield a useful count. \<open>Panic_Freedom\<close> composes them: a calculation on a complete specification
    never panics.
  \<^item> The operator (\<open>Xianqi_Manager\<close>, \<open>Houmao_Controller\<close>, \<open>Status_Updator\<close>, \<open>Json\<close>): on a view
    of the deployments that behaves as documented, a reconciliation puts exactly one deployment in
    place or removes it, a second one changes nothing, and every error of a read, also one that
    passes, is taken for the absence of what is read; finalizers, patches and the JSON names of
    the status.
  \<^item> The start (\<open>Command_Line\<close>, \<open>Cobra\<close>, \<open>Scheme\<close>, \<open>Startup\<close>, \<open>Program\<close>, \<open>Command_Effects\<close>): what the
    operator starts and with which options, that the scaling loop is never started (its command
    defines flags twice, and its object is read through a cache that is not started), that the
    registration of the types succeeds, that no flag has an effect on either command, and that every command line does what one of three does or starts nothing. The
    parser of \<open>cobra\<close> and that of the standard library are both modelled, and what one accepts is
    compared with what the other refuses.
  \<^item> The copies (\<open>Deep_Copy\<close>): read out of the store, a generated copy is the copy of the values that
    the rest of the development uses; it shares the specification and owns the metadata.

  Many properties state what the code does where it plainly means something else; the manifest
  lists these as findings.

  \<^bold>\<open>Parameters.\<close> The API server, the metrics APIs, the clock, the parsers of selectors and the
  library that starts the process are the fields of \<open>env\<close> and \<open>boot\<close>. Properties that need more
  than an arbitrary answer name it as a hypothesis (\<open>deployment_api\<close>, \<open>houmao_api\<close>, \<open>refuses_names\<close>,
  \<open>keeps_namespaces\<close>, \<open>decodes_houmao\<close>, \<open>answers_within\<close>, \<open>server_complete\<close>, \<open>small_answers\<close>,
  \<open>settled\<close>, \<open>logs\<close>, \<open>own_run\<close>, \<open>status_by_name\<close>, \<open>no_failed_pods\<close>, \<open>metrics_name_listed\<close>), with a concrete instance as the witness. Where a vendored library decides
  whether the program panics or fails, its code is modelled too: the custom metrics client, which
  prints the selectors it is given (\<open>GetForObjects\<close>), the cache of a manager, which refuses reads
  before it is started (\<open>informer_cache_get\<close>), the metric registry, the scheme and \<open>cobra\<close>.

  \<^bold>\<open>Idealisations.\<close>
  \<^item> An instant is an integer of nanoseconds, without a monotonic reading; JSON is a tree, and its
    times are in UTC.
  \<^item> \<open>reflect.DeepEqual\<close> compares values with their dynamic types; nil and empty slices and maps are
    the same list.
  \<^item> A round is one step; so is each assignment to the shared object and each of the two reads of a
    copy, so that a race mixes whole fields but does not tear one. The reconciler has one worker,
    the default of the library. The copies share what they reach by pointer with their original (\<open>Deep_Copy\<close>);
    no modelled code writes through it, and the answer to a patch replaces the object as a value.
  \<^item> Loops are structural recursions on lists, or over an index that grows to a bound, so no fuel is
    needed; an index out of range is a panic. A step of the loop always ends,
    because the services answer.
  \<^item> Log output is left out. Metadata has the four fields that the program reads.
  \<^item> The conversion of a float to \<open>int32\<close> out of range is a parameter of the environment, since Go
    leaves it to the implementation.

  \<^bold>\<open>Not modelled.\<close> The HTTP server of the demo metrics, what the help and the completion of \<open>cobra\<close>
  print, and the configuration file that is looked up but whose values are never used (library calls
  without logic of the program); the texts of durations and floats on the command line, which the
  standard library decides; the structures and constructors that only store library clients, and an
  empty startup function; the generated test suite.
\<close>

end
